(* ===== verification/Prelude.thy ===== *)
theory Prelude
  imports Main "HOL-Library.Word"
begin

text \<open>
  Shared vocabulary of the development: the C integer conversions the sources rely on,
  the error codes of the kernel and of libc, the type of bytes, the convention for
  outcomes that the C code does not define, and lemmas on lists that several components
  use.

  \<^item> \<open>byte\<close> is an unsigned 8-bit value (\<open>uint8_t\<close>, \<open>char\<close> as stored in a buffer).
  \<^item> \<open>size_t\<close> values are naturals below \<open>2 ^ 64\<close>, \<open>int\<close> values are integers in the
    signed 32-bit range; the conversions that the code performs implicitly are written
    out with \<open>to_s32\<close>, \<open>to_u32\<close> and \<open>to_u64\<close>.
  \<^item> \<open>'a outcome\<close> is \<open>'a option\<close>: \<open>Some x\<close> is a defined result, \<open>None\<close> says that the
    code has none (an access outside an object, a wait for a lock that is never
    released, a loop that does not end).
\<close>

type_synonym byte = "8 word"
type_synonym 'a outcome = "'a option"

datatype errno = EIO | EFAULT | ENOMEM | EINVAL | ENOTTY | ERESTARTSYS | EBUSY

section \<open>Integer conversions of C\<close>

definition to_s32 :: "int \<Rightarrow> int" where
  "to_s32 x = (x + 2 ^ 31) mod 2 ^ 32 - 2 ^ 31"

definition to_u32 :: "int \<Rightarrow> nat" where
  "to_u32 x = nat (x mod 2 ^ 32)"

definition to_u64 :: "int \<Rightarrow> nat" where
  "to_u64 x = nat (x mod 2 ^ 64)"

definition to_s64 :: "int \<Rightarrow> int" where
  "to_s64 x = (x + 2 ^ 63) mod 2 ^ 64 - 2 ^ 63"

named_theorems c_conv \<open>conversions between C integer types that do not change the value\<close>

lemma to_s32_id [c_conv]: "- (2 ^ 31) \<le> x \<Longrightarrow> x < 2 ^ 31 \<Longrightarrow> to_s32 x = x"
  by (simp add: to_s32_def)

lemma to_u32_id [c_conv]: "0 \<le> x \<Longrightarrow> x < 2 ^ 32 \<Longrightarrow> to_u32 x = nat x"
  by (simp add: to_u32_def)

lemma to_u64_id [c_conv]: "0 \<le> x \<Longrightarrow> x < 2 ^ 64 \<Longrightarrow> to_u64 x = nat x"
  by (simp add: to_u64_def)

lemma to_s32_of_nat [c_conv]: "n < 2 ^ 31 \<Longrightarrow> to_s32 (int n) = int n"
  by (rule to_s32_id) simp_all

lemma to_u64_of_nat [c_conv]: "n < 2 ^ 64 \<Longrightarrow> to_u64 (int n) = n"
  by (subst to_u64_id) simp_all

lemma to_s64_id [c_conv]: "- (2 ^ 63) \<le> x \<Longrightarrow> x < 2 ^ 63 \<Longrightarrow> to_s64 x = x"
  by (simp add: to_s64_def)

lemma to_u64_less: "to_u64 x < 2 ^ 64"
  by (simp add: to_u64_def nat_less_iff)

lemma to_u64_neg:
  assumes "x < 0" and "- (2 ^ 63) \<le> x"
  shows "2 ^ 63 \<le> to_u64 x"
proof -
  have "x mod 2 ^ 64 = (x + 2 ^ 64) mod 2 ^ 64" by simp
  also have "\<dots> = x + 2 ^ 64" using assms by (intro mod_pos_pos_trivial) auto
  finally have "to_u64 x = nat (x + 2 ^ 64)" by (simp add: to_u64_def)
  then show ?thesis using assms(2) by (simp add: le_nat_iff)
qed

section \<open>Lists\<close>

definition lastn :: "nat \<Rightarrow> 'a list \<Rightarrow> 'a list" where
  "lastn n xs = drop (length xs - n) xs"

lemma length_lastn [simp]: "length (lastn n xs) = min n (length xs)"
  by (simp add: lastn_def)

lemma lastn_short: "length xs \<le> n \<Longrightarrow> lastn n xs = xs"
  by (simp add: lastn_def)

lemma lastn_snoc_lastn:
  "lastn (Suc n) (lastn (Suc n) xs @ [x]) = lastn (Suc n) (xs @ [x])"
  by (cases "length xs \<le> Suc n") (auto simp: lastn_def Suc_diff_Suc)

lemma lastn_snoc:
  "lastn (Suc n) (xs @ [x]) = lastn n xs @ [x]"
  by (auto simp: lastn_def)

lemma lastn_full_snoc:
  assumes "length xs = n" and "0 < n"
  shows "lastn n (xs @ [x]) = tl xs @ [x]"
  using assms by (cases xs) (auto simp: lastn_def)

lemma lastn_lastn_append: "lastn n (lastn n xs @ ys) = lastn n (xs @ ys)"
proof (cases "length xs \<le> n")
  case True
  then show ?thesis by (simp add: lastn_short)
next
  case False
  then show ?thesis by (cases "length ys \<le> n") (auto simp: lastn_def add.commute)
qed

lemma sum_list_rotate: "sum_list (rotate n xs) = sum_list (xs :: nat list)"
proof -
  have "sum_list (rotate n xs)
      = sum_list (take (n mod length xs) xs) + sum_list (drop (n mod length xs) xs)"
    by (simp add: rotate_drop_take)
  also have "\<dots> = sum_list (take (n mod length xs) xs @ drop (n mod length xs) xs)"
    by (simp only: sum_list_append)
  finally show ?thesis by simp
qed

lemma set_lastn: "set (lastn n xs) \<subseteq> set xs"
  by (auto simp: lastn_def dest: in_set_dropD)

section \<open>Iterating an operation with defined and undefined outcomes\<close>

fun run_adds :: "('b \<Rightarrow> 'e \<Rightarrow> 'b outcome) \<Rightarrow> 'b \<Rightarrow> 'e list \<Rightarrow> 'b outcome" where
  "run_adds add b [] = Some b"
| "run_adds add b (e # es) = Option.bind (add b e) (\<lambda>b'. run_adds add b' es)"

lemma run_adds_append:
  "run_adds add b (xs @ ys) = Option.bind (run_adds add b xs) (\<lambda>b'. run_adds add b' ys)"
  by (induction xs arbitrary: b) (auto simp: Option.bind_assoc)

section \<open>Positions in a concatenation\<close>

lemma drop_concat_nth:
  assumes "k < length xss" and "r \<le> length (xss ! k)"
  shows "drop (sum_list (map length (take k xss)) + r) (concat xss)
    = drop r (xss ! k) @ concat (drop (Suc k) xss)"
proof -
  have "concat xss = concat (take k xss) @ xss ! k @ concat (drop (Suc k) xss)"
    using assms(1)
    by (metis concat.simps(2) concat_append id_take_nth_drop)
  moreover have "length (concat (take k xss)) = sum_list (map length (take k xss))"
    by (simp add: length_concat)
  ultimately show ?thesis using assms(2) by simp
qed

end
