(* ===== verification/Circular_Buffer.thy ===== *)
theory Circular_Buffer
  imports Prelude
begin

text \<open>
  The circular buffer of the aesdchar driver
  (\<open>aesd-char-driver/aesd-circular-buffer.c\<close> and \<open>aesd-circular-buffer.h\<close>): ten slots,
  the index of the next write, the index of the oldest entry and a flag that is set
  when every slot is in use.

  The structure is related to the list of its entries, oldest first (\<open>cb_contents\<close>).
  The locale \<open>write_log\<close> states what a client may rely on (a log that keeps the last
  \<open>cap\<close> entries), \<open>seekable_log\<close> adds the search by byte position; both are
  interpreted on the functions of the source at the end.

  A pointer is a natural number, 0 is \<open>NULL\<close>. The field \<open>size\<close> of the source is called
  \<open>esize\<close> here.
\<close>

abbreviation MAX_OPS :: nat where
  "MAX_OPS \<equiv> 10"

record aesd_buffer_entry =
  buffptr :: nat
  esize :: nat

record aesd_circular_buffer =
  entry :: "aesd_buffer_entry list"
  in_offs :: nat
  out_offs :: nat
  full :: bool

definition null_entry :: aesd_buffer_entry where
  "null_entry = \<lparr>buffptr = 0, esize = 0\<rparr>"

section \<open>The operations of the source\<close>

text \<open>\<open>memset(buffer, 0, sizeof ...)\<close>: every slot and every index becomes zero.\<close>

definition aesd_circular_buffer_init :: "aesd_circular_buffer \<Rightarrow> aesd_circular_buffer" where
  "aesd_circular_buffer_init buffer =
     \<lparr>entry = map (\<lambda>_. null_entry) (entry buffer), in_offs = 0, out_offs = 0, full = False\<rparr>"

text \<open>
  \<open>None\<close> is the write outside the array that an \<open>in_offs\<close> beyond the last slot would
  cause.
\<close>

definition aesd_circular_buffer_add_entry ::
  "aesd_circular_buffer \<Rightarrow> aesd_buffer_entry \<Rightarrow> aesd_circular_buffer outcome" where
  "aesd_circular_buffer_add_entry buffer add_entry =
     (if in_offs buffer < length (entry buffer) then
        (let b1 = buffer\<lparr>entry := (entry buffer)[in_offs buffer := add_entry]\<rparr>;
             b2 = b1\<lparr>in_offs := (in_offs b1 + 1) mod MAX_OPS\<rparr>;
             b3 = (if full b2 then b2\<lparr>out_offs := (out_offs b2 + 1) mod MAX_OPS\<rparr> else b2)
         in Some (b3\<lparr>full := (in_offs b3 = out_offs b3)\<rparr>))
      else None)"

text \<open>
  The search. \<open>total_bytes_written\<close> is a \<open>size_t\<close> sum over all ten slots; \<open>bytes_searched\<close>
  is an \<open>int\<close>, converted to \<open>size_t\<close> in the comparison and back in the assignment. The
  loop has no bound of its own: \<open>partial_function\<close> leaves \<open>None\<close> for a loop that does
  not end (an \<open>in_offs\<close> beyond the last slot) and for an access outside the array.
\<close>

definition total_bytes_written :: "aesd_circular_buffer \<Rightarrow> nat" where
  "total_bytes_written buffer =
     foldl (\<lambda>t e. to_u64 (int t + int (esize e))) 0 (entry buffer)"

partial_function (option) find_loop ::
  "aesd_circular_buffer \<Rightarrow> nat \<Rightarrow> nat \<Rightarrow> bool \<Rightarrow> int \<Rightarrow> (nat \<times> nat) option outcome" where
  "find_loop buffer char_offset i is_wrapped bytes_searched =
     (if i \<noteq> in_offs buffer \<or> \<not> is_wrapped then
        (if i < length (entry buffer) then
           (if char_offset < to_u64 (bytes_searched + int (esize (entry buffer ! i))) then
              Some (Some (i, to_u64 (int char_offset - bytes_searched)))
            else
              find_loop buffer char_offset ((i + 1) mod MAX_OPS)
                (is_wrapped \<or> i = MAX_OPS - 1)
                (to_s32 (bytes_searched + int (esize (entry buffer ! i)))))
         else None)
      else Some None)"

definition aesd_circular_buffer_find_entry_offset_for_fpos ::
  "aesd_circular_buffer \<Rightarrow> nat \<Rightarrow> (nat \<times> nat) option outcome" where
  "aesd_circular_buffer_find_entry_offset_for_fpos buffer char_offset =
     (if total_bytes_written buffer \<le> char_offset then Some None
      else find_loop buffer char_offset (out_offs buffer) False 0)"

section \<open>Abstraction and invariant\<close>

definition cb_count :: "aesd_circular_buffer \<Rightarrow> nat" where
  "cb_count b =
     (if full b then MAX_OPS else (in_offs b + MAX_OPS - out_offs b) mod MAX_OPS)"

definition cb_ring :: "aesd_circular_buffer \<Rightarrow> aesd_buffer_entry list" where
  "cb_ring b = rotate (out_offs b) (entry b)"

definition cb_contents :: "aesd_circular_buffer \<Rightarrow> aesd_buffer_entry list" where
  "cb_contents b = take (cb_count b) (cb_ring b)"

definition wf_cb :: "aesd_circular_buffer \<Rightarrow> bool" where
  "wf_cb b \<longleftrightarrow>
     length (entry b) = MAX_OPS \<and> in_offs b < MAX_OPS \<and> out_offs b < MAX_OPS \<and>
     (full b \<longrightarrow> in_offs b = out_offs b) \<and>
     set (drop (cb_count b) (cb_ring b)) \<subseteq> {null_entry}"

text \<open>
  The search as a client sees it: the first entry that covers the offset, with the
  offset inside it.
\<close>

fun locate :: "nat list \<Rightarrow> nat \<Rightarrow> (nat \<times> nat) option" where
  "locate [] off = None"
| "locate (s # ss) off =
     (if off < s then Some (0, off)
      else map_option (\<lambda>(k, r). (Suc k, r)) (locate ss (off - s)))"

lemma locate_None: "locate ss off = None \<longleftrightarrow> sum_list ss \<le> off"
  by (induction ss off rule: locate.induct) auto

lemma locate_Some:
  "locate ss off = Some (k, r) \<Longrightarrow>
     k < length ss \<and> r < ss ! k \<and> off = sum_list (take k ss) + r"
  by (induction ss off arbitrary: k rule: locate.induct) (auto split: if_splits)

section \<open>Adding an entry\<close>

lemma wf_cbD:
  assumes "wf_cb b"
  shows "length (entry b) = MAX_OPS" "in_offs b < MAX_OPS" "out_offs b < MAX_OPS"
    "full b \<Longrightarrow> in_offs b = out_offs b"
    "length (cb_ring b) = MAX_OPS" "cb_count b \<le> MAX_OPS"
  using assms by (auto simp: wf_cb_def cb_ring_def cb_count_def)

lemma cb_ring_nth:
  "wf_cb b \<Longrightarrow> k < MAX_OPS \<Longrightarrow> cb_ring b ! k = entry b ! ((out_offs b + k) mod MAX_OPS)"
  by (simp add: cb_ring_def wf_cb_def nth_rotate)

lemma length_cb_contents: "wf_cb b \<Longrightarrow> length (cb_contents b) = cb_count b"
  by (simp add: cb_contents_def wf_cbD)

lemma in_offs_count:
  "wf_cb b \<Longrightarrow> in_offs b = (out_offs b + cb_count b) mod MAX_OPS"
  using wf_cbD(2,3,4)[of b] by (auto simp: cb_count_def mod_simps)

lemma ring_split: "wf_cb b \<Longrightarrow> cb_ring b = cb_contents b @ replicate (MAX_OPS - cb_count b) null_entry"
proof -
  assume wf: "wf_cb b"
  have "drop (cb_count b) (cb_ring b) = replicate (MAX_OPS - cb_count b) null_entry"
    using wf wf_cbD(5)[OF wf] by (intro replicate_eqI) (auto simp: wf_cb_def)
  then show ?thesis
    by (metis append_take_drop_id cb_contents_def)
qed

lemma add_entry_Some:
  assumes "wf_cb b"
  obtains b' where "aesd_circular_buffer_add_entry b e = Some b'"
    "entry b' = (entry b)[in_offs b := e]"
    "in_offs b' = (in_offs b + 1) mod MAX_OPS"
    "out_offs b' = (if full b then (out_offs b + 1) mod MAX_OPS else out_offs b)"
    "full b' \<longleftrightarrow> in_offs b' = out_offs b'"
proof -
  obtain b' where b': "aesd_circular_buffer_add_entry b e = Some b'"
    using wf_cbD(1,2)[OF assms] by (simp add: aesd_circular_buffer_add_entry_def Let_def)
  show thesis
    by (rule that[OF b'])
       (use b' in \<open>auto simp: aesd_circular_buffer_add_entry_def Let_def split: if_splits\<close>)
qed

text \<open>Where the updated slot lies, seen from \<open>out_offs\<close>.\<close>

lemma mod_slot_eq:
  assumes "o1 < MAX_OPS" "k < MAX_OPS" "c < MAX_OPS"
  shows "(o1 + k) mod MAX_OPS = (o1 + c) mod MAX_OPS \<longleftrightarrow> k = c"
  using assms by (auto simp: mod_if split: if_splits)

lemma ring_update:
  assumes "wf_cb b" and "c < MAX_OPS"
  shows "rotate (out_offs b) ((entry b)[(out_offs b + c) mod MAX_OPS := e]) = (cb_ring b)[c := e]"
  using assms
  by (intro nth_equalityI)
     (auto simp: cb_ring_def wf_cb_def nth_rotate nth_list_update mod_slot_eq)

lemma add_entry_count:
  assumes "wf_cb b" and "aesd_circular_buffer_add_entry b e = Some b'"
  shows "cb_count b' = min MAX_OPS (cb_count b + 1)"
proof -
  note wf = wf_cbD[OF assms(1)]
  obtain b0 where b0: "aesd_circular_buffer_add_entry b e = Some b0"
    "entry b0 = (entry b)[in_offs b := e]"
    "in_offs b0 = (in_offs b + 1) mod MAX_OPS"
    "out_offs b0 = (if full b then (out_offs b + 1) mod MAX_OPS else out_offs b)"
    "full b0 \<longleftrightarrow> in_offs b0 = out_offs b0"
    by (rule add_entry_Some[OF assms(1)])
  have b': "b' = b0" using assms(2) b0(1) by simp
  show ?thesis
  proof (cases "full b")
    case True
    with wf b0 show ?thesis by (simp add: b' cb_count_def)
  next
    case False
    then have "cb_count b = (in_offs b + MAX_OPS - out_offs b) mod MAX_OPS"
      by (simp add: cb_count_def)
    with wf(2,3) False b0(3-5) show ?thesis
      by (auto simp: b' cb_count_def mod_if split: if_splits)
  qed
qed

lemma add_entry_ring:
  assumes "wf_cb b" and "aesd_circular_buffer_add_entry b e = Some b'"
  shows "cb_ring b' =
    (if full b then tl (cb_ring b) @ [e] else (cb_ring b)[cb_count b := e])"
proof -
  note wf = wf_cbD[OF assms(1)]
  obtain b0 where b0: "aesd_circular_buffer_add_entry b e = Some b0"
    "entry b0 = (entry b)[in_offs b := e]"
    "in_offs b0 = (in_offs b + 1) mod MAX_OPS"
    "out_offs b0 = (if full b then (out_offs b + 1) mod MAX_OPS else out_offs b)"
    "full b0 \<longleftrightarrow> in_offs b0 = out_offs b0"
    by (rule add_entry_Some[OF assms(1)])
  have b': "b' = b0" using assms(2) b0(1) by simp
  show ?thesis
  proof (cases "full b")
    case True
    have "rotate (out_offs b) ((entry b)[in_offs b := e]) = (cb_ring b)[0 := e]"
      using ring_update[OF assms(1), of 0 e] wf(3) wf(4)[OF True] by simp
    moreover have "rotate ((out_offs b + 1) mod MAX_OPS) xs = rotate1 (rotate (out_offs b) xs)"
      if "length xs = MAX_OPS" for xs :: "aesd_buffer_entry list"
      using rotate_conv_mod[of "Suc (out_offs b)" xs] that by simp
    ultimately have "cb_ring b' = rotate1 ((cb_ring b)[0 := e])"
      using b0(2,4) True wf(1) by (simp add: b' cb_ring_def)
    also have "\<dots> = tl (cb_ring b) @ [e]"
      using wf(5) by (cases "cb_ring b") auto
    finally show ?thesis using True by simp
  next
    case False
    then have "cb_count b < MAX_OPS" by (simp add: cb_count_def)
    from ring_update[OF assms(1) this] False b0(2,4) show ?thesis
      by (simp add: b' in_offs_count[OF assms(1)] cb_ring_def)
  qed
qed

lemma add_entry_contents:
  assumes "wf_cb b" and "aesd_circular_buffer_add_entry b e = Some b'"
  shows "cb_contents b' = lastn MAX_OPS (cb_contents b @ [e])"
proof (cases "full b")
  case True
  then have c: "cb_count b = MAX_OPS" by (simp add: cb_count_def)
  with add_entry_count[OF assms] have "cb_count b' = MAX_OPS" by simp
  moreover have "cb_contents b = cb_ring b"
    using c wf_cbD(5)[OF assms(1)] by (simp add: cb_contents_def)
  ultimately show ?thesis
    using add_entry_ring[OF assms] True wf_cbD(5)[OF assms(1)]
    by (simp add: cb_contents_def lastn_full_snoc)
next
  case False
  then have c: "cb_count b < MAX_OPS" by (simp add: cb_count_def)
  with add_entry_count[OF assms] have "cb_count b' = Suc (cb_count b)" by simp
  moreover have "length (cb_contents b) = cb_count b"
    by (rule length_cb_contents[OF assms(1)])
  ultimately show ?thesis
    using add_entry_ring[OF assms] False c wf_cbD(5)[OF assms(1)]
    by (simp add: cb_contents_def lastn_short take_Suc_conv_app_nth)
qed

lemma add_entry_wf:
  assumes "wf_cb b" and "aesd_circular_buffer_add_entry b e = Some b'"
  shows "wf_cb b'"
proof -
  note wf = wf_cbD[OF assms(1)]
  have fields: "length (entry b') = MAX_OPS" "in_offs b' < MAX_OPS" "out_offs b' < MAX_OPS"
    "full b' \<longrightarrow> in_offs b' = out_offs b'"
    using assms(2) wf(1-3)
    by (auto simp: aesd_circular_buffer_add_entry_def Let_def split: if_splits)
  have "set (drop (cb_count b') (cb_ring b')) \<subseteq> {null_entry}"
  proof (cases "full b")
    case True
    then show ?thesis
      using add_entry_count[OF assms] wf(5) add_entry_ring[OF assms]
      by (simp add: cb_count_def)
  next
    case False
    then have "cb_count b < MAX_OPS" by (simp add: cb_count_def)
    with False show ?thesis
      using add_entry_count[OF assms] add_entry_ring[OF assms] assms(1)
        set_drop_subset_set_drop[of "cb_count b" "Suc (cb_count b)" "cb_ring b"]
      by (auto simp: wf_cb_def)
  qed
  with fields show ?thesis by (simp add: wf_cb_def)
qed

text \<open>The slot the next write takes: the oldest entry when the buffer is full.\<close>

lemma slot_at_in:
  assumes "wf_cb b"
  shows "entry b ! in_offs b = (if full b then hd (cb_contents b) else null_entry)"
proof (cases "full b")
  case True
  then have "cb_contents b = cb_ring b"
    using wf_cbD(5)[OF assms] by (simp add: cb_contents_def cb_count_def)
  moreover have "cb_ring b ! 0 = entry b ! in_offs b"
    using cb_ring_nth[OF assms, of 0] wf_cbD(3)[OF assms] wf_cbD(4)[OF assms True] by simp
  moreover have "cb_ring b \<noteq> []" using wf_cbD(5)[OF assms] by auto
  ultimately show ?thesis using True by (simp add: hd_conv_nth)
next
  case False
  then have c: "cb_count b < MAX_OPS" by (simp add: cb_count_def)
  then have "cb_ring b ! cb_count b = null_entry"
    by (subst ring_split[OF assms]) (simp add: nth_append length_cb_contents[OF assms])
  with cb_ring_nth[OF assms c] False show ?thesis
    by (simp add: in_offs_count[OF assms])
qed

lemma full_contents:
  "wf_cb b \<Longrightarrow> full b \<longleftrightarrow> length (cb_contents b) = MAX_OPS"
  using length_cb_contents[of b] by (auto simp: cb_count_def split: if_splits)

lemma init_wf:
  "length (entry b) = MAX_OPS \<Longrightarrow> wf_cb (aesd_circular_buffer_init b)"
  by (auto simp: wf_cb_def aesd_circular_buffer_init_def cb_count_def cb_ring_def)

lemma init_contents: "cb_contents (aesd_circular_buffer_init b) = []"
  by (simp add: cb_contents_def cb_count_def aesd_circular_buffer_init_def)

section \<open>Searching by byte position\<close>

definition cb_total :: "aesd_circular_buffer \<Rightarrow> nat" where
  "cb_total b = sum_list (map esize (cb_contents b))"

lemma sizes_ring: "wf_cb b \<Longrightarrow> sum_list (map esize (entry b)) = cb_total b"
proof -
  assume wf: "wf_cb b"
  have "sum_list (map esize (entry b)) = sum_list (map esize (cb_ring b))"
    by (simp add: cb_ring_def rotate_map[symmetric] sum_list_rotate)
  also have "\<dots> = cb_total b"
    by (subst ring_split[OF wf]) (simp add: cb_total_def null_entry_def sum_list_replicate)
  finally show ?thesis .
qed

lemma foldl_u64_sum:
  "n + sum_list (map esize es) < 2 ^ 64 \<Longrightarrow>
     foldl (\<lambda>t e. to_u64 (int t + int (esize e))) n es = n + sum_list (map esize es)"
proof (induction es arbitrary: n)
  case Nil
  then show ?case by simp
next
  case (Cons e es)
  then have "to_u64 (int n + int (esize e)) = n + esize e"
    using to_u64_of_nat[of "n + esize e"] by simp
  with Cons show ?case by simp
qed

lemma total_bytes_written_eq:
  "wf_cb b \<Longrightarrow> cb_total b < 2 ^ 64 \<Longrightarrow> total_bytes_written b = cb_total b"
  using foldl_u64_sum[of 0 "entry b"] by (simp add: total_bytes_written_def sizes_ring)

text \<open>The entry the loop looks at after \<open>k\<close> rounds, and the bytes before and behind it.\<close>

lemma contents_split:
  assumes "wf_cb b" and "k < cb_count b"
  shows "entry b ! ((out_offs b + k) mod MAX_OPS) = cb_contents b ! k"
    and "drop k (cb_contents b) = cb_contents b ! k # drop (Suc k) (cb_contents b)"
    and "sum_list (map esize (take (Suc k) (cb_contents b)))
      = sum_list (map esize (take k (cb_contents b))) + esize (cb_contents b ! k)"
    and "sum_list (map esize (take k (cb_contents b))) + esize (cb_contents b ! k) \<le> cb_total b"
proof -
  have len: "length (cb_contents b) = cb_count b" by (rule length_cb_contents[OF assms(1)])
  have "k < MAX_OPS" using assms(2) wf_cbD(6)[OF assms(1)] by simp
  then show "entry b ! ((out_offs b + k) mod MAX_OPS) = cb_contents b ! k"
    using cb_ring_nth[OF assms(1)] assms(2) by (simp add: cb_contents_def)
  show "drop k (cb_contents b) = cb_contents b ! k # drop (Suc k) (cb_contents b)"
    using assms(2) len by (simp add: Cons_nth_drop_Suc)
  show tk: "sum_list (map esize (take (Suc k) (cb_contents b)))
      = sum_list (map esize (take k (cb_contents b))) + esize (cb_contents b ! k)"
    using assms(2) len by (simp add: take_Suc_conv_app_nth)
  have "sum_list (map esize (take (Suc k) (cb_contents b)))
      + sum_list (map esize (drop (Suc k) (cb_contents b))) = cb_total b"
    by (simp add: cb_total_def sum_list_append[symmetric] map_append[symmetric] del: sum_list_append map_append)
  then show "sum_list (map esize (take k (cb_contents b))) + esize (cb_contents b ! k) \<le> cb_total b"
    using tk by simp
qed

lemma find_loop_guard:
  assumes "wf_cb b" and "k < cb_count b"
  shows "(out_offs b + k) mod MAX_OPS \<noteq> in_offs b \<or> \<not> MAX_OPS \<le> out_offs b + k"
proof (cases "full b")
  case True
  have "k < MAX_OPS" using assms(2) wf_cbD(6)[OF assms(1)] by simp
  then show ?thesis
    using wf_cbD(3,4)[OF assms(1)] True by (auto simp: mod_if split: if_splits)
next
  case False
  have k10: "k < MAX_OPS" using assms(2) wf_cbD(6)[OF assms(1)] by simp
  from False have "cb_count b < MAX_OPS" by (simp add: cb_count_def)
  then show ?thesis
    using mod_slot_eq[OF wf_cbD(3)[OF assms(1)] k10, of "cb_count b"] assms(2)
    by (simp add: in_offs_count[OF assms(1)])
qed

lemma find_loop_goes_on:
  assumes "wf_cb b" and "k < cb_count b" and "off < cb_total b"
    and "sum_list (map esize (take (Suc k) (cb_contents b))) \<le> off"
  shows "Suc k < cb_count b"
proof (rule ccontr)
  assume "\<not> Suc k < cb_count b"
  then have "take (Suc k) (cb_contents b) = cb_contents b"
    using length_cb_contents[OF assms(1)] by simp
  with assms(3,4) show False by (simp add: cb_total_def)
qed

text \<open>
  The loop at the \<open>k\<close>-th entry: \<open>bytes_searched\<close> is the length of the entries before it
  and \<open>is_wrapped\<close> tells whether the index has passed the end of the array.
\<close>

lemma find_loop_correct:
  assumes "wf_cb b" and "cb_total b < 2 ^ 31"
    and "k < cb_count b" and "off < cb_total b"
    and "s = sum_list (map esize (take k (cb_contents b)))" and "s \<le> off"
  shows "find_loop b off ((out_offs b + k) mod MAX_OPS) (MAX_OPS \<le> out_offs b + k) (int s)
    = Some (map_option (\<lambda>(j, r). ((out_offs b + k + j) mod MAX_OPS, r))
        (locate (map esize (drop k (cb_contents b))) (off - s)))"
  using assms(3,5,6)
proof (induction "cb_count b - k" arbitrary: k s)
  case 0
  then show ?case by simp
next
  case (Suc n)
  let ?i = "(out_offs b + k) mod MAX_OPS" and ?z = "esize (cb_contents b ! k)"
  note split = contents_split[OF assms(1) Suc.prems(1)] and guard = find_loop_guard[OF assms(1) Suc.prems(1)]
  have bound: "s + ?z \<le> cb_total b" using split(4) Suc.prems(2) by simp
  have conv: "to_u64 (int s + int ?z) = s + ?z" "to_s32 (int s + int ?z) = int (s + ?z)"
    using bound assms(2) to_u64_of_nat[of "s + ?z"] to_s32_of_nat[of "s + ?z"] by simp_all
  have ilen: "?i < length (entry b)" using wf_cbD(1)[OF assms(1)] by simp
  show ?case
  proof (cases "off < s + ?z")
    case True
    have "to_u64 (int off - int s) = off - s"
      using Suc.prems(3) bound True assms(2) to_u64_of_nat[of "off - s"] by (simp add: of_nat_diff)
    with True show ?thesis
      using guard ilen Suc.prems(3)
      by (subst find_loop.simps) (simp add: split(1,2) conv less_diff_conv2)
  next
    case False
    have wrap: "(MAX_OPS \<le> out_offs b + k \<or> ?i = MAX_OPS - 1) = (MAX_OPS \<le> out_offs b + Suc k)"
      using wf_cbD(3,6)[OF assms(1)] Suc.prems(1) by (auto simp: mod_if split: if_splits)
    have "find_loop b off ?i (MAX_OPS \<le> out_offs b + k) (int s)
      = find_loop b off ((?i + 1) mod MAX_OPS) (MAX_OPS \<le> out_offs b + k \<or> ?i = MAX_OPS - 1)
          (to_s32 (int s + int ?z))"
      using guard ilen False by (subst find_loop.simps) (simp add: split(1) conv)
    also have "\<dots> = find_loop b off ((out_offs b + Suc k) mod MAX_OPS)
        (MAX_OPS \<le> out_offs b + Suc k) (int (s + ?z))"
      by (simp only: mod_simps wrap conv) simp
    also have "\<dots> = Some (map_option (\<lambda>(j, r). ((out_offs b + Suc k + j) mod MAX_OPS, r))
          (locate (map esize (drop (Suc k) (cb_contents b))) (off - (s + ?z))))"
      using Suc.hyps(1)[of "Suc k" "s + ?z"] Suc.hyps(2) split(3) False Suc.prems(2)
        find_loop_goes_on[OF assms(1) Suc.prems(1) assms(4)] by simp
    finally show ?thesis
      using False Suc.prems(3)
      by (simp add: split(2) option.map_comp comp_def case_prod_unfold less_diff_conv2)
  qed
qed

lemma find_correct:
  assumes "wf_cb b" and "cb_total b < 2 ^ 31"
  shows "aesd_circular_buffer_find_entry_offset_for_fpos b off
    = Some (map_option (\<lambda>(k, r). ((out_offs b + k) mod MAX_OPS, r))
        (locate (map esize (cb_contents b)) off))"
proof (cases "cb_total b \<le> off")
  case True
  then have "locate (map esize (cb_contents b)) off = None"
    by (simp add: locate_None cb_total_def)
  with True show ?thesis
    using assms
    by (simp add: aesd_circular_buffer_find_entry_offset_for_fpos_def total_bytes_written_eq)
next
  case False
  have "0 < cb_count b"
  proof (rule ccontr)
    assume "\<not> 0 < cb_count b"
    then have "cb_total b = 0" by (simp add: cb_total_def cb_contents_def)
    with False show False by simp
  qed
  then have "find_loop b off (out_offs b) False 0
    = Some (map_option (\<lambda>(k, r). ((out_offs b + k) mod MAX_OPS, r))
        (locate (map esize (cb_contents b)) off))"
    using find_loop_correct[OF assms, of 0 off 0] False wf_cbD(3)[OF assms(1)] by simp
  with False show ?thesis
    using assms
    by (simp add: aesd_circular_buffer_find_entry_offset_for_fpos_def total_bytes_written_eq)
qed

section \<open>Interfaces\<close>

text \<open>A log that keeps the last \<open>cap\<close> entries, oldest first.\<close>

locale write_log =
  fixes cap :: nat
    and empty :: 'b
    and add :: "'b \<Rightarrow> 'e \<Rightarrow> 'b option"
    and contents :: "'b \<Rightarrow> 'e list"
    and invar :: "'b \<Rightarrow> bool"
  assumes invar_empty: "invar empty"
    and contents_empty: "contents empty = []"
    and add_defined: "invar b \<Longrightarrow> \<exists>b'. add b e = Some b'"
    and invar_add: "invar b \<Longrightarrow> add b e = Some b' \<Longrightarrow> invar b'"
    and contents_add: "invar b \<Longrightarrow> add b e = Some b' \<Longrightarrow> contents b' = lastn cap (contents b @ [e])"
begin

lemma run_contents:
  assumes "invar b" and "length (contents b) \<le> cap"
  shows "\<exists>b'. run_adds add b es = Some b' \<and> invar b' \<and> contents b' = lastn cap (contents b @ es)"
  using assms
proof (induction es arbitrary: b)
  case Nil
  then show ?case by (simp add: lastn_short)
next
  case (Cons e es)
  obtain b1 where b1: "add b e = Some b1" using add_defined[OF Cons.prems(1)] by blast
  have inv: "invar b1" and con: "contents b1 = lastn cap (contents b @ [e])"
    using invar_add[OF Cons.prems(1) b1] contents_add[OF Cons.prems(1) b1] by simp_all
  then obtain b' where "run_adds add b1 es = Some b'" "invar b'"
    "contents b' = lastn cap (contents b1 @ es)"
    using Cons.IH[of b1] by auto
  then show ?case
    using b1 con lastn_lastn_append[of cap "contents b @ [e]" es] by simp
qed

lemma run_from_empty:
  "\<exists>b'. run_adds add empty es = Some b' \<and> invar b' \<and> contents b' = lastn cap es"
  using run_contents[OF invar_empty, of es] by (simp add: contents_empty)

end

text \<open>
  The same log with a search by position in the concatenation of its entries. \<open>pos\<close> maps
  the number of an entry (oldest is 0) to the index the search returns, \<open>slot\<close> reads the
  entry at such an index, \<open>limit\<close> bounds the total length the search can handle.
\<close>

locale seekable_log = write_log cap empty add contents invar
  for cap :: nat
    and empty :: 'b
    and add :: "'b \<Rightarrow> 'e \<Rightarrow> 'b option"
    and contents :: "'b \<Rightarrow> 'e list"
    and invar :: "'b \<Rightarrow> bool" +
  fixes len :: "'e \<Rightarrow> nat"
    and find :: "'b \<Rightarrow> nat \<Rightarrow> (nat \<times> nat) option option"
    and pos :: "'b \<Rightarrow> nat \<Rightarrow> nat"
    and slot :: "'b \<Rightarrow> nat \<Rightarrow> 'e"
    and limit :: nat
  assumes find_locate: "invar b \<Longrightarrow> sum_list (map len (contents b)) < limit \<Longrightarrow>
      find b off = Some (map_option (\<lambda>(k, r). (pos b k, r)) (locate (map len (contents b)) off))"
    and slot_pos: "invar b \<Longrightarrow> k < length (contents b) \<Longrightarrow> slot b (pos b k) = contents b ! k"
begin

lemma find_miss:
  "invar b \<Longrightarrow> sum_list (map len (contents b)) < limit \<Longrightarrow>
    sum_list (map len (contents b)) \<le> off \<Longrightarrow> find b off = Some None"
  using find_locate[of b off] locate_None[of "map len (contents b)" off] by simp

lemma find_hit:
  assumes "invar b" and "sum_list (map len (contents b)) < limit"
    and "off < sum_list (map len (contents b))"
  obtains k r where "find b off = Some (Some (pos b k, r))"
    "k < length (contents b)" "slot b (pos b k) = contents b ! k"
    "r < len (contents b ! k)" "off = sum_list (map len (take k (contents b))) + r"
proof -
  have "locate (map len (contents b)) off \<noteq> None"
    using assms(3) by (simp add: locate_None)
  then obtain k r where loc: "locate (map len (contents b)) off = Some (k, r)" by auto
  from locate_Some[OF loc] have k: "k < length (contents b)" "r < len (contents b ! k)"
    "off = sum_list (map len (take k (contents b))) + r"
    by (auto simp: take_map)
  show thesis
    using find_locate[OF assms(1,2), of off] loc k slot_pos[OF assms(1) k(1)]
    by (intro that[of k r]) simp_all
qed

text \<open>
  What is found is the right byte: with \<open>bytes e\<close> the contents of entry \<open>e\<close>, everything
  from the offset on is the rest of the entry found, followed by the entries after it.
\<close>

lemma find_bytes:
  assumes "invar b" and "sum_list (map len (contents b)) < limit"
    and "off < sum_list (map len (contents b))"
    and "\<forall>e \<in> set (contents b). length (bytes e) = len e"
  obtains i r rest where "find b off = Some (Some (i, r))" "slot b i \<in> set (contents b)"
    "r < len (slot b i)"
    "drop off (concat (map bytes (contents b))) = drop r (bytes (slot b i)) @ rest"
proof (rule find_hit[OF assms(1-3)])
  fix k r
  assume h: "find b off = Some (Some (pos b k, r))" "k < length (contents b)"
    "slot b (pos b k) = contents b ! k" "r < len (contents b ! k)"
    "off = sum_list (map len (take k (contents b))) + r"
  have "map length (take k (map bytes (contents b))) = map len (take k (contents b))"
    using assms(4) by (auto simp: take_map dest: in_set_takeD)
  then have "drop off (concat (map bytes (contents b)))
    = drop r (bytes (contents b ! k)) @ concat (drop (Suc k) (map bytes (contents b)))"
    using drop_concat_nth[of k "map bytes (contents b)" r] h(2,4,5) assms(4) by simp
  with h show thesis by (intro that[of "pos b k" r]) auto
qed

end

definition cb_zero :: aesd_circular_buffer where
  "cb_zero = \<lparr>entry = replicate MAX_OPS null_entry, in_offs = 0, out_offs = 0, full = False\<rparr>"

lemma init_zero: "length (entry b) = MAX_OPS \<Longrightarrow> aesd_circular_buffer_init b = cb_zero"
  by (simp add: aesd_circular_buffer_init_def cb_zero_def map_replicate_const)

lemma cb_zero_facts: "wf_cb cb_zero" "cb_contents cb_zero = []"
  using init_wf[of cb_zero] init_contents[of cb_zero] init_zero[of cb_zero]
  by (simp_all add: cb_zero_def)

interpretation cb: seekable_log MAX_OPS cb_zero aesd_circular_buffer_add_entry cb_contents wf_cb
  esize aesd_circular_buffer_find_entry_offset_for_fpos
  "\<lambda>b k. (out_offs b + k) mod MAX_OPS" "\<lambda>b i. entry b ! i" "2 ^ 31"
proof unfold_locales
  show "\<exists>b'. aesd_circular_buffer_add_entry b e = Some b'" if "wf_cb b" for b e
    using add_entry_Some[OF that] by blast
  show "entry b ! ((out_offs b + k) mod MAX_OPS) = cb_contents b ! k"
    if "wf_cb b" "k < length (cb_contents b)" for b k
    using that cb_ring_nth[OF that(1), of k] wf_cbD(6)[OF that(1)]
    by (simp add: length_cb_contents cb_contents_def)
qed (auto simp: cb_zero_facts add_entry_wf add_entry_contents find_correct cb_total_def)

section \<open>Properties\<close>

text \<open>
  C5: Whatever entries are added to a freshly initialised circular buffer, no access leaves
  the array, the structure stays well formed, and the buffer holds exactly the last ten
  entries, oldest first.
\<close>

theorem add_keeps_last_ten:
  assumes "length (entry b) = MAX_OPS"
  shows "\<exists>b'. run_adds aesd_circular_buffer_add_entry (aesd_circular_buffer_init b) es = Some b'
    \<and> wf_cb b' \<and> cb_contents b' = lastn MAX_OPS es"
  using cb.run_from_empty[of es] by (simp add: init_zero[OF assms])

theorem add_keeps_last_ten_witness:
  "\<exists>b'. run_adds aesd_circular_buffer_add_entry (aesd_circular_buffer_init cb_zero)
      (map (\<lambda>n. \<lparr>buffptr = n, esize = n\<rparr>) [1..<13]) = Some b'
    \<and> wf_cb b' \<and> cb_contents b' = map (\<lambda>n. \<lparr>buffptr = n, esize = n\<rparr>) (drop 2 [1..<13])"
proof -
  have "lastn MAX_OPS (map (\<lambda>n. \<lparr>buffptr = n, esize = n\<rparr>) [1..<13])
      = map (\<lambda>n. \<lparr>buffptr = n, esize = n\<rparr>) (drop 2 [1..<13])"
    by (simp add: lastn_def drop_map del: drop_upt)
  moreover have "length (entry cb_zero) = MAX_OPS" by (simp add: cb_zero_def)
  ultimately show ?thesis
    using add_keeps_last_ten[of cb_zero "map (\<lambda>n. \<lparr>buffptr = n, esize = n\<rparr>) [1..<13]"] by simp
qed

text \<open>
  C1: The search by file position ends and never leaves the array; it finds nothing
  exactly when the position lies behind the last byte, and otherwise returns the slot of
  the entry that covers the position when all entries are laid end to end, with the
  offset inside that entry.
\<close>

theorem find_entry_offset_correct:
  assumes "wf_cb b" and "sum_list (map esize (cb_contents b)) < 2 ^ 31"
  shows "if off < sum_list (map esize (cb_contents b))
    then \<exists>i k r. aesd_circular_buffer_find_entry_offset_for_fpos b off = Some (Some (i, r))
      \<and> k < length (cb_contents b) \<and> entry b ! i = cb_contents b ! k
      \<and> r < esize (entry b ! i) \<and> off = sum_list (map esize (take k (cb_contents b))) + r
    else aesd_circular_buffer_find_entry_offset_for_fpos b off = Some None"
proof (cases "off < sum_list (map esize (cb_contents b))")
  case True
  then show ?thesis by (rule cb.find_hit[OF assms]) (use True in auto)
next
  case False
  then show ?thesis using cb.find_miss[OF assms] by simp
qed

definition demo_full :: aesd_circular_buffer where
  "demo_full = \<lparr>entry = map (\<lambda>n. \<lparr>buffptr = n, esize = n\<rparr>) [1..<11],
     in_offs = 4, out_offs = 4, full = True\<rparr>"

lemma demo_full_facts:
  "wf_cb demo_full"
  "cb_contents demo_full = map (\<lambda>n. \<lparr>buffptr = n, esize = n\<rparr>) [5, 6, 7, 8, 9, 10, 1, 2, 3, 4]"
  by (simp_all add: demo_full_def wf_cb_def cb_count_def cb_ring_def cb_contents_def upt_rec
      rotate_drop_take)

theorem find_entry_offset_correct_witness:
  "wf_cb demo_full \<and> sum_list (map esize (cb_contents demo_full)) < 2 ^ 31 \<and>
   (\<exists>i k r. aesd_circular_buffer_find_entry_offset_for_fpos demo_full 54 = Some (Some (i, r))
      \<and> k < length (cb_contents demo_full) \<and> entry demo_full ! i = cb_contents demo_full ! k
      \<and> r < esize (entry demo_full ! i)
      \<and> 54 = sum_list (map esize (take k (cb_contents demo_full))) + r)"
  using find_entry_offset_correct[of demo_full 54] demo_full_facts by simp

end
