(* ===== verification/Char_Driver.thy ===== *)
theory Char_Driver
  imports Circular_Buffer
begin

text \<open>
  The file operations of the aesdchar driver (\<open>aesd-char-driver/main.c\<close>, state in
  \<open>aesdchar.h\<close>, ioctl numbers in \<open>aesd_ioctl.h\<close>).

  \<open>aesd_dev\<close> has the fields of \<open>struct aesd_dev\<close> and, in \<open>kheap\<close>, the blocks of kernel
  memory that the driver has allocated and not freed, by address. The file position of an
  open file is passed and returned. What the kernel decides is a parameter: whether a
  lock wait is interrupted, how many bytes a copy from user space transfers, whether a
  copy to user space faults, and where the allocator places a block (\<open>kernel\<close>).
  \<open>None\<close> is undefined behaviour of the C code: an access outside a block, a \<open>kfree\<close> of an
  address that is not allocated, an unlock of a lock that is not held, a wait for a lock
  that nobody will release.
\<close>

type_synonym heap = "nat \<Rightarrow> byte list option"

record kernel =
  kmalloc :: "heap \<Rightarrow> nat \<Rightarrow> (nat \<times> byte list) option"
  krealloc :: "heap \<Rightarrow> nat \<Rightarrow> nat \<Rightarrow> (nat \<times> byte list) option"

text \<open>
  What the allocator documents: \<open>None\<close> is a failed request; a new block lies at an
  address that is neither \<open>NULL\<close> nor in use, has the requested length, and arbitrary
  contents; \<open>krealloc\<close> may move the block and keeps its contents.
\<close>

definition kernel_ok :: "kernel \<Rightarrow> bool" where
  "kernel_ok K \<longleftrightarrow>
     (\<forall>h n p blk. 0 < n \<longrightarrow> kmalloc K h n = Some (p, blk) \<longrightarrow>
        p \<noteq> 0 \<and> h p = None \<and> length blk = n) \<and>
     (\<forall>h p n old q blk. 0 < n \<longrightarrow> h p = Some old \<longrightarrow> krealloc K h p n = Some (q, blk) \<longrightarrow>
        q \<noteq> 0 \<and> (q = p \<or> h q = None) \<and> length blk = n \<and>
        take (length old) blk = take n old)"

record aesd_dev =
  lock :: bool
  dentry :: aesd_buffer_entry
  dbuffer :: aesd_circular_buffer
  total_bytes :: nat
  kheap :: heap

definition newline :: byte where
  "newline = 10"

section \<open>Kernel services used by the handlers\<close>

definition mutex_lock_interruptible :: "bool \<Rightarrow> aesd_dev \<Rightarrow> (bool \<times> aesd_dev) outcome" where
  "mutex_lock_interruptible interrupted dev =
     (if interrupted then Some (False, dev)
      else if lock dev then None
      else Some (True, dev\<lparr>lock := True\<rparr>))"

definition mutex_unlock :: "aesd_dev \<Rightarrow> aesd_dev outcome" where
  "mutex_unlock dev = (if lock dev then Some (dev\<lparr>lock := False\<rparr>) else None)"

definition kfree :: "nat \<Rightarrow> aesd_dev \<Rightarrow> aesd_dev outcome" where
  "kfree p dev =
     (if p \<in> dom (kheap dev) then Some (dev\<lparr>kheap := (kheap dev)(p := None)\<rparr>) else None)"

text \<open>Store \<open>bs\<close> at offset \<open>off\<close> of the block at address \<open>p\<close>, within its bounds.\<close>

definition store_at :: "nat \<Rightarrow> nat \<Rightarrow> byte list \<Rightarrow> heap \<Rightarrow> heap outcome" where
  "store_at p off bs h =
     (case h p of
        None \<Rightarrow> None
      | Some blk \<Rightarrow>
          if off + length bs \<le> length blk
          then Some (h(p \<mapsto> take off blk @ bs @ drop (off + length bs) blk))
          else None)"

definition load_at :: "nat \<Rightarrow> nat \<Rightarrow> nat \<Rightarrow> heap \<Rightarrow> byte list outcome" where
  "load_at p off n h =
     (case h p of
        None \<Rightarrow> None
      | Some blk \<Rightarrow> if off + n \<le> length blk then Some (take n (drop off blk)) else None)"

section \<open>aesd_write\<close>

text \<open>
  First part: \<open>krealloc\<close> or \<open>kmalloc\<close>. The result of a failed call is stored in
  \<open>dev->entry.buffptr\<close> as well, \<open>entry.size\<close> is not touched, and a failed \<open>krealloc\<close> leaves
  the old block allocated.
\<close>

definition write_alloc :: "kernel \<Rightarrow> nat \<Rightarrow> aesd_dev \<Rightarrow> aesd_dev" where
  "write_alloc K count dev =
     (let e = dentry dev; h = kheap dev in
      if buffptr e \<noteq> 0 then
        (case krealloc K h (buffptr e) (esize e + count) of
           None \<Rightarrow> dev\<lparr>dentry := e\<lparr>buffptr := 0\<rparr>\<rparr>
         | Some (q, blk) \<Rightarrow>
             dev\<lparr>dentry := e\<lparr>buffptr := q\<rparr>, kheap := (h(buffptr e := None))(q \<mapsto> blk)\<rparr>)
      else
        (case kmalloc K h count of
           None \<Rightarrow> dev\<lparr>dentry := e\<lparr>buffptr := 0\<rparr>\<rparr>
         | Some (q, blk) \<Rightarrow> dev\<lparr>dentry := e\<lparr>buffptr := q\<rparr>, kheap := h(q \<mapsto> blk)\<rparr>))"

text \<open>
  Second part: \<open>copy_from_user\<close> to \<open>buffptr + size\<close>; \<open>copied\<close> is the number of bytes that
  arrive. The destination must have room for all of \<open>data\<close>, whatever arrives.
\<close>

definition write_copy :: "nat \<Rightarrow> byte list \<Rightarrow> aesd_dev \<Rightarrow> aesd_dev outcome" where
  "write_copy copied data dev =
     (let e = dentry dev in
      case kheap dev (buffptr e) of
        None \<Rightarrow> None
      | Some blk \<Rightarrow>
          if length blk < esize e + length data then None
          else map_option (\<lambda>h. dev\<lparr>kheap := h\<rparr>)
                 (store_at (buffptr e) (esize e) (take copied data) (kheap dev)))"

text \<open>
  Last part: when the accumulated bytes contain a newline the entry moves to the circular
  buffer, after the entry in the slot it takes has been freed.
\<close>

definition write_commit :: "aesd_dev \<Rightarrow> aesd_dev outcome" where
  "write_commit dev =
     (if in_offs (dbuffer dev) < length (entry (dbuffer dev)) then
        (let old = entry (dbuffer dev) ! in_offs (dbuffer dev);
             freed = (if buffptr old \<noteq> 0
                      then map_option
                             (\<lambda>d. d\<lparr>total_bytes := to_u64 (int (total_bytes d) - int (esize old))\<rparr>)
                             (kfree (buffptr old) dev)
                      else Some dev)
         in Option.bind freed (\<lambda>d.
              map_option
                (\<lambda>b. d\<lparr>dbuffer := b,
                       total_bytes := to_u64 (int (total_bytes d) + int (esize (dentry d))),
                       dentry := null_entry\<rparr>)
                (aesd_circular_buffer_add_entry (dbuffer d) (dentry d))))
      else None)"

text \<open>
  After a complete copy: the new size, the search for the newline (\<open>memchr\<close> reads \<open>size\<close>
  bytes of the block), the commit, and the unlock at \<open>release\<close>.
\<close>

definition write_finish :: "nat \<Rightarrow> aesd_dev \<Rightarrow> ((errno + nat) \<times> aesd_dev) outcome" where
  "write_finish count dev =
     (let dev3 = dev\<lparr>dentry := (dentry dev)
            \<lparr>esize := to_u64 (int (esize (dentry dev)) + int count)\<rparr>\<rparr> in
      Option.bind (load_at (buffptr (dentry dev3)) 0 (esize (dentry dev3)) (kheap dev3)) (\<lambda>bytes.
      Option.bind (if newline \<in> set bytes then write_commit dev3 else Some dev3) (\<lambda>dev4.
      map_option (Pair (Inr count)) (mutex_unlock dev4))))"

definition aesd_write ::
  "kernel \<Rightarrow> bool \<Rightarrow> nat \<Rightarrow> byte list \<Rightarrow> aesd_dev \<Rightarrow> ((errno + nat) \<times> aesd_dev) outcome" where
  "aesd_write K interrupted copied data dev =
     Option.bind (mutex_lock_interruptible interrupted dev) (\<lambda>(locked, dev0).
       if \<not> locked then Some (Inl ERESTARTSYS, dev0)
       else
         let dev1 = write_alloc K (length data) dev0 in
         if buffptr (dentry dev1) = 0 then
           map_option (Pair (Inl ENOMEM)) (mutex_unlock dev1)
         else
           Option.bind (write_copy copied data dev1) (\<lambda>dev2.
             if copied < length data then
               map_option (Pair (Inl EFAULT)) (mutex_unlock dev2)
             else write_finish (length data) dev2))"

section \<open>aesd_read\<close>

text \<open>
  \<open>bytes_remained\<close> and \<open>bytes_to_read\<close> are \<open>int\<close>; a negative count becomes a huge length
  in \<open>copy_to_user\<close>. The result carries the bytes handed to user space; the position is
  only advanced on success.
\<close>

definition aesd_read ::
  "bool \<Rightarrow> bool \<Rightarrow> nat \<Rightarrow> int \<Rightarrow> aesd_dev \<Rightarrow> ((errno + byte list) \<times> int \<times> aesd_dev) outcome" where
  "aesd_read interrupted fault count f_pos dev =
     Option.bind (mutex_lock_interruptible interrupted dev) (\<lambda>(locked, dev0).
       if \<not> locked then Some (Inl ERESTARTSYS, f_pos, dev0)
       else
         Option.bind
           (aesd_circular_buffer_find_entry_offset_for_fpos (dbuffer dev0) (to_u64 f_pos))
           (\<lambda>found. case found of
              None \<Rightarrow> map_option (\<lambda>d. (Inl EFAULT, f_pos, d)) (mutex_unlock dev0)
            | Some (i, off) \<Rightarrow>
                let e = entry (dbuffer dev0) ! i;
                    bytes_remained = to_s32 (int count);
                    avail = to_s32 (int (esize e) - int off);
                    bytes_to_read = (if avail > bytes_remained then bytes_remained else avail)
                in Option.bind (load_at (buffptr e) off (to_u64 bytes_to_read) (kheap dev0))
                     (\<lambda>bytes.
                        if fault then map_option (\<lambda>d. (Inl EFAULT, f_pos, d)) (mutex_unlock dev0)
                        else map_option (\<lambda>d. (Inr bytes, f_pos + bytes_to_read, d))
                               (mutex_unlock dev0))))"

section \<open>aesd_llseek\<close>

text \<open>
  The position each \<open>whence\<close> asks for, as the code computes it; \<open>None\<close> is the \<open>default\<close>
  branch, which returns without releasing the lock.
\<close>

definition seek_target :: "int \<Rightarrow> int \<Rightarrow> int \<Rightarrow> aesd_dev \<Rightarrow> int option" where
  "seek_target off whence f_pos dev =
     (if whence = 0 then Some off
      else if whence = 1 then Some (to_s64 (f_pos + off))
      else if whence = 2 then Some (to_s64 (int (total_bytes dev) + off))
      else None)"

definition aesd_llseek ::
  "bool \<Rightarrow> int \<Rightarrow> int \<Rightarrow> int \<Rightarrow> aesd_dev \<Rightarrow> ((errno + int) \<times> int \<times> aesd_dev) outcome" where
  "aesd_llseek interrupted off whence f_pos dev =
     Option.bind (mutex_lock_interruptible interrupted dev) (\<lambda>(locked, dev0).
       if \<not> locked then Some (Inl ERESTARTSYS, f_pos, dev0)
       else
         case seek_target off whence f_pos dev0 of
           None \<Rightarrow> Some (Inl EINVAL, f_pos, dev0)
         | Some target \<Rightarrow>
             Option.bind
               (aesd_circular_buffer_find_entry_offset_for_fpos (dbuffer dev0) (to_u64 target))
               (\<lambda>found.
                  Option.bind (mutex_unlock dev0) (\<lambda>dev1.
                    if found = None then Some (Inl EINVAL, f_pos, dev1)
                    else Some (Inr target, target, dev1))))"

section \<open>aesd_ioctl\<close>

unbundle bit_operations_syntax

text \<open>The layout of an ioctl number (\<open>_IOC_TYPE\<close>, \<open>_IOC_NR\<close>, \<open>_IOWR\<close>).\<close>

definition IOC_TYPE :: "32 word \<Rightarrow> 32 word" where
  "IOC_TYPE cmd = drop_bit 8 cmd AND 0xFF"

definition IOC_NR :: "32 word \<Rightarrow> 32 word" where
  "IOC_NR cmd = cmd AND 0xFF"

definition AESD_IOC_MAGIC :: "32 word" where
  "AESD_IOC_MAGIC = 0x16"

definition AESDCHAR_IOCSEEKTO :: "32 word" where
  "AESDCHAR_IOCSEEKTO = push_bit 30 3 OR push_bit 16 8 OR push_bit 8 AESD_IOC_MAGIC OR 1"

definition AESDCHAR_IOC_MAXNR :: "32 word" where
  "AESDCHAR_IOC_MAXNR = 1"

record aesd_seekto =
  write_cmd :: nat
  write_cmd_offset :: nat

text \<open>
  \<open>seekto\<close> is the structure in user space, \<open>None\<close> when it cannot be copied. The sum over
  the preceding slots is an \<open>int\<close>, the new position is computed as \<open>uint32_t\<close>.
\<close>

definition seekto_pos :: "aesd_circular_buffer \<Rightarrow> aesd_seekto \<Rightarrow> int" where
  "seekto_pos b st =
     int (to_u32 (foldl (\<lambda>p e. to_s32 (p + int (esize e))) 0 (take (write_cmd st) (entry b))
       + int (write_cmd_offset st)))"

definition aesd_ioctl ::
  "bool \<Rightarrow> 32 word \<Rightarrow> aesd_seekto option \<Rightarrow> int \<Rightarrow> aesd_dev
     \<Rightarrow> ((errno + unit) \<times> int \<times> aesd_dev) outcome" where
  "aesd_ioctl interrupted cmd seekto f_pos dev =
     (if IOC_TYPE cmd \<noteq> AESD_IOC_MAGIC then Some (Inl ENOTTY, f_pos, dev)
      else if IOC_NR cmd > AESDCHAR_IOC_MAXNR then Some (Inl ENOTTY, f_pos, dev)
      else if cmd = AESDCHAR_IOCSEEKTO then
        (case seekto of
           None \<Rightarrow> Some (Inl EFAULT, f_pos, dev)
         | Some st \<Rightarrow>
             Option.bind (mutex_lock_interruptible interrupted dev) (\<lambda>(locked, dev0).
               if \<not> locked then Some (Inl ERESTARTSYS, f_pos, dev0)
               else if MAX_OPS \<le> write_cmd st then
                 map_option (\<lambda>d. (Inl EINVAL, f_pos, d)) (mutex_unlock dev0)
               else if length (entry (dbuffer dev0)) \<le> write_cmd st then None
               else if esize (entry (dbuffer dev0) ! write_cmd st) \<le> write_cmd_offset st then
                 map_option (\<lambda>d. (Inl EINVAL, f_pos, d)) (mutex_unlock dev0)
               else map_option (\<lambda>d. (Inr (), seekto_pos (dbuffer dev0) st, d)) (mutex_unlock dev0)))
      else map_option (\<lambda>d. (Inr (), f_pos, d)) (mutex_unlock dev))"

section \<open>Open, release, module init and exit\<close>

text \<open>
  The VFS gives a new open file position 0; the driver only stores the device pointer.
\<close>

definition aesd_open :: "aesd_dev \<Rightarrow> int \<times> aesd_dev" where
  "aesd_open dev = (0, dev)"

definition aesd_release :: "aesd_dev \<Rightarrow> int \<times> aesd_dev" where
  "aesd_release dev = (0, dev)"

record aesd_module =
  aesd_major :: int
  region :: bool
  cdev_live :: bool
  device :: aesd_dev

text \<open>\<open>memset(&aesd_device, 0, ...)\<close>; the memory of the kernel is not part of the structure.\<close>

definition zero_dev :: "aesd_dev \<Rightarrow> aesd_dev" where
  "zero_dev dev = dev\<lparr>lock := False, dentry := null_entry, dbuffer := cb_zero, total_bytes := 0\<rparr>"

definition aesd_setup_cdev :: "int \<Rightarrow> aesd_module \<Rightarrow> int \<times> aesd_module" where
  "aesd_setup_cdev cdev_add_result m =
     (cdev_add_result, m\<lparr>cdev_live := (cdev_add_result = 0)\<rparr>)"

definition aesd_init_module :: "int \<Rightarrow> int \<Rightarrow> int \<Rightarrow> aesd_module \<Rightarrow> int \<times> aesd_module" where
  "aesd_init_module alloc_result major cdev_add_result m =
     (let m1 = m\<lparr>aesd_major := major\<rparr> in
      if alloc_result < 0 then (alloc_result, m1)
      else
        let m2 = m1\<lparr>region := True, device := zero_dev (device m1)\<rparr>;
            (result, m3) = aesd_setup_cdev cdev_add_result m2
        in (result, if result \<noteq> 0 then m3\<lparr>region := False\<rparr> else m3))"

definition aesd_cleanup_module :: "aesd_module \<Rightarrow> aesd_module" where
  "aesd_cleanup_module m = m\<lparr>cdev_live := False, region := False\<rparr>"

section \<open>Abstraction and invariant\<close>

text \<open>
  A device is abstracted to the completed writes, oldest first, and the bytes of the
  write command that is still open.
\<close>

type_synonym log_state = "byte list list \<times> byte list"

definition entry_bytes :: "heap \<Rightarrow> aesd_buffer_entry \<Rightarrow> byte list" where
  "entry_bytes h e = take (esize e) (the (h (buffptr e)))"

definition dev_log :: "aesd_dev \<Rightarrow> byte list list" where
  "dev_log dev = map (entry_bytes (kheap dev)) (cb_contents (dbuffer dev))"

definition dev_pending :: "aesd_dev \<Rightarrow> byte list" where
  "dev_pending dev =
     (if buffptr (dentry dev) = 0 then [] else entry_bytes (kheap dev) (dentry dev))"

definition dev_abs :: "aesd_dev \<Rightarrow> log_state" where
  "dev_abs dev = (dev_log dev, dev_pending dev)"

text \<open>The specification of a write.\<close>

definition log_write :: "byte list \<Rightarrow> log_state \<Rightarrow> log_state" where
  "log_write data s =
     (if newline \<in> set (snd s @ data) then (lastn MAX_OPS (fst s @ [snd s @ data]), [])
      else (fst s, snd s @ data))"

definition entry_ok :: "heap \<Rightarrow> aesd_buffer_entry \<Rightarrow> bool" where
  "entry_ok h e \<longleftrightarrow> buffptr e \<noteq> 0 \<and> (\<exists>blk. h (buffptr e) = Some blk \<and> esize e \<le> length blk)"

definition open_entries :: "aesd_dev \<Rightarrow> aesd_buffer_entry list" where
  "open_entries dev = (if buffptr (dentry dev) = 0 then [] else [dentry dev])"

text \<open>
  Memory: every entry in use owns a block of its own that is long enough, and there is no
  other block. Accounting: \<open>total_bytes\<close> is the length of the log.
\<close>

definition dev_mem :: "aesd_dev \<Rightarrow> bool" where
  "dev_mem dev \<longleftrightarrow>
     wf_cb (dbuffer dev) \<and> total_bytes dev = cb_total (dbuffer dev) \<and>
     (buffptr (dentry dev) = 0 \<longrightarrow> esize (dentry dev) = 0) \<and>
     (\<forall>e \<in> set (cb_contents (dbuffer dev) @ open_entries dev). entry_ok (kheap dev) e) \<and>
     distinct (map buffptr (cb_contents (dbuffer dev) @ open_entries dev)) \<and>
     dom (kheap dev) = set (map buffptr (cb_contents (dbuffer dev) @ open_entries dev))"

definition dev_inv :: "aesd_dev \<Rightarrow> bool" where
  "dev_inv dev \<longleftrightarrow>
     \<not> lock dev \<and> dev_mem dev \<and> newline \<notin> set (dev_pending dev) \<and>
     (\<forall>bs \<in> set (dev_log dev). newline \<in> set bs)"

definition dev_bytes :: "aesd_dev \<Rightarrow> nat" where
  "dev_bytes dev = length (concat (dev_log dev)) + length (dev_pending dev)"

section \<open>Memory lemmas\<close>

named_theorems dev_defs \<open>definitions of the abstraction and the memory invariant\<close>

lemmas [dev_defs] = dev_abs_def dev_log_def dev_pending_def dev_mem_def open_entries_def

lemma entry_bytes_upd [simp]:
  "buffptr e \<noteq> p \<Longrightarrow> entry_bytes (h(p := v)) e = entry_bytes h e"
  by (simp add: entry_bytes_def)

lemma entry_ok_upd [simp]:
  "buffptr e \<noteq> p \<Longrightarrow> entry_ok (h(p := v)) e = entry_ok h e"
  by (simp add: entry_ok_def)

lemma length_entry_bytes: "entry_ok h e \<Longrightarrow> length (entry_bytes h e) = esize e"
  by (auto simp: entry_ok_def entry_bytes_def)

lemma map_entry_bytes_upd:
  "p \<notin> buffptr ` set es \<Longrightarrow> map (entry_bytes (h(p := v))) es = map (entry_bytes h) es"
  by (intro map_cong refl entry_bytes_upd) auto

lemma kernel_okD:
  assumes "kernel_ok K" and "0 < n"
  shows "kmalloc K h n = Some (q, blk) \<Longrightarrow> q \<noteq> 0 \<and> h q = None \<and> length blk = n"
    and "h p = Some old \<Longrightarrow> krealloc K h p n = Some (q, blk) \<Longrightarrow>
      q \<noteq> 0 \<and> (q = p \<or> h q = None) \<and> length blk = n \<and>
      take (length old) blk = take n old"
  by (rule kernel_ok_def[THEN iffD1, OF assms(1), THEN conjunct1, rule_format, OF assms(2)],
      assumption)
     (rule kernel_ok_def[THEN iffD1, OF assms(1), THEN conjunct2, rule_format, OF assms(2)])

lemma null_free:
  assumes "dev_mem dev"
  shows "kheap dev 0 = None"
proof (rule ccontr)
  assume "kheap dev 0 \<noteq> None"
  then have "0 \<in> dom (kheap dev)" by auto
  also have "dom (kheap dev) = buffptr ` set (cb_contents (dbuffer dev) @ open_entries dev)"
    using assms by (simp add: dev_mem_def image_Un)
  finally obtain e where "e \<in> set (cb_contents (dbuffer dev) @ open_entries dev)" "buffptr e = 0"
    by (metis imageE)
  then show False using assms unfolding dev_mem_def entry_ok_def by blast
qed

lemma dev_memD:
  assumes "dev_mem dev"
  shows "wf_cb (dbuffer dev)" "total_bytes dev = cb_total (dbuffer dev)"
    "\<And>e. e \<in> set (cb_contents (dbuffer dev)) \<Longrightarrow> entry_ok (kheap dev) e"
    "buffptr (dentry dev) \<noteq> 0 \<Longrightarrow> entry_ok (kheap dev) (dentry dev)"
    "buffptr (dentry dev) = 0 \<Longrightarrow> esize (dentry dev) = 0"
  using assms by (auto simp: dev_defs)

lemma cb_total_log:
  assumes "dev_mem dev"
  shows "cb_total (dbuffer dev) = length (concat (dev_log dev))"
proof -
  have "map length (dev_log dev) = map esize (cb_contents (dbuffer dev))"
    using dev_memD(3)[OF assms] by (auto simp: dev_log_def length_entry_bytes)
  then show ?thesis by (simp add: cb_total_def length_concat)
qed

lemma length_pending:
  "dev_mem dev \<Longrightarrow> length (dev_pending dev) = esize (dentry dev)"
  using dev_memD(4,5)[of dev] by (auto simp: dev_pending_def length_entry_bytes)

lemma dev_bytes_eq:
  "dev_mem dev \<Longrightarrow> dev_bytes dev = cb_total (dbuffer dev) + esize (dentry dev)"
  by (simp add: dev_bytes_def cb_total_log length_pending)

lemma lock_field_irrelevant [simp]:
  "dev_mem (dev\<lparr>lock := l\<rparr>) = dev_mem dev" "dev_log (dev\<lparr>lock := l\<rparr>) = dev_log dev"
  "dev_pending (dev\<lparr>lock := l\<rparr>) = dev_pending dev" "dev_abs (dev\<lparr>lock := l\<rparr>) = dev_abs dev"
  by (simp_all add: dev_defs)

section \<open>The parts of aesd_write\<close>

lemma write_alloc_fields [simp]:
  "lock (write_alloc K n dev) = lock dev" "dbuffer (write_alloc K n dev) = dbuffer dev"
  "total_bytes (write_alloc K n dev) = total_bytes dev"
  "esize (dentry (write_alloc K n dev)) = esize (dentry dev)"
  by (auto simp: write_alloc_def Let_def split: option.splits)

text \<open>Replacing the open entry by a block that holds at least the same bytes.\<close>

lemma replace_open_entry:
  assumes "dev_mem dev" and "q \<noteq> 0" and "q = buffptr (dentry dev) \<or> kheap dev q = None"
    and "esize (dentry dev) \<le> length blk"
    and "take (esize (dentry dev)) blk = dev_pending dev"
  defines "dev' \<equiv> dev\<lparr>dentry := (dentry dev)\<lparr>buffptr := q\<rparr>,
      kheap := ((kheap dev)(buffptr (dentry dev) := None))(q \<mapsto> blk)\<rparr>"
  shows "dev_mem dev' \<and> dev_abs dev' = dev_abs dev"
proof -
  let ?es = "cb_contents (dbuffer dev)"
  let ?p = "buffptr (dentry dev)"
  have used: "kheap dev (buffptr e) \<noteq> None" "buffptr e \<noteq> 0" if "e \<in> set ?es" for e
    using dev_memD(3)[OF assms(1) that] by (auto simp: entry_ok_def)
  have p: "?p \<notin> buffptr ` set ?es"
  proof (cases "?p = 0")
    case True
    then show ?thesis using used(2) by fastforce
  next
    case False
    then show ?thesis using assms(1) by (simp add: dev_defs)
  qed
  have q: "q \<notin> buffptr ` set ?es"
  proof
    assume "q \<in> buffptr ` set ?es"
    then obtain e where "e \<in> set ?es" "q = buffptr e" by auto
    then show False using assms(3) p used(1)[of e] by (metis imageI)
  qed
  have log: "map (entry_bytes (((kheap dev)(?p := None))(q \<mapsto> blk))) ?es
      = map (entry_bytes (kheap dev)) ?es"
    using p q by (simp add: map_entry_bytes_upd)
  have dm: "dom (((kheap dev)(?p := None))(q \<mapsto> blk)) = insert q (buffptr ` set ?es)"
    using assms(1) p q by (simp add: dev_defs split: if_splits)
  have ok: "entry_ok (((kheap dev)(?p := None))(q \<mapsto> blk)) e" if "e \<in> set ?es" for e
  proof -
    have "buffptr e \<noteq> ?p" "buffptr e \<noteq> q" using that p q by (metis imageI)+
    then show ?thesis using dev_memD(3)[OF assms(1) that] by simp
  qed
  have fields: "open_entries dev' = [(dentry dev)\<lparr>buffptr := q\<rparr>]" "dbuffer dev' = dbuffer dev"
    "total_bytes dev' = total_bytes dev" "buffptr (dentry dev') = q"
    "kheap dev' = ((kheap dev)(?p := None))(q \<mapsto> blk)"
    using assms(2) by (simp_all add: open_entries_def dev'_def)
  have new_ok: "entry_ok (kheap dev') ((dentry dev)\<lparr>buffptr := q\<rparr>)"
    using assms(2,4) by (simp add: entry_ok_def fields)
  have "distinct (map buffptr ?es)" using assms(1) by (simp add: dev_mem_def)
  then have "dev_mem dev'"
    using dev_memD(1,2)[OF assms(1)] ok new_ok dm q assms(2)
    unfolding dev_mem_def fields by simp
  moreover have "dev_abs dev' = dev_abs dev"
    using log assms(2,5) by (simp add: dev_abs_def dev_log_def dev_pending_def dev'_def entry_bytes_def)
  ultimately show ?thesis by blast
qed

lemma write_alloc_ok:
  assumes "dev_mem dev" and "kernel_ok K" and "0 < n"
    and "buffptr (dentry (write_alloc K n dev)) \<noteq> 0"
  shows "dev_mem (write_alloc K n dev) \<and> dev_abs (write_alloc K n dev) = dev_abs dev \<and>
    (\<exists>blk. kheap (write_alloc K n dev) (buffptr (dentry (write_alloc K n dev))) = Some blk \<and>
       length blk = esize (dentry dev) + n)"
proof (cases "buffptr (dentry dev) = 0")
  case True
  then obtain q blk where qb: "kmalloc K (kheap dev) n = Some (q, blk)"
    using assms(4) by (auto simp: write_alloc_def Let_def split: option.splits)
  then have k: "q \<noteq> 0" "kheap dev q = None" "length blk = n"
    using kernel_okD(1)[OF assms(2,3) qb] by simp_all
  have upd: "(kheap dev)(0 := None) = kheap dev" using null_free[OF assms(1)] by auto
  have z: "esize (dentry dev) = 0" using dev_memD(5)[OF assms(1) True] .
  from qb True have "write_alloc K n dev = dev\<lparr>dentry := (dentry dev)\<lparr>buffptr := q\<rparr>,
      kheap := ((kheap dev)(buffptr (dentry dev) := None))(q \<mapsto> blk)\<rparr>"
    by (simp add: write_alloc_def upd)
  moreover have "dev_pending dev = []" using True by (simp add: dev_pending_def)
  ultimately show ?thesis
    using replace_open_entry[OF assms(1), of q blk] k z by simp
next
  case False
  then obtain q blk where qb:
    "krealloc K (kheap dev) (buffptr (dentry dev)) (esize (dentry dev) + n) = Some (q, blk)"
    using assms(4) by (auto simp: write_alloc_def Let_def split: option.splits)
  obtain old where old: "kheap dev (buffptr (dentry dev)) = Some old"
    "esize (dentry dev) \<le> length old"
    using dev_memD(4)[OF assms(1) False] by (auto simp: entry_ok_def)
  have k: "q \<noteq> 0" "q = buffptr (dentry dev) \<or> kheap dev q = None"
    "length blk = esize (dentry dev) + n"
    "take (length old) blk = take (esize (dentry dev) + n) old"
    using kernel_okD(2)[OF assms(2) _ old(1) qb] assms(3) by simp_all
  have "take (esize (dentry dev)) blk = take (esize (dentry dev)) (take (length old) blk)"
    using old(2) by (simp add: min_def)
  also have "\<dots> = dev_pending dev"
    using False old by (simp add: k(4) dev_pending_def entry_bytes_def min_def)
  finally have tk: "take (esize (dentry dev)) blk = dev_pending dev" .
  from qb False have "write_alloc K n dev = dev\<lparr>dentry := (dentry dev)\<lparr>buffptr := q\<rparr>,
      kheap := ((kheap dev)(buffptr (dentry dev) := None))(q \<mapsto> blk)\<rparr>"
    by (simp add: write_alloc_def Let_def)
  then show ?thesis
    using replace_open_entry[OF assms(1) k(1,2) _ tk] k(3) by simp
qed

lemma write_copy_ok:
  assumes "dev_mem dev" and "buffptr (dentry dev) \<noteq> 0"
    and "kheap dev (buffptr (dentry dev)) = Some blk"
    and "length blk = esize (dentry dev) + length data"
  obtains dev2 blk2 where "write_copy copied data dev = Some dev2"
    "dev2 = dev\<lparr>kheap := (kheap dev)(buffptr (dentry dev) \<mapsto> blk2)\<rparr>"
    "dev_mem dev2" "dev_abs dev2 = dev_abs dev"
    "length blk2 = length blk"
    "length data \<le> copied \<longrightarrow> blk2 = dev_pending dev @ data"
proof -
  define blk2 where "blk2 = take (esize (dentry dev)) blk @ take copied data
      @ drop (esize (dentry dev) + length (take copied data)) blk"
  define dev2 where "dev2 = dev\<lparr>kheap := (kheap dev)(buffptr (dentry dev) \<mapsto> blk2)\<rparr>"
  have pend: "take (esize (dentry dev)) blk = dev_pending dev"
    using assms(2,3) by (simp add: dev_pending_def entry_bytes_def)
  have len: "length blk2 = length blk"
    using assms(4) by (simp add: blk2_def)
  have "take (esize (dentry dev)) blk2 = take (esize (dentry dev)) blk"
    using assms(4) by (simp add: blk2_def)
  then have tk: "take (esize (dentry dev)) blk2 = dev_pending dev" by (simp only: pend)
  have copy: "write_copy copied data dev = Some dev2"
    using assms(3,4) by (simp add: write_copy_def store_at_def Let_def dev2_def blk2_def)
  have ok: "dev_mem dev2 \<and> dev_abs dev2 = dev_abs dev"
    using replace_open_entry[OF assms(1,2) _ _ tk] assms(4) len by (simp add: dev2_def)
  have full_copy: "length data \<le> copied \<longrightarrow> blk2 = dev_pending dev @ data"
    using assms(4) by (simp add: blk2_def pend)
  show thesis
    by (rule that[OF copy dev2_def _ _ len full_copy]) (use ok in auto)
qed

text \<open>
  Committing the open entry to a buffer with a free slot, and to a full one, whose oldest
  entry is freed.
\<close>

lemma write_commit_free_slot:
  assumes "dev_mem dev" and "buffptr (dentry dev) \<noteq> 0" and "dev_bytes dev < 2 ^ 63"
    and "\<not> full (dbuffer dev)"
  obtains dev' where "write_commit dev = Some dev'" "dev_mem dev'" "lock dev' = lock dev"
    "dev_abs dev' = (lastn MAX_OPS (dev_log dev @ [dev_pending dev]), [])"
proof -
  let ?b = "dbuffer dev" and ?e = "dentry dev" and ?es = "cb_contents (dbuffer dev)"
  note wf = dev_memD(1)[OF assms(1)]
  note short = full_contents[OF wf] wf_cbD(6)[OF wf] length_cb_contents[OF wf]
  obtain b' where b': "aesd_circular_buffer_add_entry ?b ?e = Some b'"
    by (rule add_entry_Some[OF wf])
  have con: "cb_contents b' = ?es @ [?e]"
    using add_entry_contents[OF wf b'] assms(4) short by (simp add: lastn_short)
  have "entry ?b ! in_offs ?b = null_entry" using assms(4) slot_at_in[OF wf] by simp
  moreover have "to_u64 (int (total_bytes dev) + int (esize ?e)) = cb_total ?b + esize ?e"
    using assms(3) dev_bytes_eq[OF assms(1)] dev_memD(2)[OF assms(1)]
      to_u64_of_nat[of "cb_total ?b + esize ?e"] by simp
  moreover have "in_offs ?b < length (entry ?b)" using wf_cbD(1,2)[OF wf] by simp
  moreover have "open_entries dev = [?e]" using assms(2) by (simp add: open_entries_def)
  ultimately show thesis
    using assms(1,2,4) b' add_entry_wf[OF wf b'] short
    by (intro that[of "dev\<lparr>dbuffer := b', total_bytes := cb_total ?b + esize ?e, dentry := null_entry\<rparr>"])
       (simp_all add: write_commit_def null_entry_def dev_defs con cb_total_def lastn_short)
qed

lemma evict_oldest:
  assumes "dev_mem dev" and "buffptr (dentry dev) \<noteq> 0" and old: "cb_contents (dbuffer dev) = old # rest"
    and h: "h = (kheap dev)(buffptr old := None)" and es: "es = rest @ [dentry dev]"
  shows "buffptr old \<noteq> 0" and "buffptr old \<in> dom (kheap dev)"
    and "\<forall>x\<in>set es. entry_ok h x" and "dom h = buffptr ` set es" and "distinct (map buffptr es)"
    and "map (entry_bytes h) es = map (entry_bytes (kheap dev)) es"
proof -
  have open_e: "open_entries dev = [dentry dev]" using assms(2) by (simp add: open_entries_def)
  have dist: "buffptr old \<notin> buffptr ` set es" using assms(1) by (auto simp: dev_mem_def open_e old es)
  have "entry_ok (kheap dev) old" using dev_memD(3)[OF assms(1)] old by simp
  then show "buffptr old \<noteq> 0" "buffptr old \<in> dom (kheap dev)" by (auto simp: entry_ok_def)
  show "distinct (map buffptr es)" using assms(1) by (auto simp: dev_mem_def open_e old es)
  show "dom h = buffptr ` set es" using assms(1) dist by (auto simp: dev_mem_def open_e old h es)
  show "map (entry_bytes h) es = map (entry_bytes (kheap dev)) es"
    unfolding h using dist by (intro map_entry_bytes_upd) auto
  show "\<forall>x\<in>set es. entry_ok h x"
  proof
    fix x assume x: "x \<in> set es"
    then have "buffptr x \<noteq> buffptr old" using dist by (auto simp: image_iff)
    moreover have "entry_ok (kheap dev) x"
      using x dev_memD(4)[OF assms(1,2)] dev_memD(3)[OF assms(1)] old by (auto simp: es)
    ultimately show "entry_ok h x" by (simp add: h)
  qed
qed

lemma write_commit_full:
  assumes "dev_mem dev" and "buffptr (dentry dev) \<noteq> 0" and "dev_bytes dev < 2 ^ 63"
    and "full (dbuffer dev)"
  obtains dev' where "write_commit dev = Some dev'" "dev_mem dev'" "lock dev' = lock dev"
    "dev_abs dev' = (lastn MAX_OPS (dev_log dev @ [dev_pending dev]), [])"
proof -
  let ?b = "dbuffer dev" and ?e = "dentry dev"
  note wf = dev_memD(1)[OF assms(1)]
  obtain b' where b': "aesd_circular_buffer_add_entry ?b ?e = Some b'"
    by (rule add_entry_Some[OF wf])
  obtain old rest where old: "cb_contents ?b = old # rest" "length rest = 9"
    using full_contents[OF wf] assms(4) by (cases "cb_contents ?b") auto
  define h where "h = (kheap dev)(buffptr old := None)"
  note ev = evict_oldest[OF assms(1,2) old(1) h_def refl]
  have con: "cb_contents b' = rest @ [?e]"
    using add_entry_contents[OF wf b'] old by (simp add: lastn_def)
  have slot: "entry ?b ! in_offs ?b = old" using slot_at_in[OF wf] assms(4) old(1) by simp
  have total: "to_u64 (int (to_u64 (int (total_bytes dev) - int (esize old))) + int (esize ?e))
      = sum_list (map esize rest) + esize ?e"
    using assms(3) dev_bytes_eq[OF assms(1)] dev_memD(2)[OF assms(1)] old(1)
      to_u64_of_nat[of "sum_list (map esize rest)"] to_u64_of_nat[of "sum_list (map esize rest) + esize ?e"]
    by (simp add: cb_total_def)
  let ?dev' = "dev\<lparr>kheap := h, total_bytes := sum_list (map esize rest) + esize ?e,
          dbuffer := b', dentry := null_entry\<rparr>"
  have "in_offs ?b < length (entry ?b)" using wf_cbD(1,2)[OF wf] by simp
  then have "write_commit dev = Some ?dev'"
    using slot ev(1,2) b' total by (simp add: write_commit_def kfree_def h_def)
  moreover have "dev_mem ?dev'"
    unfolding dev_mem_def using add_entry_wf[OF wf b'] con ev(3,4,5)
    by (auto simp: open_entries_def null_entry_def cb_total_def)
  moreover have "dev_log ?dev' = map (entry_bytes (kheap dev)) rest @ [dev_pending dev]"
    using ev(6) assms(2) by (simp add: dev_log_def con dev_pending_def)
  then have "dev_abs ?dev' = (lastn MAX_OPS (dev_log dev @ [dev_pending dev]), [])"
    using old(2) by (simp add: dev_abs_def dev_log_def old(1) lastn_def)
      (simp add: dev_pending_def null_entry_def)
  ultimately show thesis by (intro that[of ?dev']) simp_all
qed

lemma write_commit_ok:
  assumes "dev_mem dev" and "buffptr (dentry dev) \<noteq> 0" and "dev_bytes dev < 2 ^ 63"
  obtains dev' where "write_commit dev = Some dev'" "dev_mem dev'" "lock dev' = lock dev"
    "dev_abs dev' = (lastn MAX_OPS (dev_log dev @ [dev_pending dev]), [])"
  using write_commit_free_slot[OF assms] write_commit_full[OF assms] by blast

section \<open>aesd_write as a whole\<close>

lemma log_ends:
  assumes "\<forall>bs \<in> set log. newline \<in> set bs" and "newline \<in> set bs'"
  shows "\<forall>bs \<in> set (lastn n (log @ [bs'])). newline \<in> set bs"
  using assms set_lastn[of n "log @ [bs']"] by auto

lemma write_alloc_fail:
  assumes "dev_mem dev" and "kernel_ok K" and "0 < n"
    and "buffptr (dentry (write_alloc K n dev)) = 0"
  shows "kheap (write_alloc K n dev) = kheap dev"
proof (cases "buffptr (dentry dev) = 0")
  case True
  then show ?thesis
    using assms(4) kernel_okD(1)[OF assms(2,3), of "kheap dev" 0]
    by (auto simp: write_alloc_def Let_def split: option.splits)
next
  case False
  then obtain old where "kheap dev (buffptr (dentry dev)) = Some old"
    using dev_memD(4)[OF assms(1)] by (auto simp: entry_ok_def)
  from kernel_okD(2)[where h = "kheap dev", OF assms(2) _ this, of "esize (dentry dev) + n"] False assms(3,4)
  show ?thesis by (auto simp: write_alloc_def Let_def split: option.splits)
qed

lemma write_finish_ok:
  assumes mem: "dev_mem dev" and "lock dev"
    and blk: "kheap dev (buffptr (dentry dev)) = Some (dev_pending dev @ data)"
    and "buffptr (dentry dev) \<noteq> 0" and small: "dev_bytes dev + length data < 2 ^ 63"
    and ends: "\<forall>bs \<in> set (dev_log dev). newline \<in> set bs"
  obtains dev' where "write_finish (length data) dev = Some (Inr (length data), dev')"
    "dev_inv dev'" "dev_abs dev' = log_write data (dev_abs dev)"
proof -
  have sz: "esize (dentry dev) + length data < 2 ^ 63"
    using small dev_bytes_eq[OF mem] by simp
  then have conv: "to_u64 (int (esize (dentry dev)) + int (length data))
      = esize (dentry dev) + length data"
    using to_u64_of_nat[of "esize (dentry dev) + length data"] by simp
  define dev3 where "dev3 = dev\<lparr>dentry := (dentry dev)
      \<lparr>esize := esize (dentry dev) + length data\<rparr>\<rparr>"
  have h3: "kheap dev3 (buffptr (dentry dev3)) = Some (dev_pending dev @ data)"
    "buffptr (dentry dev3) \<noteq> 0" "esize (dentry dev3) = length (dev_pending dev @ data)"
    using blk assms(4) length_pending[OF mem] by (simp_all add: dev3_def)
  have mem3: "dev_mem dev3"
    using mem h3 assms(4) by (auto simp: dev_mem_def dev3_def open_entries_def entry_ok_def)
  have log3: "dev_log dev3 = dev_log dev" by (simp add: dev_log_def dev3_def)
  have pend3: "dev_pending dev3 = dev_pending dev @ data"
    using h3 by (simp add: dev_pending_def entry_bytes_def)
  have lock3: "lock dev3" using assms(2) by (simp add: dev3_def)
  have step: "write_finish (length data) dev =
    Option.bind (if newline \<in> set (dev_pending dev @ data) then write_commit dev3 else Some dev3)
       (\<lambda>dev4. map_option (Pair (Inr (length data))) (mutex_unlock dev4))"
    using h3 by (simp add: write_finish_def conv dev3_def[symmetric] load_at_def)
  show thesis
  proof (cases "newline \<in> set (dev_pending dev @ data)")
    case False
    have "dev_inv (dev3\<lparr>lock := False\<rparr>)" "dev_abs (dev3\<lparr>lock := False\<rparr>) = log_write data (dev_abs dev)"
      using mem3 log3 pend3 False ends by (simp_all add: dev_inv_def dev_abs_def log_write_def)
    with step False lock3 show thesis
      by (intro that[of "dev3\<lparr>lock := False\<rparr>"]) (simp_all add: mutex_unlock_def)
  next
    case True
    have "dev_bytes dev3 < 2 ^ 63"
      using small by (simp add: dev_bytes_def log3 pend3)
    then obtain dev4 where dev4: "write_commit dev3 = Some dev4" "dev_mem dev4"
      "lock dev4 = lock dev3"
      "dev_abs dev4 = (lastn MAX_OPS (dev_log dev3 @ [dev_pending dev3]), [])"
      by (rule write_commit_ok[OF mem3 h3(2)])
    have "dev_abs (dev4\<lparr>lock := False\<rparr>) = log_write data (dev_abs dev)"
      using dev4(4) True log3 pend3 by (simp add: dev_abs_def log_write_def)
    moreover have "dev_inv (dev4\<lparr>lock := False\<rparr>)"
      using dev4(2,4) log_ends[OF ends True, of MAX_OPS] log3 pend3
      by (simp add: dev_inv_def dev_abs_def)
    ultimately show thesis
      using step True dev4(1,3) lock3
      by (intro that[of "dev4\<lparr>lock := False\<rparr>"]) (simp_all add: mutex_unlock_def)
  qed
qed

lemma write_after_alloc:
  assumes mem: "dev_mem dev1" "lock dev1" "buffptr (dentry dev1) \<noteq> 0"
    and blk: "kheap dev1 (buffptr (dentry dev1)) = Some blk" "length blk = esize (dentry dev1) + length data"
    and small: "dev_bytes dev1 + length data < 2 ^ 63"
    and ends: "\<forall>bs \<in> set (dev_log dev1). newline \<in> set bs" "newline \<notin> set (dev_pending dev1)"
  obtains dev' where
    "Option.bind (write_copy copied data dev1) (\<lambda>dev2.
       if copied < length data then map_option (Pair (Inl EFAULT)) (mutex_unlock dev2)
       else write_finish (length data) dev2)
     = Some (if copied < length data then Inl EFAULT else Inr (length data), dev')"
    "dev_inv dev'"
    "dev_abs dev' = (if copied < length data then dev_abs dev1 else log_write data (dev_abs dev1))"
proof -
  obtain dev2 blk2 where dev2: "write_copy copied data dev1 = Some dev2"
    "dev2 = dev1\<lparr>kheap := (kheap dev1)(buffptr (dentry dev1) \<mapsto> blk2)\<rparr>"
    "dev_mem dev2" "dev_abs dev2 = dev_abs dev1" "length blk2 = length blk"
    "length data \<le> copied \<longrightarrow> blk2 = dev_pending dev1 @ data"
    by (rule write_copy_ok[OF mem(1,3) blk, where copied = copied])
  have lock2: "lock dev2" using mem(2) by (simp add: dev2(2))
  have abs2: "dev_log dev2 = dev_log dev1" "dev_pending dev2 = dev_pending dev1"
    using dev2(4) by (simp_all add: dev_abs_def)
  show thesis
  proof (cases "copied < length data")
    case True
    have "dev_inv (dev2\<lparr>lock := False\<rparr>)" "dev_abs (dev2\<lparr>lock := False\<rparr>) = dev_abs dev1"
      using ends dev2(3) abs2 by (simp_all add: dev_inv_def dev_abs_def)
    with True dev2(1) lock2 show thesis
      by (intro that[of "dev2\<lparr>lock := False\<rparr>"]) (simp_all add: mutex_unlock_def)
  next
    case False
    have "kheap dev2 (buffptr (dentry dev2)) = Some (dev_pending dev2 @ data)"
      "buffptr (dentry dev2) \<noteq> 0"
      using dev2(6) False abs2 mem(3) by (simp_all add: dev2(2))
    moreover have "dev_bytes dev2 + length data < 2 ^ 63"
      using small by (simp add: dev_bytes_def abs2)
    moreover have "\<forall>bs \<in> set (dev_log dev2). newline \<in> set bs" using ends(1) by (simp add: abs2)
    ultimately obtain dev' where "write_finish (length data) dev2 = Some (Inr (length data), dev')"
      "dev_inv dev'" "dev_abs dev' = log_write data (dev_abs dev2)"
      by (rule write_finish_ok[OF dev2(3) lock2])
    with False dev2(1,4) show thesis by (intro that[of dev']) simp_all
  qed
qed

lemma aesd_write_cases:
  assumes inv: "dev_inv dev" and K: "kernel_ok K" and data: "data \<noteq> []"
    and small: "dev_bytes dev + length data < 2 ^ 63"
  obtains
    (enomem) dev' where
      "aesd_write K False copied data dev = Some (Inl ENOMEM, dev')"
      "dev_log dev' = dev_log dev" "buffptr (dentry dev') = 0"
      "esize (dentry dev') = esize (dentry dev)" "kheap dev' = kheap dev" "\<not> lock dev'"
      "buffptr (dentry (write_alloc K (length data) (dev\<lparr>lock := True\<rparr>))) = 0"
  | (efault) dev' where
      "aesd_write K False copied data dev = Some (Inl EFAULT, dev')"
      "copied < length data" "dev_inv dev'" "dev_abs dev' = dev_abs dev"
  | (written) dev' where
      "aesd_write K False copied data dev = Some (Inr (length data), dev')"
      "length data \<le> copied" "dev_inv dev'" "dev_abs dev' = log_write data (dev_abs dev)"
proof -
  define dev0 where "dev0 = dev\<lparr>lock := True\<rparr>"
  define dev1 where "dev1 = write_alloc K (length data) dev0"
  have dev0: "dev_mem dev0" "dev_abs dev0 = dev_abs dev" "lock dev0"
    "mutex_lock_interruptible False dev = Some (True, dev0)"
    using inv by (simp_all add: dev_inv_def dev0_def mutex_lock_interruptible_def)
  have lock1: "lock dev1" using dev0(3) by (simp add: dev1_def)
  show thesis
  proof (cases "buffptr (dentry dev1) = 0")
    case True
    have "kheap dev1 = kheap dev0"
      using write_alloc_fail[OF dev0(1) K, of "length data"] data True by (simp add: dev1_def)
    then show thesis
      using True dev0(4) lock1
      by (intro enomem[of "dev1\<lparr>lock := False\<rparr>"])
         (simp_all add: aesd_write_def dev1_def[symmetric] mutex_unlock_def dev_log_def,
          simp_all add: dev1_def dev0_def)
  next
    case False
    obtain blk where dev1: "dev_mem dev1" "dev_abs dev1 = dev_abs dev"
      "kheap dev1 (buffptr (dentry dev1)) = Some blk"
      "length blk = esize (dentry dev1) + length data"
      using write_alloc_ok[OF dev0(1) K, of "length data"] False data dev0(2)
      by (auto simp: dev1_def)
    have logs: "dev_log dev1 = dev_log dev" "dev_pending dev1 = dev_pending dev"
      using dev1(2) by (simp_all add: dev_abs_def)
    have small1: "dev_bytes dev1 + length data < 2 ^ 63"
      using small by (simp add: dev_bytes_def logs)
    have ends1: "\<forall>bs \<in> set (dev_log dev1). newline \<in> set bs" "newline \<notin> set (dev_pending dev1)"
      using inv by (simp_all add: dev_inv_def logs)
    obtain dev' where dev': "Option.bind (write_copy copied data dev1) (\<lambda>dev2.
       if copied < length data then map_option (Pair (Inl EFAULT)) (mutex_unlock dev2)
       else write_finish (length data) dev2)
     = Some (if copied < length data then Inl EFAULT else Inr (length data), dev')" "dev_inv dev'"
      "dev_abs dev' = (if copied < length data then dev_abs dev1 else log_write data (dev_abs dev1))"
      by (rule write_after_alloc[OF dev1(1) lock1 False dev1(3,4) small1 ends1])
    then have "aesd_write K False copied data dev
      = Some (if copied < length data then Inl EFAULT else Inr (length data), dev')"
      using dev0(4) False by (simp add: aesd_write_def dev1_def[symmetric] Let_def)
    with dev'(2,3) dev1(2) show thesis
      by (cases "copied < length data") (auto intro: efault written)
  qed
qed

text \<open>
  With any allocator a complete write is defined; when it does not report an error, it has
  appended the data.
\<close>

lemma aesd_write_defined:
  assumes "dev_inv dev" and "kernel_ok K" and "data \<noteq> []"
    and "dev_bytes dev + length data < 2 ^ 63"
  shows "\<exists>r dev'. aesd_write K False (length data) data dev = Some (r, dev') \<and>
    (\<forall>n. r = Inr n \<longrightarrow> n = length data \<and> dev_inv dev' \<and> dev_abs dev' = log_write data (dev_abs dev))"
  by (rule aesd_write_cases[OF assms, of "length data"]) auto

section \<open>Reading and seeking\<close>

lemma lock_unlock:
  assumes "\<not> lock dev"
  shows "mutex_lock_interruptible False dev = Some (True, dev\<lparr>lock := True\<rparr>)"
    and "mutex_unlock (dev\<lparr>lock := True\<rparr>) = Some dev"
  using assms by (simp_all add: mutex_lock_interruptible_def mutex_unlock_def)

lemma locked_blocks:
  assumes "lock dev"
  shows "mutex_lock_interruptible False dev = None"
  using assms by (simp add: mutex_lock_interruptible_def)

lemma find_in_log:
  assumes "dev_inv dev" and "length (concat (dev_log dev)) < 2 ^ 31"
  shows "length (concat (dev_log dev)) \<le> off \<Longrightarrow>
      aesd_circular_buffer_find_entry_offset_for_fpos (dbuffer dev) off = Some None"
    and "off < length (concat (dev_log dev)) \<Longrightarrow>
      \<exists>i r blk. aesd_circular_buffer_find_entry_offset_for_fpos (dbuffer dev) off = Some (Some (i, r))
        \<and> kheap dev (buffptr (entry (dbuffer dev) ! i)) = Some blk
        \<and> esize (entry (dbuffer dev) ! i) \<le> length blk \<and> r < esize (entry (dbuffer dev) ! i)
        \<and> esize (entry (dbuffer dev) ! i) < 2 ^ 31
        \<and> (\<exists>rest. drop off (concat (dev_log dev))
              = take (esize (entry (dbuffer dev) ! i) - r) (drop r blk) @ rest)"
proof -
  have mem: "dev_mem dev" using assms(1) by (simp add: dev_inv_def)
  note wf = dev_memD(1)[OF mem]
  have tot: "sum_list (map esize (cb_contents (dbuffer dev))) = length (concat (dev_log dev))"
    using cb_total_log[OF mem] by (simp add: cb_total_def)
  {
    assume "length (concat (dev_log dev)) \<le> off"
    then show "aesd_circular_buffer_find_entry_offset_for_fpos (dbuffer dev) off = Some None"
      using cb.find_miss[OF wf] assms(2) by (simp add: tot)
  }
  assume off: "off < length (concat (dev_log dev))"
  have len: "\<forall>e \<in> set (cb_contents (dbuffer dev)). length (entry_bytes (kheap dev) e) = esize e"
    using dev_memD(3)[OF mem] by (simp add: length_entry_bytes)
  have b1: "sum_list (map esize (cb_contents (dbuffer dev))) < 2 ^ 31"
    using assms(2) by (simp only: tot)
  have b2: "off < sum_list (map esize (cb_contents (dbuffer dev)))"
    using off by (simp only: tot)
  obtain i r rest where found:
    "aesd_circular_buffer_find_entry_offset_for_fpos (dbuffer dev) off = Some (Some (i, r))"
    "entry (dbuffer dev) ! i \<in> set (cb_contents (dbuffer dev))" "r < esize (entry (dbuffer dev) ! i)"
    "drop off (concat (map (entry_bytes (kheap dev)) (cb_contents (dbuffer dev))))
      = drop r (entry_bytes (kheap dev) (entry (dbuffer dev) ! i)) @ rest"
    by (rule cb.find_bytes[OF wf b1 b2 len])
  obtain blk where blk: "kheap dev (buffptr (entry (dbuffer dev) ! i)) = Some blk"
    "esize (entry (dbuffer dev) ! i) \<le> length blk"
    using dev_memD(3)[OF mem found(2)] by (auto simp: entry_ok_def)
  have "esize (entry (dbuffer dev) ! i) \<le> sum_list (map esize (cb_contents (dbuffer dev)))"
    using found(2) by (intro member_le_sum_list) auto
  then have "esize (entry (dbuffer dev) ! i) < 2 ^ 31" using assms(2) by (simp add: tot)
  moreover have "drop off (concat (dev_log dev))
      = take (esize (entry (dbuffer dev) ! i) - r) (drop r blk) @ rest"
    using found(4) blk(1) by (simp add: dev_log_def entry_bytes_def drop_take)
  ultimately show "\<exists>i r blk. aesd_circular_buffer_find_entry_offset_for_fpos (dbuffer dev) off
        = Some (Some (i, r))
        \<and> kheap dev (buffptr (entry (dbuffer dev) ! i)) = Some blk
        \<and> esize (entry (dbuffer dev) ! i) \<le> length blk \<and> r < esize (entry (dbuffer dev) ! i)
        \<and> esize (entry (dbuffer dev) ! i) < 2 ^ 31
        \<and> (\<exists>rest. drop off (concat (dev_log dev))
              = take (esize (entry (dbuffer dev) ! i) - r) (drop r blk) @ rest)"
    using found(1,3) blk by blast
qed

lemma aesd_read_end:
  assumes "dev_inv dev" and "length (concat (dev_log dev)) < 2 ^ 31"
    and "0 \<le> pos" and "pos < 2 ^ 63" and "length (concat (dev_log dev)) \<le> nat pos"
  shows "aesd_read False fault count pos dev = Some (Inl EFAULT, pos, dev)"
proof -
  have "\<not> lock dev" using assms(1) by (simp add: dev_inv_def)
  moreover have "to_u64 pos = nat pos" using assms(3,4) by (intro to_u64_id) auto
  ultimately show ?thesis
    using find_in_log(1)[OF assms(1,2,5)] lock_unlock[of dev] by (simp add: aesd_read_def)
qed

lemma aesd_read_data:
  assumes "dev_inv dev" and "length (concat (dev_log dev)) < 2 ^ 31"
    and "0 \<le> pos" and "nat pos < length (concat (dev_log dev))" and "count < 2 ^ 31"
  obtains n where "aesd_read False False count pos dev
      = Some (Inr (take n (drop (nat pos) (concat (dev_log dev)))), pos + int n, dev)"
    "n \<le> count" "0 < count \<Longrightarrow> 0 < n" "nat pos + n \<le> length (concat (dev_log dev))"
proof -
  have lk: "\<not> lock dev" using assms(1) by (simp add: dev_inv_def)
  have p: "to_u64 pos = nat pos" using assms(2,3,4) by (intro to_u64_id) auto
  obtain i r blk rest where f:
    "aesd_circular_buffer_find_entry_offset_for_fpos (dbuffer dev) (nat pos) = Some (Some (i, r))"
    "kheap dev (buffptr (entry (dbuffer dev) ! i)) = Some blk"
    "esize (entry (dbuffer dev) ! i) \<le> length blk" "r < esize (entry (dbuffer dev) ! i)"
    "esize (entry (dbuffer dev) ! i) < 2 ^ 31"
    "drop (nat pos) (concat (dev_log dev))
       = take (esize (entry (dbuffer dev) ! i) - r) (drop r blk) @ rest"
    using find_in_log(2)[OF assms(1,2,4)] by blast
  let ?avail = "esize (entry (dbuffer dev) ! i) - r"
  define n where "n = min ?avail count"
  have conv: "to_s32 (int count) = int count"
    "to_s32 (int (esize (entry (dbuffer dev) ! i)) - int r) = int ?avail"
    "to_u64 (int count) = count" "to_u64 (int ?avail) = ?avail"
    using f(4,5) assms(5) to_s32_of_nat[of count] to_s32_of_nat[of ?avail] to_u64_of_nat[of count]
      to_u64_of_nat[of ?avail]
    by (simp_all add: of_nat_diff)
  have "n \<le> length (take ?avail (drop r blk))"
    using f(3,4) by (simp add: n_def)
  then have bytes: "take n (drop r blk) = take n (drop (nat pos) (concat (dev_log dev)))"
    by (simp add: f(6))
  have "r + n \<le> length blk" using f(3,4) by (simp add: n_def)
  then have "load_at (buffptr (entry (dbuffer dev) ! i)) r n (kheap dev) = Some (take n (drop r blk))"
    using f(2) by (simp add: load_at_def)
  moreover have cmp: "(int count < int (esize (entry (dbuffer dev) ! i)) - int r) = (count < ?avail)"
    using f(4) by linarith
  ultimately have "aesd_read False False count pos dev
      = Some (Inr (take n (drop (nat pos) (concat (dev_log dev)))), pos + int n, dev)"
    using lock_unlock[OF lk] f(1) bytes cmp
    by (cases "count < ?avail") (simp_all add: aesd_read_def p conv n_def Let_def)
  moreover have "nat pos + n \<le> length (concat (dev_log dev))"
  proof -
    have "n \<le> length (drop (nat pos) (concat (dev_log dev)))"
      using f(3,4) by (simp add: f(6) n_def)
    then show ?thesis using assms(4) by simp
  qed
  ultimately show thesis using f(4) by (intro that[of n]) (simp_all add: n_def)
qed

lemma aesd_llseek_valid:
  assumes "dev_inv dev" and "length (concat (dev_log dev)) < 2 ^ 31"
    and "seek_target off whence pos dev = Some t" and "- (2 ^ 63) \<le> t" and "t < 2 ^ 63"
  shows "aesd_llseek False off whence pos dev =
    (if 0 \<le> t \<and> nat t < length (concat (dev_log dev)) then Some (Inr t, t, dev)
     else Some (Inl EINVAL, pos, dev))"
proof -
  have lk: "\<not> lock dev" using assms(1) by (simp add: dev_inv_def)
  have tgt: "seek_target off whence pos (dev\<lparr>lock := True\<rparr>) = Some t"
    using assms(3) by (simp add: seek_target_def split: if_splits)
  have u: "0 \<le> t \<Longrightarrow> to_u64 t = nat t" "t < 0 \<Longrightarrow> length (concat (dev_log dev)) \<le> to_u64 t"
    using assms(2,4,5) to_u64_id[of t] to_u64_neg[of t] by auto
  show ?thesis
  proof (cases "0 \<le> t \<and> nat t < length (concat (dev_log dev))")
    case True
    then obtain x where "aesd_circular_buffer_find_entry_offset_for_fpos (dbuffer dev) (to_u64 t)
        = Some (Some x)"
      using find_in_log(2)[OF assms(1,2), of "nat t"] u(1) by auto
    then show ?thesis
      using True lock_unlock[OF lk] tgt by (simp add: aesd_llseek_def)
  next
    case False
    then have "aesd_circular_buffer_find_entry_offset_for_fpos (dbuffer dev) (to_u64 t) = Some None"
      using find_in_log(1)[OF assms(1,2), of "to_u64 t"] u by (cases "0 \<le> t") auto
    then show ?thesis
      using False lock_unlock[OF lk] tgt by (auto simp: aesd_llseek_def)
  qed
qed

section \<open>The seek ioctl\<close>

lemma ioctl_numbers:
  "AESDCHAR_IOCSEEKTO = 0xC0081601" "IOC_TYPE AESDCHAR_IOCSEEKTO = AESD_IOC_MAGIC"
  "IOC_NR AESDCHAR_IOCSEEKTO = AESDCHAR_IOC_MAXNR"
  by (simp_all add: AESDCHAR_IOCSEEKTO_def AESD_IOC_MAGIC_def IOC_TYPE_def IOC_NR_def
      AESDCHAR_IOC_MAXNR_def)

lemma foldl_s32_sum:
  "n + sum_list (map esize es) < 2 ^ 31 \<Longrightarrow>
     foldl (\<lambda>p e. to_s32 (p + int (esize e))) (int n) es = int (n + sum_list (map esize es))"
proof (induction es arbitrary: n)
  case Nil
  then show ?case by simp
next
  case (Cons e es)
  then have "to_s32 (int n + int (esize e)) = int (n + esize e)"
    using to_s32_of_nat[of "n + esize e"] by simp
  with Cons.IH[of "n + esize e"] Cons.prems show ?case by (simp add: add.assoc)
qed

text \<open>The ioctl on slots, wrapped or not: it never moves the position out of the log.\<close>

lemma seekto_pos_slots:
  assumes "dev_mem dev" and "length (concat (dev_log dev)) < 2 ^ 31"
    and "write_cmd st < MAX_OPS" and "write_cmd_offset st < esize (entry (dbuffer dev) ! write_cmd st)"
  shows "seekto_pos (dbuffer dev) st
      = int (sum_list (map esize (take (write_cmd st) (entry (dbuffer dev)))) + write_cmd_offset st)"
    and "sum_list (map esize (take (write_cmd st) (entry (dbuffer dev)))) + write_cmd_offset st
      < length (concat (dev_log dev))"
proof -
  let ?es = "entry (dbuffer dev)" and ?c = "write_cmd st"
  note wf = dev_memD(1)[OF assms(1)]
  have "?es = take ?c ?es @ ?es ! ?c # drop (Suc ?c) ?es"
    using assms(3) wf_cbD(1)[OF wf] by (simp add: id_take_nth_drop)
  then have "sum_list (map esize ?es) = sum_list (map esize (take ?c ?es)) + (esize (?es ! ?c)
      + sum_list (map esize (drop (Suc ?c) ?es)))"
    by (metis list.simps(9) map_append sum_list.Cons sum_list.append)
  then show fit: "sum_list (map esize (take ?c ?es)) + write_cmd_offset st < length (concat (dev_log dev))"
    using assms(4) sizes_ring[OF wf] cb_total_log[OF assms(1)] by (simp del: length_concat)
  then show "seekto_pos (dbuffer dev) st
      = int (sum_list (map esize (take (write_cmd st) (entry (dbuffer dev)))) + write_cmd_offset st)"
    using foldl_s32_sum[of 0 "take ?c ?es"] assms(2)
    by (simp add: seekto_pos_def to_u32_id nat_add_distrib del: length_concat)
qed

lemma aesd_ioctl_slots:
  assumes "dev_inv dev" and "length (concat (dev_log dev)) < 2 ^ 31"
  shows "aesd_ioctl False AESDCHAR_IOCSEEKTO (Some st) pos dev =
    (if write_cmd st < MAX_OPS \<and> write_cmd_offset st < esize (entry (dbuffer dev) ! write_cmd st)
     then Some (Inr (), int (sum_list (map esize (take (write_cmd st) (entry (dbuffer dev))))
         + write_cmd_offset st), dev)
     else Some (Inl EINVAL, pos, dev))"
proof -
  have mem: "dev_mem dev" and lk: "\<not> lock dev" using assms(1) by (simp_all add: dev_inv_def)
  have "length (entry (dbuffer dev)) = MAX_OPS" using wf_cbD(1)[OF dev_memD(1)[OF mem]] .
  then show ?thesis
    using lock_unlock[OF lk] seekto_pos_slots(1)[OF mem assms(2), of st]
    by (auto simp: aesd_ioctl_def ioctl_numbers(2,3))
qed

text \<open>Before the buffer has wrapped, slot numbers are entry numbers.\<close>

lemma unwrapped_entries:
  assumes "wf_cb b" and "out_offs b = 0"
  shows "entry b = cb_contents b @ replicate (MAX_OPS - cb_count b) null_entry"
  using ring_split[OF assms(1)] assms(2) by (simp add: cb_ring_def)

lemma seekto_pos_unwrapped:
  assumes "dev_mem dev" and "out_offs (dbuffer dev) = 0"
    and "length (concat (dev_log dev)) < 2 ^ 31"
    and "write_cmd st < length (dev_log dev)"
    and "write_cmd_offset st < length (dev_log dev ! write_cmd st)"
  shows "seekto_pos (dbuffer dev) st
    = int (length (concat (take (write_cmd st) (dev_log dev))) + write_cmd_offset st)"
proof -
  let ?es = "cb_contents (dbuffer dev)"
  note wf = dev_memD(1)[OF assms(1)]
  have sizes: "map length (dev_log dev) = map esize ?es"
    using dev_memD(3)[OF assms(1)] by (auto simp: dev_log_def length_entry_bytes)
  have "sum_list (map esize (take (write_cmd st) ?es)) = length (concat (take (write_cmd st) (dev_log dev)))"
    by (metis length_concat sizes take_map)
  moreover have "take (write_cmd st) (entry (dbuffer dev)) = take (write_cmd st) ?es"
    using unwrapped_entries[OF wf assms(2)] assms(4) by (simp add: dev_log_def)
  moreover have fit: "length (concat (take (write_cmd st) (dev_log dev))) + write_cmd_offset st
      < length (concat (dev_log dev))"
  proof -
    have "length (concat (dev_log dev)) = length (concat (take (write_cmd st) (dev_log dev)))
        + length (dev_log dev ! write_cmd st) + length (concat (drop (Suc (write_cmd st)) (dev_log dev)))"
      by (metis add.assoc assms(4) concat.simps(2) concat_append id_take_nth_drop length_append)
    with assms(5) show ?thesis by simp
  qed
  ultimately show ?thesis
    using foldl_s32_sum[of 0 "take (write_cmd st) ?es"] assms(3)
    by (simp add: seekto_pos_def to_u32_id nat_add_distrib del: length_concat)
qed

lemma aesd_ioctl_unwrapped:
  assumes "dev_inv dev" and "out_offs (dbuffer dev) = 0"
    and "length (concat (dev_log dev)) < 2 ^ 31"
  shows "aesd_ioctl False AESDCHAR_IOCSEEKTO (Some st) pos dev =
    (if write_cmd st < length (dev_log dev) \<and> write_cmd_offset st < length (dev_log dev ! write_cmd st)
     then Some (Inr (), int (length (concat (take (write_cmd st) (dev_log dev))) + write_cmd_offset st), dev)
     else Some (Inl EINVAL, pos, dev))"
proof -
  have mem: "dev_mem dev" and lk: "\<not> lock dev" using assms(1) by (simp_all add: dev_inv_def)
  note wf = dev_memD(1)[OF mem]
  note ent = unwrapped_entries[OF wf assms(2)]
  have len: "length (dev_log dev) = cb_count (dbuffer dev)"
    by (simp add: dev_log_def length_cb_contents[OF wf])
  have size_in: "esize (entry (dbuffer dev) ! write_cmd st) = length (dev_log dev ! write_cmd st)"
    if "write_cmd st < length (dev_log dev)"
    using that dev_memD(3)[OF mem] ent
    by (simp add: dev_log_def nth_append length_entry_bytes)
  have size_out: "esize (entry (dbuffer dev) ! write_cmd st) = 0"
    if "\<not> write_cmd st < length (dev_log dev)" "write_cmd st < MAX_OPS"
    using that ent len wf_cbD(6)[OF wf]
    by (simp add: dev_log_def nth_append null_entry_def length_cb_contents[OF wf])
  have magic: "\<not> IOC_TYPE AESDCHAR_IOCSEEKTO \<noteq> AESD_IOC_MAGIC"
    "\<not> AESDCHAR_IOC_MAXNR < IOC_NR AESDCHAR_IOCSEEKTO"
    by (simp_all add: ioctl_numbers(2,3))
  have known: "length (entry (dbuffer dev)) = MAX_OPS" "length (dev_log dev) \<le> MAX_OPS"
    using wf_cbD(1,6)[OF wf] len by simp_all
  show ?thesis
  proof (cases "write_cmd st < length (dev_log dev)")
    case True
    with known have "write_cmd st < MAX_OPS" by simp
    then show ?thesis
      using True magic known lock_unlock[OF lk] size_in[OF True]
        seekto_pos_unwrapped[OF mem assms(2,3), of st]
      by (simp add: aesd_ioctl_def del: length_concat)
  next
    case False
    then show ?thesis
      using magic known lock_unlock[OF lk] size_out
      by (simp add: aesd_ioctl_def)
  qed
qed

lemma zero_dev_inv:
  "kheap dev = Map.empty \<Longrightarrow> dev_inv (zero_dev dev) \<and> dev_abs (zero_dev dev) = ([], [])"
  by (simp add: dev_inv_def dev_defs zero_dev_def cb_zero_facts cb_total_def null_entry_def)

section \<open>The device as its clients see it\<close>

text \<open>
  A device with an append-only log of commands: what a write that reports no error does to
  the log, what a read at a position returns, and that neither is undefined while no write has
  failed. \<open>limit\<close> bounds
  the bytes for which the laws hold. The program that serves the log over a socket uses
  the device only through these laws.
\<close>

locale log_device =
  fixes env_ok :: "'k \<Rightarrow> bool"
    and invar :: "'d \<Rightarrow> bool"
    and abs :: "'d \<Rightarrow> log_state"
    and dwrite :: "'k \<Rightarrow> byte list \<Rightarrow> 'd \<Rightarrow> ((errno + nat) \<times> 'd) option"
    and dread :: "nat \<Rightarrow> int \<Rightarrow> 'd \<Rightarrow> ((errno + byte list) \<times> int \<times> 'd) option"
    and limit :: nat
  assumes write_log: "env_ok k \<Longrightarrow> invar d \<Longrightarrow> data \<noteq> [] \<Longrightarrow>
      length (concat (fst (abs d))) + length (snd (abs d)) + length data < limit \<Longrightarrow>
      \<exists>r d'. dwrite k data d = Some (r, d') \<and>
        (\<forall>n. r = Inr n \<longrightarrow> n = length data \<and> invar d' \<and> abs d' = log_write data (abs d))"
    and read_data: "invar d \<Longrightarrow> length (concat (fst (abs d))) < limit \<Longrightarrow>
      pos < length (concat (fst (abs d))) \<Longrightarrow> 0 < count \<Longrightarrow> count < limit \<Longrightarrow>
      \<exists>n. dread count (int pos) d
          = Some (Inr (take n (drop pos (concat (fst (abs d))))), int (pos + n), d)
        \<and> 0 < n \<and> pos + n \<le> length (concat (fst (abs d)))"
    and read_end: "invar d \<Longrightarrow> length (concat (fst (abs d))) < limit \<Longrightarrow>
      length (concat (fst (abs d))) \<le> pos \<Longrightarrow> pos < limit \<Longrightarrow>
      \<exists>e. dread count (int pos) d = Some (Inl e, int pos, d)"

interpretation aesd: log_device kernel_ok dev_inv dev_abs
  "\<lambda>K data dev. aesd_write K False (length data) data dev"
  "\<lambda>count pos dev. aesd_read False False count pos dev" "2 ^ 31"
proof unfold_locales
  fix K d and data :: "byte list"
  assume a: "kernel_ok K" "dev_inv d" "data \<noteq> []"
    "length (concat (fst (dev_abs d))) + length (snd (dev_abs d)) + length data < 2 ^ 31"
  then have "dev_bytes d + length data < 2 ^ 63"
    by (simp add: dev_bytes_def dev_abs_def)
  then show "\<exists>r d'. aesd_write K False (length data) data d = Some (r, d') \<and>
      (\<forall>n. r = Inr n \<longrightarrow> n = length data \<and> dev_inv d' \<and> dev_abs d' = log_write data (dev_abs d))"
    by (rule aesd_write_defined[OF a(2,1,3)])
next
  fix d pos and count :: nat
  assume a: "dev_inv d" "length (concat (fst (dev_abs d))) < 2 ^ 31"
    "pos < length (concat (fst (dev_abs d)))" "0 < count" "count < 2 ^ 31"
  then show "\<exists>n. aesd_read False False count (int pos) d
      = Some (Inr (take n (drop pos (concat (fst (dev_abs d))))), int (pos + n), d)
        \<and> 0 < n \<and> pos + n \<le> length (concat (fst (dev_abs d)))"
    using aesd_read_data[of d "int pos" count] unfolding dev_abs_def fst_conv
    by (metis of_nat_0_le_iff nat_int of_nat_add)
next
  fix d pos and count :: nat
  assume "dev_inv d" "length (concat (fst (dev_abs d))) < 2 ^ 31"
    "length (concat (fst (dev_abs d))) \<le> pos" "pos < 2 ^ 31"
  then show "\<exists>e. aesd_read False False count (int pos) d = Some (Inl e, int pos, d)"
    using aesd_read_end[of d "int pos" False count] by (simp add: dev_abs_def)
qed

section \<open>Concrete devices and kernels\<close>

text \<open>
  An allocator with a hundred addresses that resizes in place, one that always fails, and
  devices with a completed command (\<open>hi\<close> and a newline) and with an open one.
\<close>

definition demo_kernel :: kernel where
  "demo_kernel = \<lparr>
     kmalloc = (\<lambda>h n. map_option (\<lambda>p. (p, replicate n 0)) (List.find (\<lambda>p. h p = None) [1..<101])),
     krealloc = (\<lambda>h p n. case h p of None \<Rightarrow> None
       | Some old \<Rightarrow> if p = 0 then None else Some (p, take n old @ replicate (n - length old) 0))\<rparr>"

definition no_memory :: kernel where
  "no_memory = \<lparr>kmalloc = (\<lambda>h n. None), krealloc = (\<lambda>h p n. None)\<rparr>"

lemma kernels_ok: "kernel_ok demo_kernel" "kernel_ok no_memory"
  by (auto simp: kernel_ok_def demo_kernel_def no_memory_def find_Some_iff min_def
      split: option.splits if_splits)

definition demo_dev0 :: aesd_dev where
  "demo_dev0 = \<lparr>lock = False, dentry = null_entry, dbuffer = cb_zero, total_bytes = 0, kheap = Map.empty\<rparr>"

definition demo_dev :: aesd_dev where
  "demo_dev = \<lparr>lock = False, dentry = \<lparr>buffptr = 2, esize = 1\<rparr>,
     dbuffer = \<lparr>entry = \<lparr>buffptr = 1, esize = 3\<rparr> # replicate 9 null_entry,
       in_offs = 1, out_offs = 0, full = False\<rparr>,
     total_bytes = 3, kheap = [1 \<mapsto> [104, 105, 10], 2 \<mapsto> [120]]\<rparr>"

lemma demo_dev0_facts: "dev_inv demo_dev0" "dev_abs demo_dev0 = ([], [])"
  by (simp_all add: demo_dev0_def dev_inv_def dev_defs cb_zero_facts cb_total_def null_entry_def)

lemma demo_dev_facts:
  "dev_inv demo_dev" "dev_log demo_dev = [[104, 105, 10]]" "dev_pending demo_dev = [120]"
  "out_offs (dbuffer demo_dev) = 0"
  by (simp_all add: demo_dev_def dev_inv_def dev_defs cb_total_def cb_contents_def cb_count_def
      cb_ring_def entry_ok_def entry_bytes_def newline_def wf_cb_def insert_commute)

section \<open>Properties\<close>

text \<open>
  C2: A write is always defined (no access outside a block, no double free, no lost lock).
  When it returns the byte count, the device holds exactly what the specification
  \<open>log_write\<close> says: the bytes join the open command, and a command with a newline moves to
  the log, which keeps its last ten entries; memory holds the log and the open command
  and nothing else. After \<open>-EFAULT\<close> log and open command are as before.
\<close>

theorem aesd_write_refines:
  assumes "dev_inv dev" and "kernel_ok K" and "data \<noteq> []"
    and "dev_bytes dev + length data < 2 ^ 63"
  shows "\<exists>r dev'. aesd_write K False copied data dev = Some (r, dev') \<and>
    (case r of
       Inr n \<Rightarrow> n = length data \<and> n \<le> copied \<and> dev_inv dev' \<and> dev_abs dev' = log_write data (dev_abs dev)
     | Inl EFAULT \<Rightarrow> copied < length data \<and> dev_inv dev' \<and> dev_abs dev' = dev_abs dev
     | Inl ENOMEM \<Rightarrow> dev_log dev' = dev_log dev \<and> kheap dev' = kheap dev
     | Inl _ \<Rightarrow> False)"
  by (rule aesd_write_cases[OF assms, of copied]) auto

theorem aesd_write_refines_witness:
  "\<exists>r dev'. aesd_write demo_kernel False 2 [121, 10] demo_dev = Some (r, dev') \<and>
    (case r of
       Inr n \<Rightarrow> n = length [121, 10 :: byte] \<and> n \<le> 2 \<and> dev_inv dev' \<and>
         dev_abs dev' = log_write [121, 10] (dev_abs demo_dev)
     | Inl EFAULT \<Rightarrow> 2 < length [121, 10 :: byte] \<and> dev_inv dev' \<and> dev_abs dev' = dev_abs demo_dev
     | Inl ENOMEM \<Rightarrow> dev_log dev' = dev_log demo_dev \<and> kheap dev' = kheap demo_dev
     | Inl _ \<Rightarrow> False)"
  by (rule aesd_write_refines[OF demo_dev_facts(1) kernels_ok(1)])
     (simp_all add: dev_bytes_def demo_dev_facts)

text \<open>
  C6: A read at a position inside the log returns a non-empty piece of the log from that
  position on, at most \<open>count\<close> bytes, and advances the position by its length; it changes
  nothing else. At the end of the log it reports \<open>-EFAULT\<close> and leaves the position.
\<close>

theorem aesd_read_correct:
  assumes "dev_inv dev" and "length (concat (dev_log dev)) < 2 ^ 31"
    and "0 < count" and "count < 2 ^ 31" and "pos < 2 ^ 63"
  shows "if pos < length (concat (dev_log dev))
    then \<exists>n. 0 < n \<and> n \<le> count \<and> pos + n \<le> length (concat (dev_log dev)) \<and>
      aesd_read False False count (int pos) dev
        = Some (Inr (take n (drop pos (concat (dev_log dev)))), int (pos + n), dev)
    else aesd_read False False count (int pos) dev = Some (Inl EFAULT, int pos, dev)"
proof (cases "pos < length (concat (dev_log dev))")
  case True
  obtain n where "aesd_read False False count (int pos) dev
      = Some (Inr (take n (drop (nat (int pos)) (concat (dev_log dev)))), int pos + int n, dev)"
    "n \<le> count" "0 < count \<Longrightarrow> 0 < n" "nat (int pos) + n \<le> length (concat (dev_log dev))"
    using True assms(4) by (rule_tac aesd_read_data[OF assms(1,2), of "int pos" count]) simp_all
  with True assms(3) show ?thesis by auto
next
  case False
  then show ?thesis using aesd_read_end[OF assms(1,2), of "int pos"] assms(5) by simp
qed

theorem aesd_read_correct_witness:
  "\<exists>n. 0 < n \<and> n \<le> 2 \<and> 1 + n \<le> length (concat (dev_log demo_dev)) \<and>
      aesd_read False False 2 (int 1) demo_dev
        = Some (Inr (take n (drop 1 (concat (dev_log demo_dev)))), int (1 + n), demo_dev)"
  using aesd_read_correct[of demo_dev 2 1] demo_dev_facts by simp

text \<open>
  C15: Seeking with \<open>SEEK_SET\<close>, \<open>SEEK_CUR\<close> or \<open>SEEK_END\<close> moves the file position to the
  requested one when it lies inside the log and fails with \<open>-EINVAL\<close>, position unchanged,
  otherwise: the end of the log itself is refused.
\<close>

theorem aesd_llseek_correct:
  assumes "dev_inv dev" and "length (concat (dev_log dev)) < 2 ^ 31"
    and "(whence, base) \<in> {(0, 0), (1, pos), (2, int (length (concat (dev_log dev))))}"
    and "- (2 ^ 63) \<le> base + off" and "base + off < 2 ^ 63"
  shows "aesd_llseek False off whence pos dev =
    (if 0 \<le> base + off \<and> base + off < int (length (concat (dev_log dev)))
     then Some (Inr (base + off), base + off, dev)
     else Some (Inl EINVAL, pos, dev))"
proof -
  have "total_bytes dev = length (concat (dev_log dev))"
    using assms(1) cb_total_log[of dev] dev_memD(2)[of dev] by (simp add: dev_inv_def)
  moreover have "to_s64 (base + off) = base + off" using assms(4,5) by (rule to_s64_id)
  ultimately have "seek_target off whence pos dev = Some (base + off)"
    using assms(3) by (elim insertE) (simp_all add: seek_target_def)
  moreover have "(0 \<le> base + off \<and> nat (base + off) < length (concat (dev_log dev)))
      = (0 \<le> base + off \<and> base + off < int (length (concat (dev_log dev))))"
    by linarith
  ultimately show ?thesis
    using aesd_llseek_valid[OF assms(1,2) _ assms(4,5)] by simp
qed

theorem aesd_llseek_correct_witness:
  "aesd_llseek False (- 1) 2 0 demo_dev = Some (Inr 2, 2, demo_dev) \<and>
   aesd_llseek False 0 2 1 demo_dev = Some (Inl EINVAL, 1, demo_dev)"
  using aesd_llseek_correct[of demo_dev 2 3 0 "- 1"] aesd_llseek_correct[of demo_dev 2 3 1 0]
  by (simp add: demo_dev_facts)

text \<open>
  C33: A seek with any other \<open>whence\<close> returns \<open>-EINVAL\<close> with the device lock still held:
  every later read, write, seek or \<open>AESDCHAR_IOCSEEKTO\<close> waits for it forever.
\<close>

theorem aesd_llseek_keeps_lock:
  assumes "dev_inv dev" and "whence \<notin> {0, 1, 2}"
  shows "\<exists>dev'. aesd_llseek False off whence pos dev = Some (Inl EINVAL, pos, dev') \<and>
    dev' = dev\<lparr>lock := True\<rparr> \<and>
    aesd_read False fault count pos2 dev' = None \<and>
    aesd_write K False copied data dev' = None \<and>
    aesd_llseek False off2 whence2 pos2 dev' = None \<and>
    aesd_ioctl False AESDCHAR_IOCSEEKTO (Some st) pos2 dev' = None"
proof -
  let ?dev' = "dev\<lparr>lock := True\<rparr>"
  have lk: "\<not> lock dev" using assms(1) by (simp add: dev_inv_def)
  have "aesd_llseek False off whence pos dev = Some (Inl EINVAL, pos, ?dev')"
    using assms(2) lock_unlock[OF lk] by (simp add: aesd_llseek_def seek_target_def)
  moreover have "mutex_lock_interruptible False ?dev' = None"
    by (rule locked_blocks) simp
  ultimately show ?thesis
    by (intro exI[of _ ?dev'])
       (simp add: aesd_read_def aesd_write_def aesd_llseek_def aesd_ioctl_def ioctl_numbers(2,3))
qed

theorem aesd_llseek_keeps_lock_witness:
  "\<exists>dev'. aesd_llseek False 0 3 0 demo_dev = Some (Inl EINVAL, 0, dev') \<and>
    aesd_read False False 10 0 dev' = None \<and>
    aesd_write demo_kernel False 1 [10] dev' = None \<and>
    aesd_ioctl False AESDCHAR_IOCSEEKTO (Some \<lparr>write_cmd = 0, write_cmd_offset = 0\<rparr>) 0 dev' = None"
  using aesd_llseek_keeps_lock[of demo_dev 3 0 0 False 10 0 demo_kernel 1 "[10]" 0 0
      "\<lparr>write_cmd = 0, write_cmd_offset = 0\<rparr>"] by (auto simp: demo_dev_facts)

text \<open>
  C16: As long as the buffer has not wrapped, \<open>AESDCHAR_IOCSEEKTO\<close> moves the position to
  the requested offset of the requested command, and fails with \<open>-EINVAL\<close>, position
  unchanged, exactly when there is no such command or no such byte in it.
\<close>

theorem aesd_ioctl_seekto_correct:
  assumes "dev_inv dev" and "out_offs (dbuffer dev) = 0"
    and "length (concat (dev_log dev)) < 2 ^ 31"
  shows "aesd_ioctl False AESDCHAR_IOCSEEKTO (Some \<lparr>write_cmd = c, write_cmd_offset = k\<rparr>) pos dev =
    (if c < length (dev_log dev) \<and> k < length (dev_log dev ! c)
     then Some (Inr (), int (length (concat (take c (dev_log dev))) + k), dev)
     else Some (Inl EINVAL, pos, dev))"
  using aesd_ioctl_unwrapped[OF assms, of "\<lparr>write_cmd = c, write_cmd_offset = k\<rparr>" pos] by simp

theorem aesd_ioctl_seekto_correct_witness:
  "aesd_ioctl False AESDCHAR_IOCSEEKTO (Some \<lparr>write_cmd = 0, write_cmd_offset = 2\<rparr>) 0 demo_dev
     = Some (Inr (), 2, demo_dev) \<and>
   aesd_ioctl False AESDCHAR_IOCSEEKTO (Some \<lparr>write_cmd = 1, write_cmd_offset = 0\<rparr>) 0 demo_dev
     = Some (Inl EINVAL, 0, demo_dev)"
  using aesd_ioctl_seekto_correct[of demo_dev 0 2 0] aesd_ioctl_seekto_correct[of demo_dev 1 0 0]
  by (simp add: demo_dev_facts)

text \<open>
  A device whose ten commands are one to ten newlines, the oldest one in slot 4.
\<close>

definition full_dev :: aesd_dev where
  "full_dev = \<lparr>lock = False, dentry = null_entry,
     dbuffer = \<lparr>entry = map (\<lambda>n. \<lparr>buffptr = n, esize = n\<rparr>) [1..<11], in_offs = 4, out_offs = 4, full = True\<rparr>,
     total_bytes = 55,
     kheap = (\<lambda>p. if p \<in> {1..<11} then Some (replicate p newline) else None)\<rparr>"

lemma full_dev_contents:
  "cb_contents (dbuffer full_dev) = map (\<lambda>n. \<lparr>buffptr = n, esize = n\<rparr>) [5, 6, 7, 8, 9, 10, 1, 2, 3, 4]"
  using demo_full_facts(2) by (simp add: full_dev_def demo_full_def)

lemma full_dev_log: "dev_log full_dev = map (\<lambda>n. replicate n newline) [5, 6, 7, 8, 9, 10, 1, 2, 3, 4]"
  unfolding dev_log_def full_dev_contents by (simp add: entry_bytes_def full_dev_def)

lemma full_dev_inv: "dev_inv full_dev"
proof -
  have "wf_cb (dbuffer full_dev)" using demo_full_facts(1) by (simp add: full_dev_def demo_full_def)
  moreover have "open_entries full_dev = []" "dev_pending full_dev = []" "\<not> lock full_dev"
    by (simp_all add: open_entries_def dev_pending_def full_dev_def null_entry_def)
  moreover have "dom (kheap full_dev) = {1..<11}" by (auto simp: full_dev_def split: if_splits)
  moreover have "{1..<11 :: nat} = {5, 6, 7, 8, 9, 10, 1, 2, 3, 4}" by (auto, presburger)
  moreover have "total_bytes full_dev = cb_total (dbuffer full_dev)"
    by (simp add: cb_total_def full_dev_contents) (simp add: full_dev_def)
  moreover have "\<forall>e\<in>set (cb_contents (dbuffer full_dev)). entry_ok (kheap full_dev) e"
    by (simp add: full_dev_contents entry_ok_def) (simp add: full_dev_def)
  ultimately show ?thesis
    by (simp add: dev_inv_def dev_mem_def full_dev_log full_dev_contents)
       (simp add: full_dev_def null_entry_def)
qed

text \<open>The command in a slot of a full buffer.\<close>

definition in_slot :: "aesd_dev \<Rightarrow> nat \<Rightarrow> byte list" where
  "in_slot dev i = dev_log dev ! ((i + MAX_OPS - out_offs (dbuffer dev)) mod MAX_OPS)"

text \<open>
  C34: Once the buffer is full the same ioctl counts slots, not commands: with the oldest
  command in slot \<open>out_offs\<close>, a request for command \<open>c\<close> is checked against the command that
  lies in slot \<open>c\<close>, which is number \<open>c + 10 - out_offs\<close> modulo 10, and the position is the
  sum of the lengths of the commands in the slots before it. It is the requested one only
  when \<open>out_offs\<close> is 0.
\<close>

theorem aesd_ioctl_wrapped_counts_slots:
  assumes "dev_inv dev" and "full (dbuffer dev)" and "length (concat (dev_log dev)) < 2 ^ 31"
  shows "aesd_ioctl False AESDCHAR_IOCSEEKTO (Some \<lparr>write_cmd = c, write_cmd_offset = k\<rparr>) pos dev =
    (if c < MAX_OPS \<and> k < length (in_slot dev c)
     then Some (Inr (), int (length (concat (map (in_slot dev) [0..<c])) + k), dev)
     else Some (Inl EINVAL, pos, dev))"
proof -
  let ?b = "dbuffer dev"
  have mem: "dev_mem dev" using assms(1) by (simp add: dev_inv_def)
  note wf = dev_memD(1)[OF mem]
  have size: "length (in_slot dev i) = esize (entry ?b ! i)" if "i < MAX_OPS" for i
  proof -
    let ?k = "(i + MAX_OPS - out_offs ?b) mod MAX_OPS"
    have "(out_offs ?b + ?k) mod MAX_OPS = i"
      using that wf_cbD(3)[OF wf] by (simp add: mod_simps)
    moreover have "?k < cb_count ?b" using assms(2) by (simp add: cb_count_def)
    ultimately have "cb_contents ?b ! ?k = entry ?b ! i" using contents_split(1)[OF wf, of ?k] by simp
    moreover have "?k < length (cb_contents ?b)" using \<open>?k < cb_count ?b\<close> length_cb_contents[OF wf] by simp
    ultimately show ?thesis
      using dev_memD(3)[OF mem nth_mem, of ?k]
      by (simp add: in_slot_def dev_log_def length_entry_bytes)
  qed
  have "map length (map (in_slot dev) [0..<c]) = map esize (take c (entry ?b))" if "c < MAX_OPS"
    using that size wf_cbD(1)[OF wf] by (intro nth_equalityI) simp_all
  then have "length (concat (map (in_slot dev) [0..<c])) = sum_list (map esize (take c (entry ?b)))" if "c < MAX_OPS"
    using that by (metis length_concat)
  then show ?thesis
    using aesd_ioctl_slots[OF assms(1,3), of "\<lparr>write_cmd = c, write_cmd_offset = k\<rparr>" pos] size[of c]
    by (auto simp del: length_concat)
qed

theorem aesd_ioctl_wrapped_counts_slots_witness:
  "dev_log full_dev ! 0 = replicate 5 newline \<and>
   aesd_ioctl False AESDCHAR_IOCSEEKTO (Some \<lparr>write_cmd = 0, write_cmd_offset = 4\<rparr>) 7 full_dev
     = Some (Inl EINVAL, 7, full_dev) \<and>
   aesd_ioctl False AESDCHAR_IOCSEEKTO (Some \<lparr>write_cmd = 2, write_cmd_offset = 1\<rparr>) 7 full_dev
     = Some (Inr (), 4, full_dev)"
proof -
  have "full (dbuffer full_dev)" "out_offs (dbuffer full_dev) = 4" by (simp_all add: full_dev_def)
  moreover have "length (concat (dev_log full_dev)) < 2 ^ 31" by (simp add: full_dev_log)
  ultimately show ?thesis
    using aesd_ioctl_wrapped_counts_slots[OF full_dev_inv, of 0 4 7]
      aesd_ioctl_wrapped_counts_slots[OF full_dev_inv, of 2 1 7]
    by (simp add: full_dev_log in_slot_def upt_rec)
qed

text \<open>
  C35: When the allocator fails while a command is open, \<open>-ENOMEM\<close> is returned and the lock
  released, but the block of the open command stays allocated without a reference, and its
  size stays recorded. The next write for which memory is available gets a block of exactly its
  own length and copies to the recorded size in it, behind its end.
\<close>

theorem aesd_write_enomem_overflow:
  assumes "dev_inv dev" and "dev_pending dev \<noteq> []" and "kernel_ok K" and "data \<noteq> []"
    and "dev_bytes dev + length data < 2 ^ 63"
    and "aesd_write K False copied data dev = Some (Inl ENOMEM, dev1)"
    and "kernel_ok K2" and "data2 \<noteq> []" and "kmalloc K2 (kheap dev1) (length data2) \<noteq> None"
    and "dev2 = write_alloc K2 (length data2) (dev1\<lparr>lock := True\<rparr>)"
  shows "\<not> lock dev1 \<and> kheap dev1 = kheap dev \<and> kheap dev1 (buffptr (dentry dev)) \<noteq> None \<and>
    buffptr (dentry dev1) = 0 \<and>
    (\<exists>blk. kheap dev2 (buffptr (dentry dev2)) = Some blk \<and> length blk = length data2 \<and>
      length blk < esize (dentry dev2) + length data2) \<and>
    write_copy copied2 data2 dev2 = None \<and> aesd_write K2 False copied2 data2 dev1 = None"
proof -
  have mem: "dev_mem dev" using assms(1) by (simp add: dev_inv_def)
  have p: "buffptr (dentry dev) \<noteq> 0" using assms(2) by (auto simp: dev_pending_def split: if_splits)
  have sz: "0 < esize (dentry dev)" using assms(2) length_pending[OF mem] by (metis length_greater_0_conv)
  have d1: "buffptr (dentry dev1) = 0" "esize (dentry dev1) = esize (dentry dev)"
    "kheap dev1 = kheap dev" "\<not> lock dev1"
    using assms(6) by (rule_tac aesd_write_cases[OF assms(1,3,4,5), of copied]; simp)+
  obtain q blk where q: "kmalloc K2 (kheap dev1) (length data2) = Some (q, blk)"
    using assms(9) by auto
  have qb: "q \<noteq> 0" "length blk = length data2"
    using kernel_okD(1)[OF assms(7) _ q] assms(8) by simp_all
  have d2: "buffptr (dentry dev2) = q" "kheap dev2 q = Some blk" "esize (dentry dev2) = esize (dentry dev)"
    using q d1(1,2) by (simp_all add: assms(10) write_alloc_def)
  then have copy: "write_copy copied2 data2 dev2 = None" using sz qb(2) by (simp add: write_copy_def)
  then have "aesd_write K2 False copied2 data2 dev1 = None"
    using lock_unlock(1)[OF d1(4)] qb(1) d2(1) by (simp add: aesd_write_def assms(10))
  moreover have "kheap dev1 (buffptr (dentry dev)) \<noteq> None"
    using dev_memD(4)[OF mem p] d1(3) by (auto simp: entry_ok_def)
  ultimately show ?thesis using d1 d2 copy qb(2) sz by simp
qed

lemma demo_enomem:
  "aesd_write no_memory False 1 [121] demo_dev
    = Some (Inl ENOMEM, demo_dev\<lparr>dentry := \<lparr>buffptr = 0, esize = 1\<rparr>\<rparr>)"
  by (simp add: aesd_write_def mutex_lock_interruptible_def mutex_unlock_def write_alloc_def
      no_memory_def demo_dev_def)

theorem aesd_write_enomem_overflow_witness:
  "aesd_write demo_kernel False 1 [121] (demo_dev\<lparr>dentry := \<lparr>buffptr = 0, esize = 1\<rparr>\<rparr>) = None"
proof -
  let ?h = "kheap (demo_dev\<lparr>dentry := \<lparr>buffptr = 0, esize = 1\<rparr>\<rparr>)"
  have "List.find (\<lambda>p. ?h p = None) [1..<101] \<noteq> None"
  proof
    assume "List.find (\<lambda>p. ?h p = None) [1..<101] = None"
    then have "\<not> (\<exists>p. p \<in> set [1..<101] \<and> ?h p = None)" by (rule find_None_iff[THEN iffD1])
    moreover have "3 \<in> set [1..<101 :: nat] \<and> ?h 3 = None" by (simp add: demo_dev_def)
    ultimately show False by (metis (no_types, lifting))
  qed
  then have "kmalloc demo_kernel ?h (length [121 :: byte]) \<noteq> None"
    by (simp only: demo_kernel_def kernel.simps map_option_is_None not_False_eq_True)
  then show ?thesis
    by (rule aesd_write_enomem_overflow[OF demo_dev_facts(1) _ kernels_ok(2) _ _ demo_enomem kernels_ok(1)
          _ _ refl, THEN conjunct2, THEN conjunct2, THEN conjunct2, THEN conjunct2, THEN conjunct2, THEN conjunct2,
        rotated -1]) (simp_all add: demo_dev_facts dev_bytes_def)
qed

end
