(* ===== verification/Bitmap.thy ===== *)
theory Bitmap
  imports Prelude
begin

text \<open>
  The constants and tables of \<open>tetris-app/bitmap/bitmap.h\<close>. A tetromino of a given type and
  angle is a bitmap of four rows of 32 bytes; all rows consist of 8-byte groups, and a
  group is blank, a cell, or a cell one byte too far to the left. The tables list the four
  groups of each row. A row that the initialiser in the source omits (there is one) is
  zero, as the language prescribes. The lemmas relate the bytes of a shape to the
  occupied cells of its 4 by 4 grid.
\<close>

section \<open>Sizes\<close>

definition MINO_TYPE_MAX :: nat where
  "MINO_TYPE_MAX = 9"

definition MINO_ANGLE_MAX :: nat where
  "MINO_ANGLE_MAX = 4"

definition MINO_WIDTH :: nat where
  "MINO_WIDTH = 32"

definition MINO_HEIGHT :: nat where
  "MINO_HEIGHT = 4"

definition TITLE_WIDTH :: nat where
  "TITLE_WIDTH = 64"

definition TITLE_HEIGHT :: nat where
  "TITLE_HEIGHT = 8"

definition TITLE_NUM_FRAME :: nat where
  "TITLE_NUM_FRAME = 113"

definition GAME_OVER_WIDTH :: nat where
  "GAME_OVER_WIDTH = 64"

definition GAME_OVER_HEIGHT :: nat where
  "GAME_OVER_HEIGHT = 8"

section \<open>Tables\<close>

definition cell :: "byte list" where
  "cell = [0x00, 0x7e, 0x7e, 0x7e, 0x7e, 0x7e, 0x7e, 0x00]"

definition blank :: "byte list" where
  "blank = [0x00, 0x00, 0x00, 0x00, 0x00, 0x00, 0x00, 0x00]"

definition slid :: "byte list" where
  "slid = [0x7e, 0x7e, 0x7e, 0x7e, 0x7e, 0x7e, 0x00, 0x00]"

definition number :: "byte list list" where
  "number = [
     [0x00, 0x18, 0x24, 0x24, 0x24, 0x24, 0x18, 0x00],
     [0x00, 0x08, 0x18, 0x08, 0x08, 0x08, 0x1c, 0x00],
     [0x00, 0x1c, 0x22, 0x04, 0x08, 0x10, 0x3e, 0x00],
     [0x00, 0x18, 0x24, 0x08, 0x04, 0x24, 0x18, 0x00],
     [0x00, 0x08, 0x18, 0x28, 0x7e, 0x08, 0x08, 0x00],
     [0x00, 0x3c, 0x20, 0x38, 0x04, 0x04, 0x38, 0x00],
     [0x00, 0x08, 0x10, 0x28, 0x34, 0x24, 0x14, 0x00],
     [0x00, 0x3c, 0x24, 0x24, 0x04, 0x04, 0x04, 0x00],
     [0x00, 0x18, 0x24, 0x18, 0x24, 0x24, 0x18, 0x00],
     [0x00, 0x18, 0x24, 0x24, 0x18, 0x04, 0x08, 0x00]]"

definition line :: "byte list" where
  "line = cell @ cell @ cell @ cell @ cell @ cell @ cell @ cell"

type_synonym mino = "byte list list list list"

definition mino_I :: mino where
  "mino_I = [
     [[blank, blank, blank, blank],
      [cell, cell, cell, cell],
      [blank, blank, blank, blank],
      [blank, blank, blank, blank]],
     [[blank, blank, cell, blank],
      [blank, blank, cell, blank],
      [blank, blank, cell, blank],
      [blank, blank, cell, blank]],
     [[blank, blank, blank, blank],
      [blank, blank, blank, blank],
      [cell, cell, cell, cell],
      [blank, blank, blank, blank]],
     [[blank, cell, blank, blank],
      [blank, cell, blank, blank],
      [blank, cell, blank, blank],
      [blank, cell, blank, blank]]]"

definition mino_O :: mino where
  "mino_O = [
     [[blank, blank, blank, blank],
      [blank, cell, cell, blank],
      [blank, cell, cell, blank],
      [blank, blank, blank, blank]],
     [[blank, blank, blank, blank],
      [blank, cell, cell, blank],
      [blank, cell, cell, blank],
      [blank, blank, blank, blank]],
     [[blank, blank, blank, blank],
      [blank, cell, cell, blank],
      [blank, cell, cell, blank],
      [blank, blank, blank, blank]],
     [[blank, blank, blank, blank],
      [blank, cell, cell, blank],
      [blank, cell, cell, blank],
      [blank, blank, blank, blank]]]"

definition mino_S :: mino where
  "mino_S = [
     [[blank, blank, cell, blank],
      [blank, cell, cell, blank],
      [blank, cell, blank, blank],
      [blank, blank, blank, blank]],
     [[blank, blank, blank, blank],
      [cell, cell, blank, blank],
      [blank, cell, cell, blank],
      [blank, blank, blank, blank]],
     [[blank, blank, cell, blank],
      [blank, cell, cell, blank],
      [blank, cell, blank, blank],
      [blank, blank, blank, blank]],
     [[blank, blank, blank, blank],
      [cell, cell, blank, blank],
      [blank, cell, cell, blank]]]"

definition mino_Z :: mino where
  "mino_Z = [
     [[blank, cell, blank, blank],
      [blank, cell, cell, blank],
      [blank, blank, cell, blank],
      [blank, blank, blank, blank]],
     [[blank, blank, blank, blank],
      [blank, blank, cell, cell],
      [blank, cell, cell, blank],
      [blank, blank, blank, blank]],
     [[blank, cell, blank, blank],
      [blank, cell, cell, blank],
      [blank, blank, cell, blank],
      [blank, blank, blank, blank]],
     [[blank, blank, blank, blank],
      [blank, blank, cell, cell],
      [blank, cell, cell, blank],
      [blank, blank, blank, blank]]]"

definition mino_J :: mino where
  "mino_J = [
     [[blank, blank, blank, blank],
      [blank, blank, cell, blank],
      [cell, cell, cell, blank],
      [blank, blank, blank, blank]],
     [[blank, cell, blank, blank],
      [blank, cell, blank, blank],
      [blank, cell, cell, blank],
      [blank, blank, blank, blank]],
     [[blank, blank, blank, blank],
      [cell, cell, cell, blank],
      [slid, blank, blank, blank],
      [blank, blank, blank, blank]],
     [[blank, cell, cell, blank],
      [blank, blank, cell, blank],
      [blank, blank, cell, blank],
      [blank, blank, blank, blank]]]"

definition mino_L :: mino where
  "mino_L = [
     [[blank, blank, blank, blank],
      [cell, cell, cell, blank],
      [blank, blank, cell, blank],
      [blank, blank, blank, blank]],
     [[blank, blank, blank, blank],
      [blank, blank, cell, blank],
      [blank, blank, cell, blank],
      [blank, cell, cell, blank]],
     [[blank, blank, blank, blank],
      [slid, blank, blank, blank],
      [cell, cell, cell, blank],
      [blank, blank, blank, blank]],
     [[blank, blank, blank, blank],
      [blank, cell, cell, blank],
      [blank, cell, blank, blank],
      [blank, cell, blank, blank]]]"

definition mino_T :: mino where
  "mino_T = [
     [[blank, cell, blank, blank],
      [blank, cell, cell, blank],
      [blank, cell, blank, blank],
      [blank, blank, blank, blank]],
     [[blank, blank, blank, blank],
      [cell, cell, cell, blank],
      [blank, cell, blank, blank],
      [blank, blank, blank, blank]],
     [[blank, cell, blank, blank],
      [slid, cell, blank, blank],
      [blank, cell, blank, blank],
      [blank, blank, blank, blank]],
     [[blank, cell, blank, blank],
      [cell, cell, cell, blank],
      [blank, blank, blank, blank],
      [blank, blank, blank, blank]]]"

definition mino_O_EASY :: mino where
  "mino_O_EASY = [
     [[blank, cell, blank, blank],
      [blank, blank, blank, blank],
      [blank, blank, blank, blank],
      [blank, blank, blank, blank]],
     [[blank, cell, blank, blank],
      [blank, blank, blank, blank],
      [blank, blank, blank, blank],
      [blank, blank, blank, blank]],
     [[blank, cell, blank, blank],
      [blank, blank, blank, blank],
      [blank, blank, blank, blank],
      [blank, blank, blank, blank]],
     [[blank, cell, blank, blank],
      [blank, blank, blank, blank],
      [blank, blank, blank, blank],
      [blank, blank, blank, blank]]]"

definition mino_I_EASY :: mino where
  "mino_I_EASY = [
     [[blank, blank, blank, blank],
      [blank, cell, cell, blank],
      [blank, blank, blank, blank],
      [blank, blank, blank, blank]],
     [[blank, blank, blank, blank],
      [blank, blank, cell, blank],
      [blank, blank, cell, blank],
      [blank, blank, blank, blank]],
     [[blank, blank, blank, blank],
      [blank, blank, blank, blank],
      [blank, cell, cell, blank],
      [blank, blank, blank, blank]],
     [[blank, blank, blank, blank],
      [blank, cell, blank, blank],
      [blank, cell, blank, blank],
      [blank, blank, blank, blank]]]"

definition mino_table :: "mino list" where
  "mino_table = [mino_I, mino_O, mino_S, mino_Z, mino_J, mino_L, mino_T,
     mino_O_EASY, mino_I_EASY]"

definition mino_shape :: "nat \<Rightarrow> nat \<Rightarrow> nat \<Rightarrow> nat \<Rightarrow> byte" where
  "mino_shape t a i j =
     (let rows = mino_table ! t ! a in if i < length rows then concat (rows ! i) ! j else 0)"

section \<open>Cells of a shape\<close>

abbreviation groups3 :: "byte list set" where
  "groups3 \<equiv> {blank, cell, slid}"

definition shape_group :: "nat \<Rightarrow> nat \<Rightarrow> nat \<Rightarrow> nat \<Rightarrow> byte list" where
  "shape_group t a i g =
     (let rows = mino_table ! t ! a in if i < length rows then rows ! i ! g else blank)"

text \<open>Cell \<open>(i, g)\<close> of the 4 by 4 grid of a shape is occupied.\<close>

definition shape_occ :: "nat \<Rightarrow> nat \<Rightarrow> nat \<Rightarrow> nat \<Rightarrow> bool" where
  "shape_occ t a i g \<longleftrightarrow> shape_group t a i g \<noteq> blank"

lemma blank_nth [simp]: "k < 8 \<Longrightarrow> blank ! k = 0"
  by (auto simp: blank_def less_Suc_eq numeral_eq_Suc)

lemma length_groups: "x \<in> groups3 \<Longrightarrow> length x = 8"
  by (auto simp: blank_def cell_def slid_def)

lemma table_shape:
  "length mino_table = 9"
  "list_all (\<lambda>m. length m = 4 \<and> list_all (\<lambda>rows. length rows \<le> 4 \<and>
     list_all (\<lambda>r. length r = 4 \<and> list_all (\<lambda>x. x \<in> groups3) r) rows) m) mino_table"
  by (simp_all add: mino_table_def mino_I_def mino_O_def mino_S_def mino_Z_def mino_J_def
      mino_L_def mino_T_def mino_O_EASY_def mino_I_EASY_def)

lemma shape_row:
  assumes "t < 9" and "a < 4" and "i < length (mino_table ! t ! a)"
  shows "length (mino_table ! t ! a ! i) = 4" and "set (mino_table ! t ! a ! i) \<subseteq> groups3"
proof -
  have m: "mino_table ! t \<in> set mino_table" using table_shape(1) assms(1) by simp
  then have "length (mino_table ! t) = 4" using table_shape(2) by (simp add: list_all_iff)
  then have "mino_table ! t ! a \<in> set (mino_table ! t)" using assms(2) by simp
  moreover have "mino_table ! t ! a ! i \<in> set (mino_table ! t ! a)" using assms(3) by simp
  ultimately have r: "length (mino_table ! t ! a ! i) = 4 \<and>
      (\<forall>x\<in>set (mino_table ! t ! a ! i). x \<in> groups3)"
    using table_shape(2) m unfolding list_all_iff by blast
  then show "length (mino_table ! t ! a ! i) = 4" by blast
  show "set (mino_table ! t ! a ! i) \<subseteq> groups3" using r by blast
qed

lemma shape_group_cases:
  assumes "t < 9" and "a < 4" and "g < 4"
  shows "shape_group t a i g \<in> groups3"
proof (cases "i < length (mino_table ! t ! a)")
  case True
  have "mino_table ! t ! a ! i ! g \<in> set (mino_table ! t ! a ! i)"
    using shape_row(1)[OF assms(1,2) True] assms(3) by (intro nth_mem) simp
  then have "mino_table ! t ! a ! i ! g \<in> groups3"
    by (rule subsetD[OF shape_row(2)[OF assms(1,2) True]])
  with True show ?thesis by (simp add: shape_group_def)
qed (simp add: shape_group_def)

lemma concat_nth_uniform:
  assumes "\<And>x. x \<in> set xs \<Longrightarrow> length x = n" and "g < length xs" and "k < n"
  shows "concat xs ! (n * g + k) = xs ! g ! k"
  using assms
proof (induction xs arbitrary: g)
  case Nil
  then show ?case by simp
next
  case (Cons x xs)
  then show ?case
    by (cases g) (auto simp: nth_append)
qed

lemma mino_shape_group:
  assumes "t < 9" and "a < 4" and "g < 4" and "k < 8"
  shows "mino_shape t a i (8 * g + k) = shape_group t a i g ! k"
proof (cases "i < length (mino_table ! t ! a)")
  case True
  have "concat (mino_table ! t ! a ! i) ! (8 * g + k) = mino_table ! t ! a ! i ! g ! k"
    using shape_row[OF assms(1,2) True] assms(3,4) length_groups
    by (intro concat_nth_uniform) auto
  then show ?thesis using True by (simp add: mino_shape_def shape_group_def)
next
  case False
  then show ?thesis using assms(4) by (simp add: mino_shape_def shape_group_def)
qed

text \<open>Every shape has a cell.\<close>

lemma cell_blank [simp]: "cell \<noteq> blank" "slid \<noteq> blank" "blank \<noteq> cell" "blank \<noteq> slid"
  by (simp_all add: cell_def slid_def blank_def)

lemma table_nonempty:
  "list_all (list_all (list_ex (list_ex (\<lambda>x. x \<noteq> blank)))) mino_table"
  by (simp add: mino_table_def mino_I_def mino_O_def mino_S_def mino_Z_def mino_J_def
      mino_L_def mino_T_def mino_O_EASY_def mino_I_EASY_def)

lemma shape_nonempty:
  assumes "t < 9" and "a < 4"
  shows "\<exists>i<4. \<exists>g<4. shape_occ t a i g"
proof -
  have m: "mino_table ! t \<in> set mino_table" using table_shape(1) assms(1) by simp
  then have "length (mino_table ! t) = 4" using table_shape(2) by (simp add: list_all_iff)
  then have a: "mino_table ! t ! a \<in> set (mino_table ! t)" using assms(2) by simp
  then have l: "length (mino_table ! t ! a) \<le> 4"
    using table_shape(2) m unfolding list_all_iff by blast
  have "\<exists>r\<in>set (mino_table ! t ! a). \<exists>x\<in>set r. x \<noteq> blank"
    using table_nonempty m a unfolding list_all_iff list_ex_iff by blast
  then obtain i g where ig: "i < length (mino_table ! t ! a)" "g < length (mino_table ! t ! a ! i)"
    "mino_table ! t ! a ! i ! g \<noteq> blank"
    by (auto simp: in_set_conv_nth)
  moreover have "g < 4" using shape_row(1)[OF assms ig(1)] ig(2) by simp
  ultimately show ?thesis using l by (intro exI[of _ i] conjI exI[of _ g]) (simp_all add: shape_occ_def shape_group_def)
qed

lemma number_glyphs: "d < 10 \<Longrightarrow> length (number ! d) = 8"
proof -
  have "length number = 10" "list_all (\<lambda>g. length g = 8) number" by (simp_all add: number_def)
  then show "d < 10 \<Longrightarrow> length (number ! d) = 8" by (simp add: list_all_length)
qed

lemma length_line: "length line = 64"
  by (simp add: line_def cell_def)

end
