(* ===== verification/Field.thy ===== *)
theory Field
  imports Bitmap
begin

text \<open>
  The playing field of \<open>tetris-app/main.c\<close>: collision test, placing a tetromino, removing
  filled lines.

  \<open>field\<close> is an 8 by 120 array of bytes. The code also indexes it outside its bounds (in
  \<open>is_hit\<close> behind a zero byte of the shape, in the line loop at \<open>i = 120\<close>), so the model is
  the memory around it: a byte for every offset from the start of the array, with row \<open>y\<close>,
  column \<open>x\<close> at \<open>120 y + x\<close> and the array itself at offsets 0 to 959. A line of the game
  runs across all eight rows: line \<open>c\<close> consists of columns \<open>8 c\<close> to \<open>8 c + 7\<close>, and line 0 is
  the top.
\<close>

type_synonym mem = "int \<Rightarrow> byte"

abbreviation FIELD_WIDTH :: nat where
  "FIELD_WIDTH \<equiv> 128"

abbreviation FIELD_HEIGHT :: nat where
  "FIELD_HEIGHT \<equiv> 8"

abbreviation MOVE_X :: int where
  "MOVE_X \<equiv> 8"

abbreviation MOVE_Y :: int where
  "MOVE_Y \<equiv> 1"

unbundle bit_operations_syntax

section \<open>The operations\<close>

definition field_off :: "int \<Rightarrow> int \<Rightarrow> int" where
  "field_off y x = (int FIELD_WIDTH - 8) * y + x"

definition is_hit :: "mem \<Rightarrow> int \<Rightarrow> int \<Rightarrow> nat \<Rightarrow> nat \<Rightarrow> bool" where
  "is_hit field mino_x_next mino_y_next t a \<longleftrightarrow>
     list_ex (\<lambda>i. list_ex (\<lambda>j.
       (mino_shape t a i j \<noteq> 0 \<and>
         (mino_y_next + int i \<ge> int FIELD_HEIGHT \<or> mino_y_next + int i < 0 \<or>
          mino_x_next + int j \<ge> int FIELD_WIDTH - 8 \<or> mino_x_next + int j < 0)) \<or>
       mino_shape t a i j AND field (field_off (mino_y_next + int i) (mino_x_next + int j)) \<noteq> 0)
       [0..<MINO_WIDTH]) [0..<MINO_HEIGHT]"

definition add_mino :: "mem \<Rightarrow> int \<Rightarrow> int \<Rightarrow> nat \<Rightarrow> nat \<Rightarrow> mem" where
  "add_mino field mino_x mino_y t a =
     foldl (\<lambda>f i. foldl (\<lambda>f j.
         let p = field_off (mino_y + int i) (mino_x + int j) in f(p := f p OR mino_shape t a i j))
       f [0..<MINO_WIDTH]) field [0..<MINO_HEIGHT]"

text \<open>
  The stores of these loops, with the bytes they combine. The loops visit all 4 x 32 offsets,
  so some of them may be behind or in front of the array, where C makes no promise; \<open>mem\<close> has
  a byte everywhere, and the statements say which bytes are stored out there.
\<close>

definition mino_stores :: "int \<Rightarrow> int \<Rightarrow> nat \<Rightarrow> nat \<Rightarrow> (int \<times> byte) list" where
  "mino_stores mino_x mino_y t a =
     map (\<lambda>(i, j). (field_off (mino_y + int i) (mino_x + int j), mino_shape t a i j))
       (List.product [0..<MINO_HEIGHT] [0..<MINO_WIDTH])"

text \<open>The test of one line at column \<open>i\<close>, the shift of one line, and of all lines down to \<open>i\<close>.\<close>

definition line_filled :: "mem \<Rightarrow> nat \<Rightarrow> bool" where
  "line_filled field i \<longleftrightarrow>
     list_all (\<lambda>j. field (field_off (int j) (int i + 1)) = 0x7e) [0..<FIELD_HEIGHT]"

definition shift_line :: "mem \<Rightarrow> nat \<Rightarrow> mem" where
  "shift_line field j =
     foldl (\<lambda>f k. foldl (\<lambda>f m.
         f(field_off (int k) (int j + int m) := f (field_off (int k) (int j - MOVE_X + int m))))
       f [0..<8]) field [0..<FIELD_HEIGHT]"

fun shift_down :: "mem \<Rightarrow> nat \<Rightarrow> mem" where
  "shift_down field j = (if j \<ge> 8 then shift_down (shift_line field j) (j - 8) else field)"

declare shift_down.simps [simp del]

text \<open>
  One round of the line loop: the field, the number of filled lines and the interval. The
  loop counter takes the values 0, 8, ..., 120, and \<open>FIELD_WIDTH\<close> is 128: the last round is
  beyond the last column of the array.
\<close>

definition line_round :: "mem \<times> nat \<times> int \<Rightarrow> nat \<Rightarrow> mem \<times> nat \<times> int" where
  "line_round = (\<lambda>(field, num_of_line_filled, interval) i.
     if line_filled field i
     then (shift_down field i, num_of_line_filled + 1, max (interval - 100000) 300000)
     else (field, num_of_line_filled, interval))"

definition clear_lines :: "mem \<Rightarrow> int \<Rightarrow> mem \<times> nat \<times> int" where
  "clear_lines field interval = foldl line_round (field, 0, interval) (map ((*) 8) [0..<16])"

definition top_reached :: "mem \<Rightarrow> bool" where
  "top_reached field \<longleftrightarrow>
     list_ex (\<lambda>j. field (field_off (int j) 1) = 0x7e) [0..<FIELD_HEIGHT]"

section \<open>The field as a grid\<close>

text \<open>
  The eight bytes of the field in row \<open>r\<close>, line \<open>c\<close>; a line; all fifteen lines, top first.
  A line is filled when the second byte of each of its groups is \<open>0x7e\<close>.
\<close>

definition grp :: "mem \<Rightarrow> int \<Rightarrow> int \<Rightarrow> byte list" where
  "grp f r c = map (\<lambda>m. f (field_off r (8 * c + int m))) [0..<8]"

definition col_of :: "mem \<Rightarrow> nat \<Rightarrow> byte list list" where
  "col_of f c = map (\<lambda>r. grp f (int r) (int c)) [0..<8]"

definition cols :: "mem \<Rightarrow> byte list list list" where
  "cols f = map (col_of f) [0..<15]"

definition full_col :: "byte list list \<Rightarrow> bool" where
  "full_col gs \<longleftrightarrow> list_all (\<lambda>g. g ! 1 = 0x7e) gs"

definition blank_col :: "byte list list" where
  "blank_col = replicate 8 blank"

text \<open>Cell \<open>(r, c)\<close> is occupied; every group is one of the three that shapes are made of.\<close>

definition occ :: "mem \<Rightarrow> int \<Rightarrow> int \<Rightarrow> bool" where
  "occ f r c \<longleftrightarrow> f (field_off r (8 * c + 1)) = 0x7e"

definition field_ok :: "mem \<Rightarrow> bool" where
  "field_ok f \<longleftrightarrow> (\<forall>c<15. set (col_of f c) \<subseteq> groups3)"

text \<open>The memory outside the array.\<close>

definition outside :: "mem \<Rightarrow> mem \<Rightarrow> bool" where
  "outside f f' \<longleftrightarrow> (\<forall>p. p < 0 \<or> 960 \<le> p \<longrightarrow> f' p = f p)"

lemma outside_refl [simp]: "outside f f"
  by (simp add: outside_def)

lemma outside_trans: "outside f g \<Longrightarrow> outside g h \<Longrightarrow> outside f h"
  by (simp add: outside_def)

lemma length_grp [simp]: "length (grp f r c) = 8"
  by (simp add: grp_def)

lemma grp_nth: "m < 8 \<Longrightarrow> grp f r c ! m = f (field_off r (8 * c + int m))"
  by (simp add: grp_def)

lemma length_cols [simp]: "length (cols f) = 15" "length (col_of f c) = 8"
  by (simp_all add: cols_def col_of_def)

lemma grp_ok: "field_ok f \<Longrightarrow> 0 \<le> r \<Longrightarrow> r < 8 \<Longrightarrow> 0 \<le> c \<Longrightarrow> c < 15 \<Longrightarrow> grp f r c \<in> groups3"
proof -
  assume a: "field_ok f" "0 \<le> r" "r < 8" "0 \<le> c" "c < 15"
  have "grp f (int (nat r)) (int (nat c)) \<in> set (col_of f (nat c))"
    using a unfolding col_of_def set_map by (intro imageI) auto
  moreover have "set (col_of f (nat c)) \<subseteq> groups3" using a by (simp add: field_ok_def)
  ultimately have "grp f (int (nat r)) (int (nat c)) \<in> groups3" by blast
  then show ?thesis using a by simp
qed

lemma occ_grp: "grp f r c \<in> groups3 \<Longrightarrow> occ f r c \<longleftrightarrow> grp f r c \<noteq> blank"
  using grp_nth[of 1 f r c] by (auto simp: occ_def blank_def cell_def slid_def)

section \<open>Collision test\<close>

lemma shape_bits:
  assumes "s \<in> {cell, slid}" and "g \<in> groups3"
  shows "(\<exists>k<8. s ! k AND g ! k \<noteq> 0) \<longleftrightarrow> g \<noteq> blank"
proof -
  have one: "s ! 1 AND g ! 1 \<noteq> 0" if "g \<noteq> blank"
    using that assms by (auto simp: cell_def slid_def)
  have zero: "g ! k = 0" if "g = blank" "k < 8" for k
    using that by simp
  show ?thesis
  proof (cases "g = blank")
    case True
    then show ?thesis using zero by simp
  next
    case False
    then show ?thesis using one by (intro iffI exI[of _ 1]) simp_all
  qed
qed

lemma shape_nonzero: "s \<in> {cell, slid} \<Longrightarrow> s ! 1 \<noteq> 0"
  by (auto simp: cell_def slid_def)

lemma list_ex_upt: "list_ex P [0..<n] \<longleftrightarrow> (\<exists>i<n. P i)"
  by (auto simp: list_ex_iff)

lemma list_all_upt: "list_all P [0..<n] \<longleftrightarrow> (\<forall>i<n. P i)"
  by (auto simp: list_all_iff)

lemma ex_group: "(\<exists>j<32. P j) \<longleftrightarrow> (\<exists>g<4. \<exists>k<8. P (8 * g + k :: nat))"
proof
  assume "\<exists>j<32. P j"
  then obtain j where "j < 32" "P j" by blast
  then have "j div 8 < 4" "j mod 8 < 8" "P (8 * (j div 8) + j mod 8)" by auto
  then show "\<exists>g<4. \<exists>k<8. P (8 * g + k)" by blast
next
  assume "\<exists>g<4. \<exists>k<8. P (8 * g + k)"
  then obtain g k :: nat where "g < 4" "k < 8" "P (8 * g + k)" by blast
  moreover from this have "8 * g + k < 32" by simp
  ultimately show "\<exists>j<32. P j" by blast
qed

text \<open>
  On a well-formed field the byte-wise test of a shape at line \<open>c\<close> asks for each of its
  cells whether it is outside the grid or taken; the bytes outside the array do not matter.
\<close>

lemma hit_group:
  assumes "t < 9" and "a < 4" and "g < 4" and ok: "field_ok f" and c: "0 \<le> c + int g"
  shows "(\<exists>k<8. let s = mino_shape t a i (8 * g + k); x = 8 * c + int (8 * g + k) in
      (s \<noteq> 0 \<and> (8 \<le> y \<or> y < 0 \<or> 120 \<le> x \<or> x < 0)) \<or> s AND f (field_off y x) \<noteq> 0)
    \<longleftrightarrow> shape_occ t a i g \<and> (8 \<le> y \<or> y < 0 \<or> 15 \<le> c + int g \<or> occ f y (c + int g))"
proof (cases "shape_occ t a i g")
  case False
  then have "mino_shape t a i (8 * g + k) = 0" if "k < 8" for k
    using mino_shape_group[OF assms(1-3) that, of i] that
    by (simp add: shape_occ_def)
  then show ?thesis using False by auto
next
  case True
  let ?s = "shape_group t a i g"
  have s: "?s \<in> {cell, slid}"
    using True shape_group_cases[OF assms(1-3), of i] by (auto simp: shape_occ_def)
  have b: "mino_shape t a i (8 * g + k) = ?s ! k" if "k < 8" for k
    using mino_shape_group[OF assms(1-3) that] .
  have range: "120 \<le> 8 * c + int (8 * g + k) \<longleftrightarrow> 15 \<le> c + int g"
    "\<not> 8 * c + int (8 * g + k) < 0" if "k < 8" for k
    using that c by auto
  have fb: "f (field_off y (8 * c + int (8 * g + k))) = grp f y (c + int g) ! k" if "k < 8" for k
    using that by (simp add: grp_nth algebra_simps)
  have "(\<exists>k<8. let s = mino_shape t a i (8 * g + k); x = 8 * c + int (8 * g + k) in
      (s \<noteq> 0 \<and> (8 \<le> y \<or> y < 0 \<or> 120 \<le> x \<or> x < 0)) \<or> s AND f (field_off y x) \<noteq> 0)
    \<longleftrightarrow> (\<exists>k<8. (?s ! k \<noteq> 0 \<and> (8 \<le> y \<or> y < 0 \<or> 15 \<le> c + int g)) \<or>
          ?s ! k AND grp f y (c + int g) ! k \<noteq> 0)"
    using b range fb by (auto simp: Let_def)
  also have "\<dots> \<longleftrightarrow> 8 \<le> y \<or> y < 0 \<or> 15 \<le> c + int g \<or>
      (\<exists>k<8. ?s ! k AND grp f y (c + int g) ! k \<noteq> 0)"
    using shape_nonzero[OF s] by (auto intro: exI[of _ 1])
  also have "\<dots> \<longleftrightarrow> 8 \<le> y \<or> y < 0 \<or> 15 \<le> c + int g \<or> occ f y (c + int g)"
    using grp_ok[OF ok, of y "c + int g"] shape_bits[OF s] occ_grp c by force
  finally show ?thesis using True by simp
qed

lemma is_hit_cells:
  assumes "t < 9" and "a < 4" and "field_ok f" and "0 \<le> c"
  shows "is_hit f (8 * c) y t a \<longleftrightarrow>
    (\<exists>i<4. \<exists>g<4. shape_occ t a i g \<and>
       (8 \<le> y + int i \<or> y + int i < 0 \<or> 15 \<le> c + int g \<or> occ f (y + int i) (c + int g)))"
proof -
  have "is_hit f (8 * c) y t a \<longleftrightarrow> (\<exists>i<4. \<exists>g<4. \<exists>k<8.
      let s = mino_shape t a i (8 * g + k); x = 8 * c + int (8 * g + k) in
      (s \<noteq> 0 \<and> (8 \<le> y + int i \<or> y + int i < 0 \<or> 120 \<le> x \<or> x < 0)) \<or>
      s AND f (field_off (y + int i) x) \<noteq> 0)"
    by (simp add: is_hit_def list_ex_upt ex_group MINO_HEIGHT_def MINO_WIDTH_def Let_def)
  moreover have "(\<exists>k<8. let s = mino_shape t a i (8 * g + k); x = 8 * c + int (8 * g + k) in
      (s \<noteq> 0 \<and> (8 \<le> y + int i \<or> y + int i < 0 \<or> 120 \<le> x \<or> x < 0)) \<or>
      s AND f (field_off (y + int i) x) \<noteq> 0) \<longleftrightarrow>
    shape_occ t a i g \<and>
       (8 \<le> y + int i \<or> y + int i < 0 \<or> 15 \<le> c + int g \<or> occ f (y + int i) (c + int g))"
    if "g < 4" for i g
    using hit_group[OF assms(1,2) that assms(3), of c i "y + int i"] assms(4) by simp
  ultimately show ?thesis by metis
qed

text \<open>All cells of the shape at line \<open>c\<close>, row \<open>y\<close> are inside the grid.\<close>

definition in_grid :: "int \<Rightarrow> int \<Rightarrow> nat \<Rightarrow> nat \<Rightarrow> bool" where
  "in_grid c y t a \<longleftrightarrow>
     list_all (\<lambda>i. list_all (\<lambda>g. shape_occ t a i g \<longrightarrow>
       0 \<le> y + int i \<and> y + int i < 8 \<and> c + int g < 15) [0..<4]) [0..<4]"

lemma not_hit_in_grid:
  assumes "t < 9" and "a < 4" and "field_ok f" and "0 \<le> c" and "\<not> is_hit f (8 * c) y t a"
  shows "in_grid c y t a"
  using assms(5) unfolding is_hit_cells[OF assms(1-4)] in_grid_def list_all_upt
  by (meson linorder_not_le)

section \<open>Placing a tetromino\<close>

lemma foldl_nested:
  "foldl (\<lambda>f i. foldl (\<lambda>f j. F f i j) f js) f is
    = foldl (\<lambda>f (i, j). F f i j) f (List.product is js)"
  by (induction "is" arbitrary: f) (simp_all add: foldl_map)

text \<open>A loop that updates distinct offsets one by one.\<close>

lemma foldl_update_out:
  "p \<notin> h ` set ks \<Longrightarrow> foldl (\<lambda>f k. f(h k := G k (f (h k)))) f ks p = f p"
  by (induction ks arbitrary: f) simp_all

lemma foldl_update_in:
  assumes "inj_on h (set ks)" and "distinct ks" and "k \<in> set ks"
  shows "foldl (\<lambda>f k. f(h k := G k (f (h k)))) f ks (h k) = G k (f (h k))"
  using assms
proof (induction ks arbitrary: f)
  case Nil
  then show ?case by simp
next
  case (Cons x ks)
  let ?f = "f(h x := G x (f (h x)))"
  have "foldl (\<lambda>f k. f(h k := G k (f (h k)))) ?f ks (h k) = G k (f (h k))"
  proof (cases "k = x")
    case True
    then have "h k \<notin> h ` set ks" using Cons.prems by (auto simp: inj_on_def)
    then have "foldl (\<lambda>f k. f(h k := G k (f (h k)))) ?f ks (h k) = ?f (h k)"
      by (rule foldl_update_out)
    with True show ?thesis by simp
  next
    case False
    then have k: "k \<in> set ks" using Cons.prems(3) by simp
    have "inj_on h (set ks)" using Cons.prems(1) by simp
    then have "foldl (\<lambda>f k. f(h k := G k (f (h k)))) ?f ks (h k) = G k (?f (h k))"
      using Cons.prems(2) k by (intro Cons.IH) simp_all
    moreover have "h k \<noteq> h x" using Cons.prems(1) k False by (auto simp: inj_on_def)
    ultimately show ?thesis by simp
  qed
  then show ?case unfolding foldl_Cons .
qed

lemma off_inj:
  assumes "120 * int i + int j = 120 * int i' + int j'" and "j < 120" and "j' < 120"
  shows "i = i' \<and> j = j'"
proof -
  have "(120 * int i + int j) div 120 = int i" "(120 * int i' + int j') div 120 = int i'"
    using assms(2,3) by simp_all
  then show ?thesis using assms(1) by simp
qed

lemma add_mino_byte:
  assumes "i < 4" and "j < 32"
  shows "add_mino f x y t a (field_off (y + int i) (x + int j))
    = f (field_off (y + int i) (x + int j)) OR mino_shape t a i j"
proof -
  let ?h = "\<lambda>(i, j). field_off (y + int i) (x + int j)"
  let ?ks = "List.product [0..<4] [0..<32]"
  have "inj_on ?h (set ?ks)"
    by (auto simp: inj_on_def field_off_def dest: off_inj)
  moreover have "distinct ?ks" by (simp add: distinct_product)
  ultimately have "foldl (\<lambda>f k. f(?h k := (\<lambda>k b. b OR mino_shape t a (fst k) (snd k)) k (f (?h k)))) f ?ks (?h (i, j))
      = f (?h (i, j)) OR mino_shape t a i j"
    using assms by (subst foldl_update_in) auto
  then show ?thesis
    by (simp add: add_mino_def foldl_nested MINO_HEIGHT_def MINO_WIDTH_def Let_def case_prod_unfold)
qed

lemma add_mino_other:
  assumes "\<And>i j. i < 4 \<Longrightarrow> j < 32 \<Longrightarrow> p \<noteq> field_off (y + int i) (x + int j)"
  shows "add_mino f x y t a p = f p"
proof -
  let ?h = "\<lambda>(i, j). field_off (y + int i) (x + int j)"
  let ?ks = "List.product [0..<4] [0..<32]"
  have "p \<notin> ?h ` set ?ks"
  proof
    assume "p \<in> ?h ` set ?ks"
    then obtain i j where "i < 4" "j < 32" "p = field_off (y + int i) (x + int j)" by auto
    then show False using assms by blast
  qed
  then have "foldl (\<lambda>f k. f(?h k := (\<lambda>k b. b OR mino_shape t a (fst k) (snd k)) k (f (?h k)))) f ?ks p = f p"
    by (rule foldl_update_out)
  then show ?thesis
    by (simp add: add_mino_def foldl_nested MINO_HEIGHT_def MINO_WIDTH_def Let_def case_prod_unfold)
qed

definition window :: "int \<Rightarrow> int \<Rightarrow> int \<Rightarrow> int \<Rightarrow> bool" where
  "window c y r c' \<longleftrightarrow> y \<le> r \<and> r < y + 4 \<and> c \<le> c' \<and> c' < c + 4"

text \<open>The group of the shape that falls on cell \<open>(r, c')\<close> of the grid.\<close>

definition over_group :: "int \<Rightarrow> int \<Rightarrow> nat \<Rightarrow> nat \<Rightarrow> int \<Rightarrow> int \<Rightarrow> byte list" where
  "over_group c y t a r c' =
     (if window c y r c' then shape_group t a (nat (r - y)) (nat (c' - c)) else blank)"

lemma shape_byte_in_grid:
  assumes "t < 9" and "a < 4" and "in_grid c y t a" and "i < 4" and "j < 32"
    and "mino_shape t a i j \<noteq> 0"
  shows "0 \<le> y + int i \<and> y + int i < 8 \<and> 8 * c + int j < 120"
proof -
  have "mino_shape t a i (8 * (j div 8) + j mod 8) \<noteq> 0" using assms(6) by simp
  then have "shape_group t a i (j div 8) ! (j mod 8) \<noteq> 0"
    using mino_shape_group[of t a "j div 8" "j mod 8" i] assms(1,2,5) by simp
  moreover have "blank ! (j mod 8) = 0" by simp
  ultimately have "shape_occ t a i (j div 8)" unfolding shape_occ_def by metis
  moreover have "j div 8 < 4" using assms(5) by simp
  ultimately have "0 \<le> y + int i" "y + int i < 8" "c + int (j div 8) < 15"
    using assms(3,4) unfolding in_grid_def list_all_upt by blast+
  moreover have "int j = 8 * int (j div 8) + int (j mod 8)" "int (j mod 8) < 8"
    using div_mult_mod_eq[of j 8] by linarith+
  ultimately show ?thesis by linarith
qed

lemma add_mino_grp:
  assumes "t < 9" and "a < 4" and "in_grid c y t a" and "0 \<le> c"
    and r: "0 \<le> r" "r < 8" and c': "0 \<le> c'" "c' < 15" and m: "m < 8"
  shows "grp (add_mino f (8 * c) y t a) r c' ! m = grp f r c' ! m OR over_group c y t a r c' ! m"
proof (cases "window c y r c'")
  case True
  define i g where "i = nat (r - y)" and "g = nat (c' - c)"
  have ig: "i < 4" "g < 4" "r = y + int i" "c' = c + int g"
    using True by (auto simp: window_def i_def g_def)
  have p: "field_off r (8 * c' + int m) = field_off (y + int i) (8 * c + int (8 * g + m))"
    using ig by (simp add: field_off_def)
  have "add_mino f (8 * c) y t a (field_off r (8 * c' + int m))
      = f (field_off r (8 * c' + int m)) OR mino_shape t a i (8 * g + m)"
    unfolding p using ig m by (intro add_mino_byte) simp_all
  then show ?thesis
    using True m mino_shape_group[OF assms(1,2) ig(2) m, of i]
    by (simp add: grp_nth over_group_def i_def g_def)
next
  case False
  let ?p = "field_off r (8 * c' + int m)"
  have "add_mino f (8 * c) y t a ?p = f ?p"
  proof (cases "\<exists>i j. i < 4 \<and> j < 32 \<and> ?p = field_off (y + int i) (8 * c + int j)")
    case True
    then obtain i j where ij: "i < 4" "j < 32" "?p = field_off (y + int i) (8 * c + int j)" by blast
    have "mino_shape t a i j = 0"
    proof (rule ccontr)
      assume "mino_shape t a i j \<noteq> 0"
      then have b: "0 \<le> y + int i" "y + int i < 8" "8 * c + int j < 120"
        using shape_byte_in_grid[OF assms(1-3) ij(1,2)] by simp_all
      have "120 * int (nat r) + int (nat (8 * c' + int m))
          = 120 * int (nat (y + int i)) + int (nat (8 * c + int j))"
        using ij(3) b(1) r(1) c'(1) assms(4) by (simp add: field_off_def)
      then have "nat r = nat (y + int i) \<and> nat (8 * c' + int m) = nat (8 * c + int j)"
        using b(3) c'(2) m by (intro off_inj) simp_all
      then have "r = y + int i" "8 * c' + int m = 8 * c + int j"
        using r(1) c'(1) b(1) assms(4) by (simp_all add: eq_nat_nat_iff)
      then show False using False ij(1,2) m by (auto simp: window_def)
    qed
    then show ?thesis using add_mino_byte[OF ij(1,2), of f "8 * c" y t a] ij(3) by simp
  next
    case False
    then show ?thesis by (intro add_mino_other) blast
  qed
  then show ?thesis using False m by (simp add: grp_nth over_group_def)
qed

lemma over_group_cases:
  assumes "t < 9" and "a < 4"
  shows "over_group c y t a r c' \<in> groups3"
proof (cases "window c y r c'")
  case True
  then have "nat (c' - c) < 4" by (auto simp: window_def)
  then show ?thesis
    using shape_group_cases[OF assms, of "nat (c' - c)" "nat (r - y)"] True
    by (simp only: over_group_def if_True)
qed (simp add: over_group_def)

lemma or_groups:
  "g \<in> groups3 \<Longrightarrow> s \<in> groups3 \<Longrightarrow> length x = 8 \<Longrightarrow> (\<And>m. m < 8 \<Longrightarrow> x ! m = g ! m OR s ! m) \<Longrightarrow>
     (x ! 1 = 0x7e \<longleftrightarrow> g ! 1 = 0x7e \<or> s \<noteq> blank) \<and> (s = blank \<longrightarrow> x = g) \<and> (g = blank \<longrightarrow> x = s)"
  by (auto simp: cell_def slid_def length_groups intro: nth_equalityI)

definition over_occ :: "int \<Rightarrow> int \<Rightarrow> nat \<Rightarrow> nat \<Rightarrow> int \<Rightarrow> int \<Rightarrow> bool" where
  "over_occ c y t a r c' \<longleftrightarrow> over_group c y t a r c' \<noteq> blank"

lemma occ_nth: "occ f r c \<longleftrightarrow> grp f r c ! 1 = 0x7e"
  by (simp add: occ_def grp_nth)

text \<open>
  After placing a shape that lies in the grid, a cell is occupied when it was before or the
  shape covers it.
\<close>

lemma add_mino_occ:
  assumes "t < 9" and "a < 4" and "in_grid c y t a" and "0 \<le> c" and "field_ok f"
    and "0 \<le> r" and "r < 8" and "0 \<le> c'" and "c' < 15"
  shows "occ (add_mino f (8 * c) y t a) r c' \<longleftrightarrow> occ f r c' \<or> over_occ c y t a r c'"
  using or_groups[OF grp_ok[OF assms(5-9)] over_group_cases[OF assms(1,2), of c y r c'] length_grp
      add_mino_grp[OF assms(1-4,6-9), of _ f]]
  by (simp add: occ_nth over_occ_def)

lemma col_of_ok: "field_ok f \<longleftrightarrow> (\<forall>r c. 0 \<le> r \<longrightarrow> r < 8 \<longrightarrow> 0 \<le> c \<longrightarrow> c < 15 \<longrightarrow> grp f r c \<in> groups3)"
  (is "_ \<longleftrightarrow> ?R")
proof
  assume R: ?R
  show "field_ok f" unfolding field_ok_def
  proof (intro allI impI subsetI)
    fix c x assume "c < (15::nat)" "x \<in> set (col_of f c)"
    then obtain r where "r < 8" "x = grp f (int r) (int c)" by (auto simp: col_of_def)
    then show "x \<in> groups3" using R \<open>c < 15\<close> by (simp del: insert_iff)
  qed
qed (use grp_ok in blast)

lemma add_mino_field_ok:
  assumes "t < 9" and "a < 4" and "0 \<le> c" and "field_ok f" and "\<not> is_hit f (8 * c) y t a"
  shows "field_ok (add_mino f (8 * c) y t a)"
  unfolding col_of_ok
proof (intro allI impI)
  fix r c' :: int assume rc: "0 \<le> r" "r < 8" "0 \<le> c'" "c' < 15"
  let ?g = "grp f r c'" and ?s = "over_group c y t a r c'"
  have g: "?g \<in> groups3" and s: "?s \<in> groups3"
    using grp_ok[OF assms(4) rc] over_group_cases[OF assms(1,2)] by blast+
  have disj: "?g = blank \<or> ?s = blank"
  proof (rule ccontr)
    assume n: "\<not> (?g = blank \<or> ?s = blank)"
    then have w: "window c y r c'" "shape_occ t a (nat (r - y)) (nat (c' - c))"
      by (auto simp: over_group_def shape_occ_def split: if_splits)
    moreover have "occ f r c'" using n occ_grp[OF g] by simp
    ultimately have "is_hit f (8 * c) y t a"
      unfolding is_hit_cells[OF assms(1,2,4,3)]
      by (intro exI[of _ "nat (r - y)"] conjI exI[of _ "nat (c' - c)"]) (auto simp: window_def)
    then show False using assms(5) by simp
  qed
  have "grp (add_mino f (8 * c) y t a) r c' = ?g \<or> grp (add_mino f (8 * c) y t a) r c' = ?s"
    using or_groups[OF g s length_grp add_mino_grp[OF assms(1,2) not_hit_in_grid[OF assms(1,2,4,3,5)]
        assms(3) rc, of _ f]] disj by blast
  then show "grp (add_mino f (8 * c) y t a) r c' \<in> groups3" using g s by (elim disjE ssubst)
qed

text \<open>Stores outside the array only combine zeros; there are such stores low in the field.\<close>

lemma add_mino_stores:
  "add_mino f x y t a = foldl (\<lambda>f (p, v). f(p := f p OR v)) f (mino_stores x y t a)"
  by (simp add: add_mino_def mino_stores_def foldl_nested foldl_map Let_def case_prod_unfold)

lemma mino_stores_outside:
  assumes "t < 9" and "a < 4" and "in_grid c y t a" and "0 \<le> c"
    and "(p, v) \<in> set (mino_stores (8 * c) y t a)" and "p < 0 \<or> 960 \<le> p"
  shows "v = 0"
proof -
  obtain i j where ij: "i < 4" "j < 32" "p = field_off (y + int i) (8 * c + int j)" "v = mino_shape t a i j"
    using assms(5) by (auto simp: mino_stores_def MINO_HEIGHT_def MINO_WIDTH_def simp del: upt_rec_numeral)
  then show ?thesis
    using shape_byte_in_grid[OF assms(1-3) ij(1,2)] assms(4,6)
    unfolding ij(3) field_off_def by (cases "mino_shape t a i j = 0") auto
qed

lemma mino_stores_behind:
  assumes "0 \<le> x" and "4 < y"
  shows "\<exists>(p, v)\<in>set (mino_stores x y t a). 960 \<le> p"
proof -
  have "(field_off (y + int 3) (x + int 0), mino_shape t a 3 0) \<in> set (mino_stores x y t a)"
    unfolding mino_stores_def by (force simp: MINO_HEIGHT_def MINO_WIDTH_def simp del: upt_rec_numeral)
  moreover have "960 \<le> field_off (y + int 3) (x + int 0)" using assms by (simp add: field_off_def)
  ultimately show ?thesis by blast
qed

lemma foldl_blank_stores:
  fixes f :: mem
  assumes "\<forall>e\<in>set ks. fst e = p \<longrightarrow> snd e = 0"
  shows "foldl (\<lambda>f (p, v). f(p := f p OR v)) f ks p = f p"
  using assms by (induction ks arbitrary: f) (simp_all add: case_prod_unfold)

lemma add_mino_outside:
  assumes "t < 9" and "a < 4" and "in_grid c y t a" and "0 \<le> c"
  shows "outside f (add_mino f (8 * c) y t a)"
  unfolding outside_def add_mino_stores
proof (intro allI impI)
  fix p :: int assume "p < 0 \<or> 960 \<le> p"
  then show "foldl (\<lambda>f (p, v). f(p := f p OR v)) f (mino_stores (8 * c) y t a) p = f p"
    using mino_stores_outside[OF assms, of p] by (intro foldl_blank_stores) auto
qed

section \<open>Removing filled lines\<close>

text \<open>A loop that copies from offsets it does not write to.\<close>

lemma foldl_copy_out:
  "p \<notin> dst ` set ks \<Longrightarrow> foldl (\<lambda>f k. f(dst k := f (src k))) f ks p = f p"
  by (induction ks arbitrary: f) simp_all

lemma foldl_copy_in:
  assumes "inj_on dst (set ks)" and "\<And>x y. x \<in> set ks \<Longrightarrow> y \<in> set ks \<Longrightarrow> src x \<noteq> dst y"
    and "k \<in> set ks"
  shows "foldl (\<lambda>f k. f(dst k := f (src k))) f ks (dst k) = f (src k)"
  using assms
proof (induction ks arbitrary: f)
  case Nil
  then show ?case by simp
next
  case (Cons x ks)
  let ?f = "f(dst x := f (src x))"
  have "foldl (\<lambda>f k. f(dst k := f (src k))) ?f ks (dst k) = f (src k)"
  proof (cases "k \<in> set ks")
    case True
    have "foldl (\<lambda>f k. f(dst k := f (src k))) ?f ks (dst k) = ?f (src k)"
      by (rule Cons.IH[OF _ _ True]) (use Cons.prems(1,2) in auto)
    moreover have "src k \<noteq> dst x" using Cons.prems(2)[of k x] True by simp
    ultimately show ?thesis by simp
  next
    case False
    then have "k = x" "dst k \<notin> dst ` set ks" using Cons.prems(1,3) by (auto simp: inj_on_def)
    then show ?thesis using foldl_copy_out[of "dst k" dst ks src ?f] by simp
  qed
  then show ?case unfolding foldl_Cons .
qed

lemma shift_line_product:
  "shift_line f j = foldl (\<lambda>f k. f((\<lambda>(k, m). field_off (int k) (int j + int m)) k
      := f ((\<lambda>(k, m). field_off (int k) (int j - MOVE_X + int m)) k)))
    f (List.product [0..<8] [0..<8])"
  by (simp add: shift_line_def foldl_nested case_prod_unfold)

lemma shift_line_byte:
  assumes "8 \<le> j" and "j \<le> 112" and "k < 8" and "m < 8"
  shows "shift_line f j (field_off (int k) (int j + int m))
    = f (field_off (int k) (int j - 8 + int m))"
proof -
  let ?dst = "\<lambda>(k :: nat, m :: nat). field_off (int k) (int j + int m)"
  let ?src = "\<lambda>(k :: nat, m :: nat). field_off (int k) (int j - MOVE_X + int m)"
  have inj: "inj_on ?dst (set (List.product [0..<8] [0..<8]))"
  proof (rule inj_onI)
    fix x y assume "x \<in> set (List.product [0..<8] [0..<8])" "y \<in> set (List.product [0..<8] [0..<8])"
      and "?dst x = ?dst y"
    then show "x = y"
      using assms(2) off_inj[of "fst x" "j + snd x" "fst y" "j + snd y"]
      by (auto simp: field_off_def split: prod.splits)
  qed
  have disj: "?src x \<noteq> ?dst y"
    if "x \<in> set (List.product [0..<8] [0..<8])" "y \<in> set (List.product [0..<8] [0..<8])" for x y
  proof
    assume "?src x = ?dst y"
    then have "120 * int (fst x) + int (j - 8 + snd x) = 120 * int (fst y) + int (j + snd y)"
      using assms(1) by (simp add: field_off_def of_nat_diff case_prod_unfold)
    moreover have "snd x < 8" "snd y < 8" using that by auto
    ultimately show False
      using assms(1,2) off_inj[of "fst x" "j - 8 + snd x" "fst y" "j + snd y"] by linarith
  qed
  have "shift_line f j (?dst (k, m)) = f (?src (k, m))"
    unfolding shift_line_product by (intro foldl_copy_in inj disj) (use assms in simp_all)
  then show ?thesis by simp
qed

lemma shift_line_other:
  assumes "\<And>k m. k < 8 \<Longrightarrow> m < 8 \<Longrightarrow> p \<noteq> field_off (int k) (int j + int m)"
  shows "shift_line f j p = f p"
  unfolding shift_line_product
proof (rule foldl_copy_out, rule notI)
  assume "p \<in> (\<lambda>(k, m). field_off (int k) (int j + int m)) ` set (List.product [0..<8] [0..<8])"
  then obtain k m where "k < 8" "m < 8" "p = field_off (int k) (int j + int m)" by auto
  then show False using assms by blast
qed

lemma shift_line_grp:
  assumes "1 \<le> c" and "c < 15" and "r < 8" and "c' < 15"
  shows "grp (shift_line f (8 * c)) (int r) (int c')
    = grp f (int r) (int (if c' = c then c - 1 else c'))"
proof (rule nth_equalityI)
  fix m assume "m < length (grp (shift_line f (8 * c)) (int r) (int c'))"
  then have m: "m < 8" by simp
  show "grp (shift_line f (8 * c)) (int r) (int c') ! m
    = grp f (int r) (int (if c' = c then c - 1 else c')) ! m"
  proof (cases "c' = c")
    case True
    then show ?thesis
      using shift_line_byte[of "8 * c" r m f] m assms
      by (simp add: grp_nth of_nat_diff algebra_simps)
  next
    case False
    have "shift_line f (8 * c) (field_off (int r) (8 * int c' + int m)) = f (field_off (int r) (8 * int c' + int m))"
    proof (rule shift_line_other)
      fix k n :: nat assume kn: "k < 8" "n < 8"
      show "field_off (int r) (8 * int c' + int m) \<noteq> field_off (int k) (int (8 * c) + int n)"
        using off_inj[of r "8 * c' + m" k "8 * c + n"] assms m kn False
        by (auto simp: field_off_def)
    qed
    then show ?thesis using False m by (simp add: grp_nth)
  qed
qed simp

lemma shift_line_outside:
  assumes "j < 113"
  shows "outside f (shift_line f j)"
  unfolding outside_def
proof (intro allI impI shift_line_other)
  fix p :: int and k m :: nat
  assume "p < 0 \<or> 960 \<le> p" "k < 8" "m < 8"
  then show "p \<noteq> field_off (int k) (int j + int m)" using assms by (auto simp: field_off_def)
qed

text \<open>The loop over \<open>j\<close> moves all lines above \<open>c\<close> down by one; line 0 stays.\<close>

lemma shift_down_col:
  assumes "c < 15" and "c' < 15"
  shows "col_of (shift_down f (8 * c)) c'
    = col_of f (if c' = 0 \<or> c < c' then c' else c' - 1)"
  using assms(1)
proof (induction c arbitrary: f)
  case 0
  then show ?case by (simp add: shift_down.simps)
next
  case (Suc c)
  have "shift_down f (8 * Suc c) = shift_down (shift_line f (8 * Suc c)) (8 * c)"
    by (subst shift_down.simps) simp
  moreover have "col_of (shift_line f (8 * Suc c)) b = col_of f (if b = Suc c then c else b)"
    if "b < 15" for b
    using shift_line_grp[of "Suc c" _ b f] Suc.prems that by (auto simp: col_of_def)
  moreover have "c' - 1 = c" if "c < c'" "\<not> Suc c < c'" using that by simp
  ultimately show ?case using Suc.IH[of "shift_line f (8 * Suc c)"] Suc.prems assms(2) by auto
qed

lemma shift_down_outside: "c < 15 \<Longrightarrow> outside f (shift_down f (8 * c))"
proof (induction c arbitrary: f)
  case 0
  then show ?case by (simp add: shift_down.simps)
next
  case (Suc c)
  have "shift_down f (8 * Suc c) = shift_down (shift_line f (8 * Suc c)) (8 * c)"
    by (subst shift_down.simps) simp
  then show ?case
    using Suc.IH[of "shift_line f (8 * Suc c)"] Suc.prems shift_line_outside[of "8 * Suc c" f]
    by (auto intro: outside_trans)
qed

lemma cols_nth: "c < 15 \<Longrightarrow> cols f ! c = col_of f c"
  by (simp add: cols_def)

lemma line_filled_col: "line_filled f (8 * c) \<longleftrightarrow> full_col (col_of f c)"
  by (simp add: line_filled_def full_col_def col_of_def list_all_upt list_all_iff grp_nth
      add.commute) 

lemma shift_down_cols:
  assumes "c < 15"
  shows "cols (shift_down f (8 * c)) = cols f ! 0 # take c (cols f) @ drop (c + 1) (cols f)"
proof (rule nth_equalityI)
  show "length (cols (shift_down f (8 * c)))
      = length (cols f ! 0 # take c (cols f) @ drop (c + 1) (cols f))"
    using assms by simp
  fix k assume "k < length (cols (shift_down f (8 * c)))"
  then have k: "k < 15" by simp
  then show "cols (shift_down f (8 * c)) ! k
      = (cols f ! 0 # take c (cols f) @ drop (c + 1) (cols f)) ! k"
    using shift_down_col[OF assms k, of f] assms
    by (auto simp: cols_nth nth_Cons' nth_append min_def)
qed

definition speed_up :: "nat \<Rightarrow> int \<Rightarrow> int" where
  "speed_up n interval = (if n = 0 then interval else max (interval - 100000 * int n) 300000)"

lemma speed_up_Suc: "max (speed_up n i - 100000) 300000 = speed_up (Suc n) i"
  by (cases "n = 0") (simp_all add: speed_up_def max_def algebra_simps)

text \<open>The lines above \<open>k\<close> after \<open>k\<close> rounds: the filled ones are gone, copies of line 0 fill up.\<close>

definition dropped :: "byte list list \<Rightarrow> byte list list list \<Rightarrow> byte list list list" where
  "dropped T ls = replicate (length (filter full_col ls)) T @ filter (\<lambda>l. \<not> full_col l) ls"

lemma length_dropped [simp]: "length (dropped T ls) = length ls"
  using sum_length_filter_compl[of full_col ls] by (simp add: dropped_def)

lemma dropped_snoc:
  "dropped T (ls @ [l]) = (if full_col l then T # dropped T ls else dropped T ls @ [l])"
  by (simp add: dropped_def)

lemma rounds:
  assumes "\<not> full_col (cols f ! 0)" and "k \<le> 15"
  shows "\<exists>f'. foldl line_round (f, 0, i) (map ((*) 8) [0..<k])
      = (f', length (filter full_col (take k (cols f))), speed_up (length (filter full_col (take k (cols f)))) i)
    \<and> cols f' = dropped (cols f ! 0) (take k (cols f)) @ drop k (cols f)
    \<and> cols f' ! 0 = cols f ! 0 \<and> outside f f'"
  using assms(2)
proof (induction k)
  case 0
  then show ?case by (simp add: dropped_def speed_up_def)
next
  case (Suc k)
  let ?C = "cols f" and ?n = "length (filter full_col (take k (cols f)))"
  obtain f' where f': "foldl line_round (f, 0, i) (map ((*) 8) [0..<k]) = (f', ?n, speed_up ?n i)"
    "cols f' = dropped (?C ! 0) (take k ?C) @ drop k ?C" "cols f' ! 0 = ?C ! 0" "outside f f'"
    using Suc by auto
  have k: "k < 15" and take: "take (Suc k) ?C = take k ?C @ [?C ! k]"
    and drop: "drop k ?C = ?C ! k # drop (Suc k) ?C"
    using Suc.prems by (simp_all add: take_Suc_conv_app_nth Cons_nth_drop_Suc)
  have colk: "cols f' ! k = ?C ! k" using f'(2) k by (simp add: nth_append)
  then have filled: "line_filled f' (8 * k) \<longleftrightarrow> full_col (?C ! k)"
    using k by (simp add: line_filled_col cols_nth)
  show ?case
  proof (cases "full_col (?C ! k)")
    case True
    have "cols (shift_down f' (8 * k)) = dropped (?C ! 0) (take (Suc k) ?C) @ drop (Suc k) ?C"
      using shift_down_cols[OF k, of f'] f'(2,3) True k by (simp add: take dropped_snoc drop)
    moreover have "cols (shift_down f' (8 * k)) ! 0 = ?C ! 0"
      using shift_down_cols[OF k, of f'] f'(3) by simp
    ultimately show ?thesis
      using f'(1,4) filled True shift_down_outside[OF k, of f']
      by (auto simp: line_round_def take speed_up_Suc intro: outside_trans)
  next
    case False
    then show ?thesis using f' filled by (simp add: line_round_def take dropped_snoc drop)
  qed
qed

lemma last_round:
  assumes "0 < r" and "r < 8" and "cols f ! 0 ! r ! 1 \<noteq> 0x7e"
  shows "\<not> line_filled f 120"
proof
  assume "line_filled f 120"
  then have "\<forall>j<8. f (field_off (int j) 121) = 0x7e"
    by (simp add: line_filled_def list_all_upt)
  then have "f (field_off (int (r - 1)) 121) = 0x7e"
    using assms(1,2) by (metis less_imp_diff_less)
  moreover have "field_off (int (r - 1)) 121 = field_off (int r) 1"
    using assms(1) by (simp add: field_off_def of_nat_diff)
  moreover have "cols f ! 0 ! r ! 1 = f (field_off (int r) 1)"
    using assms(2) by (simp add: cols_nth col_of_def grp_nth)
  ultimately show False using assms(3) by simp
qed

lemma clear_lines_cols:
  assumes "0 < r" and "r < 8" and "cols f ! 0 ! r ! 1 \<noteq> 0x7e"
  shows "\<exists>f'. clear_lines f i
      = (f', length (filter full_col (cols f)), speed_up (length (filter full_col (cols f))) i)
    \<and> cols f' = dropped (cols f ! 0) (cols f) \<and> cols f' ! 0 = cols f ! 0 \<and> outside f f'"
proof -
  have "length (cols f ! 0) = 8" by (simp add: cols_nth)
  then have nf: "\<not> full_col (cols f ! 0)"
    using assms by (auto simp: full_col_def list_all_length)
  obtain f' where f': "foldl line_round (f, 0, i) (map ((*) 8) [0..<15])
      = (f', length (filter full_col (cols f)), speed_up (length (filter full_col (cols f))) i)"
    "cols f' = dropped (cols f ! 0) (cols f)" "cols f' ! 0 = cols f ! 0" "outside f f'"
    using rounds[OF nf, of 15 i] by auto
  have "map ((*) 8) [0..<16] = map ((*) 8) [0..<15] @ [120 :: nat]" by (simp add: upt_rec)
  moreover have "\<not> line_filled f' 120"
    using last_round[OF assms(1,2), of f'] f'(3) assms(3) by simp
  ultimately show ?thesis using f' by (simp add: clear_lines_def line_round_def)
qed

lemma cols_occ: "c < 15 \<Longrightarrow> r < 8 \<Longrightarrow> cols f ! c ! r ! 1 = 0x7e \<longleftrightarrow> occ f (int r) (int c)"
  by (simp add: cols_nth col_of_def occ_nth)

lemma full_col_occ: "c < 15 \<Longrightarrow> full_col (cols f ! c) \<longleftrightarrow> (\<forall>r<8. occ f (int r) (int c))"
  using cols_occ[of c _ f] by (simp add: full_col_def list_all_length cols_nth)

lemma top_reached_occ: "top_reached f \<longleftrightarrow> (\<exists>r<8. occ f (int r) 0)"
  by (simp add: top_reached_def list_ex_upt occ_def)

lemma field_ok_cols: "field_ok f \<longleftrightarrow> (\<forall>l\<in>set (cols f). set l \<subseteq> groups3)"
  by (auto simp: field_ok_def cols_def)

lemma filter_dropped:
  "\<not> full_col T \<Longrightarrow> \<not> list_ex full_col (dropped T ls)"
  by (auto simp: dropped_def list_ex_iff)

text \<open>The field as the player sees it: which cells of each line are occupied.\<close>

definition lines :: "mem \<Rightarrow> bool list list" where
  "lines f = map (\<lambda>c. map (\<lambda>r. occ f (int r) (int c)) [0..<8]) [0..<15]"

definition full_line :: "bool list \<Rightarrow> bool" where
  "full_line l \<longleftrightarrow> list_all (\<lambda>b. b) l"

definition empty_line :: "bool list" where
  "empty_line = replicate 8 False"

lemma full_line_simps [simp]:
  "full_line (replicate n True)" "\<not> full_line empty_line" "True \<notin> set empty_line"
  "\<not> full_line (False # l)"
  by (simp_all add: full_line_def empty_line_def list_all_iff)

definition marks :: "byte list list \<Rightarrow> bool list" where
  "marks gs = map (\<lambda>g. g ! 1 = 0x7e) gs"

lemma lines_cols: "lines f = map marks (cols f)"
  by (simp add: lines_def cols_def marks_def col_of_def occ_nth)

lemma full_marks: "full_line (marks gs) = full_col gs"
  by (simp add: full_line_def marks_def full_col_def list_all_iff)

lemma filter_marks:
  "filter full_line (map marks ls) = map marks (filter full_col ls)"
  "filter (\<lambda>l. \<not> full_line l) (map marks ls) = map marks (filter (\<lambda>l. \<not> full_col l) ls)"
  by (simp_all add: filter_map comp_def full_marks)

lemma marks_dropped:
  "map marks (dropped T ls)
    = replicate (length (filter full_line (map marks ls))) (marks T)
      @ filter (\<lambda>l. \<not> full_line l) (map marks ls)"
  by (simp add: dropped_def filter_marks)

lemma top_marks: "top_reached f \<longleftrightarrow> True \<in> set (marks (cols f ! 0))"
proof -
  have len: "length (cols f ! 0) = 8" by (simp add: cols_nth)
  have "True \<in> set (marks gs) \<longleftrightarrow> (\<exists>r<length gs. gs ! r ! 1 = 0x7e)" for gs
    unfolding marks_def set_map by (auto simp: image_iff set_conv_nth)
  from this[of "cols f ! 0"] show ?thesis
    using cols_occ[of 0 _ f] len unfolding top_reached_occ by auto
qed

text \<open>A field with given lines, empty memory around it.\<close>

definition render :: "bool list list \<Rightarrow> mem" where
  "render ls p =
     (if 0 \<le> p \<and> p < 960 \<and> ls ! nat (p mod 120 div 8) ! nat (p div 120)
      then cell ! nat (p mod 8) else 0)"

lemma render_grp:
  assumes "r < 8" and "c < 15"
  shows "grp (render ls) (int r) (int c) = (if ls ! c ! r then cell else blank)"
proof (rule nth_equalityI)
  fix m assume "m < length (grp (render ls) (int r) (int c))"
  then have m: "m < 8" by simp
  let ?p = "120 * int r + (8 * int c + int m)"
  have "?p mod 120 = 8 * int c + int m" "?p div 120 = int r" using assms m by simp_all
  moreover have "(8 * int c + int m) div 8 = int c" using m by simp
  moreover have "?p mod 8 = int m"
  proof -
    have "?p = int m + 8 * (15 * int r + int c)" by simp
    then show ?thesis using m by (simp only: mod_mult_self2) simp
  qed
  moreover have "0 \<le> ?p" "?p < 960" using assms m by simp_all
  ultimately show "grp (render ls) (int r) (int c) ! m = (if ls ! c ! r then cell else blank) ! m"
    using m by (simp add: grp_nth render_def field_off_def)
qed (simp add: length_groups)

lemma render_ok: "field_ok (render ls)"
  unfolding field_ok_def by (auto simp: col_of_def render_grp)

lemma lines_render:
  assumes "length ls = 15" and "\<forall>l\<in>set ls. length l = 8"
  shows "lines (render ls) = ls"
proof (rule nth_equalityI)
  fix c assume "c < length (lines (render ls))"
  then have c: "c < 15" by (simp add: lines_def)
  then have "length (ls ! c) = 8" using assms by simp
  moreover have "occ (render ls) (int r) (int c) = ls ! c ! r" if "r < 8" for r
    using render_grp[OF that c, of ls] by (simp add: occ_nth cell_def blank_def)
  ultimately show "lines (render ls) ! c = ls ! c"
    using c by (intro nth_equalityI) (simp_all add: lines_def)
qed (simp add: lines_def assms)

section \<open>Property\<close>

text \<open>
  C9: For a tetromino at a line boundary the byte-wise collision test is the test on cells:
  it reports a hit exactly when a cell of the shape is outside the grid or taken. The
  memory outside the array, which the test reads, has no influence.
\<close>

theorem is_hit_correct:
  assumes "t < 9" and "a < 4" and "field_ok f" and "0 \<le> c"
    and "\<forall>p. 0 \<le> p \<and> p < 960 \<longrightarrow> f' p = f p"
  shows "is_hit f' (8 * c) y t a \<longleftrightarrow>
    (\<exists>i<4. \<exists>g<4. shape_occ t a i g \<and>
       (8 \<le> y + int i \<or> y + int i < 0 \<or> 15 \<le> c + int g \<or> occ f (y + int i) (c + int g)))"
proof -
  have same: "grp f' r k = grp f r k" if "0 \<le> r" "r < 8" "0 \<le> k" "k < 15" for r k
    using that assms(5) by (intro nth_equalityI) (simp_all add: grp_nth field_off_def)
  then have ok': "field_ok f'" using assms(3) by (simp add: col_of_ok)
  have occ: "occ f' r k = occ f r k" if "0 \<le> r" "r < 8" "0 \<le> k" "k < 15" for r k
    using same[OF that] by (simp add: occ_nth)
  have "(8 \<le> r \<or> r < 0 \<or> 15 \<le> c + int k \<or> occ f' r (c + int k)) \<longleftrightarrow>
      (8 \<le> r \<or> r < 0 \<or> 15 \<le> c + int k \<or> occ f r (c + int k))" for r k
    using assms(4) occ[of r "c + int k"] by linarith
  then show ?thesis unfolding is_hit_cells[OF assms(1,2) ok' assms(4)] by simp
qed

theorem is_hit_correct_witness:
  "is_hit (\<lambda>p. if p = 960 then 255 else render (replicate 15 empty_line) p) (8 * 12) 5 0 1
    \<longleftrightarrow> (\<exists>i<4. \<exists>g<4. shape_occ 0 1 i g \<and>
       (8 \<le> 5 + int i \<or> 5 + int i < 0 \<or> 15 \<le> 12 + int g \<or>
        occ (render (replicate 15 empty_line)) (5 + int i) (12 + int g)))"
  by (rule is_hit_correct) (simp_all add: render_ok)

end
