(* ===== verification/Game.thy ===== *)
theory Game
  imports Field
begin

text \<open>
  The rules of the game in \<open>tetris-app/main.c\<close>: the falling tetromino, its moves, one tick of
  the clock, the score and the speed. \<open>game\<close> holds the static variables of the program that
  the rules use, and the local \<open>interval\<close>. Random numbers are arguments: one result of
  \<open>rand\<close> for the type and one for the angle of a new tetromino.

  The invariant \<open>game_inv\<close> holds at every iteration of the game loop; the main results are
  that it is preserved, and what a tick does to the lines of the field.
\<close>

record game =
  field :: mem
  mino_x :: int
  mino_y :: int
  mino_type :: nat
  mino_angle :: nat
  score :: int
  interval :: int

section \<open>Operations\<close>

text \<open>
  \<open>get_random\<close> scales \<open>rand()\<close> with \<open>double\<close> arithmetic. \<open>RAND_MAX + 1\<close> is a power of two and
  the products stay below \<open>2 ^ 53\<close>, so the quotient is exact before it is truncated.
\<close>

abbreviation RAND_MAX :: nat where
  "RAND_MAX \<equiv> 2147483647"

definition get_random :: "nat \<Rightarrow> nat \<Rightarrow> nat \<Rightarrow> nat" where
  "get_random lo hi rnd = lo + rnd * (hi - lo + 1) div (1 + RAND_MAX)"

definition reset_mino :: "nat \<times> nat \<Rightarrow> game \<Rightarrow> game" where
  "reset_mino rnds g = g\<lparr>mino_x := 0, mino_y := 3,
     mino_type := get_random 0 (MINO_TYPE_MAX - 1) (fst rnds),
     mino_angle := get_random 0 (MINO_ANGLE_MAX - 1) (snd rnds)\<rparr>"

definition move_left :: "game \<Rightarrow> game" where
  "move_left g =
     (if \<not> is_hit (field g) (mino_x g) (mino_y g + 1) (mino_type g) (mino_angle g)
      then g\<lparr>mino_y := mino_y g + 1\<rparr> else g)"

definition move_right :: "game \<Rightarrow> game" where
  "move_right g =
     (if \<not> is_hit (field g) (mino_x g) (mino_y g - 1) (mino_type g) (mino_angle g)
      then g\<lparr>mino_y := mino_y g - 1\<rparr> else g)"

definition move_down :: "game \<Rightarrow> game" where
  "move_down g =
     (if \<not> is_hit (field g) (mino_x g + MOVE_X) (mino_y g) (mino_type g) (mino_angle g)
      then g\<lparr>mino_x := mino_x g + MOVE_X\<rparr> else g)"

definition rotate_mino :: "game \<Rightarrow> game" where
  "rotate_mino g =
     (let next_angle = (mino_angle g + 1) mod MINO_ANGLE_MAX in
      if \<not> is_hit (field g) (mino_x g) (mino_y g) (mino_type g) next_angle
      then g\<lparr>mino_angle := next_angle\<rparr> else g)"

text \<open>The loop \<open>for (i = MOVE_X; i < FIELD_WIDTH; i += MOVE_X)\<close>.\<close>

definition drop_mino :: "game \<Rightarrow> game" where
  "drop_mino g = foldl (\<lambda>g _. move_down g) g (map ((*) 8) [1..<16 :: nat])"

definition handle_key :: "byte \<Rightarrow> game \<Rightarrow> game" where
  "handle_key buf g =
     (if buf = of_char CHR ''l'' then move_left g
      else if buf = of_char CHR ''r'' then move_right g
      else if buf = of_char CHR ''d'' then move_down g
      else if buf = of_char CHR ''u'' then rotate_mino g
      else if buf = of_char CHR ''f'' then drop_mino g
      else g)"

definition line_bonus :: "nat \<Rightarrow> int" where
  "line_bonus n =
     (if n = 1 then 90 else if n = 2 then 390 else if n = 3 then 690 else if n = 4 then 990 else 0)"

text \<open>
  What happens when \<open>interval\<close> has passed: the tetromino falls, or it is placed, filled lines
  are removed, and either the game is over (the flag in the result) or the next tetromino
  starts. The scores are \<open>int\<close> sums at their width.
\<close>

definition tick :: "nat \<times> nat \<Rightarrow> game \<Rightarrow> game \<times> bool" where
  "tick rnds g =
     (let hit_now = is_hit (field g) (mino_x g) (mino_y g) (mino_type g) (mino_angle g) in
      if is_hit (field g) (mino_x g + MOVE_X) (mino_y g) (mino_type g) (mino_angle g) then
        (let f1 = add_mino (field g) (mino_x g) (mino_y g) (mino_type g) (mino_angle g);
             (f2, num_of_line_filled, interval2) = clear_lines f1 (interval g);
             g2 = g\<lparr>field := f2, interval := interval2\<rparr>;
             is_game_over = (hit_now \<or> top_reached f2)
         in if is_game_over then (g2, True)
            else ((reset_mino rnds g2)
                    \<lparr>score := to_s32 (to_s32 (score g2 + 10) + line_bonus num_of_line_filled)\<rparr>,
                  False))
      else (g\<lparr>mino_x := mino_x g + MOVE_X\<rparr>, False))"

text \<open>A new game: \<open>memset\<close> clears the array and nothing around it.\<close>

definition clear_field :: "mem \<Rightarrow> mem" where
  "clear_field f = (\<lambda>p. if 0 \<le> p \<and> p < 960 then 0 else f p)"

definition new_game :: "nat \<times> nat \<Rightarrow> game \<Rightarrow> game" where
  "new_game rnds g =
     (reset_mino rnds (g\<lparr>score := 0, field := clear_field (field g)\<rparr>))\<lparr>interval := 1000000\<rparr>"

section \<open>Invariant\<close>

definition mino_ok :: "game \<Rightarrow> bool" where
  "mino_ok g \<longleftrightarrow> mino_type g < 9 \<and> mino_angle g < 4 \<and>
     0 \<le> mino_x g \<and> mino_x g mod 8 = 0 \<and>
     in_grid (mino_x g div 8) (mino_y g) (mino_type g) (mino_angle g)"

text \<open>A line without a cell; the lines of a well-formed field between two ticks.\<close>

definition free_col :: "byte list list \<Rightarrow> bool" where
  "free_col gs \<longleftrightarrow> list_all (\<lambda>g. g ! 1 \<noteq> 0x7e) gs"

definition lines_ok :: "mem \<Rightarrow> bool" where
  "lines_ok f \<longleftrightarrow> field_ok f \<and> free_col (cols f ! 0) \<and> \<not> list_ex full_col (cols f)"

definition game_inv :: "game \<Rightarrow> bool" where
  "game_inv g \<longleftrightarrow> lines_ok (field g) \<and> mino_ok g \<and> 300000 \<le> interval g \<and> interval g \<le> 1000000"

lemma get_random_range:
  assumes "rnd \<le> RAND_MAX" and "lo \<le> hi"
  shows "lo \<le> get_random lo hi rnd" and "get_random lo hi rnd \<le> hi"
proof -
  have "rnd * (hi - lo + 1) < (1 + RAND_MAX) * (hi - lo + 1)"
    using assms(1) by (intro mult_strict_right_mono) simp_all
  then have "rnd * (hi - lo + 1) div (1 + RAND_MAX) < hi - lo + 1"
    by (intro less_mult_imp_div_less) (simp add: mult.commute)
  then show "get_random lo hi rnd \<le> hi" using assms(2) by (simp add: get_random_def)
qed (simp add: get_random_def)

lemma reset_mino_ok:
  assumes "fst rnds \<le> RAND_MAX" and "snd rnds \<le> RAND_MAX"
  shows "mino_ok (reset_mino rnds g)"
proof -
  have "get_random 0 8 (fst rnds) \<le> 8" "get_random 0 3 (snd rnds) \<le> 3"
    using get_random_range(2)[OF assms(1), of 0 8] get_random_range(2)[OF assms(2), of 0 3]
    by simp_all
  then show ?thesis
    by (simp add: mino_ok_def reset_mino_def MINO_TYPE_MAX_def MINO_ANGLE_MAX_def in_grid_def
        list_all_upt)
qed

lemma reset_mino_simps [simp]:
  "field (reset_mino rnds g) = field g" "score (reset_mino rnds g) = score g"
  "interval (reset_mino rnds g) = interval g"
  by (simp_all add: reset_mino_def)

text \<open>A position that the collision test accepts is in the grid.\<close>

lemma not_hit_mino_ok:
  assumes "field_ok (field g)" and "mino_type g < 9" and "a < 4" and "0 \<le> x" and "x mod 8 = 0"
    and "\<not> is_hit (field g) x y (mino_type g) a"
  shows "mino_ok (g\<lparr>mino_x := x, mino_y := y, mino_angle := a\<rparr>)"
proof -
  have "x = 8 * (x div 8)" using assms(5) by (simp add: minus_mod_eq_mult_div [symmetric])
  then have "\<not> is_hit (field g) (8 * (x div 8)) y (mino_type g) a" using assms(6) by simp
  then have "in_grid (x div 8) y (mino_type g) a"
    using assms by (intro not_hit_in_grid) simp_all
  then show ?thesis using assms by (simp add: mino_ok_def)
qed

lemma game_invD:
  assumes "game_inv g"
  shows "lines_ok (field g)" "field_ok (field g)" "mino_ok g" "mino_type g < 9" "mino_angle g < 4"
    "0 \<le> mino_x g" "mino_x g mod 8 = 0"
  using assms by (simp_all add: game_inv_def mino_ok_def lines_ok_def)

lemma game_inv_mino:
  "game_inv g \<Longrightarrow> mino_ok (g\<lparr>mino_x := x, mino_y := y, mino_angle := a\<rparr>) \<Longrightarrow>
     game_inv (g\<lparr>mino_x := x, mino_y := y, mino_angle := a\<rparr>)"
  by (simp add: game_inv_def)

section \<open>Moves\<close>

lemma move_inv:
  assumes "game_inv g"
  shows "game_inv (move_left g)" "game_inv (move_right g)" "game_inv (move_down g)"
    "game_inv (rotate_mino g)"
proof -
  note d = game_invD[OF assms]
  note upd = game_inv_mino[OF assms not_hit_mino_ok[OF d(2,4)]]
  show "game_inv (move_left g)"
    using upd[of "mino_angle g" "mino_x g" "mino_y g + 1"] assms d by (auto simp: move_left_def)
  show "game_inv (move_right g)"
    using upd[of "mino_angle g" "mino_x g" "mino_y g - 1"] assms d by (auto simp: move_right_def)
  show "game_inv (move_down g)"
    using upd[of "mino_angle g" "mino_x g + 8" "mino_y g"] assms d by (auto simp: move_down_def)
  show "game_inv (rotate_mino g)"
    using upd[of "(mino_angle g + 1) mod 4" "mino_x g" "mino_y g"] assms d
    by (auto simp: rotate_mino_def MINO_ANGLE_MAX_def Let_def)
qed

lemma drop_inv: "game_inv g \<Longrightarrow> game_inv (drop_mino g)"
proof -
  have "game_inv (foldl (\<lambda>g _. move_down g) g xs)" if "game_inv g" for xs :: "nat list"
    using that by (induction xs arbitrary: g) (simp_all add: move_inv(3))
  then show "game_inv g \<Longrightarrow> game_inv (drop_mino g)" by (simp add: drop_mino_def)
qed

lemma handle_key_inv: "game_inv g \<Longrightarrow> game_inv (handle_key k g)"
  by (simp add: handle_key_def move_inv drop_inv)

text \<open>No key changes anything but the position and the angle of the tetromino.\<close>

definition same_board :: "game \<Rightarrow> game \<Rightarrow> bool" where
  "same_board g g' \<longleftrightarrow> field g' = field g \<and> score g' = score g \<and> interval g' = interval g \<and>
     mino_type g' = mino_type g"

lemma move_same_board [simp]:
  "same_board g (move_left g)" "same_board g (move_right g)" "same_board g (move_down g)"
  "same_board g (rotate_mino g)"
  by (simp_all add: same_board_def move_left_def move_right_def move_down_def rotate_mino_def Let_def)

lemma drop_same_board: "same_board g (drop_mino g)"
proof -
  have "same_board g (foldl (\<lambda>g _. move_down g) g xs)" for xs :: "nat list"
  proof (induction xs rule: rev_induct)
    case (snoc x xs)
    then show ?case using move_same_board(3) by (simp add: same_board_def)
  qed (simp add: same_board_def)
  then show ?thesis by (simp add: drop_mino_def)
qed

lemma handle_key_same_board: "same_board g (handle_key k g)"
  by (simp add: handle_key_def drop_same_board) (simp add: same_board_def)

lemma mino_ok_bound:
  assumes "mino_ok g"
  shows "mino_x g < 120"
proof -
  obtain i k where "i < 4" "k < 4" "shape_occ (mino_type g) (mino_angle g) i k"
    using shape_nonempty[of "mino_type g" "mino_angle g"] assms by (auto simp: mino_ok_def)
  then have "mino_x g div 8 + int k < 15"
    using assms unfolding mino_ok_def in_grid_def list_all_upt by blast
  then show ?thesis by linarith
qed

text \<open>
  The tetromino \<open>n\<close> lines further down, and the drop: it ends where one more line is a hit.
  The loop runs 15 times, once for every line of the grid, so it never stops early.
\<close>

definition down :: "nat \<Rightarrow> game \<Rightarrow> game" where
  "down n g = g\<lparr>mino_x := mino_x g + 8 * int n\<rparr>"

definition hit_below :: "game \<Rightarrow> nat \<Rightarrow> bool" where
  "hit_below g n \<longleftrightarrow>
     is_hit (field g) (mino_x g + 8 * (int n + 1)) (mino_y g) (mino_type g) (mino_angle g)"

lemma move_down_from: "move_down (down n g) = (if hit_below g n then down n g else down (Suc n) g)"
  by (simp add: move_down_def down_def hit_below_def algebra_simps)

lemma drops:
  "\<exists>n \<le> length xs. foldl (\<lambda>g _. move_down g) g xs = down n g \<and> (\<forall>k<n. \<not> hit_below g k) \<and>
     (n < length xs \<longrightarrow> hit_below g n)"
proof (induction xs rule: rev_induct)
  case Nil
  then show ?case by (intro exI[of _ 0]) (simp add: down_def)
next
  case (snoc x xs)
  then obtain n where n: "n \<le> length xs" "foldl (\<lambda>g _. move_down g) g xs = down n g"
    "\<forall>k<n. \<not> hit_below g k" "n < length xs \<longrightarrow> hit_below g n" by blast
  show ?case
  proof (cases "hit_below g n")
    case True
    then show ?thesis using n by (intro exI[of _ n]) (auto simp: move_down_from)
  next
    case False
    then show ?thesis using n by (intro exI[of _ "Suc n"]) (auto simp: move_down_from less_Suc_eq)
  qed
qed

lemma drop_lands_at:
  assumes "game_inv g"
  shows "\<exists>n<15. drop_mino g = down n g \<and> (\<forall>k<n. \<not> hit_below g k) \<and> hit_below g n"
proof -
  obtain n where n: "n \<le> 15" "drop_mino g = down n g" "\<forall>k<n. \<not> hit_below g k"
    "n < 15 \<longrightarrow> hit_below g n"
    using drops[of "map ((*) 8) [1..<16]" g] by (auto simp: drop_mino_def)
  have "mino_ok (drop_mino g)" using drop_inv[OF assms] by (simp add: game_inv_def)
  then have "mino_x g + 8 * int n < 120" using mino_ok_bound n(2) by (fastforce simp: down_def)
  moreover have "0 \<le> mino_x g" using game_invD(6)[OF assms] .
  ultimately have "n < 15" by simp
  then show ?thesis using n by blast
qed

section \<open>Placing the tetromino and removing lines\<close>

definition placed :: "game \<Rightarrow> mem" where
  "placed g = add_mino (field g) (mino_x g) (mino_y g) (mino_type g) (mino_angle g)"

text \<open>The cell \<open>(r, c)\<close> is covered by the falling tetromino.\<close>

definition covers :: "game \<Rightarrow> int \<Rightarrow> int \<Rightarrow> bool" where
  "covers g = over_occ (mino_x g div 8) (mino_y g) (mino_type g) (mino_angle g)"

lemma mino_x_line: "mino_ok g \<Longrightarrow> 8 * (mino_x g div 8) = mino_x g"
  by (auto simp: mino_ok_def)

lemma mino_line: "mino_ok g \<Longrightarrow> 0 \<le> mino_x g div 8"
  by (simp add: mino_ok_def pos_imp_zdiv_nonneg_iff)

lemma placed_occ:
  assumes "field_ok (field g)" and "mino_ok g" and "0 \<le> r" "r < 8" "0 \<le> c" "c < 15"
  shows "occ (placed g) r c \<longleftrightarrow> occ (field g) r c \<or> covers g r c"
proof -
  have "0 \<le> mino_x g div 8" using assms(2) by (rule mino_line)
  then show ?thesis
    using add_mino_occ[of "mino_type g" "mino_angle g" "mino_x g div 8" "mino_y g" "field g" r c]
      assms mino_x_line[OF assms(2)]
    by (simp add: mino_ok_def placed_def covers_def)
qed

lemma placed_outside: "mino_ok g \<Longrightarrow> outside (field g) (placed g)"
  using add_mino_outside[of "mino_type g" "mino_angle g" "mino_x g div 8" "mino_y g" "field g"]
    mino_x_line[of g] mino_line[of g]
  by (simp add: mino_ok_def placed_def)

lemma placed_field_ok:
  assumes "field_ok (field g)" and "mino_ok g"
    and "\<not> is_hit (field g) (mino_x g) (mino_y g) (mino_type g) (mino_angle g)"
  shows "field_ok (placed g)"
proof -
  have "0 \<le> mino_x g div 8" using assms(2) by (rule mino_line)
  then show ?thesis
    using add_mino_field_ok[of "mino_type g" "mino_angle g" "mino_x g div 8" "field g" "mino_y g"]
      assms mino_x_line[OF assms(2)]
    by (simp add: mino_ok_def placed_def)
qed

lemma covers_window: "covers g r c \<Longrightarrow> window (mino_x g div 8) (mino_y g) r c"
  by (auto simp: covers_def over_occ_def over_group_def split: if_splits)

text \<open>
  Four rows high, the tetromino cannot cover both row 1 and row 7 of line 0: the last round
  of the line loop, which looks at rows 1 to 7 of line 0, never finds them filled.
\<close>

lemma top_not_filled:
  assumes "lines_ok (field g)" and "mino_ok g"
  shows "\<exists>r. 0 < r \<and> r < 8 \<and> cols (placed g) ! 0 ! r ! 1 \<noteq> 0x7e"
proof -
  have f: "field_ok (field g)" using assms(1) by (simp add: lines_ok_def)
  have free: "\<not> occ (field g) (int r) 0" if "r < 8" for r
    using assms(1) that cols_occ[of 0 r "field g"]
    by (simp add: lines_ok_def free_col_def list_all_length cols_nth)
  define r :: nat where "r = (if mino_y g \<le> 1 \<and> 1 < mino_y g + 4 then 7 else 1)"
  have r: "0 < r" "r < 8" by (simp_all add: r_def)
  have "\<not> window (mino_x g div 8) (mino_y g) (int r) 0"
    by (auto simp: r_def window_def)
  then have "\<not> occ (placed g) (int r) 0"
    using placed_occ[OF f assms(2), of "int r" 0] free[OF r(2)] r covers_window by auto
  then show ?thesis using r cols_occ[of 0 r "placed g"] by auto
qed

text \<open>At most four lines are filled at once.\<close>

lemma four_lines:
  assumes "lines_ok (field g)" and "mino_ok g"
  shows "length (filter full_col (cols (placed g))) \<le> 4"
proof -
  have f: "field_ok (field g)" using assms(1) by (simp add: lines_ok_def)
  let ?c = "nat (mino_x g div 8)"
  have "k \<in> {?c..<?c + 4}" if k: "k < 15" "full_col (cols (placed g) ! k)" for k
  proof -
    have "\<not> full_col (cols (field g) ! k)"
      using assms(1) k(1) by (simp add: lines_ok_def list_ex_length)
    then obtain r where r: "r < 8" "\<not> occ (field g) (int r) (int k)"
      using full_col_occ[OF k(1)] by blast
    moreover have "occ (placed g) (int r) (int k)" using k r(1) full_col_occ by blast
    ultimately have "covers g (int r) (int k)" using placed_occ[OF f assms(2)] k(1) by simp
    then show ?thesis using covers_window by (fastforce simp: window_def)
  qed
  then have "{k. k < length (cols (placed g)) \<and> full_col (cols (placed g) ! k)} \<subseteq> {?c..<?c + 4}"
    by auto
  then have "card {k. k < length (cols (placed g)) \<and> full_col (cols (placed g) ! k)} \<le> 4"
    using card_mono[of "{?c..<?c + 4}"] by fastforce
  then show ?thesis by (simp only: length_filter_conv_card)
qed

text \<open>The result of the line loop on the field with the tetromino placed.\<close>

lemma placed_cleared:
  assumes "lines_ok (field g)" and "mino_ok g"
  defines "n \<equiv> length (filter full_col (cols (placed g)))"
  obtains f2 where "clear_lines (placed g) i = (f2, n, speed_up n i)"
    and "cols f2 = dropped (cols (placed g) ! 0) (cols (placed g))"
    and "cols f2 ! 0 = cols (placed g) ! 0" and "outside (field g) f2" and "n \<le> 4"
proof -
  obtain r where "0 < r" "r < 8" "cols (placed g) ! 0 ! r ! 1 \<noteq> 0x7e"
    using top_not_filled[OF assms(1,2)] by blast
  from clear_lines_cols[OF this, of i] obtain f2 where
    "clear_lines (placed g) i = (f2, n, speed_up n i)"
    "cols f2 = dropped (cols (placed g) ! 0) (cols (placed g))"
    "cols f2 ! 0 = cols (placed g) ! 0" "outside (placed g) f2"
    unfolding n_def by blast
  then show thesis
    using that placed_outside[OF assms(2)] four_lines[OF assms(1,2)] outside_trans n_def by blast
qed

lemma placed_lines:
  assumes "field_ok (field g)" and "mino_ok g"
  shows "lines (placed g) = map (\<lambda>c. map (\<lambda>r. occ (field g) (int r) (int c) \<or> covers g (int r) (int c))
    [0..<8]) [0..<15]"
  using placed_occ[OF assms] by (simp add: lines_def)

definition filled_lines :: "game \<Rightarrow> nat" where
  "filled_lines g = length (filter full_line (lines (placed g)))"

text \<open>A tick with the tetromino on the ground, in terms of lines.\<close>

lemma tick_lands:
  assumes "game_inv g" and "hit_below g 0"
  obtains f2 over where "tick rnds g =
      (if over then (g\<lparr>field := f2, interval := speed_up (filled_lines g) (interval g)\<rparr>, True)
       else ((reset_mino rnds (g\<lparr>field := f2, interval := speed_up (filled_lines g) (interval g)\<rparr>))
          \<lparr>score := to_s32 (to_s32 (score g + 10) + line_bonus (filled_lines g))\<rparr>, False))"
    and "over \<longleftrightarrow> is_hit (field g) (mino_x g) (mino_y g) (mino_type g) (mino_angle g) \<or> top_reached f2"
    and "cols f2 = dropped (cols (placed g) ! 0) (cols (placed g))"
    and "cols f2 ! 0 = cols (placed g) ! 0" and "outside (field g) f2" and "filled_lines g \<le> 4"
proof -
  have inv: "lines_ok (field g)" "mino_ok g" using assms(1) by (simp_all add: game_inv_def)
  have n: "filled_lines g = length (filter full_col (cols (placed g)))"
    by (simp add: filled_lines_def lines_cols filter_marks)
  obtain f2 where f2: "clear_lines (placed g) (interval g)
      = (f2, filled_lines g, speed_up (filled_lines g) (interval g))"
    "cols f2 = dropped (cols (placed g) ! 0) (cols (placed g))"
    "cols f2 ! 0 = cols (placed g) ! 0" "outside (field g) f2" "filled_lines g \<le> 4"
    using placed_cleared[OF inv, of "interval g"] unfolding n by blast
  show thesis
    by (rule that[OF _ refl f2(2-5)])
      (use f2(1) assms(2) in \<open>simp add: tick_def placed_def hit_below_def Let_def\<close>)
qed

lemma speed_up_range:
  "300000 \<le> i \<Longrightarrow> i \<le> 1000000 \<Longrightarrow> 300000 \<le> speed_up n i \<and> speed_up n i \<le> 1000000"
  by (simp add: speed_up_def)

lemma not_top_reached: "\<not> top_reached f \<Longrightarrow> free_col (cols f ! 0) \<and> marks (cols f ! 0) = empty_line"
  using cols_occ[of 0 _ f]
  by (auto simp: top_reached_occ free_col_def list_all_length cols_nth marks_def empty_line_def
      intro!: nth_equalityI)

lemma free_not_full: "free_col (cols f ! 0) \<Longrightarrow> \<not> full_col (cols f ! 0)"
  by (auto simp: free_col_def full_col_def list_all_length cols_nth intro!: exI[of _ 0])

lemma dropped_ok:
  assumes "\<forall>l\<in>set ls. set l \<subseteq> groups3" and "T \<in> set ls"
  shows "\<forall>l\<in>set (dropped T ls). set l \<subseteq> groups3"
  using assms by (auto simp: dropped_def)

lemma tick_inv:
  assumes "game_inv g" and "fst rnds \<le> RAND_MAX" and "snd rnds \<le> RAND_MAX"
    and "tick rnds g = (g', False)"
  shows "game_inv g'"
proof (cases "hit_below g 0")
  case False
  have d: "mino_x g + 8 * (int 0 + 1) = mino_x g + MOVE_X" by simp
  have "g' = move_down g"
    using assms(4) False by (simp add: tick_def hit_below_def move_down_def)
  then show ?thesis using move_inv(3)[OF assms(1)] by simp
next
  case True
  have inv: "lines_ok (field g)" "mino_ok g" using assms(1) by (simp_all add: game_inv_def)
  obtain f2 over where f2: "tick rnds g =
      (if over then (g\<lparr>field := f2, interval := speed_up (filled_lines g) (interval g)\<rparr>, True)
       else ((reset_mino rnds (g\<lparr>field := f2, interval := speed_up (filled_lines g) (interval g)\<rparr>))
          \<lparr>score := to_s32 (to_s32 (score g + 10) + line_bonus (filled_lines g))\<rparr>, False))"
    "over \<longleftrightarrow> is_hit (field g) (mino_x g) (mino_y g) (mino_type g) (mino_angle g) \<or> top_reached f2"
    "cols f2 = dropped (cols (placed g) ! 0) (cols (placed g))"
    "cols f2 ! 0 = cols (placed g) ! 0"
    using tick_lands[OF assms(1) True, of rnds] by metis
  have over: "\<not> over" using f2(1) assms(4) by (simp split: if_splits)
  have free: "free_col (cols f2 ! 0)" using f2(2) over not_top_reached by blast
  have "\<not> full_col (cols (placed g) ! 0)" using free_not_full[OF free] f2(4) by simp
  then have nofull: "\<not> list_ex full_col (cols f2)" unfolding f2(3) by (rule filter_dropped)
  have "field_ok (placed g)"
    using placed_field_ok[OF _ inv(2)] inv(1) over f2(2) by (simp add: lines_ok_def)
  then have "\<forall>l\<in>set (cols f2). set l \<subseteq> groups3"
    unfolding f2(3) field_ok_cols by (rule dropped_ok) simp
  then have "lines_ok f2" using free nofull by (simp add: lines_ok_def field_ok_cols)
  moreover have "mino_ok g'"
    using f2(1) over assms(4) reset_mino_ok[OF assms(2,3)] by (auto simp: mino_ok_def)
  ultimately show ?thesis
    using f2(1) over assms(1,4) speed_up_range by (auto simp: game_inv_def)
qed

lemma lines_ok_lines:
  "lines_ok f \<longleftrightarrow> field_ok f \<and> True \<notin> set (lines f ! 0) \<and> \<not> list_ex full_line (lines f)"
proof -
  have "lines f ! 0 = marks (cols f ! 0)" by (simp add: lines_cols)
  then have "True \<notin> set (lines f ! 0) \<longleftrightarrow> free_col (cols f ! 0)"
    by (auto simp: marks_def free_col_def list_all_iff)
  moreover have "list_ex full_line (lines f) \<longleftrightarrow> list_ex full_col (cols f)"
    by (simp add: lines_cols list_ex_iff full_marks)
  ultimately show ?thesis by (simp add: lines_ok_def)
qed

lemma tick_outside:
  assumes "game_inv g"
  shows "outside (field g) (field (fst (tick rnds g)))"
proof (cases "hit_below g 0")
  case True
  obtain f2 over where "tick rnds g =
      (if over then (g\<lparr>field := f2, interval := speed_up (filled_lines g) (interval g)\<rparr>, True)
       else ((reset_mino rnds (g\<lparr>field := f2, interval := speed_up (filled_lines g) (interval g)\<rparr>))
          \<lparr>score := to_s32 (to_s32 (score g + 10) + line_bonus (filled_lines g))\<rparr>, False))"
    and "outside (field g) f2"
    using tick_lands[OF assms True, of rnds] by metis
  then show ?thesis by simp
next
  case False
  then show ?thesis by (simp add: tick_def hit_below_def)
qed

lemma clear_field_lines: "lines_ok (clear_field f)"
proof -
  have "grp (clear_field f) (int r) (int c) = blank" if "r < 8" "c < 15" for r c
    using that by (intro nth_equalityI) (auto simp: grp_nth clear_field_def field_off_def length_groups)
  then have "cols (clear_field f) = replicate 15 (replicate 8 blank)"
    by (intro nth_equalityI) (simp_all add: cols_nth col_of_def map_replicate_const list_eq_iff_nth_eq)
  then show ?thesis
    by (simp add: lines_ok_def field_ok_cols free_col_def full_col_def list_ex_iff list_all_iff)
qed

lemma new_game_inv:
  assumes "fst rnds \<le> RAND_MAX" and "snd rnds \<le> RAND_MAX"
  shows "game_inv (new_game rnds g)"
  using reset_mino_ok[OF assms] clear_field_lines
  by (simp add: game_inv_def new_game_def mino_ok_def reset_mino_def)

section \<open>Properties\<close>

text \<open>The lines of the field together with the falling tetromino.\<close>

definition with_mino :: "game \<Rightarrow> bool list list" where
  "with_mino g = map (\<lambda>c. map (\<lambda>r. occ (field g) (int r) (int c) \<or> covers g (int r) (int c))
     [0..<8]) [0..<15]"

text \<open>
  C7: A tick with the tetromino on the ground places it and removes exactly the filled
  lines, at most four: the lines above move down and empty lines come in at the top. The
  game is over exactly when the tetromino overlaps the field or the top line is occupied;
  otherwise the score grows by 10 and by 90, 390, 690 or 990 for one to four lines, and
  the interval shrinks by 100 ms for every line, down to 300 ms.
\<close>

theorem tick_clears_lines:
  assumes "game_inv g" and "hit_below g 0" and "0 \<le> score g" and "score g + 1000 < 2 ^ 31"
  shows "\<exists>g' over. tick rnds g = (g', over) \<and>
    (let n = length (filter full_line (with_mino g)) in
      n \<le> 4 \<and> interval g' = speed_up n (interval g) \<and>
      (over \<longleftrightarrow> is_hit (field g) (mino_x g) (mino_y g) (mino_type g) (mino_angle g) \<or>
         True \<in> set (with_mino g ! 0)) \<and>
      (if over then score g' = score g
       else score g' = score g + [10, 100, 400, 700, 1000] ! n \<and>
         lines (field g') = replicate n empty_line @ filter (\<lambda>l. \<not> full_line l) (with_mino g)))"
proof -
  have inv: "field_ok (field g)" "mino_ok g" using game_invD[OF assms(1)] by simp_all
  have wm: "with_mino g = lines (placed g)" using placed_lines[OF inv] by (simp add: with_mino_def)
  have n: "filled_lines g = length (filter full_line (with_mino g))"
    by (simp add: filled_lines_def wm)
  obtain f2 over where f2: "tick rnds g =
      (if over then (g\<lparr>field := f2, interval := speed_up (filled_lines g) (interval g)\<rparr>, True)
       else ((reset_mino rnds (g\<lparr>field := f2, interval := speed_up (filled_lines g) (interval g)\<rparr>))
          \<lparr>score := to_s32 (to_s32 (score g + 10) + line_bonus (filled_lines g))\<rparr>, False))"
    "over \<longleftrightarrow> is_hit (field g) (mino_x g) (mino_y g) (mino_type g) (mino_angle g) \<or> top_reached f2"
    "cols f2 = dropped (cols (placed g) ! 0) (cols (placed g))"
    "cols f2 ! 0 = cols (placed g) ! 0" "filled_lines g \<le> 4"
    using tick_lands[OF assms(1,2), of rnds] by metis
  have top: "top_reached f2 \<longleftrightarrow> True \<in> set (with_mino g ! 0)"
    using f2(4) by (simp add: top_marks wm lines_cols)
  have lines: "lines f2 = replicate (filled_lines g) empty_line @
      filter (\<lambda>l. \<not> full_line l) (with_mino g)" if "\<not> over"
    using not_top_reached[of f2] that f2(2,4) unfolding wm filled_lines_def
    by (simp add: lines_cols f2(3) marks_dropped)
  have "to_s32 (to_s32 (score g + 10) + line_bonus k) = score g + [10, 100, 400, 700, 1000] ! k"
    if "k \<le> 4" for k
    using assms(3,4) that by (auto simp: line_bonus_def to_s32_id le_Suc_eq numeral_eq_Suc)
  then show ?thesis
    using f2 top lines unfolding n[symmetric] Let_def by (cases over) auto
qed

text \<open>A game with one open cell in the bottom line and the one-cell tetromino above it.\<close>

definition demo_lines :: "bool list list" where
  "demo_lines = replicate 14 empty_line @ [False # replicate 7 True]"

definition demo_game :: game where
  "demo_game = \<lparr>field = render demo_lines, mino_x = 104, mino_y = 0, mino_type = 7, mino_angle = 0,
     score = 0, interval = 1000000\<rparr>"

lemma demo_lines: "lines (render demo_lines) = demo_lines"
  by (rule lines_render) (auto simp: demo_lines_def empty_line_def)

lemma demo_shape:
  "shape_occ 7 0 i k \<longleftrightarrow> i = 0 \<and> k = 1" if "i < 4" "k < 4"
  using that by (auto simp: shape_occ_def shape_group_def mino_table_def mino_O_EASY_def
      less_Suc_eq numeral_eq_Suc)

lemma demo_occ: "r < 8 \<Longrightarrow> c < 15 \<Longrightarrow> occ (render demo_lines) (int r) (int c) \<longleftrightarrow> c = 14 \<and> r \<noteq> 0"
  using render_grp[of r c demo_lines]
  by (auto simp: occ_nth demo_lines_def empty_line_def nth_append cell_def blank_def nth_Cons')

lemma demo_inv: "game_inv demo_game"
proof -
  have "lines_ok (render demo_lines)"
    by (simp add: lines_ok_lines render_ok demo_lines)
       (simp add: demo_lines_def list_ex_iff nth_append)
  moreover have "mino_ok demo_game"
    using demo_shape by (simp add: mino_ok_def demo_game_def in_grid_def list_all_upt)
  ultimately show ?thesis by (simp add: game_inv_def demo_game_def)
qed

lemma demo_hit: "hit_below demo_game 0"
proof -
  have "is_hit (render demo_lines) (8 * 14) 0 7 0"
    using demo_shape[of 0 1] is_hit_cells[of 7 0 "render demo_lines" 14 0]
    by (force simp: render_ok)
  then show ?thesis by (simp add: hit_below_def demo_game_def)
qed

lemma demo_covers: "r < 8 \<Longrightarrow> c < 15 \<Longrightarrow> covers demo_game (int r) (int c) \<longleftrightarrow> r = 0 \<and> c = 14"
  using demo_shape[of r "c - 13"]
  by (auto simp: covers_def demo_game_def over_occ_def over_group_def window_def shape_occ_def
      nat_diff_distrib' split: if_splits)

lemma demo_with_mino: "with_mino demo_game = replicate 14 empty_line @ [replicate 8 True]"
proof -
  have "with_mino demo_game = map (\<lambda>c. map (\<lambda>r. c = 14) [0..<8]) [0..<15]"
    using demo_occ demo_covers unfolding with_mino_def
    by (intro map_cong refl) (auto simp: demo_game_def)
  also have "\<dots> = replicate 14 empty_line @ [replicate 8 True]"
    by (simp add: empty_line_def upt_rec numeral_eq_Suc)
  finally show ?thesis .
qed

lemma demo_not_hit: "\<not> is_hit (render demo_lines) 104 0 7 0"
proof -
  have "\<not> is_hit (render demo_lines) (8 * 13) 0 7 0"
    using demo_occ[of 0 14] is_hit_cells[of 7 0 "render demo_lines" 13 0]
    by (auto simp: render_ok demo_shape)
  then show ?thesis by simp
qed

lemma demo_continues: "\<not> snd (tick rnds demo_game)"
proof -
  have inv: "field_ok (field demo_game)" "mino_ok demo_game" using game_invD[OF demo_inv] by simp_all
  obtain f2 over where f2: "tick rnds demo_game =
      (if over then (demo_game\<lparr>field := f2, interval := speed_up (filled_lines demo_game) (interval demo_game)\<rparr>, True)
       else ((reset_mino rnds (demo_game\<lparr>field := f2, interval := speed_up (filled_lines demo_game) (interval demo_game)\<rparr>))
          \<lparr>score := to_s32 (to_s32 (score demo_game + 10) + line_bonus (filled_lines demo_game))\<rparr>, False))"
    "over \<longleftrightarrow> is_hit (field demo_game) (mino_x demo_game) (mino_y demo_game) (mino_type demo_game)
       (mino_angle demo_game) \<or> top_reached f2"
    "cols f2 ! 0 = cols (placed demo_game) ! 0"
    using tick_lands[OF demo_inv demo_hit, of rnds] by metis
  have "True \<notin> set (lines (placed demo_game) ! 0)"
    using demo_with_mino placed_lines[OF inv] by (simp add: with_mino_def nth_append)
  then have "\<not> top_reached f2" using f2(3) by (simp add: top_marks lines_cols)
  then show ?thesis using f2(1,2) demo_not_hit by (simp add: demo_game_def)
qed

theorem tick_clears_lines_witness:
  "\<exists>g'. tick (0, 0) demo_game = (g', False) \<and> score g' = 100 \<and> interval g' = 900000 \<and>
     lines (field g') = replicate 15 empty_line"
proof -
  have n: "length (filter full_line (replicate 14 empty_line @ [replicate 8 True])) = 1"
    "filter (\<lambda>l. \<not> full_line l) (replicate 14 empty_line @ [replicate 8 True])
      = replicate 14 empty_line"
    by simp_all
  have top: "True \<notin> set (with_mino demo_game ! 0)"
    unfolding demo_with_mino by (simp add: nth_append)
  have "0 \<le> score demo_game" "score demo_game + 1000 < 2 ^ 31" by (simp_all add: demo_game_def)
  note t = tick_clears_lines[OF demo_inv demo_hit this, of "(0, 0)"]
  have "replicate 1 empty_line @ replicate 14 empty_line = replicate 15 empty_line"
    by (simp add: numeral_eq_Suc)
  then show ?thesis
    using t top demo_not_hit unfolding demo_with_mino n Let_def
    by (auto simp: demo_game_def speed_up_def split: if_splits)
qed

text \<open>
  C17: A hard drop moves the tetromino down as far as it goes: every step on the way is
  free, and one line further down is a hit. Nothing else changes.
\<close>

theorem drop_lands:
  assumes "game_inv g"
  shows "\<exists>n<15. drop_mino g = down n g \<and> (\<forall>k<n. \<not> hit_below g k) \<and> hit_below g n"
  using assms by (rule drop_lands_at)

theorem drop_lands_witness:
  "\<exists>n<15. drop_mino demo_game = down n demo_game \<and> (\<forall>k<n. \<not> hit_below demo_game k) \<and>
     hit_below demo_game n"
  by (rule drop_lands[OF demo_inv])

text \<open>
  C8: The invariant of the game loop: the field consists of cells, no line is filled, the top
  line is free, the tetromino is inside the grid at a line boundary, the interval is
  between 300 and 1000 ms. Every key and every tick that does not end the game keeps it,
  and so does a new game; no byte outside the field ever changes its value. The stores of
  placing a tetromino do leave the array (whenever its first row is below row 4), where
  C promises nothing; but each of them out there combines a byte with zero.
\<close>

theorem game_keeps_invariant:
  assumes "game_inv g" and "fst rnds \<le> RAND_MAX" and "snd rnds \<le> RAND_MAX"
  shows "game_inv (handle_key k g) \<and> field (handle_key k g) = field g \<and>
    game_inv (new_game rnds g) \<and> outside (field g) (field (new_game rnds g)) \<and>
    outside (field g) (field (fst (tick rnds g))) \<and>
    (\<not> snd (tick rnds g) \<longrightarrow> game_inv (fst (tick rnds g))) \<and>
    (let stores = mino_stores (mino_x g) (mino_y g) (mino_type g) (mino_angle g) in
      placed g = foldl (\<lambda>f (p, v). f(p := f p OR v)) (field g) stores \<and>
      (\<forall>(p, v)\<in>set stores. p < 0 \<or> 960 \<le> p \<longrightarrow> v = 0) \<and>
      (4 < mino_y g \<longrightarrow> (\<exists>(p, v)\<in>set stores. 960 \<le> p)))"
proof -
  have "v = 0" if "(p, v) \<in> set (mino_stores (mino_x g) (mino_y g) (mino_type g) (mino_angle g))" "p < 0 \<or> 960 \<le> p"
    for p v
    using mino_stores_outside[of "mino_type g" "mino_angle g" "mino_x g div 8" "mino_y g" p v] that
      game_invD[OF assms(1)] by (auto simp: mino_ok_def)
  moreover have "\<exists>(p, v)\<in>set (mino_stores (mino_x g) (mino_y g) (mino_type g) (mino_angle g)). 960 \<le> p"
    if "4 < mino_y g"
    using mino_stores_behind game_invD(6)[OF assms(1)] that by blast
  moreover have "game_inv (fst (tick rnds g))" if "\<not> snd (tick rnds g)"
    using tick_inv[OF assms, of "fst (tick rnds g)"] that by (metis prod.collapse)
  moreover have "game_inv (new_game rnds g)" by (rule new_game_inv[OF assms(2,3)])
  moreover have "outside (field g) (field (new_game rnds g))"
    by (simp add: new_game_def outside_def clear_field_def)
  ultimately show ?thesis
    using handle_key_inv[OF assms(1)] handle_key_same_board[of g k] tick_outside[OF assms(1)]
    unfolding Let_def placed_def same_board_def add_mino_stores by blast
qed

theorem game_keeps_invariant_witness:
  "game_inv (handle_key (of_char CHR ''l'') demo_game) \<and> game_inv (new_game (5, 7) demo_game) \<and>
   game_inv (fst (tick (0, 0) demo_game))"
proof -
  have "\<not> snd (tick (0, 0) demo_game)" by (rule demo_continues)
  then show ?thesis
    using game_keeps_invariant[OF demo_inv, of "(0, 0)"] game_keeps_invariant[OF demo_inv, of "(5, 7)"]
    by simp
qed

end
