(* ===== verification/Display.thy ===== *)
theory Display
  imports Prelude
begin

text \<open>
  The display driver \<open>tetris-app/display/ssd1306.c\<close>. Its only effect is what it writes to
  the I2C device: the model appends every \<open>write\<close> to a list of messages. A failed write is
  logged and otherwise ignored by the code; the list holds what was attempted. \<open>None\<close> is a
  read behind the end of the data that is to be sent; the allocation of the message buffer
  is taken to succeed.

  The second half states what the messages mean to the display, as far as the program uses
  it: the commands that set the address window and the horizontal addressing mode of the
  SSD1306 data sheet. \<open>update_area_shows\<close> says that a window update changes exactly the
  window, to the given data.
\<close>

type_synonym i2c = "byte list list"

unbundle bit_operations_syntax

section \<open>The driver\<close>

definition ssd1306_command :: "byte \<Rightarrow> i2c \<Rightarrow> i2c" where
  "ssd1306_command cmd out =
     (let buffer0 = push_bit 7 0 OR push_bit 6 0 in out @ [[buffer0, cmd]])"

definition ssd1306_data :: "byte list \<Rightarrow> nat \<Rightarrow> i2c \<Rightarrow> i2c outcome" where
  "ssd1306_data data len out =
     (let buffer0 = push_bit 7 0 OR push_bit 6 1 in
      if len \<le> length data then Some (out @ [buffer0 # take len data]) else None)"

text \<open>A run of commands.\<close>

definition commands :: "byte list \<Rightarrow> i2c \<Rightarrow> i2c" where
  "commands cs out = foldl (\<lambda>out c. ssd1306_command c out) out cs"

definition ssd1306_init :: "i2c \<Rightarrow> i2c" where
  "ssd1306_init out = commands
     [0xA8, 0x3f,
      0xD3, 0x00,
      0x40,
      0xA0,
      0xC0,
      0xDA, 0x12,
      0x81, 0x7F,
      0xA4,
      0xA6,
      0xD5, 0x80,
      0x8D, 0x14,
      0xAF] out"

definition update_area :: "byte list \<Rightarrow> int \<Rightarrow> int \<Rightarrow> int \<Rightarrow> int \<Rightarrow> i2c \<Rightarrow> i2c outcome" where
  "update_area data x y x_len y_len out =
     ssd1306_data data (to_u64 (x_len * y_len)) (commands
       [0x20, 0x00,
        0x21, word_of_int x, word_of_int (x + x_len - 1),
        0x22, word_of_int y, word_of_int (y + y_len - 1)] out)"

definition update_full :: "byte list \<Rightarrow> i2c \<Rightarrow> i2c outcome" where
  "update_full data out =
     ssd1306_data data (128 * 8) (commands
       [0x20, 0x00,
        0x21, 0, 128 - 1,
        0x22, 0, 8 - 1] out)"

section \<open>The display\<close>

text \<open>
  The memory of the display by page and column, the address window, the position of the
  next data byte, whether the addressing mode is horizontal, and the bytes of a command
  whose arguments are not complete.
\<close>

record panel =
  ram :: "nat \<Rightarrow> nat \<Rightarrow> byte"
  col_lo :: nat
  col_hi :: nat
  page_lo :: nat
  page_hi :: nat
  col_ptr :: nat
  page_ptr :: nat
  horizontal :: bool
  pending :: "byte list"

definition command_length :: "byte \<Rightarrow> nat" where
  "command_length c =
     (if c \<in> {0x21, 0x22} then 3
      else if c \<in> {0x20, 0xA8, 0xD3, 0xDA, 0x81, 0xD5, 0x8D} then 2 else 1)"

definition execute :: "byte list \<Rightarrow> panel \<Rightarrow> panel" where
  "execute c p =
     (if hd c = 0x20 then p\<lparr>horizontal := (c ! 1 = 0)\<rparr>
      else if hd c = 0x21 then
        p\<lparr>col_lo := unat (c ! 1), col_hi := unat (c ! 2), col_ptr := unat (c ! 1)\<rparr>
      else if hd c = 0x22 then
        p\<lparr>page_lo := unat (c ! 1), page_hi := unat (c ! 2), page_ptr := unat (c ! 1)\<rparr>
      else p)"

definition receive_command :: "byte \<Rightarrow> panel \<Rightarrow> panel" where
  "receive_command b p =
     (let c = pending p @ [b] in
      if length c = command_length (hd c) then execute c (p\<lparr>pending := []\<rparr>)
      else p\<lparr>pending := c\<rparr>)"

definition receive_data :: "byte \<Rightarrow> panel \<Rightarrow> panel" where
  "receive_data b p =
     (let p1 = p\<lparr>ram := (ram p)(page_ptr p := (ram p (page_ptr p))(col_ptr p := b))\<rparr> in
      if \<not> horizontal p then p1
      else if col_ptr p < col_hi p then p1\<lparr>col_ptr := col_ptr p + 1\<rparr>
      else p1\<lparr>col_ptr := col_lo p,
              page_ptr := (if page_ptr p < page_hi p then page_ptr p + 1 else page_lo p)\<rparr>)"

fun receive :: "panel \<Rightarrow> byte list \<Rightarrow> panel" where
  "receive p [] = p"
| "receive p (c # bs) =
     (if c = 0 then foldl (\<lambda>p b. receive_command b p) p bs
      else if c = 0x40 then foldl (\<lambda>p b. receive_data b p) p bs
      else p)"

definition show_on :: "panel \<Rightarrow> i2c \<Rightarrow> panel" where
  "show_on p msgs = foldl receive p msgs"

section \<open>A window update on the display\<close>

lemma show_on_append: "show_on p (a @ b) = show_on (show_on p a) b"
  by (simp add: show_on_def)

lemma commands_msgs: "commands cs out = out @ map (\<lambda>c. [0, c]) cs"
  by (induction cs rule: rev_induct) (simp_all add: commands_def ssd1306_command_def)

lemma update_area_msgs:
  assumes "0 \<le> x_len * y_len" and "x_len * y_len < 2 ^ 64"
  shows "update_area data x y x_len y_len out =
    (if nat (x_len * y_len) \<le> length data
     then Some (out @ map (\<lambda>c. [0, c])
         [0x20, 0, 0x21, word_of_int x, word_of_int (x + x_len - 1),
          0x22, word_of_int y, word_of_int (y + y_len - 1)]
       @ [0x40 # take (nat (x_len * y_len)) data])
     else None)"
proof -
  have "to_u64 (x_len * y_len) = nat (x_len * y_len)" using assms by (simp add: to_u64_def)
  then show ?thesis by (simp add: update_area_def ssd1306_data_def commands_msgs)
qed

lemma unat_byte: "0 \<le> i \<Longrightarrow> i < 256 \<Longrightarrow> unat (word_of_int i :: byte) = nat i"
  by (simp add: unsigned_of_int take_bit_int_eq_self)

text \<open>The window is set up by the commands, whatever was there before.\<close>

lemma window_commands:
  assumes "pending p = []" and "x + xl \<le> 128" and "y + yl \<le> 8" and "0 < xl" and "0 < yl"
  shows "show_on p (map (\<lambda>c. [0, c]) [0x20, 0, 0x21, word_of_int (int x),
      word_of_int (int x + int xl - 1), 0x22, word_of_int (int y), word_of_int (int y + int yl - 1)])
    = p\<lparr>horizontal := True, col_lo := x, col_hi := x + xl - 1, col_ptr := x,
        page_lo := y, page_hi := y + yl - 1, page_ptr := y\<rparr>"
proof -
  have u: "unat (word_of_int (int x) :: byte) = x" "unat (word_of_int (int x + int xl - 1) :: byte) = x + xl - 1"
    "unat (word_of_int (int y) :: byte) = y" "unat (word_of_int (int y + int yl - 1) :: byte) = y + yl - 1"
    using assms(2-5) by (simp_all add: unat_byte del: unsigned_of_int of_int_add of_int_diff of_int_of_nat_eq)
  show ?thesis
    using u assms(1)
    by (simp add: show_on_def receive_command_def execute_def command_length_def)
qed

lemma window_index:
  assumes "c < xl" and "0 < (xl :: nat)"
  shows "r * xl + c = k \<longleftrightarrow> r = k div xl \<and> c = k mod xl"
  using assms by auto

text \<open>After \<open>k\<close> data bytes the window is filled up to index \<open>k\<close>, row by row.\<close>

definition filled :: "nat \<Rightarrow> nat \<Rightarrow> nat \<Rightarrow> nat \<Rightarrow> byte list \<Rightarrow> nat \<Rightarrow> panel \<Rightarrow> panel" where
  "filled x y xl yl data k p = p\<lparr>
     ram := (\<lambda>r c. if y \<le> r \<and> r < y + yl \<and> x \<le> c \<and> c < x + xl \<and> (r - y) * xl + (c - x) < k
                   then data ! ((r - y) * xl + (c - x)) else ram p r c),
     col_ptr := x + k mod xl,
     page_ptr := y + (k div xl) mod yl\<rparr>"

lemma receive_filled:
  assumes "horizontal p" and "col_lo p = x" and "col_hi p = x + xl - 1"
    and "page_lo p = y" and "page_hi p = y + yl - 1"
    and pos: "0 < xl" "0 < yl" and k: "k < xl * yl" "k < length data"
  shows "receive_data (data ! k) (filled x y xl yl data k p) = filled x y xl yl data (Suc k) p"
proof -
  have kd: "k div xl < yl" using k(1) by (simp add: less_mult_imp_div_less mult.commute)
  then have row: "(k div xl) mod yl = k div xl" by simp
  have col: "k mod xl < xl" using pos by simp
  have idx: "(r - y) * xl + (c - x) = k \<longleftrightarrow> r = y + k div xl \<and> c = x + k mod xl"
    if "y \<le> r" "x \<le> c" "c < x + xl" for r c
    using window_index[of "c - x" xl "r - y" k] that pos by auto
  have ram: "((ram (filled x y xl yl data k p))
      (y + k div xl := (ram (filled x y xl yl data k p) (y + k div xl))(x + k mod xl := data ! k))) r c
    = ram (filled x y xl yl data (Suc k) p) r c" for r c
  proof (cases "y \<le> r \<and> r < y + yl \<and> x \<le> c \<and> c < x + xl")
    case True
    define j where "j = (r - y) * xl + (c - x)"
    have "j = k \<longleftrightarrow> r = y + k div xl \<and> c = x + k mod xl"
      unfolding j_def using idx True by simp
    moreover have "ram (filled x y xl yl data n p) r c = (if j < n then data ! j else ram p r c)" for n
      unfolding j_def using True by (simp add: filled_def)
    moreover have "(f(a := (f a)(b := v))) r c = (if r = a \<and> c = b then v else f r c)"
      for f :: "nat \<Rightarrow> nat \<Rightarrow> byte" and a b v by simp
    ultimately show ?thesis by (auto simp: less_Suc_eq)
  next
    case False
    then have "\<not> (r = y + k div xl \<and> c = x + k mod xl)" using kd col by auto
    with False show ?thesis by (auto simp: filled_def)
  qed
  have "(if x + k mod xl < x + xl - 1 then x + k mod xl + 1 else x) = x + Suc k mod xl"
    using col by (auto simp: mod_Suc)
  moreover have "(if x + k mod xl < x + xl - 1 then y + k div xl
      else if y + k div xl < y + yl - 1 then y + k div xl + 1 else y) = y + (Suc k div xl) mod yl"
    using col kd by (auto simp: div_Suc mod_Suc)
  ultimately show ?thesis
    using assms(1-5) row ram
    by (intro panel.equality ext) (auto simp: receive_data_def filled_def Let_def)
qed

lemma receive_data_bytes:
  assumes "horizontal p" and "col_lo p = x" and "col_hi p = x + xl - 1" and "col_ptr p = x"
    and "page_lo p = y" and "page_hi p = y + yl - 1" and "page_ptr p = y"
    and pos: "0 < xl" "0 < yl" and k: "k \<le> xl * yl" "k \<le> length data"
  shows "foldl (\<lambda>p b. receive_data b p) p (take k data) = filled x y xl yl data k p"
  using k
proof (induction k)
  case 0
  then show ?case using assms(4,7) by (intro panel.equality ext) (simp_all add: filled_def)
next
  case (Suc k)
  then have k: "k < xl * yl" "k < length data" by simp_all
  then show ?case
    using Suc.IH receive_filled[OF assms(1-3,5,6) pos k]
    by (simp add: take_Suc_conv_app_nth)
qed

definition area_shown :: "byte list \<Rightarrow> nat \<Rightarrow> nat \<Rightarrow> nat \<Rightarrow> nat \<Rightarrow> panel \<Rightarrow> nat \<Rightarrow> nat \<Rightarrow> byte" where
  "area_shown data x y xl yl p r c =
     (if y \<le> r \<and> r < y + yl \<and> x \<le> c \<and> c < x + xl
      then data ! ((r - y) * xl + (c - x)) else ram p r c)"

lemma update_area_panel:
  assumes "pending p = []" and "x + xl \<le> 128" and "y + yl \<le> 8" and "0 < xl" and "0 < yl"
    and "xl * yl \<le> length data"
  obtains msgs where "\<And>out. update_area data (int x) (int y) (int xl) (int yl) out = Some (out @ msgs)"
    and "ram (show_on p msgs) = area_shown data x y xl yl p" and "pending (show_on p msgs) = []"
proof -
  define cmds where "cmds = map (\<lambda>c. [0, c]) [0x20, 0, 0x21, word_of_int (int x),
      word_of_int (int x + int xl - 1), 0x22, word_of_int (int y),
      word_of_int (int y + int yl - 1) :: byte]"
  define p1 where "p1 = p\<lparr>horizontal := True, col_lo := x, col_hi := x + xl - 1, col_ptr := x,
        page_lo := y, page_hi := y + yl - 1, page_ptr := y\<rparr>"
  have "xl * yl \<le> 128 * 8" using assms(2,3) by (intro mult_le_mono) simp_all
  then have n: "0 \<le> int xl * int yl" "int xl * int yl < 2 ^ 64" "nat (int xl * int yl) = xl * yl"
    by (simp_all flip: of_nat_mult)
  have "update_area data (int x) (int y) (int xl) (int yl) out
      = Some (out @ (cmds @ [0x40 # take (xl * yl) data]))" for out
    using update_area_msgs[OF n(1,2), of data "int x" "int y" out] n(3) assms(6)
    by (simp add: cmds_def)
  moreover have "show_on p (cmds @ [0x40 # take (xl * yl) data])
      = filled x y xl yl data (xl * yl) p1"
    using window_commands[OF assms(1-5)] receive_data_bytes[of p1 x xl y yl "xl * yl" data] assms(4-6)
    unfolding cmds_def[symmetric] p1_def[symmetric]
    by (simp add: show_on_append) (simp add: show_on_def p1_def)
  moreover have "(r - y) * xl + (c - x) < xl * yl" if "y \<le> r" "r < y + yl" "x \<le> c" "c < x + xl" for r c
  proof -
    have "(r - y) * xl + (c - x) < (r - y) * xl + xl" using that by simp
    also have "\<dots> = Suc (r - y) * xl" by simp
    also have "\<dots> \<le> yl * xl" using that by (intro mult_le_mono) simp_all
    finally show ?thesis by (simp add: mult.commute)
  qed
  ultimately show ?thesis
    using assms(1) by (intro that) (auto simp: filled_def area_shown_def p1_def fun_eq_iff)
qed

lemma update_area_None:
  assumes "length data < xl * yl" and "xl * yl < 2 ^ 64"
  shows "update_area data x y (int xl) (int yl) out = None"
proof -
  have "0 \<le> int xl * int yl" "int xl * int yl < 2 ^ 64" "nat (int xl * int yl) = xl * yl"
    using assms(2) by (simp_all flip: of_nat_mult)
  then show ?thesis using assms(1) by (simp add: update_area_msgs)
qed

lemma update_full_area: "update_full data out = update_area data 0 0 128 8 out"
  by (simp add: update_full_def update_area_def to_u64_def)

section \<open>Properties\<close>

text \<open>
  C18: A window update inside the 128 by 8 display, with enough data, changes exactly the
  bytes of the window: the byte in row \<open>r\<close>, column \<open>c\<close> of the window is byte
  \<open>r * x_len + c\<close> of the data.
\<close>

theorem update_area_shows:
  assumes "pending p = []" and "x + xl \<le> 128" and "y + yl \<le> 8" and "0 < xl" and "0 < yl"
    and "xl * yl \<le> length data"
  shows "\<exists>msgs. (\<forall>out. update_area data (int x) (int y) (int xl) (int yl) out = Some (out @ msgs)) \<and>
    ram (show_on p msgs) = area_shown data x y xl yl p \<and> pending (show_on p msgs) = []"
  using update_area_panel[OF assms] by metis

definition demo_panel :: panel where
  "demo_panel = \<lparr>ram = (\<lambda>_ _. 0), col_lo = 0, col_hi = 127, page_lo = 0, page_hi = 7,
     col_ptr = 0, page_ptr = 0, horizontal = False, pending = []\<rparr>"

theorem update_area_shows_witness:
  "\<exists>msgs. (\<forall>out. update_area [1, 2, 3, 4] 126 (int 6) 2 2 out = Some (out @ msgs)) \<and>
    ram (show_on demo_panel msgs) 7 127 = 4 \<and> ram (show_on demo_panel msgs) 6 127 = 2 \<and>
    ram (show_on demo_panel msgs) 0 0 = 0"
proof -
  obtain msgs where "\<forall>out. update_area [1, 2, 3, 4] (int 126) (int 6) (int 2) (int 2) out = Some (out @ msgs)"
    "ram (show_on demo_panel msgs) = area_shown [1, 2, 3, 4] 126 6 2 2 demo_panel"
    using update_area_shows[of demo_panel 126 2 6 2 "[1, 2, 3, 4]"] by (auto simp: demo_panel_def)
  then show ?thesis by (intro exI[of _ msgs]) (simp add: area_shown_def demo_panel_def)
qed

text \<open>The initial sequence is made of complete commands and leaves the picture alone.\<close>

lemma ssd1306_init_complete:
  "pending p = [] \<Longrightarrow> show_on p (ssd1306_init []) = p"
  by (simp add: ssd1306_init_def commands_msgs show_on_def receive_command_def command_length_def
      execute_def)

end
