(* ===== verification/Stdio.thy ===== *)
theory Stdio
  imports Prelude
begin

text \<open>
  What the programs use of \<open>printf\<close> and \<open>scanf\<close>: the conversion \<open>%d\<close> in both directions,
  on lists of bytes. The theorem \<open>scan_print\<close> is the round trip.
\<close>

section \<open>Printing\<close>

definition digit :: "nat \<Rightarrow> byte" where
  "digit d = word_of_nat (48 + d)"

definition is_digit :: "byte \<Rightarrow> bool" where
  "is_digit b \<longleftrightarrow> 48 \<le> b \<and> b \<le> 57"

definition digit_value :: "byte \<Rightarrow> nat" where
  "digit_value b = unat b - 48"

fun print_nat :: "nat \<Rightarrow> byte list" where
  "print_nat n = (if n < 10 then [digit n] else print_nat (n div 10) @ [digit (n mod 10)])"

declare print_nat.simps [simp del]

definition print_int :: "int \<Rightarrow> byte list" where
  "print_int i = (if i < 0 then 45 # print_nat (nat (- i)) else print_nat (nat i))"

definition bytes_of :: "string \<Rightarrow> byte list" where
  "bytes_of s = map of_char s"

section \<open>Scanning\<close>

text \<open>
  \<open>scan_int\<close> skips white space, accepts a sign and digits, and returns what is left of the
  input. \<open>End_Of_Input\<close> is \<open>EOF\<close> before any conversion, \<open>No_Match\<close> a matching failure.
\<close>

datatype 'a scan = Scanned 'a | No_Match | End_Of_Input

definition is_space :: "byte \<Rightarrow> bool" where
  "is_space b \<longleftrightarrow> b = 32 \<or> (9 \<le> b \<and> b \<le> 13)"

fun scan_digits :: "nat \<Rightarrow> byte list \<Rightarrow> nat \<times> byte list" where
  "scan_digits acc [] = (acc, [])"
| "scan_digits acc (b # bs) =
     (if is_digit b then scan_digits (10 * acc + digit_value b) bs else (acc, b # bs))"

definition scan_int :: "byte list \<Rightarrow> int scan \<times> byte list" where
  "scan_int input =
     (case dropWhile is_space input of
        [] \<Rightarrow> (End_Of_Input, [])
      | b # r \<Rightarrow>
          (let t = (if b = 45 \<or> b = 43 then r else b # r) in
           if t \<noteq> [] \<and> is_digit (hd t)
           then (let (n, rest) = scan_digits 0 t in
                 (Scanned (if b = 45 then - int n else int n), rest))
           else (No_Match, t)))"

definition in_int :: "int \<Rightarrow> bool" where
  "in_int i \<longleftrightarrow> - (2 ^ 31) \<le> i \<and> i < 2 ^ 31"

section \<open>Round trip\<close>

lemma unat_digit: "d < 10 \<Longrightarrow> unat (digit d) = 48 + d"
  unfolding digit_def by (subst unat_of_nat) simp

lemma digit_facts [simp]:
  assumes "d < 10"
  shows "is_digit (digit d)" "digit_value (digit d) = d" "\<not> is_space (digit d)"
    "digit d \<noteq> 45" "digit d \<noteq> 43"
  using unat_digit[OF assms] assms
  by (auto simp: is_digit_def digit_value_def is_space_def word_le_nat_alt word_unat_eq_iff)

lemma print_nat_digits: "\<exists>ds. print_nat n = map digit ds \<and> ds \<noteq> [] \<and> set ds \<subseteq> {..<10}
    \<and> foldl (\<lambda>acc d. 10 * acc + d) 0 ds = n"
proof (induction n rule: print_nat.induct)
  case (1 n)
  show ?case
  proof (cases "n < 10")
    case True
    then show ?thesis by (intro exI[of _ "[n]"]) (simp add: print_nat.simps)
  next
    case False
    with 1 obtain ds where "print_nat (n div 10) = map digit ds" "set ds \<subseteq> {..<10}"
      "foldl (\<lambda>acc d. 10 * acc + d) 0 ds = n div 10" by auto
    then show ?thesis
      using False by (intro exI[of _ "ds @ [n mod 10]"]) (simp add: print_nat.simps[of n])
  qed
qed

lemma scan_digits_map:
  assumes "set ds \<subseteq> {..<10}" and "rest = [] \<or> \<not> is_digit (hd rest)"
  shows "scan_digits acc (map digit ds @ rest) = (foldl (\<lambda>acc d. 10 * acc + d) acc ds, rest)"
  using assms
proof (induction ds arbitrary: acc)
  case Nil
  then show ?case by (cases rest) auto
qed simp

lemma scan_print:
  assumes "rest = [] \<or> \<not> is_digit (hd rest)"
  shows "scan_int (print_int i @ rest) = (Scanned i, rest)"
proof -
  obtain d ds where ds: "print_nat (nat \<bar>i\<bar>) = map digit (d # ds)" "set (d # ds) \<subseteq> {..<10}"
    "foldl (\<lambda>acc d. 10 * acc + d) 0 (d # ds) = nat \<bar>i\<bar>"
    using print_nat_digits[of "nat \<bar>i\<bar>"] by (metis neq_Nil_conv)
  have sc: "scan_digits 0 (digit d # map digit ds @ rest) = (nat \<bar>i\<bar>, rest)"
    using scan_digits_map[OF ds(2) assms, of 0] ds(3) by simp
  have d: "d < 10" using ds(2) by simp
  show ?thesis
  proof (cases "i < 0")
    case True
    moreover have "\<not> is_space 45" by (simp add: is_space_def)
    ultimately show ?thesis using ds(1) sc d by (simp add: print_int_def scan_int_def)
  next
    case False
    then show ?thesis using ds(1) sc d by (simp add: print_int_def scan_int_def)
  qed
qed

text \<open>White space before the number does not matter.\<close>

lemma scan_space: "is_space c \<Longrightarrow> scan_int (c # input) = scan_int input"
  by (simp add: scan_int_def)

lemma to_s32_in_int [simp]: "in_int (to_s32 i)"
proof -
  have "0 \<le> (i + 2 ^ 31) mod 2 ^ 32" "(i + 2 ^ 31) mod 2 ^ 32 < 2 ^ 32" by simp_all
  then show ?thesis by (simp add: in_int_def to_s32_def)
qed

lemma in_int_0 [simp]: "in_int 0"
  by (simp add: in_int_def)

end
