(* ===== verification/Tetris.thy ===== *)
theory Tetris
  imports Game Display Stdio Screens Title_Frames_1 Title_Frames_2 Title_Frames_3
    Title_Frames_4 "HOL-Library.Signed_Division"
begin

text \<open>
  The screens and the main loop of \<open>tetris-app/main.c\<close>, on top of the rules (\<open>Game\<close>), the
  display driver (\<open>Display\<close>) and decimal conversions (\<open>Stdio\<close>).

  The state \<open>app\<close> holds the static variables of the program, the score file and the messages
  sent to the display. Every waiting loop of \<open>main\<close> is a phase, one iteration of it is one
  \<open>main_step\<close>. What the system provides in that iteration is an \<open>event\<close>: the result of
  \<open>read\<close> on the key device and the byte it delivers, the clock, two results of \<open>rand\<close>, and
  whether the score file can be opened. The signal of the title animation is a separate
  step, \<open>title_handler\<close>. The pictures are those of \<open>Screens\<close> and \<open>Title_Frames_1\<close> to
  \<open>Title_Frames_4\<close>.
\<close>

record timespec =
  tv_sec :: int
  tv_nsec :: int

section \<open>Drawing\<close>

text \<open>
  The digits of a number, least significant first, on successive pages; then zeros up to
  page \<open>last_page\<close>. An index outside the ten glyphs is undefined.
\<close>

partial_function (option) digit_loop ::
  "int \<Rightarrow> int \<Rightarrow> int \<Rightarrow> int \<Rightarrow> i2c \<Rightarrow> (int \<times> i2c) outcome" where
  "digit_loop x q r display_start_y out =
     (if q \<noteq> 0 \<or> r \<noteq> 0 then
        (if 0 \<le> r \<and> r < 10 then
           Option.bind (update_area (number ! nat r) x display_start_y 8 1 out)
             (\<lambda>out. digit_loop x (q sdiv 10) (q smod 10) (display_start_y + 1) out)
         else None)
      else Some (display_start_y, out))"

partial_function (option) pad_loop :: "int \<Rightarrow> int \<Rightarrow> int \<Rightarrow> i2c \<Rightarrow> i2c outcome" where
  "pad_loop x last_page display_start_y out =
     (if display_start_y \<le> last_page then
        Option.bind (update_area (number ! 0) x display_start_y 8 1 out)
          (\<lambda>out. pad_loop x last_page (display_start_y + 1) out)
      else Some out)"

definition show_digits :: "int \<Rightarrow> int \<Rightarrow> int \<Rightarrow> int \<Rightarrow> i2c \<Rightarrow> i2c outcome" where
  "show_digits x first last_page v out =
     Option.bind (digit_loop x (v sdiv 10) (v smod 10) first out)
       (\<lambda>(display_start_y, out). pad_loop x last_page display_start_y out)"

definition show_score :: "int \<Rightarrow> i2c \<Rightarrow> i2c outcome" where
  "show_score s out = show_digits 0 2 7 s out"

definition clear_display :: "i2c \<Rightarrow> i2c outcome" where
  "clear_display out = update_full (replicate (FIELD_HEIGHT * FIELD_WIDTH) 0) out"

text \<open>
  The copy of the field with the tetromino in it. The guard is on rows above the array only:
  a row of the tetromino below it is stored behind the array, as in \<open>add_mino\<close>.
\<close>

definition display_buffer :: "game \<Rightarrow> mem" where
  "display_buffer g =
     foldl (\<lambda>b i. foldl (\<lambda>b j.
         if mino_y g + int i \<ge> 0 then
           (let p = field_off (mino_y g + int i) (mino_x g + int j) in
            b(p := b p OR mino_shape (mino_type g) (mino_angle g) i j))
         else b)
       b [0..<MINO_WIDTH]) (field g) [0..<MINO_HEIGHT]"

text \<open>
  \<open>mino_shape\<close> has \<open>MINO_TYPE_MAX\<close> shapes at \<open>MINO_ANGLE_MAX\<close> angles; with another index the
  operations that read it are undefined.
\<close>

definition shape_index_ok :: "game \<Rightarrow> bool" where
  "shape_index_ok g \<longleftrightarrow> mino_type g < MINO_TYPE_MAX \<and> mino_angle g < MINO_ANGLE_MAX"

definition show_game :: "game \<Rightarrow> i2c \<Rightarrow> i2c outcome" where
  "show_game g out =
     (if shape_index_ok g then
        Option.bind (update_area (map (\<lambda>p. display_buffer g (int p)) [0..<960]) 8 0 120 8 out)
          (show_score (score g))
      else None)"

text \<open>
  The best score: \<open>fscanf\<close> is called until it returns \<open>EOF\<close>. After a matching failure the
  next call sees the same input, so the loop does not end (\<open>None\<close>); a number beyond the
  range of \<open>int\<close> is undefined.
\<close>

partial_function (option) top_loop :: "byte list \<Rightarrow> int \<Rightarrow> int \<Rightarrow> int outcome" where
  "top_loop input value best =
     (case scan_int input of
        (End_Of_Input, _) \<Rightarrow> Some best
      | (No_Match, rest) \<Rightarrow> top_loop rest value (if value > best then value else best)
      | (Scanned v, rest) \<Rightarrow>
          if in_int v then top_loop rest v (if v > best then v else best) else None)"

definition show_top_score :: "byte list option \<Rightarrow> i2c \<Rightarrow> i2c outcome" where
  "show_top_score score_file out =
     Option.bind (case score_file of None \<Rightarrow> Some 0 | Some text \<Rightarrow> top_loop text 0 0) (\<lambda>best.
     Option.bind (clear_display out) (\<lambda>out.
     Option.bind (update_area best_score 0 0 64 8 out) (\<lambda>out.
       show_digits 72 1 6 best out)))"

text \<open>The lower part of the game over screen: \<open>line\<close> at columns 120, 112, ..., 8.\<close>

definition game_over_lines :: "i2c \<Rightarrow> i2c outcome" where
  "game_over_lines out =
     foldl (\<lambda>out i. Option.bind out (update_area line i 0 8 8)) (Some out)
       (map (\<lambda>k. 120 - 8 * int k) [0..<15])"

section \<open>The state of the program\<close>

datatype phase = Title_Flush | Title_Wait | Top_Score_Wait | Play_Flush | Playing | Over_Wait | Exited

record app =
  phase :: phase
  title :: "byte list list"
  game :: game
  start :: timespec
  frame :: int
  alarm :: bool
  score_file :: "byte list option"
  sent :: i2c

record event =
  ret :: int
  buf :: byte
  now :: timespec
  rnds :: "nat \<times> nat"
  can_open :: bool

text \<open>\<open>main\<close> up to the label \<open>title_screen\<close>: \<open>Inl\<close> is \<open>exit(EXIT_FAILURE)\<close>.\<close>

definition EXIT_FAILURE :: int where
  "EXIT_FAILURE = 1"

definition initialize_title_animation :: "byte list list" where
  "initialize_title_animation = [
     tetris_0, tetris_1, tetris_2, tetris_3, tetris_4, tetris_5, tetris_6,
     tetris_7, tetris_8, tetris_9, tetris_10, tetris_11, tetris_12, tetris_13,
     tetris_14, tetris_15, tetris_16, tetris_17, tetris_18, tetris_19, tetris_20,
     tetris_21, tetris_22, tetris_23, tetris_24, tetris_25, tetris_26, tetris_27,
     tetris_28, tetris_29, tetris_30, tetris_31, tetris_32, tetris_33, tetris_34,
     tetris_35, tetris_36, tetris_37, tetris_38, tetris_39, tetris_40, tetris_41,
     tetris_42, tetris_43, tetris_44, tetris_45, tetris_46, tetris_47, tetris_48,
     tetris_49, tetris_50, tetris_51, tetris_52, tetris_53, tetris_54, tetris_55,
     tetris_56, tetris_57, tetris_58, tetris_59, tetris_60, tetris_61, tetris_62,
     tetris_63, tetris_64, tetris_65, tetris_66, tetris_67, tetris_68, tetris_69,
     tetris_70, tetris_71, tetris_72, tetris_73, tetris_74, tetris_75, tetris_76,
     tetris_77, tetris_78, tetris_79, tetris_80, tetris_81, tetris_82, tetris_83,
     tetris_84, tetris_85, tetris_86, tetris_87, tetris_88, tetris_89, tetris_90,
     tetris_91, tetris_92, tetris_93, tetris_94, tetris_95, tetris_96, tetris_97,
     tetris_98, tetris_99, tetris_100, tetris_101, tetris_102, tetris_103, tetris_104,
     tetris_105, tetris_106, tetris_107, tetris_108, tetris_109, tetris_110, tetris_111,
     tetris_112]"

definition main_init :: "int \<Rightarrow> int \<Rightarrow> int \<Rightarrow> app \<Rightarrow> int + app" where
  "main_init i2c_fd rpi_fd ioctl_result a =
     (if i2c_fd < 0 then Inl EXIT_FAILURE
      else if rpi_fd < 0 then Inl EXIT_FAILURE
      else if ioctl_result < 0 then Inl EXIT_FAILURE
      else Inr (a\<lparr>phase := Title_Flush, title := initialize_title_animation, alarm := False,
             frame := 0, sent := ssd1306_init (sent a)\<rparr>))"

text \<open>The signal handler; \<open>title\<close> has \<open>TITLE_NUM_FRAME\<close> entries and \<open>i\<close> is an \<open>int\<close>.\<close>

definition title_handler :: "app \<Rightarrow> app outcome" where
  "title_handler a =
     (if 0 \<le> frame a \<and> frame a < 2 ^ 31 - 1 then
        map_option (\<lambda>msgs. a\<lparr>frame := frame a + 1, sent := msgs\<rparr>)
          (update_area (title a ! nat (frame a mod int TITLE_NUM_FRAME)) 0 0
             (int TITLE_WIDTH) (int TITLE_HEIGHT) (sent a))
      else None)"

definition elapsed_us :: "timespec \<Rightarrow> timespec \<Rightarrow> nat" where
  "elapsed_us s e = to_u64 ((tv_sec e - tv_sec s) * 1000000 + (tv_nsec e - tv_nsec s) sdiv 1000)"

section \<open>The main loop\<close>

definition start_game :: "event \<Rightarrow> app \<Rightarrow> app outcome" where
  "start_game ev a =
     (let g = new_game (rnds ev) (game a) in
      Option.bind (clear_display (sent a)) (\<lambda>msgs.
      Option.bind (show_game g msgs) (\<lambda>msgs.
        Some (a\<lparr>phase := Play_Flush, game := g, start := now ev, sent := msgs\<rparr>))))"

definition end_game :: "event \<Rightarrow> app \<Rightarrow> app outcome" where
  "end_game ev a =
     Option.bind (game_over_lines (sent a)) (\<lambda>msgs.
       if can_open ev then
         Option.bind (update_area game_over 32 0 (int GAME_OVER_WIDTH) (int GAME_OVER_HEIGHT) msgs)
           (\<lambda>msgs. Some (a\<lparr>phase := Over_Wait, sent := msgs,
              score_file := Some ((case score_file a of None \<Rightarrow> [] | Some text \<Rightarrow> text)
                @ print_int (score (game a)) @ [10])\<rparr>))
       else None)"

definition poll_key :: "event \<Rightarrow> app \<Rightarrow> app outcome" where
  "poll_key ev a =
     (if ret ev = 1 then
        (if shape_index_ok (game a) then
           let g = handle_key (buf ev) (game a) in
           map_option (\<lambda>msgs. a\<lparr>game := g, sent := msgs\<rparr>) (show_game g (sent a))
         else None)
      else Some a)"

definition poll_clock :: "event \<Rightarrow> app \<Rightarrow> app outcome" where
  "poll_clock ev a =
     (if elapsed_us (start a) (now ev) \<ge> to_u64 (interval (game a)) then
        (if shape_index_ok (game a) then
           let (g, is_game_over) = tick (rnds ev) (game a);
               a1 = a\<lparr>start := now ev, game := g\<rparr>
           in if is_game_over then end_game ev a1
              else map_option (\<lambda>msgs. a1\<lparr>sent := msgs\<rparr>) (show_game g (sent a1))
         else None)
      else Some a)"

definition title_key :: "event \<Rightarrow> app \<Rightarrow> app outcome" where
  "title_key ev a =
     (let a1 = a\<lparr>alarm := False\<rparr> in
      if buf ev = of_char CHR ''f'' then start_game ev a1
      else if buf ev = of_char CHR ''r'' then
        map_option (\<lambda>msgs. a1\<lparr>phase := Top_Score_Wait, sent := msgs\<rparr>)
          (show_top_score (if can_open ev then score_file a1 else None) (sent a1))
      else map_option (\<lambda>msgs. a1\<lparr>phase := Exited, sent := msgs\<rparr>) (clear_display (sent a1)))"

definition main_step :: "event \<Rightarrow> app \<Rightarrow> app outcome" where
  "main_step ev a =
     (case phase a of
        Title_Flush \<Rightarrow>
          if ret ev \<noteq> 0 then Some a
          else map_option (\<lambda>msgs. a\<lparr>phase := Title_Wait, alarm := True, sent := msgs\<rparr>)
                 (update_area press_start 64 0 64 8 (sent a))
      | Title_Wait \<Rightarrow> if ret ev = 1 then title_key ev a else Some a
      | Top_Score_Wait \<Rightarrow> if ret ev = 1 then Some (a\<lparr>phase := Title_Flush\<rparr>) else Some a
      | Play_Flush \<Rightarrow> if ret ev \<noteq> 0 then Some a else Some (a\<lparr>phase := Playing\<rparr>)
      | Playing \<Rightarrow> Option.bind (poll_key ev a) (poll_clock ev)
      | Over_Wait \<Rightarrow>
          if ret ev = 1 then
            (if buf ev = of_char CHR ''f'' then start_game ev a
             else map_option (\<lambda>msgs. a\<lparr>phase := Title_Flush, sent := msgs\<rparr>) (clear_display (sent a)))
          else Some a
      | Exited \<Rightarrow> Some a)"

section \<open>Numbers on the screen\<close>

fun digits_of :: "nat \<Rightarrow> nat list" where
  "digits_of n = (if n = 0 then [] else n mod 10 # digits_of (n div 10))"

declare digits_of.simps [simp del]

fun draw_digits :: "int \<Rightarrow> int \<Rightarrow> nat list \<Rightarrow> i2c \<Rightarrow> i2c outcome" where
  "draw_digits x y [] msgs = Some msgs"
| "draw_digits x y (d # ds) msgs =
     Option.bind (update_area (number ! d) x y 8 1 msgs) (draw_digits x (y + 1) ds)"

lemma draw_digits_append:
  "draw_digits x y (ds @ es) msgs
    = Option.bind (draw_digits x y ds msgs) (draw_digits x (y + int (length ds)) es)"
  by (induction ds arbitrary: y msgs) (simp_all add: ac_simps cong: Option.bind_cong)

lemma sdiv_smod_nat: "int v sdiv 10 = int (v div 10)" "int v smod 10 = int (v mod 10)"
  by (simp_all add: signed_divide_int_def signed_modulo_int_def zdiv_int zmod_int minus_div_mult_eq_mod sgn_if)

lemma digit_loop_digits:
  "digit_loop x (int (v div 10)) (int (v mod 10)) y msgs
    = map_option (\<lambda>m. (y + int (length (digits_of v)), m)) (draw_digits x y (digits_of v) msgs)"
proof (induction v arbitrary: y msgs rule: digits_of.induct)
  case (1 v)
  show ?case
  proof (cases "v = 0")
    case True
    then show ?thesis by (subst digit_loop.simps) (simp add: digits_of.simps)
  next
    case False
    then have "int (v div 10) \<noteq> 0 \<or> int (v mod 10) \<noteq> 0" by auto
    then show ?thesis
      using 1[OF False] False
      by (subst digit_loop.simps) (simp add: digits_of.simps[of v] sdiv_smod_nat
          map_option_bind ac_simps del: of_nat_div of_nat_mod cong: Option.bind_cong)
  qed
qed

lemma pad_loop_digits:
  "pad_loop x (y + int n - 1) y msgs = draw_digits x y (replicate n 0) msgs"
proof (induction n arbitrary: y msgs)
  case 0
  then show ?case by (subst pad_loop.simps) simp
next
  case (Suc n)
  show ?case
    using Suc[of "y + 1"] by (subst pad_loop.simps) (simp add: ac_simps cong: Option.bind_cong)
qed

lemma pad_loop_done: "last_page < y \<Longrightarrow> pad_loop x last_page y msgs = Some msgs"
  by (subst pad_loop.simps) simp

definition shown_digits :: "nat \<Rightarrow> nat \<Rightarrow> nat list" where
  "shown_digits n v = digits_of v @ replicate (n - length (digits_of v)) 0"

lemma show_digits_digits:
  "show_digits x y (y + int n - 1) (int v) msgs = draw_digits x y (shown_digits n v) msgs"
proof (cases "length (digits_of v) \<le> n")
  case True
  then have "y + int n - 1 = y + int (length (digits_of v)) + int (n - length (digits_of v)) - 1"
    by simp
  then have "pad_loop x (y + int n - 1) (y + int (length (digits_of v)))
      = draw_digits x (y + int (length (digits_of v))) (replicate (n - length (digits_of v)) 0)"
    by (simp only: pad_loop_digits fun_eq_iff simp_thms)
  then show ?thesis
    by (simp add: show_digits_def sdiv_smod_nat digit_loop_digits shown_digits_def
        draw_digits_append del: of_nat_div of_nat_mod split: bind_splits option.splits)
next
  case False
  then show ?thesis
    by (simp add: show_digits_def sdiv_smod_nat digit_loop_digits shown_digits_def pad_loop_done
        del: of_nat_div of_nat_mod split: bind_splits option.splits)
qed

lemma shown_digits_places:
  "v < 10 ^ n \<Longrightarrow> shown_digits n v = map (\<lambda>k. v div 10 ^ k mod 10) [0..<n]"
proof (induction n arbitrary: v)
  case 0
  then show ?case by (simp add: shown_digits_def digits_of.simps)
next
  case (Suc n)
  have "v div 10 < 10 ^ n" using Suc.prems by (simp add: less_mult_imp_div_less mult.commute)
  from Suc.IH[OF this] have IH: "shown_digits n (v div 10) = map (\<lambda>k. v div 10 ^ Suc k mod 10) [0..<n]"
    by (simp add: div_mult2_eq)
  have "shown_digits (Suc n) v = v mod 10 # shown_digits n (v div 10)"
  proof (cases "v = 0")
    case True
    then show ?thesis by (simp add: shown_digits_def digits_of.simps)
  next
    case False
    then show ?thesis by (simp add: shown_digits_def digits_of.simps[of v])
  qed
  then show ?case using IH by (simp add: upt_conv_Cons map_Suc_upt[symmetric] comp_def del: upt_Suc)
qed

text \<open>The picture after the digits \<open>ds\<close> have been drawn on pages \<open>y, y + 1, ...\<close>.\<close>

definition digits_shown :: "nat \<Rightarrow> nat \<Rightarrow> nat list \<Rightarrow> panel \<Rightarrow> nat \<Rightarrow> nat \<Rightarrow> byte" where
  "digits_shown x y ds p r c =
     (if y \<le> r \<and> r < y + length ds \<and> x \<le> c \<and> c < x + 8
      then number ! (ds ! (r - y)) ! (c - x) else ram p r c)"

lemma digits_shown_Nil [simp]: "digits_shown x y [] p = ram p"
  by (auto simp: fun_eq_iff digits_shown_def)

lemma draw_digits_panel:
  assumes "pending p = []" and "x + 8 \<le> 128" and "y + length ds \<le> 8" and "\<forall>d\<in>set ds. d < 10"
  obtains msgs where "\<And>out. draw_digits (int x) (int y) ds out = Some (out @ msgs)"
    and "ram (show_on p msgs) = digits_shown x y ds p" and "pending (show_on p msgs) = []"
  using assms
proof (induction ds arbitrary: p y thesis)
  case Nil
  then show ?case by (intro Nil.prems(1)[of "[]"]) (simp_all add: show_on_def)
next
  case (Cons d ds)
  have "length (number ! d) = 8" using Cons.prems(5) by (simp add: number_glyphs)
  then obtain m1 where m1: "\<And>out. update_area (number ! d) (int x) (int y) (int 8) (int 1) out = Some (out @ m1)"
    "ram (show_on p m1) = area_shown (number ! d) x y 8 1 p" "pending (show_on p m1) = []"
    using update_area_panel[of p x 8 y 1 "number ! d"] Cons.prems(2-4) by auto
  obtain m2 where m2: "\<And>out. draw_digits (int x) (int (Suc y)) ds out = Some (out @ m2)"
    "ram (show_on (show_on p m1) m2) = digits_shown x (Suc y) ds (show_on p m1)"
    "pending (show_on (show_on p m1) m2) = []"
    using Cons.IH[where p = "show_on p m1" and y = "Suc y"] m1(3) Cons.prems(3-5) by auto
  have "draw_digits (int x) (int y) (d # ds) out = Some (out @ (m1 @ m2))" for out
    using m1(1) m2(1) by (simp add: add.commute)
  moreover have "digits_shown x (Suc y) ds (show_on p m1) = digits_shown x y (d # ds) p"
    by (auto simp: fun_eq_iff digits_shown_def m1(2) area_shown_def nth_Cons')
  ultimately show ?case using Cons.prems(1)[of "m1 @ m2"] m2(2,3) by (simp add: show_on_append)
qed

text \<open>Every number can be drawn, also one with more digits than pages.\<close>

lemma digits_of_less: "\<forall>d\<in>set (digits_of v). d < 10"
  by (induction v rule: digits_of.induct) (subst digits_of.simps, simp)

lemma draw_digits_defined: "\<forall>d\<in>set ds. d < 10 \<Longrightarrow> \<exists>out'. draw_digits x y ds out = Some out'"
proof (induction ds arbitrary: y out)
  case (Cons d ds)
  have "length (number ! d) = 8" using Cons.prems by (simp add: number_glyphs)
  then have "\<exists>out1. update_area (number ! d) x y 8 1 out = Some out1"
    using update_area_msgs[of 8 1 "number ! d" x y out] by simp
  then show ?case using Cons by auto
qed simp

lemma show_digits_defined:
  assumes "0 \<le> v" and "y \<le> last_page + 1"
  shows "\<exists>out'. show_digits x y last_page v out = Some out'"
proof -
  have "last_page = y + int (nat (last_page + 1 - y)) - 1" "v = int (nat v)" using assms by simp_all
  then have "show_digits x y last_page v out
      = draw_digits x y (shown_digits (nat (last_page + 1 - y)) (nat v)) out"
    by (metis show_digits_digits)
  moreover have "\<forall>d\<in>set (shown_digits n (nat v)). d < 10" for n
    using digits_of_less[of "nat v"] by (auto simp: shown_digits_def)
  ultimately show ?thesis using draw_digits_defined by metis
qed

section \<open>The game on the screen\<close>

lemma foldl_cong2: "(\<And>f k. k \<in> set ks \<Longrightarrow> F f k = G f k) \<Longrightarrow> foldl F f ks = foldl G f ks"
  by (induction ks arbitrary: f) simp_all

text \<open>Rows of the tetromino above the field are blank: the guard on the row skips nothing.\<close>

lemma display_buffer_placed:
  assumes "mino_ok g"
  shows "display_buffer g = placed g"
proof -
  have "mino_shape (mino_type g) (mino_angle g) i j = 0" if "i < 4" "j < 32" "mino_y g + int i < 0" for i j
    using shape_byte_in_grid[of "mino_type g" "mino_angle g" "mino_x g div 8" "mino_y g" i j] that assms
    by (force simp: mino_ok_def)
  then have "(if mino_y g + int i \<ge> 0 then
           (let p = field_off (mino_y g + int i) (mino_x g + int j) in
            b(p := b p OR mino_shape (mino_type g) (mino_angle g) i j))
         else b) = (let p = field_off (mino_y g + int i) (mino_x g + int j) in
            b(p := b p OR mino_shape (mino_type g) (mino_angle g) i j))" if "i < 4" "j < 32" for b :: mem and i j
    using that by (auto simp: Let_def)
  then show ?thesis
    unfolding display_buffer_def placed_def add_mino_def MINO_WIDTH_def MINO_HEIGHT_def
    by (intro foldl_cong2) simp
qed

lemma mino_ok_index: "mino_ok g \<Longrightarrow> shape_index_ok g"
  by (simp add: mino_ok_def shape_index_ok_def MINO_TYPE_MAX_def MINO_ANGLE_MAX_def)

lemma game_inv_index: "game_inv g \<Longrightarrow> shape_index_ok g"
  by (simp add: game_inv_def mino_ok_index)

text \<open>
  What \<open>show_game\<close> puts on the display: the field with the tetromino from column 8 on, and
  in the first 8 columns the six digits of the score on pages 2 to 7.
\<close>

definition game_picture :: "game \<Rightarrow> panel \<Rightarrow> nat \<Rightarrow> nat \<Rightarrow> byte" where
  "game_picture g p r c =
     (if r < 8 \<and> 8 \<le> c \<and> c < 128 then placed g (field_off (int r) (int c - 8))
      else if 2 \<le> r \<and> r < 8 \<and> c < 8
      then number ! (nat (score g) div 10 ^ (r - 2) mod 10) ! c
      else ram p r c)"

lemma show_game_panel:
  assumes "mino_ok g" and "0 \<le> score g" and "score g < 10 ^ 6" and "pending p = []"
  obtains msgs where "\<And>out. show_game g out = Some (out @ msgs)"
    and "ram (show_on p msgs) = game_picture g p" and "pending (show_on p msgs) = []"
proof -
  define data where "data = map (\<lambda>p. display_buffer g (int p)) [0..<960]"
  define ds where "ds = map (\<lambda>k. nat (score g) div 10 ^ k mod 10) [0..<6]"
  have data: "length data = 960" "\<And>k. k < 960 \<Longrightarrow> data ! k = placed g (int k)"
    by (simp_all add: data_def display_buffer_placed[OF assms(1)] del: upt_rec_numeral)
  have ds: "length ds = 6" "\<And>k. k < 6 \<Longrightarrow> ds ! k = nat (score g) div 10 ^ k mod 10" "\<forall>d\<in>set ds. d < 10"
    by (auto simp: ds_def simp del: upt_rec_numeral)
  obtain m1 where m1: "\<And>out. update_area data (int 8) (int 0) (int 120) (int 8) out = Some (out @ m1)"
    "ram (show_on p m1) = area_shown data 8 0 120 8 p" "pending (show_on p m1) = []"
    using update_area_panel[of p 8 120 0 8 data] assms(4) data(1) by auto
  obtain m2 where m2: "\<And>out. draw_digits (int 0) (int 2) ds out = Some (out @ m2)"
    "ram (show_on (show_on p m1) m2) = digits_shown 0 2 ds (show_on p m1)"
    "pending (show_on (show_on p m1) m2) = []"
    using draw_digits_panel[of "show_on p m1" 0 2 ds] m1(3) ds by auto
  have "nat (score g) < 10 ^ 6" using assms(2,3) by simp
  then have "shown_digits 6 (nat (score g)) = ds" unfolding ds_def by (rule shown_digits_places)
  then have "show_score (score g) out = Some (out @ m2)" for out
    using show_digits_digits[of 0 2 6 "nat (score g)" out] m2(1) assms(2)
    by (simp add: show_score_def)
  then have "show_game g out = Some (out @ (m1 @ m2))" for out
    using m1(1) mino_ok_index[OF assms(1)] unfolding show_game_def data_def[symmetric] by simp
  moreover have "digits_shown 0 2 ds (show_on p m1) r c = game_picture g p r c" for r c
  proof (cases "r < 8 \<and> 8 \<le> c \<and> c < 128")
    case True
    then have "r \<le> 7" "c - 8 < 120" by auto
    then have "r * 120 + (c - 8) < 960" by linarith
    moreover have "field_off (int r) (int c - 8) = int (r * 120 + (c - 8))"
      using True by (simp add: field_off_def of_nat_diff)
    ultimately show ?thesis
      using True data(2)[of "r * 120 + (c - 8)"]
      by (simp add: digits_shown_def game_picture_def m1(2) area_shown_def)
  next
    case False
    then show ?thesis
      using ds(1) ds(2)[of "r - 2"]
      by (auto simp: digits_shown_def game_picture_def m1(2) area_shown_def)
  qed
  ultimately show thesis using that[of "m1 @ m2"] m2(2,3) by (simp add: show_on_append fun_eq_iff)
qed

section \<open>The score file\<close>

definition score_text :: "int list \<Rightarrow> byte list" where
  "score_text ss = concat (map (\<lambda>s. print_int s @ [10]) ss)"

lemma score_text_simps [simp]:
  "score_text [] = []" "score_text (s # ss) = print_int s @ 10 # score_text ss"
  "score_text (ss @ [s]) = score_text ss @ print_int s @ [10]"
  by (simp_all add: score_text_def)

lemma top_loop_cong: "scan_int input = scan_int input2 \<Longrightarrow> top_loop input v b = top_loop input2 v b"
  by (subst (1 2) top_loop.simps) simp

lemma top_loop_scores:
  "\<forall>s\<in>set ss. in_int s \<Longrightarrow> top_loop (score_text ss) v best = Some (fold max ss best)"
proof (induction ss arbitrary: v best)
  case Nil
  then show ?case by (subst top_loop.simps) (simp add: scan_int_def)
next
  case (Cons s ss)
  have "scan_int (score_text (s # ss)) = (Scanned s, 10 # score_text ss)"
    using scan_print[of "10 # score_text ss" s] by (simp add: is_digit_def)
  moreover have "top_loop (10 # score_text ss) v' b = top_loop (score_text ss) v' b" for v' b
    by (rule top_loop_cong) (simp add: scan_space is_space_def)
  moreover have "(if s > best then s else best) = max s best" by simp
  ultimately show ?case
    using Cons by (subst top_loop.simps) (simp add: max.commute)
qed

lemma fold_max_ge: "(best :: int) \<le> fold max ss best"
  by (induction ss arbitrary: best) (simp, metis fold_simps(2) max.cobounded2 order_trans)

section \<open>Every drawing is within its data\<close>

lemma length_title [simp]: "length initialize_title_animation = TITLE_NUM_FRAME"
  by (simp add: initialize_title_animation_def TITLE_NUM_FRAME_def)

lemma title_frames: "\<forall>p\<in>set initialize_title_animation. length p = 512"
  by (simp add: initialize_title_animation_def)

lemma length_title_frame: "k < 113 \<Longrightarrow> length (initialize_title_animation ! k) = 512"
  using title_frames by (simp add: TITLE_NUM_FRAME_def)

lemma update_area_defined:
  "nat (xl * yl) \<le> length data \<Longrightarrow> 0 \<le> xl * yl \<Longrightarrow> xl * yl < 2 ^ 64 \<Longrightarrow>
     \<exists>out'. update_area data x y xl yl out = Some out'"
  by (simp add: update_area_msgs)

lemma clear_display_defined: "\<exists>out'. clear_display out = Some out'"
  unfolding clear_display_def update_full_area by (rule update_area_defined) simp_all

lemma show_game_defined:
  assumes "0 \<le> score g" and "shape_index_ok g"
  shows "\<exists>out'. show_game g out = Some out'"
proof -
  obtain out1 where "update_area (map (\<lambda>p. display_buffer g (int p)) [0..<960]) 8 0 120 8 out = Some out1"
    using update_area_defined[of 120 8 "map (\<lambda>p. display_buffer g (int p)) [0..<960]" 8 0 out]
    by (auto simp del: upt_rec_numeral)
  moreover obtain out2 where "show_score (score g) out1 = Some out2"
    using show_digits_defined[OF assms(1), of 2 7 0 out1] by (auto simp: show_score_def)
  ultimately show ?thesis using assms(2) unfolding show_game_def by simp
qed

lemma game_over_lines_defined: "\<exists>out'. game_over_lines out = Some out'"
proof -
  have "\<exists>out'. foldl (\<lambda>out i. Option.bind out (update_area line i 0 8 8)) (Some out) xs = Some out'"
    for xs :: "int list" and out
  proof (induction xs arbitrary: out)
    case (Cons x xs)
    obtain out1 where "update_area line x 0 8 8 out = Some out1"
      using update_area_defined[of 8 8 line x 0 out] by (auto simp: length_line)
    then show ?case using Cons by simp
  qed simp
  then show ?thesis by (simp add: game_over_lines_def)
qed

lemma show_top_score_defined:
  assumes "file = None \<or> (\<exists>ss. file = Some (score_text ss) \<and> (\<forall>s\<in>set ss. in_int s))"
  shows "\<exists>out'. show_top_score file out = Some out'"
proof -
  obtain best where best: "(case file of None \<Rightarrow> Some 0 | Some text \<Rightarrow> top_loop text 0 0) = Some best" "0 \<le> best"
    using assms top_loop_scores fold_max_ge[of 0] by fastforce
  obtain out1 where "clear_display out = Some out1" using clear_display_defined by blast
  moreover obtain out2 where "update_area best_score 0 0 64 8 out1 = Some out2"
    using update_area_defined[of 64 8 best_score 0 0 out1] by auto
  moreover obtain out3 where "show_digits 72 1 6 best out2 = Some out3"
    using show_digits_defined[OF best(2), of 1 6 72 out2] by auto
  ultimately show ?thesis using best(1) by (simp add: show_top_score_def)
qed

section \<open>Runs of the program\<close>

definition event_ok :: "event \<Rightarrow> bool" where
  "event_ok ev \<longleftrightarrow> fst (rnds ev) \<le> RAND_MAX \<and> snd (rnds ev) \<le> RAND_MAX"

inductive runs :: "app \<Rightarrow> app \<Rightarrow> bool" where
  runs_start: "runs a a"
| runs_main: "runs a b \<Longrightarrow> event_ok ev \<Longrightarrow> main_step ev b = Some c \<Longrightarrow> runs a c"
| runs_alarm: "runs a b \<Longrightarrow> alarm b \<Longrightarrow> title_handler b = Some c \<Longrightarrow> runs a c"

text \<open>
  While a game is on, the invariant of the rules holds; the title animation runs on the
  title screen only; the score file consists of the scores of the finished games.
\<close>

definition file_scores :: "app \<Rightarrow> int list \<Rightarrow> bool" where
  "file_scores a ss \<longleftrightarrow>
     (case score_file a of None \<Rightarrow> ss = [] | Some text \<Rightarrow> text = score_text ss) \<and> (\<forall>s\<in>set ss. in_int s)"

definition app_inv :: "app \<Rightarrow> bool" where
  "app_inv a \<longleftrightarrow>
     (phase a \<in> {Play_Flush, Playing} \<longrightarrow> game_inv (game a) \<and> in_int (score (game a))) \<and>
     (alarm a \<longleftrightarrow> phase a = Title_Wait) \<and> (\<exists>ss. file_scores a ss)"

lemma new_game_score [simp]: "score (new_game r g) = 0"
  by (simp add: new_game_def)

lemma start_game_inv:
  assumes "\<exists>ss. file_scores a ss" and "\<not> alarm a" and "event_ok ev"
    and "start_game ev a = Some b"
  shows "app_inv b \<and> outside (field (game a)) (field (game b))"
proof -
  have "game_inv (new_game (rnds ev) (game a))" using new_game_inv assms(3) by (simp add: event_ok_def)
  moreover have "outside (field (game a)) (field (new_game (rnds ev) (game a)))"
    by (simp add: new_game_def outside_def clear_field_def)
  ultimately show ?thesis
    using assms by (auto simp: start_game_def Let_def app_inv_def file_scores_def split: bind_splits)
qed

lemma tick_in_int: "in_int (score g) \<Longrightarrow> in_int (score (fst (tick r g)))"
  by (simp add: tick_def Let_def split: prod.splits)

lemma handle_key_score [simp]:
  "score (handle_key k g) = score g" "field (handle_key k g) = field g"
  using handle_key_same_board[of g k] by (simp_all add: same_board_def)

lemma poll_key_inv:
  assumes "app_inv a" and "phase a = Playing" and "poll_key ev a = Some b"
  shows "app_inv b \<and> phase b = Playing \<and> field (game b) = field (game a)"
  using assms handle_key_inv[of "game a" "buf ev"]
  by (auto simp: poll_key_def Let_def app_inv_def file_scores_def split: if_splits)

lemma end_game_inv:
  assumes "\<exists>ss. file_scores a ss" and "in_int (score (game a))" and "\<not> alarm a"
    and "end_game ev a = Some b"
  shows "app_inv b \<and> game b = game a"
proof -
  obtain ss where ss: "file_scores a ss" using assms(1) by blast
  have b: "phase b = Over_Wait" "alarm b = alarm a" "game b = game a"
    "score_file b = Some ((case score_file a of None \<Rightarrow> [] | Some text \<Rightarrow> text)
      @ print_int (score (game a)) @ [10])"
    using assms(4) by (auto simp: end_game_def split: bind_splits if_splits)
  have "file_scores b (ss @ [score (game a)])"
    using ss assms(2) b(4) by (auto simp: file_scores_def split: option.splits)
  then show ?thesis using b assms(3) by (auto simp: app_inv_def)
qed

lemma poll_clock_inv:
  assumes "app_inv a" and "phase a = Playing" and "event_ok ev" and "poll_clock ev a = Some b"
  shows "app_inv b \<and> outside (field (game a)) (field (game b))"
proof (cases "elapsed_us (start a) (now ev) \<ge> to_u64 (interval (game a))")
  case False
  then show ?thesis using assms by (simp add: poll_clock_def)
next
  case True
  obtain g over where t: "tick (rnds ev) (game a) = (g, over)" by (meson prod.exhaust)
  let ?a1 = "a\<lparr>start := now ev, game := g\<rparr>"
  have g: "game_inv (game a)" "in_int (score (game a))" "\<not> alarm a" "\<exists>ss. file_scores ?a1 ss"
    using assms(1,2) by (auto simp: app_inv_def file_scores_def)
  have out: "outside (field (game a)) (field g)" "in_int (score g)"
    using tick_outside[OF g(1), of "rnds ev"] tick_in_int[OF g(2), of "rnds ev"] t by simp_all
  show ?thesis
  proof (cases over)
    case over: True
    then have "end_game ev ?a1 = Some b" using assms(4) True t by (simp add: poll_clock_def split: if_splits)
    then have "app_inv b" "game b = g" using end_game_inv[of ?a1] g(3,4) out(2) by auto
    then show ?thesis using out(1) by simp
  next
    case not_over: False
    then have "game_inv g" using tick_inv[OF g(1), of "rnds ev" g] assms(3) t by (simp add: event_ok_def)
    then show ?thesis
      using assms(1,2,4) True t not_over out by (auto simp: poll_clock_def app_inv_def file_scores_def split: if_splits)
  qed
qed

lemma title_key_inv:
  assumes "app_inv a" and "phase a = Title_Wait" and "event_ok ev" and "title_key ev a = Some b"
  shows "app_inv b \<and> outside (field (game a)) (field (game b))"
proof (cases "buf ev = of_char CHR ''f''")
  case True
  have "\<exists>ss. file_scores (a\<lparr>alarm := False\<rparr>) ss"
    using assms(1) by (auto simp: app_inv_def file_scores_def)
  then show ?thesis
    using start_game_inv[of "a\<lparr>alarm := False\<rparr>" ev b] assms(3,4) True
    by (simp add: title_key_def)
next
  case False
  then show ?thesis
    using assms by (auto simp: title_key_def Let_def app_inv_def file_scores_def split: if_splits)
qed

lemma main_step_inv:
  assumes "app_inv a" and "event_ok ev" and "main_step ev a = Some b"
  shows "app_inv b \<and> outside (field (game a)) (field (game b))"
proof (cases "phase a")
  case Title_Wait
  then show ?thesis using assms title_key_inv[of a ev b] by (auto simp: main_step_def split: if_splits)
next
  case Playing
  obtain c where c: "poll_key ev a = Some c" "poll_clock ev c = Some b"
    using assms(3) Playing by (auto simp: main_step_def split: bind_splits)
  then show ?thesis
    using poll_key_inv[OF assms(1) Playing c(1)] poll_clock_inv[OF _ _ assms(2) c(2)] by simp
next
  case Over_Wait
  then have "\<not> alarm a" "\<exists>ss. file_scores a ss"
    using assms(1) by (auto simp: app_inv_def)
  then show ?thesis
    using assms Over_Wait start_game_inv[of a ev b]
    by (auto simp: main_step_def app_inv_def file_scores_def split: if_splits)
qed (use assms in \<open>auto simp: main_step_def app_inv_def file_scores_def split: if_splits\<close>)

lemma runs_inv:
  assumes "runs a b" and "app_inv a"
  shows "app_inv b \<and> outside (field (game a)) (field (game b))"
  using assms
proof (induction rule: runs.induct)
  case (runs_main a b ev c)
  then show ?case using main_step_inv[of b ev c] outside_trans by blast
next
  case (runs_alarm a b c)
  then show ?case by (auto simp: title_handler_def app_inv_def file_scores_def split: if_splits)
qed simp

text \<open>Only the signal handler moves the animation on, and nothing replaces its pictures.\<close>

lemma main_step_title: "main_step ev a = Some b \<Longrightarrow> title b = title a \<and> frame b = frame a"
  by (auto simp: main_step_def title_key_def start_game_def poll_key_def poll_clock_def end_game_def
      Let_def split: phase.splits if_splits bind_splits prod.splits)

lemma runs_title: "runs a b \<Longrightarrow> 0 \<le> frame a \<Longrightarrow> title b = title a \<and> 0 \<le> frame b"
proof (induction rule: runs.induct)
  case (runs_main a b ev c)
  then show ?case using main_step_title by fastforce
next
  case (runs_alarm a b c)
  then show ?case by (auto simp: title_handler_def split: if_splits)
qed simp

section \<open>No step is undefined\<close>

lemma start_game_defined:
  assumes "event_ok ev"
  shows "\<exists>b. start_game ev a = Some b"
proof -
  have "shape_index_ok (new_game (rnds ev) (game a))"
    using new_game_inv assms by (intro game_inv_index) (simp add: event_ok_def)
  moreover obtain m1 where "clear_display (sent a) = Some m1" using clear_display_defined by blast
  ultimately obtain m2 where "show_game (new_game (rnds ev) (game a)) m1 = Some m2"
    using show_game_defined[of "new_game (rnds ev) (game a)" m1] by auto
  with \<open>clear_display (sent a) = Some m1\<close> show ?thesis by (simp add: start_game_def)
qed

lemma title_key_defined:
  assumes "file_scores a ss" and "event_ok ev"
  shows "\<exists>b. title_key ev a = Some b"
proof -
  define contents where "contents = (if can_open ev then score_file a else None)"
  have "contents = None \<or> (\<exists>ss. contents = Some (score_text ss) \<and> (\<forall>s\<in>set ss. in_int s))"
    using assms(1) by (auto simp: file_scores_def contents_def split: option.splits)
  then obtain m1 where "show_top_score contents (sent a) = Some m1"
    using show_top_score_defined by blast
  moreover obtain m2 where "clear_display (sent a) = Some m2" using clear_display_defined by blast
  moreover obtain b where "start_game ev (a\<lparr>alarm := False\<rparr>) = Some b"
    using start_game_defined[OF assms(2)] by blast
  ultimately show ?thesis
    by (cases "can_open ev") (simp_all add: title_key_def contents_def Let_def)
qed

lemma end_game_defined:
  assumes "can_open ev"
  shows "\<exists>b. end_game ev a = Some b"
proof -
  obtain m1 where "game_over_lines (sent a) = Some m1" using game_over_lines_defined by blast
  moreover obtain m2 where "update_area game_over 32 0 64 8 m1 = Some m2"
    using update_area_defined[of 64 8 game_over 32 0 m1] by auto
  ultimately show ?thesis using assms by (simp add: end_game_def GAME_OVER_WIDTH_def GAME_OVER_HEIGHT_def)
qed

lemma tick_score_nonneg:
  assumes "0 \<le> score g" and "score g + 1000 < 2 ^ 31"
  shows "0 \<le> score (fst (tick r g))"
proof -
  have "0 \<le> to_s32 (to_s32 (score g + 10) + line_bonus n)" for n
    using assms by (simp add: line_bonus_def to_s32_id)
  then show ?thesis using assms(1) by (simp add: tick_def Let_def split: prod.splits)
qed

lemma playing_defined:
  assumes "app_inv a" and "phase a = Playing" and "event_ok ev" and "can_open ev"
    and "0 \<le> score (game a)" and "score (game a) + 1000 < 2 ^ 31"
  shows "\<exists>b. Option.bind (poll_key ev a) (poll_clock ev) = Some b"
proof -
  have inv: "game_inv (game a)" using assms(1,2) by (simp add: app_inv_def)
  obtain m0 where "show_game (handle_key (buf ev) (game a)) (sent a) = Some m0"
    using show_game_defined[of "handle_key (buf ev) (game a)" "sent a"] assms(5)
      game_inv_index[OF handle_key_inv[OF inv]] by auto
  then obtain a1 where a1: "poll_key ev a = Some a1" "score (game a1) = score (game a)" "game_inv (game a1)"
    using inv handle_key_inv[OF inv] game_inv_index[OF inv]
    by (cases "ret ev = 1") (simp_all add: poll_key_def)
  obtain g over where t: "tick (rnds ev) (game a1) = (g, over)" by (meson prod.exhaust)
  then have "0 \<le> score g" using tick_score_nonneg[of "game a1" "rnds ev"] a1(2) assms(5,6) by simp
  moreover have "game_inv g" if "\<not> over"
    using tick_inv[OF a1(3), of "rnds ev" g] assms(3) t that by (simp add: event_ok_def)
  ultimately have "\<exists>m. show_game g (sent a1) = Some m" if "\<not> over"
    using show_game_defined game_inv_index that by blast
  moreover obtain b where "end_game ev (a1\<lparr>start := now ev, game := g\<rparr>) = Some b"
    using end_game_defined[OF assms(4)] by blast
  ultimately show ?thesis
    using a1 t game_inv_index[OF a1(3)] by (cases over) (auto simp: poll_clock_def Let_def)
qed

section \<open>Properties\<close>

text \<open>A program that has just started, and one with a game on.\<close>

definition demo_event :: event where
  "demo_event = \<lparr>ret = 1, buf = of_char CHR ''f'', now = \<lparr>tv_sec = 5, tv_nsec = 0\<rparr>,
     rnds = (0, 0), can_open = True\<rparr>"

definition demo_app :: "phase \<Rightarrow> app" where
  "demo_app ph = \<lparr>phase = ph, title = [], game = demo_game, start = \<lparr>tv_sec = 0, tv_nsec = 0\<rparr>, frame = 0,
     alarm = False, score_file = Some (score_text [100, 1090, 30]), sent = []\<rparr>"

lemma demo_scores: "file_scores (demo_app ph) [100, 1090, 30]"
  by (simp add: file_scores_def demo_app_def in_int_def)

lemma demo_app_inv: "app_inv (demo_app Playing)"
  using demo_inv demo_scores by (auto simp: app_inv_def demo_app_def demo_game_def)

text \<open>
  C10: From the start of the program on, whatever keys are pressed and however time passes:
  while a game is on, the invariant of the rules holds; the title animation draws on the
  title screen only, so its messages never fall into another picture; the score file is
  the list of the scores of the finished games; the memory around the field is untouched.
\<close>

theorem program_keeps_invariant:
  assumes "main_init fd1 fd2 res a0 = Inr a" and "file_scores a0 ss" and "runs a b"
  shows "(phase b \<in> {Play_Flush, Playing} \<longrightarrow> game_inv (game b)) \<and> (alarm b \<longleftrightarrow> phase b = Title_Wait) \<and>
    (\<exists>ss. file_scores b ss) \<and> outside (field (game a0)) (field (game b))"
proof -
  have "app_inv a" "game a = game a0"
    using assms(1,2) by (auto simp: main_init_def app_inv_def file_scores_def split: if_splits)
  then show ?thesis using runs_inv[OF assms(3)] by (simp add: app_inv_def)
qed

theorem program_keeps_invariant_witness:
  "\<exists>a b. main_init 3 4 0 (demo_app Exited) = Inr a \<and> phase a = Title_Flush \<and> runs a b \<and>
     phase b = Title_Wait \<and> alarm b \<and> outside (field (game (demo_app Exited))) (field (game b))"
proof -
  define a where "a = (demo_app Exited)\<lparr>phase := Title_Flush,
    title := initialize_title_animation, sent := ssd1306_init []\<rparr>"
  have init: "main_init 3 4 0 (demo_app Exited) = Inr a"
    by (simp add: main_init_def a_def demo_app_def)
  obtain m where "update_area press_start 64 0 64 8 (sent a) = Some m"
    using update_area_defined[of 64 8 press_start 64 0 "sent a"] by auto
  then have step: "main_step (demo_event\<lparr>ret := 0\<rparr>) a
      = Some (a\<lparr>phase := Title_Wait, alarm := True, sent := m\<rparr>)" (is "_ = Some ?b")
    by (simp add: main_step_def a_def demo_event_def)
  have "runs a ?b"
    by (rule runs_main[OF runs_start _ step]) (simp add: event_ok_def demo_event_def)
  with program_keeps_invariant[OF init demo_scores this] init show ?thesis
    by (intro exI[of _ a] exI[of _ ?b]) (simp add: a_def)
qed

text \<open>
  C12: An iteration of the main loop from a state that meets the invariant is never
  undefined, and the invariant holds again: shapes are only taken from the table with an
  index inside it (\<open>shape_index_ok\<close>), glyphs likewise, every drawing has enough data, and the
  loops over digits and over the score file end - as long as \<open>rand\<close> stays below \<open>RAND_MAX\<close>,
  the score file can be opened and the score has room in an \<open>int\<close>. (Not claimed: the loops
  of \<open>is_hit\<close>, of placing and of \<open>show_game\<close> do index \<open>field\<close> and \<open>display_buffer\<close> outside
  their bounds, with blank bytes of the shape; the claim about placing is in \<open>Game\<close>.)
\<close>

theorem main_step_defined:
  assumes "app_inv a" and "event_ok ev" and "can_open ev"
    and "phase a = Playing \<longrightarrow> 0 \<le> score (game a) \<and> score (game a) + 1000 < 2 ^ 31"
  shows "\<exists>b. main_step ev a = Some b \<and> app_inv b"
proof -
  obtain m1 where m1: "update_area press_start 64 0 64 8 (sent a) = Some m1"
    using update_area_defined[of 64 8 press_start 64 0 "sent a"] by auto
  obtain m2 where m2: "clear_display (sent a) = Some m2" using clear_display_defined by blast
  obtain b1 where b1: "start_game ev a = Some b1" using start_game_defined[OF assms(2)] by blast
  obtain b2 where b2: "title_key ev a = Some b2"
    using title_key_defined[OF _ assms(2)] assms(1) unfolding app_inv_def by blast
  have "\<exists>b. Option.bind (poll_key ev a) (poll_clock ev) = Some b" if "phase a = Playing"
    using playing_defined[OF assms(1) that assms(2,3)] assms(4) that by simp
  then have "\<exists>b. main_step ev a = Some b"
    using m1 m2 b1 b2 by (cases "phase a") (simp_all add: main_step_def)
  then show ?thesis using main_step_inv[OF assms(1,2)] by blast
qed

theorem main_step_defined_witness:
  "\<exists>b. main_step demo_event (demo_app Playing) = Some b \<and> app_inv b"
  by (rule main_step_defined[OF demo_app_inv])
     (simp_all add: demo_event_def demo_app_def demo_game_def event_ok_def)

text \<open>
  C19: After \<open>show_game\<close> the display shows the field with the falling tetromino in columns 8
  to 127, and in columns 0 to 7 the six decimal digits of the score, least significant
  digit on page 2. Nothing else on the display changes.
\<close>

theorem show_game_shows:
  assumes "mino_ok g" and "0 \<le> score g" and "score g < 10 ^ 6" and "pending p = []"
  shows "\<exists>msgs. (\<forall>out. show_game g out = Some (out @ msgs)) \<and> ram (show_on p msgs) = game_picture g p \<and>
    pending (show_on p msgs) = []"
  using show_game_panel[OF assms] by metis

theorem show_game_shows_witness:
  "\<exists>msgs. (\<forall>out. show_game demo_game out = Some (out @ msgs)) \<and>
     ram (show_on demo_panel msgs) = game_picture demo_game demo_panel"
proof -
  have "mino_ok demo_game" using demo_inv by (simp add: game_inv_def)
  then show ?thesis
    using show_game_shows[of demo_game demo_panel] by (auto simp: demo_game_def demo_panel_def)
qed

text \<open>
  C20: The top score screen reads the scores back from the file exactly as the game wrote
  them and shows the largest one (or 0): its six decimal digits in columns 72 to 79, the
  least significant one on page 1.
\<close>

theorem top_score_shows_max:
  assumes "\<forall>s\<in>set ss. in_int s" and "fold max ss 0 < 10 ^ 6" and "pending p = []"
    and "k < 6" and "j < 8"
  shows "\<exists>msgs. (\<forall>out. show_top_score (Some (score_text ss)) out = Some (out @ msgs)) \<and>
    ram (show_on p msgs) (1 + k) (72 + j) = number ! (nat (fold max ss 0) div 10 ^ k mod 10) ! j"
proof -
  define best where "best = fold max ss 0"
  define ds where "ds = map (\<lambda>k. nat best div 10 ^ k mod 10) [0..<6]"
  have ds: "length ds = 6" "\<And>k. k < 6 \<Longrightarrow> ds ! k = nat best div 10 ^ k mod 10" "\<forall>d\<in>set ds. d < 10"
    by (auto simp: ds_def simp del: upt_rec_numeral)
  have best: "0 \<le> best" "nat best < 10 ^ 6" using fold_max_ge[of 0 ss] assms(2) by (simp_all add: best_def)
  obtain m1 where m1: "\<And>out. clear_display out = Some (out @ m1)" "pending (show_on p m1) = []"
    using update_area_panel[of p 0 128 0 8 "replicate 1024 0"] assms(3)
    by (auto simp: clear_display_def update_full_area)
  obtain m2 where m2: "\<And>out. update_area best_score (int 0) (int 0) (int 64) (int 8) out = Some (out @ m2)"
    "pending (show_on (show_on p m1) m2) = []"
    by (rule update_area_panel[of "show_on p m1" 0 64 0 8 best_score])
       (use m1(2) in simp_all)
  obtain m3 where m3: "\<And>out. draw_digits (int 72) (int 1) ds out = Some (out @ m3)"
    "ram (show_on (show_on (show_on p m1) m2) m3) = digits_shown 72 1 ds (show_on (show_on p m1) m2)"
    by (rule draw_digits_panel[of "show_on (show_on p m1) m2" 72 1 ds]) (use m2(2) ds in simp_all)
  have "shown_digits 6 (nat best) = ds" unfolding ds_def using best(2) by (rule shown_digits_places)
  then have "show_digits 72 1 6 best out = Some (out @ m3)" for out
    using show_digits_digits[of 72 1 6 "nat best" out] m3(1) best(1) by simp
  then have "show_top_score (Some (score_text ss)) out = Some (out @ (m1 @ m2 @ m3))" for out
    using top_loop_scores[OF assms(1), of 0 0] m1(1) m2(1)
    by (simp add: show_top_score_def best_def)
  moreover have "ram (show_on p (m1 @ m2 @ m3)) (1 + k) (72 + j) = number ! (ds ! k) ! j"
    using m3(2) ds(1) assms(4,5) by (simp add: show_on_append digits_shown_def)
  ultimately show ?thesis using ds(2)[OF assms(4)] best_def by (intro exI[of _ "m1 @ m2 @ m3"]) simp
qed

theorem top_score_shows_max_witness:
  "\<exists>msgs. (\<forall>out. show_top_score (Some (score_text [100, 1090, 30])) out = Some (out @ msgs)) \<and>
    ram (show_on demo_panel msgs) (1 + 1) (72 + 3) = number ! 9 ! 3"
proof -
  have "\<forall>s\<in>set [100, 1090, 30 :: int]. in_int s" "fold max [100, 1090, 30 :: int] 0 = 1090"
    by (simp_all add: in_int_def)
  then show ?thesis
    using top_score_shows_max[of "[100, 1090, 30]" demo_panel 1 3]
    by (simp add: demo_panel_def)
qed

text \<open>
  C39: Every alarm of the title animation draws the next of the 113 pictures, cyclically, in
  the left half of the display - until the counter has used up the range of \<open>int\<close>.
\<close>

theorem title_handler_cycles:
  assumes "main_init fd1 fd2 res a0 = Inr a" and "runs a b"
    and "frame b < 2 ^ 31 - 1" and "pending p = []"
  shows "\<exists>msgs. title_handler b = Some (b\<lparr>frame := frame b + 1, sent := sent b @ msgs\<rparr>) \<and>
    ram (show_on p msgs) = area_shown (initialize_title_animation ! (nat (frame b) mod 113)) 0 0 64 8 p"
proof -
  have a: "title a = initialize_title_animation" "frame a = 0"
    using assms(1) by (auto simp: main_init_def split: if_splits)
  have b: "title b = initialize_title_animation" "0 \<le> frame b"
    using runs_title[OF assms(2)] a by simp_all
  define k where "k = nat (frame b) mod 113"
  have "nat (frame b mod 113) = k" using b(2) by (simp add: k_def nat_mod_distrib)
  moreover have k: "k < 113" by (simp add: k_def)
  ultimately have "title b ! nat (frame b mod int TITLE_NUM_FRAME) = initialize_title_animation ! k"
    using b(1) by (simp add: TITLE_NUM_FRAME_def)
  moreover obtain msgs where
    "\<And>out. update_area (initialize_title_animation ! k) (int 0) (int 0) (int 64) (int 8) out = Some (out @ msgs)"
    "ram (show_on p msgs) = area_shown (initialize_title_animation ! k) 0 0 64 8 p"
    by (rule_tac update_area_panel[of p 0 64 0 8 "initialize_title_animation ! k"])
       (use assms(4) length_title_frame[OF k] in simp_all)
  ultimately show ?thesis
    using b(2) assms(3) unfolding k_def
    by (intro exI[of _ msgs]) (simp add: title_handler_def TITLE_WIDTH_def TITLE_HEIGHT_def)
qed

theorem title_handler_cycles_witness:
  "\<exists>a msgs. main_init 3 4 0 (demo_app Exited) = Inr a \<and>
     title_handler a = Some (a\<lparr>frame := 1, sent := sent a @ msgs\<rparr>)"
proof -
  obtain a where a: "main_init 3 4 0 (demo_app Exited) = Inr a" "frame a = 0"
    by (simp add: main_init_def demo_app_def)
  then show ?thesis
    using title_handler_cycles[OF a(1) runs_start, of demo_panel]
    by (auto simp: demo_panel_def)
qed

end
