(* ===== verification/Key_Source.thy ===== *)
theory Key_Source
  imports Prelude
begin

text \<open>
  The interface between the game and the key device: reading one byte. The client is the
  loop \<open>while (read(rpi_fd, &buf, 1) != 0);\<close> of \<open>tetris-app/main.c\<close>, with which the game drops
  the keys that were pressed before a screen appears; it is interpreted on the key driver
  in \<open>Rpikey\<close>.
\<close>

partial_function (option) flush_keys :: "('s \<Rightarrow> (byte list \<times> 's) option) \<Rightarrow> 's \<Rightarrow> 's outcome" where
  "flush_keys read1 s =
     (case read1 s of
        None \<Rightarrow> None
      | Some (bs, s1) \<Rightarrow> if length bs \<noteq> 0 then flush_keys read1 s1 else Some s1)"

text \<open>\<open>level\<close> bounds the keys that can still be read.\<close>

locale key_source =
  fixes read1 :: "'s \<Rightarrow> (byte list \<times> 's) option"
    and invar :: "'s \<Rightarrow> bool"
    and level :: "'s \<Rightarrow> nat"
  assumes read1_defined: "invar s \<Longrightarrow> \<exists>bs s'. read1 s = Some (bs, s')"
    and read1_invar: "invar s \<Longrightarrow> read1 s = Some (bs, s') \<Longrightarrow> invar s'"
    and read1_level: "invar s \<Longrightarrow> read1 s = Some (bs, s') \<Longrightarrow> bs \<noteq> [] \<Longrightarrow> level s' < level s"
    and read1_empty: "invar s \<Longrightarrow> read1 s = Some ([], s') \<Longrightarrow> read1 s' = Some ([], s')"
begin

text \<open>The loop ends, and then there is no key to read.\<close>

lemma flush_ends:
  assumes "invar s"
  shows "\<exists>s'. flush_keys read1 s = Some s' \<and> invar s' \<and> read1 s' = Some ([], s')"
  using assms
proof (induction "level s" arbitrary: s rule: less_induct)
  case less
  obtain bs s1 where r: "read1 s = Some (bs, s1)" using read1_defined[OF less.prems] by blast
  show ?case
  proof (cases "bs = []")
    case True
    then show ?thesis
      using r read1_invar[OF less.prems r] read1_empty[OF less.prems]
      by (subst flush_keys.simps) simp
  next
    case False
    obtain s' where "flush_keys read1 s1 = Some s'" "invar s'" "read1 s' = Some ([], s')"
      using less.hyps[OF read1_level[OF less.prems r False] read1_invar[OF less.prems r]] by blast
    then show ?thesis using r False by (subst flush_keys.simps) simp
  qed
qed

end

end
