(* ===== verification/Rpikey.thy ===== *)
theory Rpikey
  imports Key_Source
begin

text \<open>
  The key driver \<open>tetris-app/driver/main.c\<close>: five buttons on GPIO pins, each with an
  interrupt that schedules a work item, whose callback stores a character in \<open>my_buf\<close>; reading
  the device takes characters out again.

  A callback is two assignments after the debounce delay, \<open>work_store\<close> and
  \<open>work_terminate\<close>. The step relation \<open>key_step\<close> breaks them, and \<open>rpikey_read\<close>, into single
  accesses to the shared variables, and interleaves these with the callbacks of other pins and
  with interrupts. The GPIO registers are a map from byte offsets to
  32-bit words. \<open>None\<close> is an access outside \<open>my_buf\<close>.
\<close>

unbundle bit_operations_syntax

section \<open>Registers\<close>

type_synonym regs = "nat \<Rightarrow> 32 word"

abbreviation BUFFER_SIZE :: nat where
  "BUFFER_SIZE \<equiv> 256"

definition GPIO_LEV_OFFSET :: nat where
  "GPIO_LEV_OFFSET = 0x34"

definition GPIO_PUD_OFFSET :: nat where
  "GPIO_PUD_OFFSET = 0x94"

definition GPIO_PUDCLK_OFFSET :: nat where
  "GPIO_PUDCLK_OFFSET = 0x98"

definition GPIO_PUD_PULLUP :: "32 word" where
  "GPIO_PUD_PULLUP = 0x2"

definition get_gpio_input_value :: "regs \<Rightarrow> nat \<Rightarrow> nat" where
  "get_gpio_input_value gpio_ctr gpio_nr =
     (let reg_id = gpio_nr div 32;
          pos = gpio_nr mod 32;
          level = gpio_ctr (GPIO_LEV_OFFSET + 0x4 * reg_id) AND push_bit pos 1
      in if level \<noteq> 0 then 1 else 0)"

text \<open>The register writes of \<open>set_gpio_pullup\<close>, in order.\<close>

definition set_gpio_pullup :: "nat \<Rightarrow> (nat \<times> 32 word) list" where
  "set_gpio_pullup gpio_nr =
     (let reg_id = gpio_nr div 32;
          pos = gpio_nr mod 32;
          pud_reg = GPIO_PUD_OFFSET;
          pudclk_reg = GPIO_PUDCLK_OFFSET + 0x4 * reg_id
      in [(pud_reg, GPIO_PUD_PULLUP),
          (pudclk_reg, push_bit pos 1),
          (pud_reg, 0),
          (pudclk_reg, 0)])"

section \<open>The key buffer\<close>

record rpikey =
  my_buf :: "byte list"
  msg_ptr :: nat
  count :: nat

definition work_store :: "byte \<Rightarrow> rpikey \<Rightarrow> rpikey outcome" where
  "work_store c s =
     (if count s < length (my_buf s)
      then Some (s\<lparr>my_buf := (my_buf s)[count s := c], count := count s + 1\<rparr>) else None)"

definition work_terminate :: "rpikey \<Rightarrow> rpikey outcome" where
  "work_terminate s =
     (if count s < length (my_buf s) then Some (s\<lparr>my_buf := (my_buf s)[count s := 0]\<rparr>) else None)"

definition work_callback :: "nat \<Rightarrow> byte \<Rightarrow> regs \<Rightarrow> rpikey \<Rightarrow> rpikey outcome" where
  "work_callback pin c gpio_ctr s =
     (if get_gpio_input_value gpio_ctr pin = 0
      then Option.bind (work_store c s) work_terminate else Some s)"

definition work_gpio12_callback :: "regs \<Rightarrow> rpikey \<Rightarrow> rpikey outcome" where
  "work_gpio12_callback = work_callback 12 (of_char CHR ''r'')"

definition work_gpio16_callback :: "regs \<Rightarrow> rpikey \<Rightarrow> rpikey outcome" where
  "work_gpio16_callback = work_callback 16 (of_char CHR ''u'')"

definition work_gpio20_callback :: "regs \<Rightarrow> rpikey \<Rightarrow> rpikey outcome" where
  "work_gpio20_callback = work_callback 20 (of_char CHR ''l'')"

definition work_gpio21_callback :: "regs \<Rightarrow> rpikey \<Rightarrow> rpikey outcome" where
  "work_gpio21_callback = work_callback 21 (of_char CHR ''d'')"

definition work_gpio26_callback :: "regs \<Rightarrow> rpikey \<Rightarrow> rpikey outcome" where
  "work_gpio26_callback = work_callback 26 (of_char CHR ''f'')"

definition rpikey_open :: "rpikey \<Rightarrow> int \<times> rpikey" where
  "rpikey_open s = (0, s\<lparr>msg_ptr := 0\<rparr>)"

definition rpikey_release :: "rpikey \<Rightarrow> int \<times> rpikey" where
  "rpikey_release s = (0, s)"

text \<open>The loop of \<open>rpikey_read\<close>; the result is the list of bytes handed to user space.\<close>

fun read_loop :: "nat \<Rightarrow> rpikey \<Rightarrow> (byte list \<times> rpikey) outcome" where
  "read_loop 0 s = Some ([], s)"
| "read_loop (Suc n) s =
     (if msg_ptr s < length (my_buf s) then
        (let c = my_buf s ! msg_ptr s in
         if c = 0 then Some ([], s)
         else map_option (\<lambda>(cs, s1). (c # cs, s1))
                (read_loop n (s\<lparr>my_buf := (my_buf s)[msg_ptr s := 0], msg_ptr := msg_ptr s + 1\<rparr>)))
      else None)"

definition rpikey_read :: "nat \<Rightarrow> rpikey \<Rightarrow> (byte list \<times> rpikey) outcome" where
  "rpikey_read n s =
     (let s1 = s\<lparr>msg_ptr := 0, count := 0\<rparr> in
      if my_buf s1 = [] then None
      else if my_buf s1 ! msg_ptr s1 = 0 then Some ([], s1)
      else read_loop n s1)"

section \<open>Interrupts\<close>

text \<open>
  Where the callback of a pin is: \<open>my_buf[count++] = c\<close> loads \<open>count\<close>, and then stores the
  next value in \<open>count\<close> and the character in the buffer, in either order; \<open>my_buf[count] = 0\<close>
  loads \<open>count\<close> again and stores the terminator. A callback does not run twice at a time.
\<close>

datatype work = Resting | Loaded nat | Bumped nat | Written nat | Stored | Ending nat

text \<open>Where \<open>rpikey_read\<close> is, with the number of bytes it may still deliver.\<close>

datatype reader = No_read | Testing nat | Taking nat

text \<open>
  A work item is queued from the interrupt until its callback starts; scheduling a queued
  item again has no effect. \<open>got\<close> are the bytes delivered by the last read. The device has one reader.
\<close>

record key_state =
  keys :: rpikey
  queued :: "nat set"
  doing :: "nat \<Rightarrow> work"
  reader :: reader
  got :: "byte list"

definition IRQ_HANDLED :: nat where
  "IRQ_HANDLED = 1"

definition schedule_work :: "nat \<Rightarrow> key_state \<Rightarrow> key_state" where
  "schedule_work pin s = s\<lparr>queued := insert pin (queued s)\<rparr>"

definition gpio12_irq :: "key_state \<Rightarrow> nat \<times> key_state" where
  "gpio12_irq s = (IRQ_HANDLED, schedule_work 12 s)"

definition gpio16_irq :: "key_state \<Rightarrow> nat \<times> key_state" where
  "gpio16_irq s = (IRQ_HANDLED, schedule_work 16 s)"

definition gpio20_irq :: "key_state \<Rightarrow> nat \<times> key_state" where
  "gpio20_irq s = (IRQ_HANDLED, schedule_work 20 s)"

definition gpio21_irq :: "key_state \<Rightarrow> nat \<times> key_state" where
  "gpio21_irq s = (IRQ_HANDLED, schedule_work 21 s)"

definition gpio26_irq :: "key_state \<Rightarrow> nat \<times> key_state" where
  "gpio26_irq s = (IRQ_HANDLED, schedule_work 26 s)"

text \<open>The character of a pin, as its callback stores it.\<close>

definition key_of :: "nat \<Rightarrow> byte" where
  "key_of pin =
     (if pin = 12 then of_char CHR ''r'' else if pin = 16 then of_char CHR ''u''
      else if pin = 20 then of_char CHR ''l'' else if pin = 21 then of_char CHR ''d''
      else of_char CHR ''f'')"

definition pins :: "nat set" where
  "pins = {12, 16, 20, 21, 26}"

definition put_char :: "nat \<Rightarrow> byte \<Rightarrow> rpikey \<Rightarrow> rpikey outcome" where
  "put_char i c s = (if i < length (my_buf s) then Some (s\<lparr>my_buf := (my_buf s)[i := c]\<rparr>) else None)"

text \<open>
  The steps of the driver: an interrupt; a callback that finds the button released; the
  accesses of one that finds it pressed; the beginning of a read, its test for more
  characters, and the delivery of one.
\<close>

datatype key_event = Interrupt | Bounce | Load | Bump | Put | Load_end | Put_end | Begin_read | Test | Take

inductive key_step :: "key_state \<Rightarrow> key_event \<Rightarrow> key_state \<Rightarrow> bool" where
  irq: "(r, s') \<in> {gpio12_irq s, gpio16_irq s, gpio20_irq s, gpio21_irq s, gpio26_irq s} \<Longrightarrow>
    key_step s Interrupt s'"
| bounce: "pin \<in> queued s \<Longrightarrow> doing s pin = Resting \<Longrightarrow> get_gpio_input_value regs pin \<noteq> 0 \<Longrightarrow>
    key_step s Bounce (s\<lparr>queued := queued s - {pin}\<rparr>)"
| load: "pin \<in> queued s \<Longrightarrow> doing s pin = Resting \<Longrightarrow> get_gpio_input_value regs pin = 0 \<Longrightarrow>
    key_step s Load (s\<lparr>queued := queued s - {pin}, doing := (doing s)(pin := Loaded (count (keys s)))\<rparr>)"
| bump_first: "doing s pin = Loaded i \<Longrightarrow>
    key_step s Bump (s\<lparr>keys := (keys s)\<lparr>count := i + 1\<rparr>, doing := (doing s)(pin := Bumped i)\<rparr>)"
| put_last: "doing s pin = Bumped i \<Longrightarrow> put_char i (key_of pin) (keys s) = Some k \<Longrightarrow>
    key_step s Put (s\<lparr>keys := k, doing := (doing s)(pin := Stored)\<rparr>)"
| put_first: "doing s pin = Loaded i \<Longrightarrow> put_char i (key_of pin) (keys s) = Some k \<Longrightarrow>
    key_step s Put (s\<lparr>keys := k, doing := (doing s)(pin := Written i)\<rparr>)"
| bump_last: "doing s pin = Written i \<Longrightarrow>
    key_step s Bump (s\<lparr>keys := (keys s)\<lparr>count := i + 1\<rparr>, doing := (doing s)(pin := Stored)\<rparr>)"
| load_end: "doing s pin = Stored \<Longrightarrow>
    key_step s Load_end (s\<lparr>doing := (doing s)(pin := Ending (count (keys s)))\<rparr>)"
| put_end: "doing s pin = Ending i \<Longrightarrow> put_char i 0 (keys s) = Some k \<Longrightarrow>
    key_step s Put_end (s\<lparr>keys := k, doing := (doing s)(pin := Resting)\<rparr>)"
| begin_read: "reader s = No_read \<Longrightarrow>
    key_step s Begin_read (s\<lparr>keys := (keys s)\<lparr>msg_ptr := 0, count := 0\<rparr>, reader := Testing n, got := []\<rparr>)"
| test: "reader s = Testing n \<Longrightarrow> msg_ptr (keys s) < length (my_buf (keys s)) \<Longrightarrow>
    key_step s Test (s\<lparr>reader := (if n = 0 \<or> my_buf (keys s) ! msg_ptr (keys s) = 0 then No_read else Taking n)\<rparr>)"
| take_char: "reader s = Taking n \<Longrightarrow> put_char (msg_ptr (keys s)) 0 (keys s) = Some k \<Longrightarrow>
    key_step s Take (s\<lparr>keys := k\<lparr>msg_ptr := msg_ptr (keys s) + 1\<rparr>, reader := Testing (n - 1),
      got := got s @ [my_buf (keys s) ! msg_ptr (keys s)]\<rparr>)"

text \<open>Uninterrupted, the accesses of a callback are \<open>work_store\<close> and \<open>work_terminate\<close>.\<close>

lemma work_store_accesses:
  "work_store c s = put_char (count s) c (s\<lparr>count := count s + 1\<rparr>)"
  "work_store c s = map_option (\<lambda>k. k\<lparr>count := count s + 1\<rparr>) (put_char (count s) c s)"
  "work_terminate s = put_char (count s) 0 s"
  by (simp_all add: work_store_def work_terminate_def put_char_def)

section \<open>Module init and exit\<close>

text \<open>
  What the module holds of the kernel. The results of \<open>register_chrdev\<close> and of the five
  \<open>request_irq\<close> calls are parameters; failed interrupt requests are only logged.
\<close>

record key_module =
  chrdev :: bool
  device_class :: bool
  gpios :: "nat set"
  inputs :: "nat set"
  mapped :: bool
  pullups :: "(nat \<times> 32 word) list"
  irqs :: "nat set"

definition rpikey_init :: "int \<Rightarrow> (nat \<Rightarrow> int) \<Rightarrow> key_module \<Rightarrow> int \<times> key_module" where
  "rpikey_init majorNum irq_result m =
     (if majorNum < 0 then (majorNum, m)
      else (0, m\<lparr>
        chrdev := True,
        device_class := True,
        gpios := gpios m \<union> {12, 13, 20, 21, 26},
        inputs := inputs m \<union> {12, 16, 20, 21, 26},
        mapped := True,
        pullups := pullups m @ concat (map set_gpio_pullup [12, 16, 20, 21, 26]),
        irqs := irqs m \<union> {pin \<in> {12, 16, 20, 21, 26}. \<not> irq_result pin < 0}\<rparr>))"

text \<open>The state after \<open>rpikey_exit\<close>, and the pins it frees although they are not requested.\<close>

definition rpikey_exit :: "key_module \<Rightarrow> key_module \<times> nat set" where
  "rpikey_exit m =
     (m\<lparr>mapped := False,
        gpios := gpios m - {12, 16, 20, 21, 26},
        device_class := False,
        chrdev := False,
        irqs := irqs m - {12, 16, 20, 21, 26}\<rparr>,
      {12, 16, 20, 21, 26} - gpios m)"

section \<open>Reading what was pressed\<close>

text \<open>
  \<open>holds s ks\<close>: the buffer has its size, the keys \<open>ks\<close> are stored from the start, the next
  one goes behind them and is preceded by no stale character.
\<close>

definition holds :: "rpikey \<Rightarrow> byte list \<Rightarrow> bool" where
  "holds s ks \<longleftrightarrow> length (my_buf s) = BUFFER_SIZE \<and> count s = length ks \<and> length ks < BUFFER_SIZE \<and>
     take (length ks) (my_buf s) = ks \<and> my_buf s ! length ks = 0 \<and> 0 \<notin> set ks"

text \<open>The buffer after a sequence of presses with the button held long enough.\<close>

definition press :: "byte \<Rightarrow> rpikey \<Rightarrow> rpikey outcome" where
  "press c s = Option.bind (work_store c s) work_terminate"

lemma callback_press:
  "get_gpio_input_value regs pin = 0 \<Longrightarrow> work_callback pin c regs s = press c s"
  by (simp add: work_callback_def press_def)

lemma press_holds:
  assumes "holds s ks" and "c \<noteq> 0" and "length ks < 255"
  shows "\<exists>s'. press c s = Some s' \<and> holds s' (ks @ [c])"
proof -
  let ?buf = "(my_buf s)[length ks := c, Suc (length ks) := 0]"
  have h: "length (my_buf s) = 256" "count s = length ks" "take (length ks) (my_buf s) = ks" "0 \<notin> set ks"
    using assms(1) by (simp_all add: holds_def)
  have "press c s = Some (s\<lparr>my_buf := ?buf, count := Suc (length ks)\<rparr>)"
    using h assms(3) by (simp add: press_def work_store_def work_terminate_def)
  moreover have "take (Suc (length ks)) ?buf = ks @ [c]"
    using h assms(3) by (simp add: take_Suc_conv_app_nth)
  ultimately show ?thesis using h assms(2,3) by (simp add: holds_def)
qed

lemma presses_hold:
  assumes "holds s ks" and "0 \<notin> set cs" and "length ks + length cs < 256"
  shows "\<exists>s'. run_adds (\<lambda>s c. press c s) s cs = Some s' \<and> holds s' (ks @ cs)"
  using assms
proof (induction cs arbitrary: s ks)
  case Nil
  then show ?case by simp
next
  case (Cons c cs)
  then obtain s1 where s1: "press c s = Some s1" "holds s1 (ks @ [c])"
    using press_holds[of s ks c] by auto
  with Cons.IH[OF s1(2)] Cons.prems show ?case by auto
qed

text \<open>With 255 keys stored, the next press writes its terminator behind the buffer.\<close>

lemma press_overflow:
  assumes "holds s ks" and "length ks = 255"
  shows "press c s = None"
  using assms by (simp add: holds_def press_def work_store_def work_terminate_def)

lemma read_loop_keys:
  assumes "msg_ptr s + length ks < length (my_buf s)" and "0 \<notin> set ks"
    and "take (length ks) (drop (msg_ptr s) (my_buf s)) = ks" and "my_buf s ! (msg_ptr s + length ks) = 0"
  shows "\<exists>s'. read_loop n s = Some (take n ks, s') \<and> count s' = count s \<and>
    my_buf s' = take (msg_ptr s) (my_buf s) @ replicate (min n (length ks)) 0
      @ drop (msg_ptr s + min n (length ks)) (my_buf s)"
  using assms
proof (induction n arbitrary: s ks)
  case 0
  then show ?case by simp
next
  case (Suc n)
  show ?case
  proof (cases ks)
    case Nil
    then show ?thesis using Suc.prems by (simp add: Let_def)
  next
    case (Cons k ks')
    let ?s = "s\<lparr>my_buf := (my_buf s)[msg_ptr s := 0], msg_ptr := msg_ptr s + 1\<rparr>"
    have lt: "msg_ptr s < length (my_buf s)" using Suc.prems(1) by simp
    have d: "drop (msg_ptr s) (my_buf s) = my_buf s ! msg_ptr s # drop (Suc (msg_ptr s)) (my_buf s)"
      using lt by (simp add: Cons_nth_drop_Suc)
    then have k: "my_buf s ! msg_ptr s = k" "take (length ks') (drop (Suc (msg_ptr s)) (my_buf s)) = ks'"
      using Suc.prems(3) Cons by simp_all
    obtain s' where s': "read_loop n ?s = Some (take n ks', s')" "count s' = count ?s"
      "my_buf s' = take (msg_ptr ?s) (my_buf ?s) @ replicate (min n (length ks')) 0
        @ drop (msg_ptr ?s + min n (length ks')) (my_buf ?s)"
      using Suc.IH[of ?s ks'] Suc.prems Cons k(2) by auto
    have "take (Suc (msg_ptr s)) ((my_buf s)[msg_ptr s := 0]) = take (msg_ptr s) (my_buf s) @ [0]"
      using lt by (simp add: take_Suc_conv_app_nth)
    then show ?thesis
      using s' k(1) Suc.prems(2) lt Cons by (auto simp: Let_def)
  qed
qed

lemma read_holds:
  assumes "holds s ks"
  shows "\<exists>s'. rpikey_read n s = Some (take n ks, s') \<and> count s' = 0 \<and>
    my_buf s' = replicate (min n (length ks)) 0 @ drop (min n (length ks)) (my_buf s)"
proof (cases ks)
  case Nil
  have "my_buf s ! 0 = 0" "my_buf s \<noteq> []" using assms Nil by (auto simp: holds_def)
  then show ?thesis using Nil by (simp add: rpikey_read_def)
next
  case (Cons k ks')
  have h: "length (my_buf s) = 256" "length ks < 256" "take (length ks) (my_buf s) = ks"
    "my_buf s ! length ks = 0" "0 \<notin> set ks"
    using assms by (auto simp: holds_def)
  have "my_buf s ! 0 = k" using h(3) Cons by (metis length_Cons nth_Cons_0 nth_take zero_less_Suc)
  then have "my_buf s ! 0 \<noteq> 0" using h(5) Cons by simp
  moreover have "my_buf s \<noteq> []" using h(1) by auto
  ultimately show ?thesis
    using read_loop_keys[of "s\<lparr>msg_ptr := 0, count := 0\<rparr>" ks n] h by (simp add: rpikey_read_def)
qed

section \<open>Interleavings\<close>

text \<open>
  Runs of the driver. Their second argument bounds \<open>count\<close>: it grows by one whenever a
  callback loads \<open>count\<close>, and is zero again when a read begins - unless a callback is between
  its load and its store of \<open>count\<close> at that time, and will undo the reset. The runs
  are those in which this number stays below the size of the buffer.
\<close>

fun holds_count :: "work \<Rightarrow> bool" where
  "holds_count (Loaded i) = True"
| "holds_count (Written i) = True"
| "holds_count w = False"

definition tally :: "key_event \<Rightarrow> key_state \<Rightarrow> nat \<Rightarrow> nat" where
  "tally e s b = (case e of
     Load \<Rightarrow> b + 1
   | Begin_read \<Rightarrow> if \<exists>pin\<in>pins. holds_count (doing s pin) then b else 0
   | _ \<Rightarrow> b)"

definition key_start :: key_state where
  "key_start = \<lparr>keys = \<lparr>my_buf = replicate BUFFER_SIZE 0, msg_ptr = 0, count = 0\<rparr>,
     queued = {}, doing = (\<lambda>_. Resting), reader = No_read, got = []\<rparr>"

inductive key_run :: "key_state \<Rightarrow> nat \<Rightarrow> bool" where
  key_run_start: "key_run key_start 0"
| key_run_step: "key_run s b \<Longrightarrow> key_step s e s' \<Longrightarrow> tally e s b < BUFFER_SIZE \<Longrightarrow> key_run s' (tally e s b)"

definition key_reach :: "key_state \<Rightarrow> bool" where
  "key_reach s \<longleftrightarrow> (\<exists>b. key_run s b)"

definition buf_ok :: "rpikey \<Rightarrow> bool" where
  "buf_ok s \<longleftrightarrow> length (my_buf s) = BUFFER_SIZE \<and> my_buf s ! 255 = 0 \<and> count s < BUFFER_SIZE"

lemma read_loop_total:
  assumes "length (my_buf s) = BUFFER_SIZE" and "my_buf s ! 255 = 0" and "msg_ptr s < BUFFER_SIZE"
  shows "\<exists>bs s'. read_loop n s = Some (bs, s') \<and> length bs \<le> n \<and> length (my_buf s') = BUFFER_SIZE \<and>
    my_buf s' ! 255 = 0 \<and> count s' = count s"
  using assms
proof (induction n arbitrary: s)
  case 0
  then show ?case by simp
next
  case (Suc n)
  let ?s = "s\<lparr>my_buf := (my_buf s)[msg_ptr s := 0], msg_ptr := msg_ptr s + 1\<rparr>"
  show ?case
  proof (cases "my_buf s ! msg_ptr s = 0")
    case True
    then show ?thesis using Suc.prems by (simp add: Let_def)
  next
    case False
    then have "msg_ptr s \<noteq> 255" using Suc.prems(2) by metis
    then have "msg_ptr ?s < BUFFER_SIZE" "my_buf ?s ! 255 = 0" using Suc.prems by simp_all
    then obtain bs s' where "read_loop n ?s = Some (bs, s')" "length bs \<le> n"
      "length (my_buf s') = BUFFER_SIZE" "my_buf s' ! 255 = 0" "count s' = count ?s"
      using Suc.IH[of ?s] Suc.prems(1) by auto
    then show ?thesis using Suc.prems False by (simp add: Let_def)
  qed
qed

lemma read_total:
  assumes "buf_ok s"
  shows "\<exists>bs s'. rpikey_read n s = Some (bs, s') \<and> length bs \<le> n \<and> buf_ok s'"
proof (cases "my_buf s ! 0 = 0")
  case True
  moreover have "my_buf s \<noteq> []" using assms by (auto simp: buf_ok_def)
  ultimately have "rpikey_read n s = Some ([], s\<lparr>msg_ptr := 0, count := 0\<rparr>)"
    by (simp add: rpikey_read_def)
  then show ?thesis using assms by (simp add: buf_ok_def)
next
  case False
  obtain bs s' where "read_loop n (s\<lparr>msg_ptr := 0, count := 0\<rparr>) = Some (bs, s')" "length bs \<le> n"
    "length (my_buf s') = BUFFER_SIZE" "my_buf s' ! 255 = 0" "count s' = 0"
    using read_loop_total[of "s\<lparr>msg_ptr := 0, count := 0\<rparr>" n] assms by (auto simp: buf_ok_def)
  moreover have "my_buf s \<noteq> []" using assms by (auto simp: buf_ok_def)
  ultimately show ?thesis using False by (auto simp: rpikey_read_def buf_ok_def)
qed

text \<open>
  The last byte of the buffer stays zero: no callback stores a character there, and the reader
  stops in front of it.
\<close>

fun work_ok :: "nat \<Rightarrow> work \<Rightarrow> bool" where
  "work_ok b (Loaded i) \<longleftrightarrow> i < b"
| "work_ok b (Written i) \<longleftrightarrow> i < b"
| "work_ok b (Bumped i) \<longleftrightarrow> i < 255"
| "work_ok b (Ending i) \<longleftrightarrow> i < 256"
| "work_ok b w \<longleftrightarrow> True"

fun reader_ok :: "nat \<Rightarrow> reader \<Rightarrow> bool" where
  "reader_ok p (Testing n) \<longleftrightarrow> p < 256"
| "reader_ok p (Taking n) \<longleftrightarrow> p < 255"
| "reader_ok p No_read \<longleftrightarrow> True"

definition key_inv :: "key_state \<Rightarrow> nat \<Rightarrow> bool" where
  "key_inv s b \<longleftrightarrow> buf_ok (keys s) \<and> count (keys s) \<le> b \<and> b < BUFFER_SIZE \<and>
     (\<forall>pin. work_ok b (doing s pin)) \<and> reader_ok (msg_ptr (keys s)) (reader s) \<and>
     queued s \<subseteq> pins \<and> (\<forall>pin. doing s pin \<noteq> Resting \<longrightarrow> pin \<in> pins)"

lemma work_ok_mono: "work_ok b w \<Longrightarrow> b \<le> b' \<Longrightarrow> work_ok b' w"
  by (cases w) auto

lemma work_ok_reset: "work_ok b w \<Longrightarrow> \<not> holds_count w \<Longrightarrow> work_ok b' w"
  by (cases w) auto

lemma key_step_inv:
  assumes "key_step s e s'" and "key_inv s b" and "tally e s b < BUFFER_SIZE"
  shows "key_inv s' (tally e s b)"
  using assms(1)
proof (cases rule: key_step.cases)
  case (irq r)
  then show ?thesis
    using assms(2) by (auto simp: key_inv_def tally_def gpio12_irq_def gpio16_irq_def gpio20_irq_def
        gpio21_irq_def gpio26_irq_def schedule_work_def pins_def)
next
  case (load pin regs)
  then show ?thesis
    using assms(2,3) work_ok_mono[of b _ "b + 1"] by (auto simp: key_inv_def tally_def buf_ok_def)
next
  case (bump_first pin i)
  then have "i < b" using assms(2) by (metis key_inv_def work_ok.simps(1))
  then show ?thesis using bump_first assms(2) by (auto simp: key_inv_def tally_def buf_ok_def)
next
  case (put_last pin i k)
  then have "i < 255" using assms(2) by (metis key_inv_def work_ok.simps(3))
  then show ?thesis using put_last assms(2)
    by (auto simp: key_inv_def tally_def buf_ok_def put_char_def split: if_splits)
next
  case (put_first pin i k)
  then have "i < b" using assms(2) by (metis key_inv_def work_ok.simps(1))
  then show ?thesis using put_first assms(2)
    by (auto simp: key_inv_def tally_def buf_ok_def put_char_def split: if_splits)
next
  case (bump_last pin i)
  then have "i < b" using assms(2) by (metis key_inv_def work_ok.simps(2))
  then show ?thesis using bump_last assms(2) by (auto simp: key_inv_def tally_def buf_ok_def)
next
  case (put_end pin i k)
  then show ?thesis using assms(2)
    by (auto simp: key_inv_def tally_def buf_ok_def put_char_def nth_list_update split: if_splits)
next
  case (begin_read n)
  have "work_ok (tally e s b) (doing s pin)" for pin
  proof (cases "\<exists>pin\<in>pins. holds_count (doing s pin)")
    case True
    then show ?thesis using begin_read assms(2) by (simp add: tally_def key_inv_def)
  next
    case False
    moreover have "doing s pin \<noteq> Resting \<Longrightarrow> pin \<in> pins" using assms(2) by (simp add: key_inv_def)
    ultimately have "\<not> holds_count (doing s pin)" by (cases "doing s pin") auto
    then show ?thesis using assms(2) work_ok_reset unfolding key_inv_def by blast
  qed
  then show ?thesis using begin_read assms(2,3) by (auto simp: key_inv_def buf_ok_def)
next
  case (test n)
  then have "my_buf (keys s) ! msg_ptr (keys s) \<noteq> 0 \<Longrightarrow> msg_ptr (keys s) \<noteq> 255"
    using assms(2) by (auto simp: key_inv_def buf_ok_def)
  then show ?thesis using test assms(2) by (auto simp: key_inv_def tally_def)
next
  case (take_char n k)
  then show ?thesis using assms(2)
    by (auto simp: key_inv_def tally_def buf_ok_def put_char_def split: if_splits)
qed (use assms(2) in \<open>auto simp: key_inv_def tally_def buf_ok_def\<close>)

lemma key_run_inv: "key_run s b \<Longrightarrow> key_inv s b"
proof (induction rule: key_run.induct)
  case key_run_start
  then show ?case by (simp add: key_start_def key_inv_def buf_ok_def)
next
  case (key_run_step s b e s')
  then show ?case using key_step_inv by blast
qed

lemma key_reach_ok: "key_reach s \<Longrightarrow> buf_ok (keys s)"
  using key_run_inv by (auto simp: key_reach_def key_inv_def)

section \<open>The device as a source of keys\<close>

text \<open>After a read of one byte the first byte of the buffer is zero.\<close>

lemma read_one:
  assumes "buf_ok s"
  shows "rpikey_read 1 s =
    (if my_buf s ! 0 = 0 then Some ([], s\<lparr>msg_ptr := 0, count := 0\<rparr>)
     else Some ([my_buf s ! 0], s\<lparr>my_buf := (my_buf s)[0 := 0], msg_ptr := 1, count := 0\<rparr>))"
proof -
  have "my_buf s \<noteq> []" using assms by (auto simp: buf_ok_def)
  then show ?thesis by (simp add: rpikey_read_def Let_def)
qed

interpretation keydev: key_source "rpikey_read 1" buf_ok "\<lambda>s. if my_buf s ! 0 = 0 then 0 else 1"
proof unfold_locales
  show "\<exists>bs s'. rpikey_read 1 s = Some (bs, s')" if "buf_ok s" for s
    using read_total[OF that] by blast
  show "buf_ok s'" if "buf_ok s" "rpikey_read 1 s = Some (bs, s')" for s bs s'
    using read_total[OF that(1), of 1] that(2) by auto
  show "(if my_buf s' ! 0 = 0 then 0 else 1) < (if my_buf s ! 0 = 0 then 0 else (1 :: nat))"
    if "buf_ok s" "rpikey_read 1 s = Some (bs, s')" "bs \<noteq> []" for s bs s'
    using that read_one[OF that(1)] by (auto simp: buf_ok_def split: if_splits)
  show "rpikey_read 1 s' = Some ([], s')" if "buf_ok s" "rpikey_read 1 s = Some ([], s')" for s s'
  proof -
    have "my_buf s ! 0 = 0" "s' = s\<lparr>msg_ptr := 0, count := 0\<rparr>"
      using that read_one[OF that(1)] by (auto split: if_splits)
    moreover have "buf_ok s'" using that(1) calculation by (simp add: buf_ok_def)
    ultimately show ?thesis using read_one[of s'] by simp
  qed
qed

section \<open>Registers\<close>

lemma and_bit_word: "w AND push_bit n 1 \<noteq> 0 \<longleftrightarrow> bit (w :: 32 word) n"
  by (auto simp: and_exp_eq_0_iff_not_bit push_bit_eq_mult)

text \<open>
  The pull-up control of the chip: a pin takes over the state of the control register when
  its clock bit is written. \<open>pulled_up\<close> are the pins pulled up by a sequence of writes, with
  the final value of the control register.
\<close>

fun pulled_up :: "32 word \<Rightarrow> (nat \<times> 32 word) list \<Rightarrow> nat set \<times> 32 word" where
  "pulled_up pud [] = ({}, pud)"
| "pulled_up pud ((r, v) # ws) =
     (if r = GPIO_PUD_OFFSET then pulled_up v ws
      else (let (ps, final) = pulled_up pud ws in
        ((if pud = GPIO_PUD_PULLUP
          then {pin. r = GPIO_PUDCLK_OFFSET + 4 * (pin div 32) \<and> bit v (pin mod 32)} else {}) \<union> ps,
         final)))"

lemma bit_two_power: "n < 32 \<Longrightarrow> bit (2 ^ n :: 32 word) m \<longleftrightarrow> m = n"
  by (auto simp: bit_exp_iff possible_bit_def)

lemma pulled_up_pin:
  assumes "pin < 64"
  shows "pulled_up v (set_gpio_pullup pin @ ws)
    = (let (ps, final) = pulled_up 0 ws in (insert pin ps, final))"
proof -
  have same: "{p. GPIO_PUDCLK_OFFSET + 4 * (pin div 32) = GPIO_PUDCLK_OFFSET + 4 * (p div 32) \<and>
      bit (2 ^ (pin mod 32) :: 32 word) (p mod 32)} = {pin}"
    by (auto simp: bit_two_power) (metis div_mult_mod_eq)
  show ?thesis
    using same assms
    by (simp add: set_gpio_pullup_def GPIO_PUD_OFFSET_def GPIO_PUDCLK_OFFSET_def GPIO_PUD_PULLUP_def
        Let_def split: prod.splits)
qed

section \<open>Properties\<close>

text \<open>
  C21: Keys pressed since the buffer was empty, up to 255 of them, come out of one read that
  asks for enough bytes, in order, and leave the buffer empty.
\<close>

theorem keys_come_out:
  assumes "holds s []" and "0 \<notin> set cs" and "length cs < BUFFER_SIZE" and "length cs \<le> n"
  shows "\<exists>s1 s2. run_adds (\<lambda>s c. press c s) s cs = Some s1 \<and> rpikey_read n s1 = Some (cs, s2) \<and>
    holds s2 []"
proof -
  obtain s1 where s1: "run_adds (\<lambda>s c. press c s) s cs = Some s1" "holds s1 cs"
    using presses_hold[OF assms(1,2)] assms(3) by auto
  obtain s2 where s2: "rpikey_read n s1 = Some (take n cs, s2)" "count s2 = 0"
    "my_buf s2 = replicate (min n (length cs)) 0 @ drop (min n (length cs)) (my_buf s1)"
    using read_holds[OF s1(2)] by blast
  have "length (my_buf s1) = BUFFER_SIZE" "my_buf s1 ! length cs = 0" using s1(2) by (simp_all add: holds_def)
  then have "length (my_buf s2) = BUFFER_SIZE" "my_buf s2 ! 0 = 0"
    using s2(3) assms(3,4) by (auto simp: nth_append min_def)
  then show ?thesis using s1(1) s2 assms(4) by (auto simp: holds_def)
qed

definition demo_keys :: rpikey where
  "demo_keys = \<lparr>my_buf = replicate 256 0, msg_ptr = 0, count = 0\<rparr>"

lemma demo_keys: "holds demo_keys []"
  by (simp add: demo_keys_def holds_def)

theorem keys_come_out_witness:
  "\<exists>s1 s2. run_adds (\<lambda>s c. press c s) demo_keys [108, 102] = Some s1 \<and>
     rpikey_read 10 s1 = Some ([108, 102], s2) \<and> holds s2 []"
  by (rule keys_come_out[OF demo_keys]) simp_all

text \<open>
  A read that takes fewer bytes than there are keys loses the others: the position is
  reset and the first byte is zero afterwards, so every later read returns nothing until a
  key is pressed. The game reads one byte at a time.
\<close>

lemma short_read_loses_keys:
  assumes "holds s ks" and "0 < n" and "n < length ks"
  shows "\<exists>s1. rpikey_read n s = Some (take n ks, s1) \<and>
    (\<forall>m. \<exists>s2. rpikey_read m s1 = Some ([], s2) \<and> my_buf s2 = my_buf s1)"
proof -
  obtain s1 where s1: "rpikey_read n s = Some (take n ks, s1)"
    "my_buf s1 = replicate (min n (length ks)) 0 @ drop (min n (length ks)) (my_buf s)"
    using read_holds[OF assms(1)] by blast
  have "my_buf s1 \<noteq> [] \<and> my_buf s1 ! 0 = 0" using s1(2) assms(2,3) by (auto simp: nth_append)
  then have "rpikey_read m s1 = Some ([], s1\<lparr>msg_ptr := 0, count := 0\<rparr>)" for m
    by (simp add: rpikey_read_def)
  then show ?thesis using s1(1) by auto
qed

text \<open>
  C32: The buffer takes 255 keys between two reads: a sequence of presses into an empty
  buffer stays inside it exactly when it has at most 255 keys.
\<close>

theorem buffer_limit:
  assumes "holds s []" and "0 \<notin> set cs"
  shows "run_adds (\<lambda>s c. press c s) s cs \<noteq> None \<longleftrightarrow> length cs \<le> 255"
proof (cases "length cs \<le> 255")
  case True
  then show ?thesis using presses_hold[OF assms] by auto
next
  case False
  define as c bs where "as = take 255 cs" and "c = cs ! 255" and "bs = drop 256 cs"
  have cs: "cs = as @ c # bs" using id_take_nth_drop[of 255 cs] False by (simp add: as_def c_def bs_def)
  have as: "length as = 255" "0 \<notin> set as"
    using False assms(2) set_take_subset[of 255 cs] by (auto simp: as_def)
  obtain s1 where s1: "run_adds (\<lambda>s c. press c s) s as = Some s1" "holds s1 as"
    using presses_hold[OF assms(1) as(2)] as(1) by auto
  have "run_adds (\<lambda>s c. press c s) s cs = None"
    using s1(1) press_overflow[OF s1(2) as(1), of c] by (simp add: cs run_adds_append)
  then show ?thesis using False by simp
qed

theorem buffer_limit_witness:
  "run_adds (\<lambda>s c. press c s) demo_keys (replicate 256 102) = None \<and>
   run_adds (\<lambda>s c. press c s) demo_keys (replicate 255 102) \<noteq> None"
  using buffer_limit[OF demo_keys, of "replicate 256 102"] buffer_limit[OF demo_keys, of "replicate 255 102"]
  by (simp)

text \<open>
  C22: However the single accesses of interrupts, callbacks and one read interleave, as long as
  fewer than 256 callbacks load \<open>count\<close> between two undisturbed resets, \<open>count\<close> is at most their
  number and no access leaves the buffer: not the store of a character, which stays in front
  of the last byte, not that of a terminator, and not the test or the delivery of a
  byte by a read; and a read that is not disturbed ends.
\<close>

theorem reachable_reads_safe:
  assumes "key_run s b"
  shows "count (keys s) \<le> b \<and>
    (\<forall>pin i. doing s pin = Loaded i \<or> doing s pin = Bumped i \<longrightarrow>
      i < 255 \<and> put_char i (key_of pin) (keys s) \<noteq> None) \<and>
    (\<forall>pin i. doing s pin = Ending i \<longrightarrow> put_char i 0 (keys s) \<noteq> None) \<and>
    (\<forall>m. reader s = Testing m \<or> reader s = Taking m \<longrightarrow>
      put_char (msg_ptr (keys s)) 0 (keys s) \<noteq> None \<and> msg_ptr (keys s) < length (my_buf (keys s))) \<and>
    (\<exists>bs k. rpikey_read n (keys s) = Some (bs, k) \<and> length bs \<le> n)"
proof -
  have inv: "key_inv s b" by (rule key_run_inv[OF assms])
  have work: "work_ok b (doing s pin)" for pin using inv by (simp add: key_inv_def)
  have len: "length (my_buf (keys s)) = 256" "b < 256" using inv by (simp_all add: key_inv_def buf_ok_def)
  have "i < 255" if "doing s pin = Loaded i \<or> doing s pin = Bumped i" for pin i
    using work[of pin] that len(2) by auto
  moreover have "i < 256" if "doing s pin = Ending i" for pin i using work[of pin] that by simp
  moreover have "msg_ptr (keys s) < 256" if "reader s = Testing m \<or> reader s = Taking m" for m
    using inv that by (auto simp: key_inv_def)
  ultimately show ?thesis
    using inv read_total[of "keys s" n] len by (fastforce simp: key_inv_def put_char_def)
qed

lemma one_interrupt:
  assumes "s = snd (gpio12_irq key_start)"
  shows "key_run s 0" and "12 \<in> queued s"
proof -
  have "key_step key_start Interrupt s" by (rule irq[of 1]) (simp add: assms gpio12_irq_def IRQ_HANDLED_def)
  from key_run_step[OF key_run_start this] show "key_run s 0" by (simp add: tally_def)
  show "12 \<in> queued s" by (simp add: assms gpio12_irq_def schedule_work_def)
qed

theorem reachable_reads_safe_witness:
  "\<exists>s. key_run s 1 \<and> doing s 12 = Loaded 0 \<and> put_char 0 (key_of 12) (keys s) \<noteq> None"
proof -
  define s where "s = snd (gpio12_irq key_start)"
  have pressed: "doing s 12 = Resting" "get_gpio_input_value (\<lambda>_. 0) 12 = 0" "count (keys s) = 0"
    by (simp_all add: s_def gpio12_irq_def schedule_work_def key_start_def get_gpio_input_value_def)
  let ?s' = "s\<lparr>queued := queued s - {12}, doing := (doing s)(12 := Loaded (count (keys s)))\<rparr>"
  have "key_step s Load ?s'" by (rule load[OF one_interrupt(2)[OF s_def] pressed(1,2)])
  then have run: "key_run ?s' 1" using key_run_step[OF one_interrupt(1)[OF s_def], of Load ?s'] by (simp add: tally_def)
  moreover have "doing ?s' 12 = Loaded 0" using pressed(3) by simp
  ultimately show ?thesis using reachable_reads_safe[OF run] by blast
qed

text \<open>
  A reset that falls between the load and the store of \<open>count\<close> is lost: after the read has begun,
  the position is the old one plus one.
\<close>

lemma reset_lost:
  assumes "doing s pin = Loaded i" and "reader s = No_read"
  shows "\<exists>s1 s2. key_step s Begin_read s1 \<and> count (keys s1) = 0 \<and>
    key_step s1 Bump s2 \<and> count (keys s2) = i + 1"
proof -
  let ?s1 = "s\<lparr>keys := (keys s)\<lparr>msg_ptr := 0, count := 0\<rparr>, reader := Testing 1, got := []\<rparr>"
  have "key_step s Begin_read ?s1" by (rule begin_read[OF assms(2)])
  moreover have "key_step ?s1 Bump (?s1\<lparr>keys := (keys ?s1)\<lparr>count := i + 1\<rparr>, doing := (doing ?s1)(pin := Bumped i)\<rparr>)"
    by (rule bump_first) (simp add: assms(1))
  ultimately show ?thesis by fastforce
qed

text \<open>
  C37: A read between the two halves of a callback delivers a stale character: after a short
  read has left keys behind, the new key is stored in front of them, and until the
  terminator is written the old keys follow it again.
\<close>

theorem stale_keys_reappear:
  assumes "holds s (a # ks)" and "ks \<noteq> []" and "c \<noteq> 0" and "length ks < n"
  shows "\<exists>s1 s2 s3. rpikey_read 1 s = Some ([a], s1) \<and> work_store c s1 = Some s2 \<and>
    rpikey_read n s2 = Some (c # ks, s3) \<and>
    (\<exists>s4. work_terminate s2 = Some s4 \<and> (\<exists>s5. rpikey_read n s4 = Some ([c], s5)))"
proof -
  have h: "length (my_buf s) = 256" "count s = Suc (length ks)" "Suc (length ks) < 256"
    "take (Suc (length ks)) (my_buf s) = a # ks" "my_buf s ! Suc (length ks) = 0" "0 \<notin> set (a # ks)"
    using assms(1) by (simp_all add: holds_def)
  obtain s1 where s1: "rpikey_read 1 s = Some ([a], s1)" "count s1 = 0"
    "my_buf s1 = 0 # drop 1 (my_buf s)"
    using read_holds[OF assms(1), of 1] by auto
  define s2 where "s2 = s1\<lparr>my_buf := (my_buf s1)[0 := c], count := 1\<rparr>"
  have st: "work_store c s1 = Some s2" using s1(2,3) by (simp add: work_store_def s2_def)
  have buf2: "my_buf s2 = c # drop 1 (my_buf s)" using s1(3) by (simp add: s2_def)
  have ks: "take (length ks) (drop 1 (my_buf s)) = ks"
    using h(4) by (metis One_nat_def drop_Suc_Cons drop_0 drop_take diff_Suc_1)
  have "holds (s2\<lparr>count := Suc (length ks)\<rparr>) (c # ks)"
    using h ks buf2 assms(3) by (simp add: holds_def)
  then obtain s3 where "rpikey_read n (s2\<lparr>count := Suc (length ks)\<rparr>) = Some (take n (c # ks), s3)"
    using read_holds by blast
  then have "rpikey_read n s2 = Some (c # ks, s3)" using assms(4) by (simp add: rpikey_read_def)
  moreover have "\<exists>s4. work_terminate s2 = Some s4 \<and> (\<exists>s5. rpikey_read n s4 = Some ([c], s5))"
  proof -
    define s4 where "s4 = s2\<lparr>my_buf := (my_buf s2)[1 := 0]\<rparr>"
    have "work_terminate s2 = Some s4"
      using h buf2 by (simp add: work_terminate_def s4_def s2_def s1)
    moreover have "holds s4 [c]" using h buf2 assms(3) by (simp add: holds_def s4_def s2_def)
    then have "\<exists>s5. rpikey_read n s4 = Some (take n [c], s5)" using read_holds by blast
    ultimately show ?thesis using assms(4) by auto
  qed
  ultimately show ?thesis using s1(1) st by blast
qed

theorem stale_keys_reappear_witness:
  "\<exists>s s1 s2 s3. holds s [108, 102] \<and> rpikey_read 1 s = Some ([108], s1) \<and> work_store 114 s1 = Some s2 \<and>
     rpikey_read 5 s2 = Some ([114, 102], s3)"
proof -
  obtain s where s: "holds s [108, 102]" using presses_hold[OF demo_keys, of "[108, 102]"] by auto
  from stale_keys_reappear[OF s, of 114 5] s show ?thesis by auto
qed

text \<open>
  The input value of a pin is its bit in the level registers, 32 pins to a register.
\<close>

lemma gpio_value_is_bit:
  "get_gpio_input_value regs pin = of_bool (bit (regs (0x34 + 4 * (pin div 32))) (pin mod 32))"
  by (simp add: get_gpio_input_value_def GPIO_LEV_OFFSET_def Let_def and_exp_eq_0_iff_not_bit)

definition no_module :: key_module where
  "no_module = \<lparr>chrdev = False, device_class = False, gpios = {}, inputs = {}, mapped = False,
     pullups = [], irqs = {}\<rparr>"

text \<open>
  C38: When the major number is assigned, \<open>rpikey_init\<close> makes exactly the five button pins
  inputs with pull-up and leaves the pull-up control off; the interrupts that can be
  requested are those of the buttons.
\<close>

theorem init_configures_buttons:
  assumes "0 \<le> major" and "rpikey_init major irq_result no_module = (r, m)"
  shows "r = 0 \<and> chrdev m \<and> mapped m \<and> inputs m = pins \<and> pulled_up 0 (pullups m) = (pins, 0) \<and>
    irqs m = {pin \<in> pins. 0 \<le> irq_result pin}"
proof -
  have m: "r = 0" "chrdev m" "mapped m" "inputs m = pins" "irqs m = {pin \<in> pins. 0 \<le> irq_result pin}"
    "pullups m = set_gpio_pullup 12 @ set_gpio_pullup 16 @ set_gpio_pullup 20 @ set_gpio_pullup 21
       @ set_gpio_pullup 26 @ []"
    using assms by (auto simp: rpikey_init_def no_module_def pins_def)
  have "pulled_up 0 (pullups m) = (pins, 0)"
    unfolding m(6) by (simp add: pulled_up_pin pins_def insert_commute del: append_Nil2)
  then show ?thesis using m by simp
qed

theorem init_configures_buttons_witness:
  "\<exists>m. rpikey_init 240 (\<lambda>_. 0) no_module = (0, m) \<and> pulled_up 0 (pullups m) = (pins, 0)"
proof -
  obtain r m where m: "rpikey_init 240 (\<lambda>_. 0) no_module = (r, m)" by (meson prod.exhaust)
  from init_configures_buttons[OF _ this] m show ?thesis by auto
qed

text \<open>
  Loading and unloading the module is not symmetric: GPIO 13 is requested in place of 16,
  so pin 13 stays reserved after the exit and pin 16 is freed without having been
  requested. Everything else that \<open>rpikey_init\<close> took is given back.
\<close>

lemma exit_leaks_gpio:
  assumes "0 \<le> major"
  shows "case rpikey_exit (snd (rpikey_init major irq_result no_module)) of
    (m, wrongly_freed) \<Rightarrow> gpios m = {13} \<and> wrongly_freed = {16} \<and> irqs m = {} \<and> \<not> chrdev m \<and>
      \<not> device_class m \<and> \<not> mapped m"
  using assms by (auto simp: rpikey_init_def rpikey_exit_def no_module_def)

end
