(* ===== verification/Socket_Server.thy ===== *)
theory Socket_Server
  imports Char_Driver Stdio "HOL-Library.Sublist"
begin

text \<open>
  The socket server \<open>server/aesdsocket.c\<close>, as it is compiled with \<open>USE_AESD_CHAR_DEVICE\<close>: every
  connection is served by a thread that appends what the client sends to the device and
  sends the device's contents back.

  The device is a record of operations (\<open>device_file\<close>); \<open>aesd_file\<close> makes one of the driver
  of \<open>Char_Driver\<close>. \<open>connection_handler\<close> is one connection on its own: what the client sends is
  the list of the results of \<open>recv\<close>. Several connections are the step relation \<open>net_step\<close>:
  taking the mutex, every round of the receive loop (one \<open>recv\<close> with the \<open>write\<close> or \<open>ioctl\<close>
  that follows), giving the mutex back and every \<open>read\<close> of the loop behind it are steps of
  their own, so a thread can wait in \<open>recv\<close> while it holds the mutex and others can read the
  device between two of its writes. \<open>timer_tick\<close> is the time stamp of the configuration
  without the device. The main thread, with the list of threads and the signal handler, is
  in \<open>Server_Main\<close>.
\<close>

section \<open>The device\<close>

record 'd device_file =
  fwrite :: "byte list \<Rightarrow> 'd \<Rightarrow> ((errno + nat) \<times> 'd) option"
  fioctl :: "aesd_seekto \<Rightarrow> int \<Rightarrow> 'd \<Rightarrow> (int \<times> 'd) option"
  fread :: "nat \<Rightarrow> int \<Rightarrow> 'd \<Rightarrow> ((errno + byte list) \<times> int \<times> 'd) option"

definition aesd_file :: "kernel \<Rightarrow> aesd_dev device_file" where
  "aesd_file K = \<lparr>
     fwrite = (\<lambda>data dev. aesd_write K False (length data) data dev),
     fioctl = (\<lambda>st pos dev. map_option (\<lambda>(_, pos1, dev1). (pos1, dev1))
       (aesd_ioctl False AESDCHAR_IOCSEEKTO (Some st) pos dev)),
     fread = (\<lambda>n pos dev. aesd_read False False n pos dev)\<rparr>"

section \<open>One connection\<close>

abbreviation SOCK_BUFFER_SIZE :: nat where
  "SOCK_BUFFER_SIZE \<equiv> 1024"

definition seekto_prefix :: "byte list" where
  "seekto_prefix = bytes_of ''AESDCHAR_IOCSEEKTO:''"

text \<open>
  \<open>sscanf(buffer, "AESDCHAR_IOCSEEKTO:%d,%d", ...)\<close>: it reads the buffer up to its first zero
  byte (a buffer without one is undefined) and sets only the fields that match; \<open>st\<close> are
  the contents of \<open>seekto\<close> before.
\<close>

definition parse_seekto :: "byte list \<Rightarrow> aesd_seekto \<Rightarrow> aesd_seekto outcome" where
  "parse_seekto buffer st =
     (if 0 \<notin> set buffer then None
      else
        case scan_int (drop 19 (takeWhile (\<lambda>b. b \<noteq> 0) buffer)) of
          (Scanned a, rest) \<Rightarrow>
            if \<not> in_int a then None
            else
              let st1 = st\<lparr>write_cmd := to_u32 a\<rparr> in
              (if rest \<noteq> [] \<and> hd rest = of_char CHR '','' then
                 case scan_int (tl rest) of
                   (Scanned b, _) \<Rightarrow>
                     if \<not> in_int b then None else Some (st1\<lparr>write_cmd_offset := to_u32 b\<rparr>)
                 | _ \<Rightarrow> Some st1
               else Some st1)
        | _ \<Rightarrow> Some st)"

text \<open>
  One round of the receive loop, for a result \<open>c\<close> of \<open>recv\<close> that is not empty. \<open>buffer\<close> keeps
  its contents from one round to the next and is not initialised; \<open>c\<close> overwrites its
  beginning. \<open>seekto\<close>, declared in the body and not initialised either, keeps what the last
  command stored in it. The loop ignores the results of \<open>write\<close> and \<open>ioctl\<close>; the round
  records what was done with the chunk, for the statements about it.
\<close>

datatype handled = Wrote "errno + nat" | Sought

definition recv_round ::
  "'d device_file \<Rightarrow> byte list \<Rightarrow> byte list \<Rightarrow> aesd_seekto \<Rightarrow> int \<Rightarrow> 'd \<Rightarrow>
    (handled \<times> byte list \<times> aesd_seekto \<times> int \<times> 'd) outcome" where
  "recv_round fd c buffer seekto pos d =
     (let bytes_read = length c;
          buffer1 = c @ drop bytes_read buffer
      in if take 19 buffer1 = seekto_prefix then
           Option.bind (parse_seekto buffer1 seekto) (\<lambda>seekto1.
             map_option (\<lambda>(pos1, d1). (Sought, buffer1, seekto1, pos1, d1)) (fioctl fd seekto1 pos d))
         else
           let buffer2 = buffer1[bytes_read := 0] in
           map_option (\<lambda>(r, d1). (Wrote r, buffer2, seekto, pos, d1)) (fwrite fd c d))"

text \<open>The round ends the packet when the last byte received is a newline.\<close>

definition end_of_packet :: "byte list \<Rightarrow> byte list \<Rightarrow> bool" where
  "end_of_packet c buffer \<longleftrightarrow> buffer ! (length c - 1) = newline"

fun recv_loop ::
  "'d device_file \<Rightarrow> byte list list \<Rightarrow> byte list \<Rightarrow> aesd_seekto \<Rightarrow> int \<Rightarrow> 'd \<Rightarrow> (int \<times> 'd) outcome" where
  "recv_loop fd [] buffer seekto pos d = Some (pos, d)"
| "recv_loop fd (c # cs) buffer seekto pos d =
     (if c = [] then Some (pos, d)
      else Option.bind (recv_round fd c buffer seekto pos d) (\<lambda>(_, buffer1, seekto1, pos1, d1).
        if end_of_packet c buffer1 then Some (pos1, d1) else recv_loop fd cs buffer1 seekto1 pos1 d1))"

text \<open>The loop that sends the contents back, from the position of the file on.\<close>

partial_function (option) send_loop :: "'d device_file \<Rightarrow> int \<Rightarrow> 'd \<Rightarrow> byte list \<Rightarrow> (byte list \<times> 'd) outcome" where
  "send_loop fd pos d sent =
     (case fread fd SOCK_BUFFER_SIZE pos d of
        None \<Rightarrow> None
      | Some (Inl _, _, d1) \<Rightarrow> Some (sent, d1)
      | Some (Inr bs, pos1, d1) \<Rightarrow>
          if bs = [] then Some (sent, d1) else send_loop fd pos1 d1 (sent @ bs))"

text \<open>
  The handler of one connection when no other one runs: \<open>Inl\<close> is the exit of the whole
  process because the device cannot be opened.
\<close>

definition connection_handler ::
  "'d device_file \<Rightarrow> bool \<Rightarrow> byte list list \<Rightarrow> byte list \<Rightarrow> aesd_seekto \<Rightarrow> 'd \<Rightarrow> (int + byte list \<times> 'd) outcome"
  where
  "connection_handler fd opens received buffer seekto d =
     (if \<not> opens then Some (Inl 1)
      else Option.bind (recv_loop fd received buffer seekto 0 d) (\<lambda>(pos, d1).
             map_option Inr (send_loop fd pos d1 [])))"

text \<open>
  One round of \<open>timer_handler\<close>, between lock and unlock of the mutex: the formatted time is
  appended, or the process exits. The thread is only started when the server is compiled
  without the device.
\<close>

definition timer_tick :: "'d device_file \<Rightarrow> bool \<Rightarrow> byte list \<Rightarrow> 'd \<Rightarrow> (int + 'd) outcome" where
  "timer_tick fd opens timestamp d =
     (if \<not> opens then Some (Inl 1) else map_option (\<lambda>(_, d1). Inr d1) (fwrite fd timestamp d))"

section \<open>Several connections\<close>

text \<open>
  Where the thread of a connection is: before it has the mutex; in the receive loop, with its
  buffer, its \<open>seekto\<close> and the position of its file; behind the loop with the mutex still
  locked; in the loop that sends, with what it has sent; at its end.
\<close>

datatype conn =
    Locking
  | Receiving "byte list" aesd_seekto int
  | Unlocking int
  | Sending int "byte list"
  | Closed "byte list"

record 'd net =
  ndev :: 'd
  mutex :: "nat option"
  conns :: "nat \<Rightarrow> conn option"

text \<open>
  A step carries the chunk that was received in it, if any, with the connection and what was
  done with the chunk. \<open>net_lock\<close> also opens the device, which succeeds here: a failed \<open>open\<close>
  is the exit of the whole process. The buffer and the \<open>seekto\<close> of the thread are whatever its
  stack holds. \<open>net_end\<close> is a \<open>recv\<close> that returns 0 or an error. A thread that waits in
  \<open>recv\<close> for a client that sends nothing is one whose \<open>net_recv\<close> and \<open>net_end\<close> do not happen.
  A round that is undefined has no step.
\<close>

type_synonym event = "nat \<times> byte list \<times> handled"
type_synonym trace = "event list"

inductive net_step :: "'d device_file \<Rightarrow> 'd net \<Rightarrow> 'd net \<Rightarrow> trace \<Rightarrow> bool" for fd where
  net_accept: "conns s t = None \<Longrightarrow>
    net_step fd s (s\<lparr>conns := (conns s)(t \<mapsto> Locking)\<rparr>) []"
| net_lock: "conns s t = Some Locking \<Longrightarrow> mutex s = None \<Longrightarrow> length buffer = SOCK_BUFFER_SIZE \<Longrightarrow>
    net_step fd s (s\<lparr>mutex := Some t, conns := (conns s)(t \<mapsto> Receiving buffer seekto 0)\<rparr>) []"
| net_recv: "conns s t = Some (Receiving buffer seekto pos) \<Longrightarrow> c \<noteq> [] \<Longrightarrow> length c < SOCK_BUFFER_SIZE \<Longrightarrow>
    recv_round fd c buffer seekto pos (ndev s) = Some (r, buffer1, seekto1, pos1, d1) \<Longrightarrow>
    net_step fd s (s\<lparr>ndev := d1, conns := (conns s)(t \<mapsto>
      (if end_of_packet c buffer1 then Unlocking pos1 else Receiving buffer1 seekto1 pos1))\<rparr>) [(t, c, r)]"
| net_end: "conns s t = Some (Receiving buffer seekto pos) \<Longrightarrow>
    net_step fd s (s\<lparr>conns := (conns s)(t \<mapsto> Unlocking pos)\<rparr>) []"
| net_unlock: "conns s t = Some (Unlocking pos) \<Longrightarrow>
    net_step fd s (s\<lparr>mutex := None, conns := (conns s)(t \<mapsto> Sending pos [])\<rparr>) []"
| net_send: "conns s t = Some (Sending pos sent) \<Longrightarrow>
    fread fd SOCK_BUFFER_SIZE pos (ndev s) = Some (Inr bs, pos1, d1) \<Longrightarrow> bs \<noteq> [] \<Longrightarrow>
    net_step fd s (s\<lparr>ndev := d1, conns := (conns s)(t \<mapsto> Sending pos1 (sent @ bs))\<rparr>) []"
| net_close: "conns s t = Some (Sending pos sent) \<Longrightarrow>
    fread fd SOCK_BUFFER_SIZE pos (ndev s) = Some (r, pos1, d1) \<Longrightarrow> r = Inr [] \<or> (\<exists>e. r = Inl e) \<Longrightarrow>
    net_step fd s (s\<lparr>ndev := d1, conns := (conns s)(t \<mapsto> Closed sent)\<rparr>) []"

inductive net_run :: "'d device_file \<Rightarrow> 'd net \<Rightarrow> 'd net \<Rightarrow> trace \<Rightarrow> bool" for fd where
  net_run_start: "net_run fd s s []"
| net_run_step: "net_run fd s s1 ps \<Longrightarrow> net_step fd s1 s2 qs \<Longrightarrow> net_run fd s s2 (ps @ qs)"

text \<open>Runs compose.\<close>

lemma net_run_trans: "net_run fd s1 s2 qs \<Longrightarrow> net_run fd s s1 ps \<Longrightarrow> net_run fd s s2 (ps @ qs)"
proof (induction rule: net_run.induct)
  case (net_run_step s1 s2 qs s3 rs)
  then show ?case using net_run.net_run_step[of fd s s2 "ps @ qs" s3 rs] by simp
qed simp

lemma net_run_one: "net_step fd s s' ps \<Longrightarrow> net_run fd s s' ps"
  using net_run.net_run_step[OF net_run_start] by fastforce

text \<open>The thread has the mutex; it has ended.\<close>

definition in_section :: "conn option \<Rightarrow> bool" where
  "in_section c \<longleftrightarrow> (case c of Some (Receiving _ _ _) \<Rightarrow> True | Some (Unlocking _) \<Rightarrow> True | _ \<Rightarrow> False)"

lemma in_section_simps [simp]:
  "\<not> in_section None" "\<not> in_section (Some Locking)" "in_section (Some (Receiving b st pos))"
  "in_section (Some (Unlocking pos))" "\<not> in_section (Some (Sending pos sent))" "\<not> in_section (Some (Closed sent))"
  by (simp_all add: in_section_def)

section \<open>What a client may send\<close>

lemma length_prefix: "length seekto_prefix = 19"
  by (simp add: seekto_prefix_def bytes_of_def)

text \<open>
  Chunks that are all data: in no round does the buffer begin with the name of the command
  (the chunk is in front of what earlier chunks, or the stack, left there), and the first
  chunk that ends in a newline is the last one.
\<close>

fun data_chunks :: "byte list \<Rightarrow> byte list list \<Rightarrow> bool" where
  "data_chunks buffer [] = True"
| "data_chunks buffer (c # cs) \<longleftrightarrow> c \<noteq> [] \<and> length c < SOCK_BUFFER_SIZE \<and>
     take 19 (c @ drop (length c) buffer) \<noteq> seekto_prefix \<and>
     (if last c = newline then cs = [] else data_chunks ((c @ drop (length c) buffer)[length c := 0]) cs)"

text \<open>
  For instance every line without a colon, in a buffer without a colon at the end of the
  name, however \<open>recv\<close> cuts it.
\<close>

lemma round_buffer_nth:
  assumes "length c < length buffer" and "i < length buffer"
  shows "(c @ drop (length c) buffer)[length c := 0] ! i
    = (if i < length c then c ! i else if i = length c then 0 else buffer ! i)"
  using assms by (auto simp: nth_append nth_list_update)

lemma colon_free_chunks:
  assumes "\<forall>c\<in>set cs. c \<noteq> [] \<and> length c < SOCK_BUFFER_SIZE \<and> of_char CHR '':'' \<notin> set c"
    and "\<forall>c\<in>set (butlast cs). last c \<noteq> newline"
    and "length buffer = SOCK_BUFFER_SIZE" and "buffer ! 18 \<noteq> of_char CHR '':''"
  shows "data_chunks buffer cs"
  using assms
proof (induction cs arbitrary: buffer)
  case (Cons c cs)
  let ?buf = "(c @ drop (length c) buffer)[length c := 0]"
  have colon: "seekto_prefix ! 18 = of_char CHR '':''" by (simp add: seekto_prefix_def bytes_of_def)
  have c: "c \<noteq> []" "length c < SOCK_BUFFER_SIZE" "of_char CHR '':'' \<notin> set c" using Cons.prems(1) by simp_all
  have nth: "(c @ drop (length c) buffer) ! 18 \<noteq> of_char CHR '':''"
    using c Cons.prems(3,4) by (auto simp: nth_append dest: nth_mem)
  then have no: "take 19 (c @ drop (length c) buffer) \<noteq> seekto_prefix"
    using colon nth_take[of 18 19 "c @ drop (length c) buffer"] by auto
  have "data_chunks ?buf cs" if "last c \<noteq> newline"
  proof (rule Cons.IH)
    have "?buf ! 18 \<in> insert 0 (insert (buffer ! 18) (set c))"
      using round_buffer_nth[of c buffer 18] c(2) Cons.prems(3) by simp
    then show "?buf ! 18 \<noteq> of_char CHR '':''" using c(3) Cons.prems(4) by auto
  qed (use Cons.prems c in \<open>auto split: if_splits\<close>)
  then show ?case using c no Cons.prems(2) by (auto split: if_splits)
qed simp

text \<open>Every \<open>write\<close> of the chunks succeeds: the kernel finds the memory for them.\<close>

fun writes_succeed :: "'d device_file \<Rightarrow> byte list list \<Rightarrow> 'd \<Rightarrow> bool" where
  "writes_succeed fd [] d = True"
| "writes_succeed fd (c # cs) d =
     (case fwrite fd c d of Some (Inr _, d1) \<Rightarrow> writes_succeed fd cs d1 | _ \<Rightarrow> False)"

section \<open>What chunks leave in the log\<close>

definition run_packet :: "byte list list \<Rightarrow> log_state \<Rightarrow> log_state" where
  "run_packet cs s = fold log_write cs s"

text \<open>The log after the chunks of a trace.\<close>

fun log_event :: "event \<Rightarrow> log_state \<Rightarrow> log_state" where
  "log_event (t, c, Wrote r) s = log_write c s"
| "log_event (t, c, Sought) s = s"

definition run_trace :: "trace \<Rightarrow> log_state \<Rightarrow> log_state" where
  "run_trace ps s = fold log_event ps s"

definition log_bytes :: "log_state \<Rightarrow> nat" where
  "log_bytes s = length (concat (fst s)) + length (snd s)"

definition trace_bytes :: "trace \<Rightarrow> nat" where
  "trace_bytes ps = length (concat (map (\<lambda>(t, c, r). c) ps))"

lemma run_trace_simps [simp]:
  "run_trace [] s = s" "run_trace (ps @ qs) s = run_trace qs (run_trace ps s)" "run_trace [e] s = log_event e s"
  "trace_bytes [] = 0" "trace_bytes (ps @ qs) = trace_bytes ps + trace_bytes qs" "trace_bytes [(t, c, r)] = length c"
  by (simp_all add: run_trace_def trace_bytes_def)

lemma log_write_size: "log_bytes (log_write c s) \<le> log_bytes s + length c"
proof -
  have "length (concat (lastn n ls)) \<le> length (concat ls)" for n and ls :: "byte list list"
    by (metis append_take_drop_id concat_append lastn_def le_add2 length_append)
  from this[of MAX_OPS "fst s @ [snd s @ c]"] show ?thesis by (simp add: log_write_def log_bytes_def)
qed

lemma log_event_size: "log_bytes (log_event e s) \<le> log_bytes s + length (fst (snd e))"
  using log_write_size by (cases "(e, s)" rule: log_event.cases) simp_all

lemma run_trace_size: "log_bytes (run_trace ps s) \<le> log_bytes s + trace_bytes ps"
proof (induction ps rule: rev_induct)
  case (snoc e ps)
  then show ?case using log_event_size[of e "run_trace ps s"] by (cases e) simp
qed simp

lemma run_packet_size: "log_bytes (run_packet cs s) \<le> log_bytes s + length (concat cs)"
proof (induction cs arbitrary: s)
  case (Cons c cs)
  from Cons[of "log_write c s"] log_write_size[of c s] show ?case by (simp add: run_packet_def)
qed (simp add: run_packet_def)

lemma log_bytes_fst: "length (concat (fst s)) \<le> log_bytes s"
  by (simp add: log_bytes_def)

text \<open>As long as nothing is dropped from the log, it only grows.\<close>

lemma log_event_grows:
  assumes "length (fst s) < MAX_OPS"
  shows "\<exists>zs. fst (log_event e s) = fst s @ zs \<and> length zs \<le> 1"
  using assms by (cases "(e, s)" rule: log_event.cases) (auto simp: log_write_def lastn_short)

lemma run_trace_grows:
  "length (fst s) + length ps \<le> MAX_OPS \<Longrightarrow> \<exists>zs. fst (run_trace ps s) = fst s @ zs \<and> length zs \<le> length ps"
proof (induction ps rule: rev_induct)
  case (snoc e ps)
  then obtain ys where ys: "fst (run_trace ps s) = fst s @ ys" "length ys \<le> length ps" by auto
  obtain zs where "fst (log_event e (run_trace ps s)) = fst (run_trace ps s) @ zs" "length zs \<le> 1"
    using log_event_grows[of "run_trace ps s" e] ys snoc.prems by auto
  then show ?case using ys by (intro exI[of _ "ys @ zs"]) simp
qed simp

lemma run_trace_prefix:
  assumes "length (fst s0) + length (ps @ qs) \<le> MAX_OPS"
  shows "prefix (concat (fst (run_trace ps s0))) (concat (fst (run_trace (ps @ qs) s0)))"
proof -
  obtain zs where "fst (run_trace ps s0) = fst s0 @ zs" "length zs \<le> length ps"
    using run_trace_grows[of s0 ps] assms by auto
  then obtain ys where "fst (run_trace qs (run_trace ps s0)) = fst (run_trace ps s0) @ ys"
    using run_trace_grows[of "run_trace ps s0" qs] assms by auto
  then show ?thesis by simp
qed

lemma prefix_drop: "prefix xs ys \<Longrightarrow> prefix (drop n xs) (drop n ys)"
  by (auto simp: prefix_def)

text \<open>
  A trace without a write that failed; a thread of which all chunks are data; the threads
  of the chunks, one block for every thread.
\<close>

definition no_errors :: "trace \<Rightarrow> bool" where
  "no_errors ps \<longleftrightarrow> (\<forall>(t, c, r)\<in>set ps. \<forall>e. r \<noteq> Wrote (Inl e))"

definition only_data :: "nat \<Rightarrow> trace \<Rightarrow> bool" where
  "only_data t ps \<longleftrightarrow> (\<forall>c. (t, c, Sought) \<notin> set ps)"

definition blocks :: "trace \<Rightarrow> bool" where
  "blocks ps \<longleftrightarrow> distinct (remdups_adj (map fst ps))"

lemma blocks_snoc:
  assumes "blocks ps" and "fst e \<in> fst ` set ps \<Longrightarrow> fst (last ps) = fst e"
  shows "blocks (ps @ [e])"
proof (cases "ps = []")
  case False
  have "remdups_adj (map fst ps @ [fst e])
      = remdups_adj (map fst ps) @ remdups_adj (dropWhile (\<lambda>y. y = last (map fst ps)) [fst e])"
    using False by (intro remdups_adj_append'') simp
  also have "dropWhile (\<lambda>y. y = last (map fst ps)) [fst e] = (if fst e = fst (last ps) then [] else [fst e])"
    using False by (simp add: last_map)
  finally have "remdups_adj (map fst (ps @ [e]))
      = remdups_adj (map fst ps) @ (if fst e = fst (last ps) then [] else [fst e])" by simp
  then show ?thesis using assms unfolding blocks_def by (auto split: if_splits)
qed (simp add: blocks_def)

lemma no_errors_append [simp]: "no_errors (ps @ qs) \<longleftrightarrow> no_errors ps \<and> no_errors qs"
  by (simp add: no_errors_def ball_Un)

lemma only_data_append [simp]: "only_data t (ps @ qs) \<longleftrightarrow> only_data t ps \<and> only_data t qs"
  by (auto simp: only_data_def)

section \<open>Clients of a log device\<close>

context log_device
begin

text \<open>A data chunk in the receive loop; a packet reaches the log chunk by chunk.\<close>

lemma recv_data:
  assumes "c \<noteq> []" and "take 19 (c @ drop (length c) buffer) \<noteq> seekto_prefix" and "fwrite fd c d = Some (r, d1)"
  shows "recv_round fd c buffer st pos d
      = Some (Wrote r, (c @ drop (length c) buffer)[length c := 0], st, pos, d1)"
    and "end_of_packet c ((c @ drop (length c) buffer)[length c := 0]) \<longleftrightarrow> last c = newline"
proof -
  have "((c @ drop (length c) buffer)[length c := 0]) ! (length c - 1) = c ! (length c - 1)"
    using assms(1) by (cases c rule: rev_cases) (simp_all add: nth_append nth_list_update)
  then show "end_of_packet c ((c @ drop (length c) buffer)[length c := 0]) \<longleftrightarrow> last c = newline"
    using assms(1) by (simp add: end_of_packet_def last_conv_nth)
qed (use assms(2,3) in \<open>simp add: recv_round_def Let_def\<close>)

lemma write_ok:
  assumes "fwrite fd = dwrite k" and "env_ok k" and "invar d" and "c \<noteq> []" and "log_bytes (abs d) + length c < limit"
    and "fwrite fd c d = Some (Inr n, d1)"
  shows "n = length c \<and> invar d1 \<and> abs d1 = log_write c (abs d)"
  using write_log[OF assms(2,3,4), unfolded add.assoc[symmetric]] assms(1,5,6)
  by (auto simp: log_bytes_def)

lemma recv_packet:
  assumes "fwrite fd = dwrite k" and "env_ok k" and "invar d" and "data_chunks buffer cs"
    and "writes_succeed fd cs d" and "log_bytes (abs d) + length (concat cs) < limit"
  shows "\<exists>d'. recv_loop fd cs buffer st pos d = Some (pos, d') \<and> invar d' \<and> abs d' = run_packet cs (abs d)"
  using assms(3-)
proof (induction cs arbitrary: d buffer st)
  case Nil
  then show ?case by (simp add: run_packet_def)
next
  case (Cons c cs)
  let ?buf = "(c @ drop (length c) buffer)[length c := 0]"
  have c: "c \<noteq> []" "take 19 (c @ drop (length c) buffer) \<noteq> seekto_prefix"
    "if last c = newline then cs = [] else data_chunks ?buf cs" using Cons.prems(2) by simp_all
  obtain r d1 where "fwrite fd c d = Some (r, d1)" using Cons.prems(3) by (auto split: option.splits)
  then obtain n where d1: "fwrite fd c d = Some (Inr n, d1)" "writes_succeed fd cs d1"
    using Cons.prems(3) by (cases r) auto
  have ok: "invar d1" "abs d1 = log_write c (abs d)"
    using write_ok[OF assms(1,2) Cons.prems(1) c(1) _ d1(1)] Cons.prems(4) by simp_all
  have step: "recv_loop fd (c # cs) buffer st pos d
      = (if last c = newline then Some (pos, d1) else recv_loop fd cs ?buf st pos d1)"
    using recv_data[OF c(1,2) d1(1)] c(1) by simp
  have "log_bytes (abs d1) + length (concat cs) < limit"
    using log_write_size[of c "abs d"] Cons.prems(4) ok(2) by simp
  with Cons.IH[OF ok(1) _ d1(2), of ?buf st] step c(3) ok show ?case
    by (auto simp: run_packet_def split: if_splits)
qed

lemma timer_stamps:
  assumes "fwrite fd = dwrite k" and "env_ok k" and "invar d" and "stamp \<noteq> []"
    and "log_bytes (abs d) + length stamp < limit" and "fwrite fd stamp d = Some (Inr n, d')"
  shows "timer_tick fd True stamp d = Some (Inr d') \<and> invar d' \<and> abs d' = log_write stamp (abs d)"
  using write_ok[OF assms] assms(6) by (simp add: timer_tick_def)

lemma send_all:
  assumes "fread fd = dread" and "invar d" and "length (concat (fst (abs d))) < limit"
    and "SOCK_BUFFER_SIZE < limit" and "pos < limit"
  shows "send_loop fd (int pos) d sent = Some (sent @ drop pos (concat (fst (abs d))), d)"
  using assms(5)
proof (induction "length (concat (fst (abs d))) - pos" arbitrary: pos sent rule: less_induct)
  case less
  let ?log = "concat (fst (abs d))"
  show ?case
  proof (cases "pos < length ?log")
    case True
    obtain n where n: "dread SOCK_BUFFER_SIZE (int pos) d = Some (Inr (take n (drop pos ?log)), int (pos + n), d)"
      "0 < n" "pos + n \<le> length ?log"
      using read_data[OF assms(2,3) True _ assms(4)] by force
    have "take n (drop pos ?log) \<noteq> []" using n(2) True by simp
    moreover have "send_loop fd (int (pos + n)) d (sent @ take n (drop pos ?log))
        = Some ((sent @ take n (drop pos ?log)) @ drop (pos + n) ?log, d)"
      using n(2,3) True assms(3) by (intro less.hyps) auto
    moreover have "take n (drop pos ?log) @ drop (pos + n) ?log = drop pos ?log"
      using append_take_drop_id[of n "drop pos ?log"] by (simp add: add.commute)
    ultimately show ?thesis
      using n(1) assms(1) by (subst send_loop.simps) simp
  next
    case False
    then obtain e where "dread SOCK_BUFFER_SIZE (int pos) d = Some (Inl e, int pos, d)"
      using read_end[OF assms(2,3), of pos SOCK_BUFFER_SIZE] less.prems by auto
    then show ?thesis using assms(1) False by (subst send_loop.simps) simp
  qed
qed

text \<open>One connection after the other: the client gets the whole log back, its packet included.\<close>

lemma serve_packet:
  assumes "fwrite fd = dwrite k" and "fread fd = dread" and "env_ok k" and "invar d" and "data_chunks buffer cs"
    and "writes_succeed fd cs d" and "log_bytes (abs d) + length (concat cs) < limit"
    and "SOCK_BUFFER_SIZE < limit"
  shows "\<exists>d'. connection_handler fd True cs buffer st d
      = Some (Inr (concat (fst (run_packet cs (abs d))), d')) \<and> invar d' \<and> abs d' = run_packet cs (abs d)"
proof -
  obtain d' where d': "recv_loop fd cs buffer st 0 d = Some (0, d')" "invar d'"
    "abs d' = run_packet cs (abs d)"
    using recv_packet[OF assms(1,3-7)] by blast
  have "length (concat (fst (abs d'))) < limit"
    using run_packet_size[of cs "abs d"] log_bytes_fst[of "abs d'"] d'(3) assms(7) by simp
  then have "send_loop fd (int 0) d' [] = Some ([] @ drop 0 (concat (fst (abs d'))), d')"
    using d'(2) assms(2,8) by (intro send_all) simp_all
  then show ?thesis using d' by (simp add: connection_handler_def)
qed

lemma read_keeps:
  assumes "invar d" and "length (concat (fst (abs d))) < limit"
    and "dread SOCK_BUFFER_SIZE (int pos) d = Some (r, p, d1)"
    and "SOCK_BUFFER_SIZE < limit" and "pos < limit"
  shows "d1 = d \<and> (\<exists>n. p = int n \<and> n < limit \<and>
    (if pos < length (concat (fst (abs d)))
     then pos < n \<and> n \<le> length (concat (fst (abs d))) \<and> r = Inr (drop pos (take n (concat (fst (abs d)))))
     else n = pos \<and> (\<exists>e. r = Inl e)))"
proof (cases "pos < length (concat (fst (abs d)))")
  case True
  then obtain n where "p = int (pos + n)" "d1 = d" "pos + n \<le> length (concat (fst (abs d)))" "0 < n"
    "r = Inr (take n (drop pos (concat (fst (abs d)))))"
    using read_data[OF assms(1,2) True, of SOCK_BUFFER_SIZE] assms(3,4) by auto
  then show ?thesis using assms(2) True by (intro conjI exI[of _ "pos + n"]) (simp_all add: take_drop add.commute)
next
  case False
  then show ?thesis using read_end[OF assms(1,2), of pos SOCK_BUFFER_SIZE] assms(3,5) by auto
qed

end

section \<open>Connections at the same time\<close>

text \<open>
  A device that can also seek: to a byte of an entry while \<open>seekable\<close> holds, and always to
  some position.
\<close>

definition seek_pos :: "byte list list \<Rightarrow> nat \<Rightarrow> nat \<Rightarrow> nat option" where
  "seek_pos log c k =
     (if c < length log \<and> k < length (log ! c) then Some (length (concat (take c log)) + k) else None)"

locale seek_device = log_device env_ok invar abs dwrite dread limit
  for env_ok :: "'k \<Rightarrow> bool"
    and invar :: "'d \<Rightarrow> bool"
    and abs :: "'d \<Rightarrow> log_state"
    and dwrite :: "'k \<Rightarrow> byte list \<Rightarrow> 'd \<Rightarrow> ((errno + nat) \<times> 'd) option"
    and dread :: "nat \<Rightarrow> int \<Rightarrow> 'd \<Rightarrow> ((errno + byte list) \<times> int \<times> 'd) option"
    and limit :: nat +
  fixes dseek :: "aesd_seekto \<Rightarrow> int \<Rightarrow> 'd \<Rightarrow> (int \<times> 'd) option"
    and seekable :: "'d \<Rightarrow> bool"
  assumes seek_to: "invar d \<Longrightarrow> seekable d \<Longrightarrow> length (concat (fst (abs d))) < limit \<Longrightarrow>
      dseek st pos d = Some (case seek_pos (fst (abs d)) (write_cmd st) (write_cmd_offset st) of
        Some p \<Rightarrow> int p | None \<Rightarrow> pos, d)"
    and seek_keeps: "invar d \<Longrightarrow> length (concat (fst (abs d))) < limit \<Longrightarrow> n < limit \<Longrightarrow>
      \<exists>p. dseek st (int n) d = Some (int p, d) \<and> p < limit"

text \<open>
  What a thread may be doing after the chunks of a trace. \<open>start_ok\<close> is the position from
  which it will send: the beginning of the log when it has sent no command.
\<close>

definition start_ok :: "nat \<Rightarrow> trace \<Rightarrow> nat \<Rightarrow> int \<Rightarrow> bool" where
  "start_ok limit ps t pos \<longleftrightarrow> (\<exists>n. pos = int n \<and> n < limit \<and> (only_data t ps \<longrightarrow> n = 0))"

definition thread_ok :: "nat \<Rightarrow> trace \<Rightarrow> nat \<Rightarrow> conn option \<Rightarrow> bool" where
  "thread_ok limit ps t c = (case c of
     None \<Rightarrow> t \<notin> fst ` set ps
   | Some Locking \<Rightarrow> t \<notin> fst ` set ps
   | Some (Receiving b st pos) \<Rightarrow> (t \<in> fst ` set ps \<longrightarrow> fst (last ps) = t) \<and> start_ok limit ps t pos
   | Some (Unlocking pos) \<Rightarrow> start_ok limit ps t pos
   | Some (Sending pos sent) \<Rightarrow> (\<exists>n. pos = int n \<and> n < limit)
   | Some (Closed sent) \<Rightarrow> True)"

lemma thread_ok_simps [simp]:
  "thread_ok limit ps t None \<longleftrightarrow> t \<notin> fst ` set ps"
  "thread_ok limit ps t (Some Locking) \<longleftrightarrow> t \<notin> fst ` set ps"
  "thread_ok limit ps t (Some (Receiving b st pos))
    \<longleftrightarrow> (t \<in> fst ` set ps \<longrightarrow> fst (last ps) = t) \<and> start_ok limit ps t pos"
  "thread_ok limit ps t (Some (Unlocking pos)) \<longleftrightarrow> start_ok limit ps t pos"
  "thread_ok limit ps t (Some (Sending pos sent)) \<longleftrightarrow> (\<exists>n. pos = int n \<and> n < limit)"
  "thread_ok limit ps t (Some (Closed sent))"
  by (simp_all add: thread_ok_def)

lemma thread_ok_later:
  assumes "thread_ok limit ps t c" and "u \<noteq> t" and "\<not> in_section c"
  shows "thread_ok limit (ps @ [(u, ch, r)]) t c"
  using assms by (auto simp: thread_ok_def in_section_def split: option.splits conn.splits)

text \<open>Every chunk that was written was written as a whole.\<close>

definition whole :: "trace \<Rightarrow> bool" where
  "whole ps \<longleftrightarrow> (\<forall>(t, c, r)\<in>set ps. r = Sought \<or> r = Wrote (Inr (length c)))"

lemma whole_append [simp]: "whole (ps @ qs) \<longleftrightarrow> whole ps \<and> whole qs"
  by (simp add: whole_def ball_Un)

text \<open>The mutex is with the one thread that is between lock and unlock, if there is one.\<close>

definition exclusive :: "'d net \<Rightarrow> bool" where
  "exclusive s \<longleftrightarrow> (\<forall>t. in_section (conns s t) \<longleftrightarrow> mutex s = Some t)"

text \<open>A server without connections.\<close>

definition idle :: "'d net \<Rightarrow> bool" where
  "idle s \<longleftrightarrow> mutex s = None \<and> (\<forall>t. conns s t = None)"

context seek_device
begin

definition file_ok :: "'d device_file \<Rightarrow> 'k \<Rightarrow> bool" where
  "file_ok fd k \<longleftrightarrow> fwrite fd = dwrite k \<and> fioctl fd = dseek \<and> fread fd = dread \<and> env_ok k \<and>
     SOCK_BUFFER_SIZE < limit"

definition net_ok :: "log_state \<Rightarrow> 'd net \<Rightarrow> trace \<Rightarrow> bool" where
  "net_ok s0 s ps \<longleftrightarrow> invar (ndev s) \<and> abs (ndev s) = run_trace ps s0 \<and> blocks ps \<and> whole ps \<and>
     exclusive s \<and> (\<forall>t. thread_ok limit ps t (conns s t))"

lemma net_okD:
  assumes "net_ok s0 s ps"
  shows "invar (ndev s)" "abs (ndev s) = run_trace ps s0" "blocks ps" "whole ps" "exclusive s"
    "thread_ok limit ps t (conns s t)"
  using assms by (simp_all add: net_ok_def)

lemma net_ok_size:
  assumes "net_ok s0 s ps" and "log_bytes s0 + trace_bytes ps < limit"
  shows "length (concat (fst (abs (ndev s)))) < limit"
  using run_trace_size[of ps s0] log_bytes_fst[of "abs (ndev s)"] net_okD(2)[OF assms(1)] assms(2) by simp

text \<open>One round of the receive loop: a chunk is written or is a command.\<close>

lemma round_ok:
  assumes fd: "file_ok fd k" and inv: "invar d" and c: "c \<noteq> []" and size: "log_bytes (abs d) + length c < limit"
    and n: "n < limit" and r: "recv_round fd c buffer st (int n) d = Some (r, buffer1, st1, pos1, d1)"
    and ok: "\<forall>e. r \<noteq> Wrote (Inl e)"
  shows "invar d1" "abs d1 = log_event (t, c, r) (abs d)" "whole [(t, c, r)]"
    "\<exists>m. pos1 = int m \<and> m < limit \<and> (r \<noteq> Sought \<longrightarrow> m = n)"
proof -
  have all: "invar d1 \<and> abs d1 = log_event (t, c, r) (abs d) \<and> whole [(t, c, r)] \<and>
      (\<exists>m. pos1 = int m \<and> m < limit \<and> (r \<noteq> Sought \<longrightarrow> m = n))"
  proof (cases "take 19 (c @ drop (length c) buffer) = seekto_prefix")
    case True
    obtain st2 where "r = Sought" "fioctl fd st2 (int n) d = Some (pos1, d1)"
      using r True by (auto simp: recv_round_def Let_def Option.bind_eq_Some_conv)
    moreover obtain p where "dseek st2 (int n) d = Some (int p, d)" "p < limit"
      using seek_keeps[OF inv _ n, of st2] size log_bytes_fst[of "abs d"] by auto
    ultimately show ?thesis using fd inv by (auto simp: file_ok_def whole_def)
  next
    case False
    obtain w where w: "r = Wrote w" "fwrite fd c d = Some (w, d1)" "pos1 = int n"
      using r False by (auto simp: recv_round_def Let_def)
    then obtain m where "w = Inr m" using ok by (cases w) auto
    with w write_ok[of fd k d c m d1] fd inv c size n show ?thesis
      by (auto simp: file_ok_def whole_def)
  qed
  show "invar d1" "abs d1 = log_event (t, c, r) (abs d)" "whole [(t, c, r)]"
    "\<exists>m. pos1 = int m \<and> m < limit \<and> (r \<noteq> Sought \<longrightarrow> m = n)"
    using all by blast+
qed

text \<open>A read of the sending loop changes neither the device nor what is before the position.\<close>

lemma read_ok:
  assumes "net_ok s0 s ps" and "conns s t = Some (Sending pos sent)" and "file_ok fd k"
    and "fread fd SOCK_BUFFER_SIZE pos (ndev s) = Some (r, pos1, d1)" and "log_bytes s0 + trace_bytes ps < limit"
  obtains n m where "pos = int n" "pos1 = int m" "m < limit" "d1 = ndev s"
    "if n < length (concat (fst (abs (ndev s))))
     then n < m \<and> m \<le> length (concat (fst (abs (ndev s)))) \<and> r = Inr (drop n (take m (concat (fst (abs (ndev s))))))
     else m = n \<and> (\<exists>e. r = Inl e)"
proof -
  obtain n where n: "pos = int n" "n < limit" using net_okD(6)[OF assms(1), of t] assms(2) by auto
  then have "dread SOCK_BUFFER_SIZE (int n) (ndev s) = Some (r, pos1, d1)" "SOCK_BUFFER_SIZE < limit"
    using assms(3,4) by (simp_all add: file_ok_def)
  from read_keeps[OF net_okD(1)[OF assms(1)] net_ok_size[OF assms(1,5)] this n(2)] n(1) that show thesis
    by blast
qed

end

text \<open>One thread moves and the trace stays, or it adds a chunk.\<close>

lemma thread_moves:
  assumes "\<forall>u. thread_ok limit ps u (conns s u)" and "thread_ok limit ps t (Some c)"
  shows "\<forall>u. thread_ok limit ps u (((conns s)(t \<mapsto> c)) u)"
  using assms by simp

lemma thread_receives:
  assumes "exclusive s" and "in_section (conns s t)" and "\<forall>u. thread_ok limit ps u (conns s u)"
    and "thread_ok limit (ps @ [(t, ch, r)]) t (Some c)"
  shows "\<forall>u. thread_ok limit (ps @ [(t, ch, r)]) u (((conns s)(t \<mapsto> c)) u)"
proof
  fix u
  have "\<not> in_section (conns s u)" if "u \<noteq> t" using assms(1,2) that by (auto simp: exclusive_def)
  then show "thread_ok limit (ps @ [(t, ch, r)]) u (((conns s)(t \<mapsto> c)) u)"
    using thread_ok_later[of limit ps u "conns s u" t] assms(3,4) by (cases "u = t") simp_all
qed

lemma exclusive_keeps:
  assumes "exclusive s" and "in_section (conns s t) \<longleftrightarrow> in_section (Some c)"
  shows "exclusive (s\<lparr>conns := (conns s)(t \<mapsto> c)\<rparr>)" "exclusive (s\<lparr>ndev := d, conns := (conns s)(t \<mapsto> c)\<rparr>)"
  using assms by (auto simp: exclusive_def)

lemma exclusive_lock:
  assumes "exclusive s" and "mutex s = None" and "in_section (Some c)"
  shows "exclusive (s\<lparr>mutex := Some t, conns := (conns s)(t \<mapsto> c)\<rparr>)"
  using assms by (auto simp: exclusive_def)

lemma exclusive_unlock:
  assumes "exclusive s" and "in_section (conns s t)" and "\<not> in_section (Some c)"
  shows "exclusive (s\<lparr>mutex := None, conns := (conns s)(t \<mapsto> c)\<rparr>)"
  using assms by (auto simp: exclusive_def)

lemma start_later:
  assumes "start_ok limit ps t (int n)" and "pos1 = int m" and "m < limit" and "r \<noteq> Sought \<longrightarrow> m = n"
  shows "start_ok limit (ps @ [(t, c, r)]) t pos1"
  using assms by (auto simp: start_ok_def only_data_def)

context seek_device
begin

text \<open>
  Every interleaving keeps the device, the mutex and the blocks in order: by rule induction
  on the run.
\<close>

lemma net_step_ok:
  assumes fd: "file_ok fd k" and ok: "net_ok s0 s ps" and step: "net_step fd s s' qs" and "no_errors qs"
    and size: "log_bytes s0 + trace_bytes (ps @ qs) < limit"
  shows "net_ok s0 s' (ps @ qs)"
  using step
proof (cases rule: net_step.cases)
  case (net_accept t)
  then show ?thesis
    using net_okD[OF ok] exclusive_keeps(1)[OF net_okD(5)[OF ok], of t Locking] net_okD(6)[OF ok, of t]
    by (simp add: net_ok_def)
next
  case (net_lock t buffer seekto)
  have "0 < limit" using fd by (simp add: file_ok_def)
  then have "thread_ok limit ps t (Some (Receiving buffer seekto 0))"
    using net_okD(6)[OF ok, of t] net_lock by (auto simp: start_ok_def)
  then show ?thesis
    using net_lock net_okD[OF ok] exclusive_lock[OF net_okD(5)[OF ok] net_lock(4)] by (simp add: net_ok_def)
next
  case (net_recv t buffer seekto pos c r buffer1 seekto1 pos1 d1)
  let ?c = "if end_of_packet c buffer1 then Unlocking pos1 else Receiving buffer1 seekto1 pos1"
  have th: "thread_ok limit ps t (Some (Receiving buffer seekto pos))" using net_okD(6)[OF ok, of t] net_recv(3) by simp
  then obtain n where n: "pos = int n" "n < limit" by (auto simp: start_ok_def)
  have "log_bytes (abs (ndev s)) + length c < limit"
    using run_trace_size[of ps s0] size net_okD(2)[OF ok] net_recv(2) by simp
  moreover have "\<forall>e. r \<noteq> Wrote (Inl e)" using assms(4) net_recv(2) by (simp add: no_errors_def)
  ultimately obtain m where d1: "invar d1" "abs d1 = log_event (t, c, r) (abs (ndev s))" "whole [(t, c, r)]"
    and m: "pos1 = int m" "m < limit" "r \<noteq> Sought \<longrightarrow> m = n"
    using round_ok[OF fd net_okD(1)[OF ok] net_recv(4) _ n(2) net_recv(6)[unfolded n(1)]] by metis
  have "start_ok limit (ps @ [(t, c, r)]) t pos1" using start_later[OF _ m] th n(1) by simp
  then have "thread_ok limit (ps @ [(t, c, r)]) t (Some ?c)" by simp
  then have "\<forall>u. thread_ok limit (ps @ [(t, c, r)]) u (((conns s)(t \<mapsto> ?c)) u)"
    using thread_receives[OF net_okD(5)[OF ok]] net_okD(6)[OF ok] net_recv(3) by (metis in_section_simps(3))
  moreover have "blocks (ps @ [(t, c, r)])" using blocks_snoc[OF net_okD(3)[OF ok], of "(t, c, r)"] th by simp
  moreover have "exclusive s'" unfolding net_recv(1)
    by (rule exclusive_keeps(2)[OF net_okD(5)[OF ok]]) (simp add: net_recv(3))
  ultimately show ?thesis using net_recv(1,2) d1 net_okD(2,4)[OF ok] by (simp add: net_ok_def)
next
  case (net_end t buffer seekto pos)
  then show ?thesis
    using net_okD[OF ok] exclusive_keeps(1)[OF net_okD(5)[OF ok], of t "Unlocking pos"] net_okD(6)[OF ok, of t]
    by (simp add: net_ok_def)
next
  case (net_unlock t pos)
  have "thread_ok limit ps t (Some (Sending pos []))"
    using net_okD(6)[OF ok, of t] net_unlock(3) by (auto simp: start_ok_def)
  then show ?thesis
    using net_unlock net_okD[OF ok] exclusive_unlock[OF net_okD(5)[OF ok], of t "Sending pos []"]
    by (simp add: net_ok_def)
next
  case (net_send t pos sent bs pos1 d1)
  have size: "log_bytes s0 + trace_bytes ps < limit" using assms(5) by simp
  obtain m where "d1 = ndev s" "pos1 = int m" "m < limit"
    by (rule read_ok[OF ok net_send(3) fd net_send(4) size]) blast
  then show ?thesis
    using net_send net_okD[OF ok] exclusive_keeps[OF net_okD(5)[OF ok], of t "Sending pos1 (sent @ bs)"]
    by (simp add: net_ok_def)
next
  case (net_close t pos sent r pos1 d1)
  have size: "log_bytes s0 + trace_bytes ps < limit" using assms(5) by simp
  have "d1 = ndev s" by (rule read_ok[OF ok net_close(3) fd net_close(4) size])
  then show ?thesis
    using net_close net_okD[OF ok] exclusive_keeps[OF net_okD(5)[OF ok], of t "Closed sent"]
    by (simp add: net_ok_def)
qed

lemma net_start_ok: "idle s \<Longrightarrow> invar (ndev s) \<Longrightarrow> net_ok (abs (ndev s)) s []"
  by (simp add: net_ok_def idle_def exclusive_def blocks_def whole_def)

lemma net_run_ok:
  assumes "net_run fd s s' ps" and "file_ok fd k" and "idle s" and "invar (ndev s)" and "no_errors ps"
    and "log_bytes (abs (ndev s)) + trace_bytes ps < limit"
  shows "net_ok (abs (ndev s)) s' ps"
  using assms
proof (induction rule: net_run.induct)
  case (net_run_start s)
  then show ?case by (simp add: net_start_ok)
next
  case (net_run_step s s1 ps s2 qs)
  then have "net_ok (abs (ndev s)) s1 ps" by simp
  then show ?case
    using net_step_ok[OF net_run_step.prems(1) _ net_run_step.hyps(2)] net_run_step.prems(4,5) by simp
qed

end

text \<open>
  What connection \<open>t\<close> has been sent when the log holds the bytes \<open>now\<close>: bytes of the log from
  one position on (from the first byte, unless the client sent a command), and when the
  connection is closed all that the log held at some time behind its own last chunk.
\<close>

definition answered :: "log_state \<Rightarrow> trace \<Rightarrow> nat \<Rightarrow> byte list \<Rightarrow> byte list \<Rightarrow> bool" where
  "answered s0 ps t now sent \<longleftrightarrow> (\<exists>p ps1 ps2. ps = ps1 @ ps2 \<and> t \<notin> fst ` set ps2 \<and>
     (only_data t ps \<longrightarrow> p = 0) \<and>
     prefix (drop p (concat (fst (run_trace ps1 s0)))) sent \<and> prefix sent (drop p now))"

definition answer_ok :: "log_state \<Rightarrow> trace \<Rightarrow> byte list \<Rightarrow> nat \<Rightarrow> conn option \<Rightarrow> bool" where
  "answer_ok s0 ps now t c = (case c of
     Some (Unlocking pos) \<Rightarrow> \<exists>p. pos = int p \<and> (only_data t ps \<longrightarrow> p = 0)
   | Some (Sending pos sent) \<Rightarrow> \<exists>p. pos = int (p + length sent) \<and> (only_data t ps \<longrightarrow> p = 0) \<and>
       prefix sent (drop p now)
   | Some (Closed sent) \<Rightarrow> answered s0 ps t now sent
   | _ \<Rightarrow> True)"

lemma answer_ok_simps [simp]:
  "answer_ok s0 ps now t None" "answer_ok s0 ps now t (Some Locking)"
  "answer_ok s0 ps now t (Some (Receiving b st pos))"
  "answer_ok s0 ps now t (Some (Unlocking pos)) \<longleftrightarrow> (\<exists>p. pos = int p \<and> (only_data t ps \<longrightarrow> p = 0))"
  "answer_ok s0 ps now t (Some (Sending pos sent)) \<longleftrightarrow>
     (\<exists>p. pos = int (p + length sent) \<and> (only_data t ps \<longrightarrow> p = 0) \<and> prefix sent (drop p now))"
  "answer_ok s0 ps now t (Some (Closed sent)) \<longleftrightarrow> answered s0 ps t now sent"
  by (simp_all add: answer_ok_def)

lemma answered_later:
  assumes "answered s0 ps t now sent" and "prefix now later" and "t \<notin> fst ` set qs"
  shows "answered s0 (ps @ qs) t later sent"
proof -
  obtain p ps1 ps2 where a: "ps = ps1 @ ps2" "t \<notin> fst ` set ps2" "only_data t ps \<longrightarrow> p = 0"
    "prefix (drop p (concat (fst (run_trace ps1 s0)))) sent" "prefix sent (drop p now)"
    using assms(1) unfolding answered_def by blast
  then have "prefix sent (drop p later)"
    using prefix_drop[OF assms(2)] prefix_order.trans by blast
  then show ?thesis
    unfolding answered_def using a assms(3) by (intro exI[of _ p] exI[of _ ps1] exI[of _ "ps2 @ qs"]) auto
qed

lemma answer_later:
  assumes "answer_ok s0 ps now t c" and "prefix now later" and "u \<noteq> t \<and> \<not> in_section c"
  shows "answer_ok s0 (ps @ [(u, ch, r)]) later t c"
proof (cases c)
  case (Some co)
  show ?thesis
  proof (cases co)
    case (Sending pos sent)
    then obtain p where "pos = int (p + length sent)" "only_data t ps \<longrightarrow> p = 0" "prefix sent (drop p now)"
      using assms(1) Some by auto
    moreover have "prefix sent (drop p later)" if "prefix sent (drop p now)" for p
      using that prefix_drop[OF assms(2)] prefix_order.trans by blast
    ultimately show ?thesis using Some Sending by auto
  next
    case (Closed sent)
    then show ?thesis using answered_later[OF _ assms(2), of s0 ps t sent "[(u, ch, r)]"] assms(1,3) Some by simp
  qed (use assms(3) Some in simp_all)
qed simp

context seek_device
begin

lemma answer_block:
  assumes ok: "net_ok s0 s ps" and fd: "file_ok fd k" and c: "conns s t = Some (Sending pos sent)"
    and r: "fread fd SOCK_BUFFER_SIZE pos (ndev s) = Some (r, pos1, d1)" and size: "log_bytes s0 + trace_bytes ps < limit"
    and ans: "answer_ok s0 ps (concat (fst (abs (ndev s)))) t (Some (Sending pos sent))"
  shows "r = Inr bs \<Longrightarrow> bs \<noteq> [] \<Longrightarrow>
      answer_ok s0 ps (concat (fst (abs (ndev s)))) t (Some (Sending pos1 (sent @ bs)))"
    and "r = Inr [] \<or> (\<exists>e. r = Inl e) \<Longrightarrow>
      answer_ok s0 ps (concat (fst (abs (ndev s)))) t (Some (Closed sent))"
proof -
  let ?now = "concat (fst (abs (ndev s)))"
  obtain p where p: "pos = int (p + length sent)" "only_data t ps \<longrightarrow> p = 0" "prefix sent (drop p ?now)"
    using ans by auto
  obtain n m where n: "pos = int n" "pos1 = int m"
    and eff: "if n < length ?now then n < m \<and> m \<le> length ?now \<and> r = Inr (drop n (take m ?now))
      else m = n \<and> (\<exists>e. r = Inl e)"
    by (rule read_ok[OF ok c fd r size]) blast
  then have np: "n = p + length sent" using p(1) by simp
  then have sent: "sent = take (n - p) (drop p ?now)" using p(3) by (metis add_diff_cancel_left' append_eq_conv_conj prefixE)
  show "answer_ok s0 ps ?now t (Some (Sending pos1 (sent @ bs)))" if "r = Inr bs" "bs \<noteq> []"
  proof -
    have bs: "n < m" "m \<le> length ?now" "bs = drop n (take m ?now)" using that eff by (auto split: if_splits)
    have "sent @ bs = drop p (take m ?now)"
    proof -
      have "sent = drop p (take n ?now)" using sent np by (simp add: drop_take)
      moreover have "take m ?now = take n ?now @ drop n (take m ?now)"
        using append_take_drop_id[of n "take m ?now"] bs(1) by (simp add: min_def)
      moreover have "p \<le> length (take n ?now)" using np bs(1,2) by simp
      ultimately show ?thesis using bs(3) by (metis drop_append diff_is_0_eq drop0)
    qed
    moreover have "prefix (drop p (take m ?now)) (drop p ?now)" by (rule prefix_drop[OF take_is_prefix])
    moreover have "m = p + length (drop p (take m ?now))" using bs np by simp
    ultimately have "pos1 = int (p + length (sent @ bs)) \<and> prefix (sent @ bs) (drop p ?now)" using n(2) by simp
    then show ?thesis unfolding answer_ok_simps using p(2) by blast
  qed
  show "answer_ok s0 ps ?now t (Some (Closed sent))" if "r = Inr [] \<or> (\<exists>e. r = Inl e)"
  proof -
    have "length ?now \<le> n" using that eff by (auto split: if_splits)
    moreover obtain zs where zs: "drop p ?now = sent @ zs" using p(3) by (auto simp: prefix_def)
    moreover from zs have "length sent + length zs = length ?now - p" by (metis length_append length_drop)
    ultimately have "length zs = 0" using np by arith
    with zs have "sent = drop p ?now" by simp
    then show ?thesis
      unfolding answer_ok_simps answered_def using p(2) net_okD(2)[OF ok]
      by (intro exI[of _ p] exI[of _ ps] exI[of _ "[]"]) simp
  qed
qed

lemma net_step_answers:
  assumes fd: "file_ok fd k" and ok: "net_ok s0 s ps" and step: "net_step fd s s' qs" and err: "no_errors qs"
    and size: "log_bytes s0 + trace_bytes (ps @ qs) < limit"
    and few: "length (fst s0) + length (ps @ qs) \<le> MAX_OPS"
    and ans: "\<forall>t. answer_ok s0 ps (concat (fst (abs (ndev s)))) t (conns s t)"
  shows "\<forall>t. answer_ok s0 (ps @ qs) (concat (fst (abs (ndev s')))) t (conns s' t)"
  using step
proof (cases rule: net_step.cases)
  case (net_recv t buffer seekto pos c r buffer1 seekto1 pos1 d1)
  have ok': "net_ok s0 s' (ps @ [(t, c, r)])" using net_step_ok[OF fd ok step err size] net_recv(2) by simp
  have pre: "prefix (concat (fst (abs (ndev s)))) (concat (fst (abs (ndev s'))))"
    using run_trace_prefix[OF few] net_okD(2)[OF ok] net_okD(2)[OF ok'] net_recv(2) by simp
  show ?thesis
  proof
    fix u
    show "answer_ok s0 (ps @ qs) (concat (fst (abs (ndev s')))) u (conns s' u)"
    proof (cases "u = t")
      case True
      then show ?thesis using net_okD(6)[OF ok', of t] net_recv(1,2) by (auto simp: start_ok_def)
    next
      case False
      have "mutex s = Some t" using net_okD(5)[OF ok] net_recv(3) unfolding exclusive_def by (metis in_section_simps(3))
      then have "\<not> in_section (conns s u)" using net_okD(5)[OF ok] False by (auto simp: exclusive_def)
      then have "answer_ok s0 (ps @ [(t, c, r)]) (concat (fst (abs (ndev s')))) u (conns s u)"
        using answer_later[OF _ pre] ans False by metis
      then show ?thesis using net_recv(1,2) False by simp
    qed
  qed
next
  case (net_end t buffer seekto pos)
  then show ?thesis using ans net_okD(6)[OF ok, of t] by (auto simp: start_ok_def)
next
  case (net_unlock t pos)
  have "answer_ok s0 ps (concat (fst (abs (ndev s)))) t (conns s t)" using ans by blast
  then show ?thesis using net_unlock ans by auto
next
  case (net_send t pos sent bs pos1 d1)
  have sz: "log_bytes s0 + trace_bytes ps < limit" using size by simp
  have "d1 = ndev s" by (rule read_ok[OF ok net_send(3) fd net_send(4) sz])
  moreover have "answer_ok s0 ps (concat (fst (abs (ndev s)))) t (Some (Sending pos1 (sent @ bs)))"
    using answer_block(1)[OF ok fd net_send(3,4) sz _ refl net_send(5)] ans net_send(3) by metis
  ultimately show ?thesis using net_send(1,2) ans by (auto simp del: answer_ok_simps)
next
  case (net_close t pos sent r pos1 d1)
  have sz: "log_bytes s0 + trace_bytes ps < limit" using size by simp
  have "d1 = ndev s" by (rule read_ok[OF ok net_close(3) fd net_close(4) sz])
  moreover have "answer_ok s0 ps (concat (fst (abs (ndev s)))) t (Some (Closed sent))"
    using answer_block(2)[OF ok fd net_close(3,4) sz _ net_close(5)] ans net_close(3) by metis
  ultimately show ?thesis using net_close(1,2) ans by (auto simp del: answer_ok_simps)
qed (use ans in auto)

lemma net_run_answers:
  assumes "net_run fd s s' ps" and "file_ok fd k" and "idle s" and "invar (ndev s)" and "no_errors ps"
    and "log_bytes (abs (ndev s)) + trace_bytes ps < limit" and "length (fst (abs (ndev s))) + length ps \<le> MAX_OPS"
  shows "\<forall>t. answer_ok (abs (ndev s)) ps (concat (fst (abs (ndev s')))) t (conns s' t)"
  using assms
proof (induction rule: net_run.induct)
  case (net_run_start s)
  then show ?case by (simp add: idle_def)
next
  case (net_run_step s s1 ps s2 qs)
  have ok: "net_ok (abs (ndev s)) s1 ps" by (rule net_run_ok) (use net_run_step in auto)
  show ?case
    by (rule net_step_answers[OF _ ok net_run_step.hyps(2)]) (use net_run_step in auto)
qed

end

section \<open>Waiting for the mutex\<close>

text \<open>
  While the thread that has the mutex is in its receive loop, one that waits for the mutex
  does not move, whatever else happens.
\<close>

lemma exclusive_step:
  assumes "net_step fd s s' qs" and ex: "exclusive s"
  shows "exclusive s'"
  using assms(1)
proof (cases rule: net_step.cases)
  case (net_accept t)
  then show ?thesis using exclusive_keeps(1)[OF ex] by simp
next
  case (net_lock t buffer seekto)
  then show ?thesis using exclusive_lock[OF ex] by simp
next
  case (net_recv t buffer seekto pos c r buffer1 seekto1 pos1 d1)
  then show ?thesis using exclusive_keeps(2)[OF ex] by simp
next
  case (net_end t buffer seekto pos)
  then show ?thesis using exclusive_keeps(1)[OF ex] by simp
next
  case (net_unlock t pos)
  then show ?thesis using exclusive_unlock[OF ex] by simp
next
  case (net_send t pos sent bs pos1 d1)
  then show ?thesis using exclusive_keeps(2)[OF ex] by simp
next
  case (net_close t pos sent r pos1 d1)
  then show ?thesis using exclusive_keeps(2)[OF ex] by simp
qed

definition past_section :: "conn option \<Rightarrow> bool" where
  "past_section c \<longleftrightarrow> (case c of Some (Sending _ _) \<Rightarrow> True | Some (Closed _) \<Rightarrow> True | _ \<Rightarrow> False)"

lemma past_section_simps [simp]:
  "\<not> past_section None" "\<not> past_section (Some Locking)" "\<not> past_section (Some (Receiving b st pos))"
  "\<not> past_section (Some (Unlocking pos))" "past_section (Some (Sending pos sent))" "past_section (Some (Closed sent))"
  by (simp_all add: past_section_def)

lemma past_section_step: "net_step fd s s' qs \<Longrightarrow> past_section (conns s u) \<Longrightarrow> past_section (conns s' u)"
  by (induction rule: net_step.induct) (auto split: if_splits)

lemma holder_step:
  assumes "net_step fd s s' qs" and "exclusive s" and "conns s t = Some Locking" and "mutex s = Some u"
  shows "conns s' t = Some Locking \<and> mutex s' = Some u \<or> past_section (conns s' u)"
  using assms
proof (cases rule: net_step.cases)
  case (net_unlock v pos)
  then have "v = u" using assms(2,4) unfolding exclusive_def by (metis in_section_simps(4) option.inject)
  then show ?thesis using net_unlock by simp
qed auto

lemma holder_blocks:
  assumes "net_run fd s s' qs" and "exclusive s" and "conns s t = Some Locking" and "mutex s = Some u"
  shows "exclusive s' \<and> (conns s' t = Some Locking \<and> mutex s' = Some u \<or> past_section (conns s' u))"
  using assms
proof (induction rule: net_run.induct)
  case (net_run_step s s1 ps s2 qs)
  then show ?case
    using exclusive_step[OF net_run_step.hyps(2)] holder_step[OF net_run_step.hyps(2)]
      past_section_step[OF net_run_step.hyps(2)] by blast
qed simp

text \<open>When the holder's client ends its connection, the mutex is free.\<close>

lemma holder_ends:
  assumes "exclusive s" and "mutex s = Some u"
  obtains s' where "net_run fd s s' []" "mutex s' = None" "ndev s' = ndev s" "\<forall>t. t \<noteq> u \<longrightarrow> conns s' t = conns s t"
proof -
  have unlock: "\<exists>s'. net_run fd s1 s' [] \<and> mutex s' = None \<and> ndev s' = ndev s1 \<and> (\<forall>t. t \<noteq> u \<longrightarrow> conns s' t = conns s1 t)"
    if "conns s1 u = Some (Unlocking pos)" for s1 pos
    using net_run_one[OF net_unlock[OF that, of fd]]
    by (intro exI[of _ "s1\<lparr>mutex := None, conns := (conns s1)(u \<mapsto> Sending pos [])\<rparr>"]) simp
  have "in_section (conns s u)" using assms by (simp add: exclusive_def)
  then consider (receiving) b st pos where "conns s u = Some (Receiving b st pos)"
    | (unlocking) pos where "conns s u = Some (Unlocking pos)"
    by (auto simp: in_section_def split: option.splits conn.splits)
  then show thesis
  proof cases
    case receiving
    let ?s1 = "s\<lparr>conns := (conns s)(u \<mapsto> Unlocking pos)\<rparr>"
    obtain s' where "net_run fd ?s1 s' []" "mutex s' = None" "ndev s' = ndev ?s1"
      "\<forall>t. t \<noteq> u \<longrightarrow> conns s' t = conns ?s1 t"
      using unlock[of ?s1 pos] by auto
    then show thesis using that net_run_trans[OF _ net_run_one[OF net_end[OF receiving]]] by fastforce
  qed (use unlock that in blast)
qed

definition data_trace :: "nat \<Rightarrow> byte list list \<Rightarrow> trace" where
  "data_trace t cs = map (\<lambda>c. (t, c, Wrote (Inr (length c)))) cs"

context seek_device
begin

text \<open>A thread in the receive loop that gets data, and one that sends, to the end of the loop.\<close>

lemma net_receive:
  assumes "file_ok fd k" and "invar (ndev s)" and "conns s t = Some (Receiving buffer st pos)"
    and "data_chunks buffer cs" and "writes_succeed fd cs (ndev s)"
    and "log_bytes (abs (ndev s)) + length (concat cs) < limit"
  shows "\<exists>s'. net_run fd s s' (data_trace t cs) \<and> conns s' t = Some (Unlocking pos) \<and> invar (ndev s') \<and>
    abs (ndev s') = run_packet cs (abs (ndev s))"
  using assms(2-)
proof (induction cs arbitrary: s buffer)
  case Nil
  then show ?case
    using net_run_one[OF net_end[OF Nil(2), of fd]]
    by (intro exI[of _ "s\<lparr>conns := (conns s)(t \<mapsto> Unlocking pos)\<rparr>"]) (simp add: data_trace_def run_packet_def)
next
  case (Cons c cs)
  let ?buf = "(c @ drop (length c) buffer)[length c := 0]"
  have c: "c \<noteq> []" "length c < SOCK_BUFFER_SIZE" "take 19 (c @ drop (length c) buffer) \<noteq> seekto_prefix"
    "if last c = newline then cs = [] else data_chunks ?buf cs" using Cons.prems(3) by simp_all
  obtain r d1 where r: "fwrite fd c (ndev s) = Some (r, d1)" using Cons.prems(4) by (auto split: option.splits)
  then obtain n where n: "r = Inr n" "writes_succeed fd cs d1" using Cons.prems(4) by (cases r) auto
  have ok: "r = Inr (length c)" "invar d1" "abs d1 = log_write c (abs (ndev s))"
    using write_ok[of fd k "ndev s" c n d1] assms(1) Cons.prems(1,5) c(1) r n(1) by (simp_all add: file_ok_def)
  let ?s1 = "s\<lparr>ndev := d1, conns := (conns s)(t \<mapsto>
      (if end_of_packet c ?buf then Unlocking pos else Receiving ?buf st pos))\<rparr>"
  have step: "net_run fd s ?s1 [(t, c, Wrote (Inr (length c)))]"
    using net_recv[OF Cons.prems(2) c(1,2) recv_data(1)[OF c(1,3) r]] ok(1) by (simp add: net_run_one)
  have tr: "data_trace t (c # cs) = [(t, c, Wrote (Inr (length c)))] @ data_trace t cs"
    by (simp add: data_trace_def)
  show ?case
  proof (cases "last c = newline")
    case True
    then have "cs = []" using c(4) by simp
    then show ?thesis
      using step ok recv_data(2)[OF c(1,3) r] True
      by (intro exI[of _ ?s1]) (simp add: data_trace_def run_packet_def)
  next
    case False
    then have s1: "conns ?s1 t = Some (Receiving ?buf st pos)" "data_chunks ?buf cs"
      using recv_data(2)[OF c(1,3) r] c(4) by simp_all
    have "log_bytes (abs (ndev ?s1)) + length (concat cs) < limit"
      using log_write_size[of c "abs (ndev s)"] Cons.prems(5) ok(3) by simp
    then obtain s' where "net_run fd ?s1 s' (data_trace t cs)" "conns s' t = Some (Unlocking pos)"
      "invar (ndev s')" "abs (ndev s') = run_packet cs (log_write c (abs (ndev s)))"
      using Cons.IH[OF _ s1] ok n(2) by auto
    then show ?thesis using net_run_trans[OF _ step] tr by (auto simp: run_packet_def)
  qed
qed

lemma net_finish:
  assumes "fread fd = dread" and "invar (ndev s)" and "length (concat (fst (abs (ndev s)))) < limit"
    and "SOCK_BUFFER_SIZE < limit" and "conns s t = Some (Sending (int n) sent)" and "n < limit"
  shows "\<exists>s'. net_run fd s s' [] \<and> conns s' t = Some (Closed (sent @ drop n (concat (fst (abs (ndev s))))))"
  using assms(2-)
proof (induction "length (concat (fst (abs (ndev s)))) - n" arbitrary: s n sent rule: less_induct)
  case less
  let ?log = "concat (fst (abs (ndev s)))"
  show ?case
  proof (cases "n < length ?log")
    case True
    obtain j where j: "dread SOCK_BUFFER_SIZE (int n) (ndev s) = Some (Inr (take j (drop n ?log)), int (n + j), ndev s)"
      "0 < j" "n + j \<le> length ?log"
      using read_data[OF less.prems(1,2) True _ less.prems(3)] by force
    let ?s1 = "s\<lparr>ndev := ndev s, conns := (conns s)(t \<mapsto> Sending (int (n + j)) (sent @ take j (drop n ?log)))\<rparr>"
    have step: "net_step fd s ?s1 []"
      using j True assms(1) by (intro net_send[OF less.prems(4)]) auto
    have "length ?log - (n + j) < length ?log - n" using j(2) True by simp
    then obtain s' where "net_run fd ?s1 s' []"
      "conns s' t = Some (Closed ((sent @ take j (drop n ?log)) @ drop (n + j) ?log))"
      using less.hyps[of ?s1 "n + j" "sent @ take j (drop n ?log)"] less.prems j True by auto
    moreover have "take j (drop n ?log) @ drop (n + j) ?log = drop n ?log"
      using append_take_drop_id[of j "drop n ?log"] by (simp add: add.commute)
    ultimately show ?thesis using net_run_trans[OF _ net_run_one[OF step]] by fastforce
  next
    case False
    then obtain e where "dread SOCK_BUFFER_SIZE (int n) (ndev s) = Some (Inl e, int n, ndev s)"
      using read_end[OF less.prems(1,2), of n SOCK_BUFFER_SIZE] less.prems(5) by auto
    then have "net_step fd s (s\<lparr>ndev := ndev s, conns := (conns s)(t \<mapsto> Closed sent)\<rparr>) []"
      using assms(1) by (intro net_close[OF less.prems(4)]) auto
    then show ?thesis using net_run_one False by fastforce
  qed
qed

text \<open>
  A thread that waits for the mutex can be served to the end of its connection, once the
  client of the holder, if there is one, has ended its own.
\<close>

lemma net_serve:
  assumes "file_ok fd k" and "invar (ndev s)" and "exclusive s" and "conns s t = Some Locking"
    and "length buffer = SOCK_BUFFER_SIZE" and "data_chunks buffer cs" and "writes_succeed fd cs (ndev s)"
    and "log_bytes (abs (ndev s)) + length (concat cs) < limit"
  shows "\<exists>s'. net_run fd s s' (data_trace t cs) \<and>
    conns s' t = Some (Closed (concat (fst (run_packet cs (abs (ndev s))))))"
proof -
  have free: "\<exists>s1. net_run fd s s1 [] \<and> mutex s1 = None \<and> ndev s1 = ndev s \<and> conns s1 t = Some Locking"
  proof (cases "mutex s")
    case None
    then show ?thesis using net_run_start[of fd s] assms(4) by blast
  next
    case (Some u)
    obtain s1 where s1: "net_run fd s s1 []" "mutex s1 = None" "ndev s1 = ndev s" "\<forall>t. t \<noteq> u \<longrightarrow> conns s1 t = conns s t"
      by (rule holder_ends[OF assms(3) Some])
    moreover have "t \<noteq> u" using Some assms(3,4) unfolding exclusive_def by (metis in_section_simps(2))
    ultimately show ?thesis using assms(4) by auto
  qed
  then obtain s1 where s1: "net_run fd s s1 []" "mutex s1 = None" "ndev s1 = ndev s" "conns s1 t = Some Locking"
    by blast
  let ?st = "\<lparr>write_cmd = 0, write_cmd_offset = 0\<rparr>"
  let ?s2 = "s1\<lparr>mutex := Some t, conns := (conns s1)(t \<mapsto> Receiving buffer ?st 0)\<rparr>"
  obtain s3 where s3: "net_run fd ?s2 s3 (data_trace t cs)" "conns s3 t = Some (Unlocking 0)" "invar (ndev s3)"
    "abs (ndev s3) = run_packet cs (abs (ndev s))"
    using net_receive[OF assms(1), of ?s2 t buffer ?st 0 cs] assms s1(3) by auto
  let ?s4 = "s3\<lparr>mutex := None, conns := (conns s3)(t \<mapsto> Sending 0 [])\<rparr>"
  have "length (concat (fst (abs (ndev ?s4)))) < limit"
    using run_packet_size[of cs "abs (ndev s)"] log_bytes_fst[of "abs (ndev s3)"] s3(4) assms(8) by simp
  moreover have "fread fd = dread" "SOCK_BUFFER_SIZE < limit" using assms(1) by (simp_all add: file_ok_def)
  ultimately obtain s5 where "net_run fd ?s4 s5 []" "conns s5 t = Some (Closed (concat (fst (abs (ndev s3)))))"
    using net_finish[of fd ?s4 t 0 "[]"] s3(3) by auto
  moreover have "net_run fd s ?s2 []"
    using net_run_trans[OF net_run_one[OF net_lock[OF s1(4,2) assms(5), of fd]] s1(1)] by simp
  ultimately have "net_run fd s s5 (([] @ data_trace t cs) @ [] @ [])"
    using net_run_trans[OF net_run_trans[OF _ net_run_one[OF net_unlock[OF s3(2), of fd]]]]
      net_run_trans[OF s3(1)] net_run_trans by blast
  then show ?thesis using \<open>conns s5 t = _\<close> s3(4) by auto
qed

end

section \<open>Seek commands\<close>

text \<open>A command as a client writes it, without and with the newline.\<close>

definition seek_text :: "nat \<Rightarrow> nat \<Rightarrow> byte list" where
  "seek_text c k = seekto_prefix @ print_int (int c) @ of_char CHR '','' # print_int (int k)"

definition seek_chunk :: "nat \<Rightarrow> nat \<Rightarrow> byte list" where
  "seek_chunk c k = seek_text c k @ [newline]"

lemma print_int_no_zero: "0 \<notin> set (print_int (int n))"
proof -
  have "digit d \<noteq> 0" if "d < 10" for d using unat_digit[OF that] by auto
  moreover obtain ds where "print_nat n = map digit ds" "set ds \<subseteq> {..<10}"
    using print_nat_digits[of n] by blast
  ultimately show ?thesis by (fastforce simp: print_int_def)
qed

lemma seek_text_facts:
  "0 \<notin> set (seek_text c k)" "take 19 (seek_text c k @ rest) = seekto_prefix" "take 19 (seek_text c k) = seekto_prefix"
  "drop 19 (seek_text c k @ rest) = print_int (int c) @ of_char CHR '','' # print_int (int k) @ rest"
  "seek_text c k \<noteq> []"
proof -
  have "0 \<notin> set seekto_prefix" by (simp add: seekto_prefix_def bytes_of_def)
  moreover have "(of_char CHR '','' :: byte) \<noteq> 0" by simp
  ultimately show "0 \<notin> set (seek_text c k)"
    unfolding seek_text_def using print_int_no_zero[of c] print_int_no_zero[of k]
    by (simp del: of_char_of)
qed (simp_all add: seek_text_def length_prefix)

text \<open>
  What is behind the command in the buffer does not matter, as long as there is a zero byte
  and no digit follows directly.
\<close>

lemma parse_seek_text:
  assumes "c < 2 ^ 31" and "k < 2 ^ 31" and "0 \<in> set rest" and "\<not> is_digit (hd rest)"
  shows "parse_seekto (seek_text c k @ rest) st = Some (st\<lparr>write_cmd := c, write_cmd_offset := k\<rparr>)"
proof -
  let ?g = "takeWhile (\<lambda>b. b \<noteq> 0) rest"
  have "takeWhile (\<lambda>b. b \<noteq> 0) (seek_text c k @ rest) = seek_text c k @ ?g"
    using seek_text_facts(1)[of c k] by (intro takeWhile_append2) metis
  then have line: "drop 19 (takeWhile (\<lambda>b. b \<noteq> 0) (seek_text c k @ rest))
      = print_int (int c) @ of_char CHR '','' # print_int (int k) @ ?g"
    using seek_text_facts(4)[of c k ?g] by simp
  have "scan_int (print_int (int c) @ of_char CHR '','' # print_int (int k) @ ?g)
      = (Scanned (int c), of_char CHR '','' # print_int (int k) @ ?g)"
    by (rule scan_print) (simp add: is_digit_def)
  moreover have "scan_int (print_int (int k) @ ?g) = (Scanned (int k), ?g)"
    by (rule scan_print) (use assms(4) in \<open>cases rest; simp\<close>)
  moreover have "in_int (int c)" "in_int (int k)" "to_u32 (int c) = c" "to_u32 (int k) = k"
    using assms(1,2) by (auto simp: in_int_def to_u32_def nat_mod_as_int)
  ultimately show ?thesis
    using assms(3) unfolding parse_seekto_def line by (simp add: Let_def)
qed

text \<open>A round of the receive loop that finds a command in the buffer.\<close>

lemma recv_command:
  assumes "c \<noteq> []" and "c @ drop (length c) buffer = buffer1" and "take 19 buffer1 = seekto_prefix"
    and "parse_seekto buffer1 st = Some st1" and "fioctl fd st1 pos d = Some (pos1, d1)"
  shows "recv_loop fd (c # cs) buffer st pos d
    = (if buffer1 ! (length c - 1) = newline then Some (pos1, d1) else recv_loop fd cs buffer1 st1 pos1 d1)"
  using assms(1,3,4,5) by (simp add: recv_round_def end_of_packet_def Let_def assms(2) del: take_append)

lemma newline_no_digit: "\<not> is_digit newline"
  by (simp add: is_digit_def newline_def)

context seek_device
begin

text \<open>The answer to a seek command is the log from the requested byte on.\<close>

lemma serve_seek:
  assumes "fioctl fd = dseek" and "fread fd = dread" and "invar d" and "seekable d"
    and "length (concat (fst (abs d))) < limit" and "SOCK_BUFFER_SIZE < limit"
    and "c < 2 ^ 31" and "k < 2 ^ 31" and "0 \<in> set (drop (length (seek_chunk c k)) buffer)"
  shows "connection_handler fd True (seek_chunk c k # cs) buffer st d
    = Some (Inr (drop (case seek_pos (fst (abs d)) c k of Some p \<Rightarrow> p | None \<Rightarrow> 0) (concat (fst (abs d))), d))"
proof -
  let ?rest = "drop (length (seek_chunk c k)) buffer"
  let ?p = "case seek_pos (fst (abs d)) c k of Some p \<Rightarrow> p | None \<Rightarrow> 0"
  have nl: "(seek_chunk c k @ ?rest) ! (length (seek_chunk c k) - 1) = newline"
    by (simp add: nth_append seek_chunk_def)
  have parse: "parse_seekto (seek_chunk c k @ ?rest) st = Some (st\<lparr>write_cmd := c, write_cmd_offset := k\<rparr>)"
    using parse_seek_text[OF assms(7,8), of "newline # ?rest" st] assms(9) newline_no_digit
    by (simp add: seek_chunk_def)
  have prefix: "take 19 (seek_chunk c k @ ?rest) = seekto_prefix" "seek_chunk c k \<noteq> []"
    using seek_text_facts(2)[of c k "newline # ?rest"] by (simp_all add: seek_chunk_def)
  have "dseek (st\<lparr>write_cmd := c, write_cmd_offset := k\<rparr>) 0 d = Some (int ?p, d)"
    using seek_to[OF assms(3,4,5)] by (simp split: option.split)
  then have "recv_loop fd (seek_chunk c k # cs) buffer st 0 d = Some (int ?p, d)"
    using nl assms(1) by (subst recv_command[OF prefix(2) refl prefix(1) parse]) simp_all
  moreover have "?p < limit"
  proof (cases "seek_pos (fst (abs d)) c k")
    case None
    then show ?thesis using assms(6) by simp
  next
    case (Some p)
    then have k: "c < length (fst (abs d))" "k < length (fst (abs d) ! c)"
      and p: "p = length (concat (take c (fst (abs d)))) + k" by (auto simp: seek_pos_def split: if_splits)
    have "concat (fst (abs d)) = concat (take c (fst (abs d))) @ fst (abs d) ! c @ concat (drop (Suc c) (fst (abs d)))"
      using k(1) by (metis concat.simps(2) concat_append id_take_nth_drop)
    then have "p < length (concat (fst (abs d)))" using k(2) p by simp
    then show ?thesis using Some assms(5) by simp
  qed
  ultimately show ?thesis
    using send_all[OF assms(2,3,5,6), of ?p "[]"] by (simp add: connection_handler_def)
qed

end

interpretation aesd_seek: seek_device kernel_ok dev_inv dev_abs
  "\<lambda>K data dev. aesd_write K False (length data) data dev"
  "\<lambda>count pos dev. aesd_read False False count pos dev" "2 ^ 31"
  "\<lambda>st pos dev. map_option (\<lambda>(_, pos1, dev1). (pos1, dev1))
     (aesd_ioctl False AESDCHAR_IOCSEEKTO (Some st) pos dev)"
  "\<lambda>dev. out_offs (dbuffer dev) = 0"
proof unfold_locales
  fix d st pos
  assume "dev_inv d" "out_offs (dbuffer d) = 0" "length (concat (fst (dev_abs d))) < 2 ^ 31"
  then show "map_option (\<lambda>(_, pos1, dev1). (pos1, dev1)) (aesd_ioctl False AESDCHAR_IOCSEEKTO (Some st) pos d)
      = Some (case seek_pos (fst (dev_abs d)) (write_cmd st) (write_cmd_offset st) of
          Some p \<Rightarrow> int p | None \<Rightarrow> pos, d)"
    using aesd_ioctl_unwrapped[of d st pos] by (simp add: dev_abs_def seek_pos_def)
next
  fix d st and n :: nat
  assume a: "dev_inv d" "length (concat (fst (dev_abs d))) < 2 ^ 31" "n < 2 ^ 31"
  then have "dev_mem d" "length (concat (dev_log d)) < 2 ^ 31" by (simp_all add: dev_inv_def dev_abs_def)
  note slots = aesd_ioctl_slots[OF a(1) this(2), of st "int n"] seekto_pos_slots(2)[OF this, of st]
  show "\<exists>p. map_option (\<lambda>(_, pos1, dev1). (pos1, dev1)) (aesd_ioctl False AESDCHAR_IOCSEEKTO (Some st) (int n) d)
      = Some (int p, d) \<and> p < 2 ^ 31"
  proof (cases "write_cmd st < MAX_OPS \<and> write_cmd_offset st < esize (entry (dbuffer d) ! write_cmd st)")
    case True
    then have "sum_list (map esize (take (write_cmd st) (entry (dbuffer d)))) + write_cmd_offset st < 2 ^ 31"
      using slots(2) \<open>length (concat (dev_log d)) < 2 ^ 31\<close> by linarith
    then show ?thesis using slots(1) True
      by (intro exI[of _ "sum_list (map esize (take (write_cmd st) (entry (dbuffer d)))) + write_cmd_offset st"]) simp
  next
    case False
    then show ?thesis using slots(1) a(3) unfolding if_not_P[OF False] by (intro exI[of _ n]) simp
  qed
qed

section \<open>Properties\<close>

lemma aesd_file_ops:
  "fwrite (aesd_file K) = (\<lambda>data dev. aesd_write K False (length data) data dev)"
  "fread (aesd_file K) = (\<lambda>count pos dev. aesd_read False False count pos dev)"
  "fioctl (aesd_file K) = (\<lambda>st pos dev. map_option (\<lambda>(_, pos1, dev1). (pos1, dev1))
     (aesd_ioctl False AESDCHAR_IOCSEEKTO (Some st) pos dev))"
  by (simp_all add: aesd_file_def)

lemma aesd_file_ok: "kernel_ok K \<Longrightarrow> aesd_seek.file_ok (aesd_file K) K"
  unfolding aesd_seek.file_ok_def aesd_file_ops by simp

lemma log_bytes_dev: "log_bytes (dev_abs d) = dev_bytes d"
  by (simp add: log_bytes_def dev_abs_def dev_bytes_def)

text \<open>Chunks that make up one line are one entry of the log.\<close>

lemma run_packet_line:
  assumes "concat cs = line @ [newline]" and "newline \<notin> set line" and "newline \<notin> set (snd s)"
    and "[] \<notin> set cs"
  shows "run_packet cs s = (lastn MAX_OPS (fst s @ [snd s @ line @ [newline]]), [])"
  using assms
proof (induction cs arbitrary: s line)
  case (Cons c cs)
  show ?case
  proof (cases cs rule: rev_cases)
    case Nil
    then show ?thesis using Cons.prems by (simp add: run_packet_def log_write_def)
  next
    case (snoc ds d)
    then obtain e where "d = e @ [newline]" "line = c @ concat ds @ e"
      using Cons.prems(1,4) by (cases d rule: rev_cases) auto
    then have line: "newline \<notin> set c" "concat cs = (concat ds @ e) @ [newline]" "line = c @ concat ds @ e"
      using Cons.prems(2) snoc by auto
    then have "log_write c s = (fst s, snd s @ c)" using Cons.prems(3) by (simp add: log_write_def)
    moreover have "run_packet cs (fst s, snd s @ c)
        = (lastn MAX_OPS (fst s @ [(snd s @ c) @ (concat ds @ e) @ [newline]]), [])"
      using Cons.IH[OF line(2), of "(fst s, snd s @ c)"] Cons.prems(2,3,4) line by simp
    ultimately show ?thesis using line(3) by (simp add: run_packet_def)
  qed
qed simp

lemma data_chunks_filled: "data_chunks buffer cs \<Longrightarrow> [] \<notin> set cs"
  by (induction buffer cs rule: data_chunks.induct) (auto split: if_splits)

text \<open>
  C4: A client that sends one line gets back the ten newest entries of the device, the last
  of which is its line behind what was still open; the device then holds exactly these
  entries. \<open>recv\<close> may cut the line in any way in which the buffer does not begin with the
  name of the command in some round (\<open>data_chunks\<close>; \<open>colon_free_chunks\<close> gives lines for
  which that is every way), and the kernel finds the memory for every write.
\<close>

theorem client_gets_log:
  assumes "kernel_ok K" and "dev_inv d" and "concat cs = line @ [newline]" and "newline \<notin> set line"
    and "data_chunks buffer cs" and "writes_succeed (aesd_file K) cs d" and "dev_bytes d + length line + 1 < 2 ^ 31"
  shows "\<exists>d'. connection_handler (aesd_file K) True cs buffer st d
      = Some (Inr (concat (lastn MAX_OPS (dev_log d @ [dev_pending d @ line @ [newline]])), d')) \<and>
    dev_inv d' \<and> dev_abs d' = (lastn MAX_OPS (dev_log d @ [dev_pending d @ line @ [newline]]), [])"
proof -
  have line: "run_packet cs (dev_abs d) = (lastn MAX_OPS (dev_log d @ [dev_pending d @ line @ [newline]]), [])"
    using run_packet_line[OF assms(3,4) _ data_chunks_filled[OF assms(5)], of "dev_abs d"] assms(2)
    by (simp add: dev_abs_def dev_inv_def)
  have "log_bytes (dev_abs d) + length (concat cs) < 2 ^ 31" using assms(3,7) by (simp add: log_bytes_dev)
  then show ?thesis
    using aesd.serve_packet[OF aesd_file_ops(1,2) assms(1,2,5,6), of st] by (simp add: line)
qed


text \<open>An allocator that takes the address after the last one in use.\<close>

definition next_address :: "heap \<Rightarrow> nat" where
  "next_address h = Suc (Max (insert 0 (dom h)))"

definition endless_kernel :: kernel where
  "endless_kernel = \<lparr>
     kmalloc = (\<lambda>h n. if finite (dom h) then Some (next_address h, replicate n 0) else None),
     krealloc = (\<lambda>h p n. if finite (dom h)
       then Some (next_address h, take n (the (h p) @ replicate n 0)) else None)\<rparr>"

lemma next_address_free: "finite (dom h) \<Longrightarrow> h (next_address h) = None"
proof -
  assume fin: "finite (dom h)"
  have "a \<le> Max (insert 0 (dom h))" if "a \<in> dom h" for a
    using fin that by (intro Max_ge) auto
  then show ?thesis unfolding next_address_def by (metis domIff Suc_n_not_le_n)
qed

lemma endless_kernel_ok: "kernel_ok endless_kernel"
  using next_address_free
  by (auto simp: kernel_ok_def endless_kernel_def next_address_def min_def split: if_splits)

text \<open>With this allocator every write succeeds.\<close>

lemma endless_alloc:
  assumes "dev_mem dev"
  shows "buffptr (dentry (write_alloc endless_kernel n dev)) \<noteq> 0"
proof -
  have "finite (dom (kheap dev))" using assms by (simp add: dev_mem_def)
  then show ?thesis by (simp add: write_alloc_def endless_kernel_def next_address_def Let_def)
qed

lemma endless_writes:
  "dev_inv d \<Longrightarrow> [] \<notin> set cs \<Longrightarrow> dev_bytes d + length (concat cs) < 2 ^ 31 \<Longrightarrow>
    writes_succeed (aesd_file endless_kernel) cs d"
proof (induction cs arbitrary: d)
  case (Cons c cs)
  have small: "dev_bytes d + length c < 2 ^ 63" using Cons.prems(3) by simp
  have mem: "dev_mem (d\<lparr>lock := True\<rparr>)" using Cons.prems(1) by (auto simp: dev_inv_def dev_mem_def open_entries_def)
  obtain d1 where d1: "aesd_write endless_kernel False (length c) c d = Some (Inr (length c), d1)"
    "dev_inv d1" "dev_abs d1 = log_write c (dev_abs d)"
    by (rule aesd_write_cases[OF Cons.prems(1) endless_kernel_ok _ small, of "length c"])
       (use Cons.prems(2) endless_alloc[OF mem] in auto)
  have "dev_bytes d1 + length (concat cs) < 2 ^ 31"
    using log_write_size[of c "dev_abs d"] d1(3) Cons.prems(3) by (simp add: log_bytes_dev[symmetric])
  then show ?case using Cons.IH[OF d1(2)] Cons.prems(2) d1(1) by (simp add: aesd_file_def)
qed simp

theorem client_gets_log_witness:
  "\<exists>d'. connection_handler (aesd_file endless_kernel) True [[97], [98, 10]] [] \<lparr>write_cmd = 0, write_cmd_offset = 0\<rparr> demo_dev
      = Some (Inr ([104, 105, 10] @ [120, 97, 98, 10], d'))"
  using client_gets_log[OF endless_kernel_ok demo_dev_facts(1), of "[[97], [98, 10]]" "[97, 98]" "[]"
      "\<lparr>write_cmd = 0, write_cmd_offset = 0\<rparr>"]
    endless_writes[OF demo_dev_facts(1), of "[[97], [98, 10]]"]
  by (auto simp: newline_def seekto_prefix_def bytes_of_def demo_dev_facts dev_bytes_def lastn_def simp del: writes_succeed.simps(2))

lemma run_ok:
  assumes "net_run (aesd_file K) s s' ps" and "kernel_ok K" and "idle s" and "dev_inv (ndev s)" and "no_errors ps"
    and "dev_bytes (ndev s) + trace_bytes ps < 2 ^ 31"
  shows "aesd_seek.net_ok (dev_abs (ndev s)) s' ps"
  using aesd_seek.net_run_ok[OF assms(1) aesd_file_ok[OF assms(2)] assms(3,4,5)] assms(6) log_bytes_dev by simp


text \<open>
  C14: A client whose thread waits for the mutex does not move while the thread that has it
  stays in its receive loop, which can be for ever: \<open>recv\<close> waits for a client that sends
  nothing. That is the only thing it waits for: whatever the connections have done, once the
  holder's client has ended its connection the waiting one can be served to the end by its
  own thread, and gets the log as it is after its packet.
\<close>

theorem every_client_served:
  assumes "net_run (aesd_file K) s s1 ps" and "kernel_ok K" and "idle s" and "dev_inv (ndev s)" and "no_errors ps"
    and "conns s1 t = Some Locking" and "length buffer = SOCK_BUFFER_SIZE" and "data_chunks buffer cs"
    and "writes_succeed (aesd_file K) cs (ndev s1)"
    and "dev_bytes (ndev s) + trace_bytes ps + length (concat cs) < 2 ^ 31"
  shows "(\<forall>u b st pos s2 qs. mutex s1 = Some u \<longrightarrow> net_run (aesd_file K) s1 s2 qs \<longrightarrow>
      conns s2 u = Some (Receiving b st pos) \<longrightarrow> conns s2 t = Some Locking) \<and>
    (\<exists>s2. net_run (aesd_file K) s1 s2 (data_trace t cs) \<and>
      conns s2 t = Some (Closed (concat (fst (run_packet cs (run_trace ps (dev_abs (ndev s))))))))"
proof
  have ok: "aesd_seek.net_ok (dev_abs (ndev s)) s1 ps" using run_ok[OF assms(1-5)] assms(10) by simp
  note s1 = aesd_seek.net_okD[OF ok]
  show "\<forall>u b st pos s2 qs. mutex s1 = Some u \<longrightarrow> net_run (aesd_file K) s1 s2 qs \<longrightarrow>
      conns s2 u = Some (Receiving b st pos) \<longrightarrow> conns s2 t = Some Locking"
    using holder_blocks[OF _ s1(5) assms(6)] by fastforce
  have "log_bytes (dev_abs (ndev s1)) + length (concat cs) < 2 ^ 31"
    using run_trace_size[of ps "dev_abs (ndev s)"] s1(2) assms(10) log_bytes_dev by simp
  from aesd_seek.net_serve[OF aesd_file_ok[OF assms(2)] s1(1,5) assms(6-9) this] s1(2)
  show "\<exists>s2. net_run (aesd_file K) s1 s2 (data_trace t cs) \<and>
      conns s2 t = Some (Closed (concat (fst (run_packet cs (run_trace ps (dev_abs (ndev s)))))))"
    by simp
qed

text \<open>
  One connection (7) is in its receive loop, another one (8) waits for the mutex; the client
  of the first ends its connection, and the second sends the line \<open>a\<close>.
\<close>

definition demo_net :: "aesd_dev net" where
  "demo_net = \<lparr>ndev = demo_dev, mutex = None, conns = Map.empty\<rparr>"

definition demo_zeros :: "byte list" where
  "demo_zeros = replicate SOCK_BUFFER_SIZE 0"

definition demo_held :: "aesd_dev net" where
  "demo_held = \<lparr>ndev = demo_dev, mutex = Some 7,
     conns = [7 \<mapsto> Receiving demo_zeros \<lparr>write_cmd = 0, write_cmd_offset = 0\<rparr> 0, 8 \<mapsto> Locking]\<rparr>"

lemma demo_net_facts: "idle demo_net" "ndev demo_net = demo_dev" "dev_inv (ndev demo_net)" "exclusive demo_held"
  "conns demo_held 8 = Some Locking" "mutex demo_held = Some 7" "ndev demo_held = demo_dev"
  "conns demo_held 7 = Some (Receiving demo_zeros \<lparr>write_cmd = 0, write_cmd_offset = 0\<rparr> 0)"
  by (auto simp: idle_def demo_net_def demo_held_def exclusive_def demo_dev_facts)

lemma demo_waits: "net_run (aesd_file K) demo_net demo_held []"
proof -
  let ?s1 = "demo_net\<lparr>conns := [7 \<mapsto> Locking]\<rparr>" and ?st = "\<lparr>write_cmd = 0, write_cmd_offset = 0\<rparr>"
  let ?s2 = "?s1\<lparr>mutex := Some 7, conns := [7 \<mapsto> Receiving demo_zeros ?st 0]\<rparr>"
  have "net_step (aesd_file K) demo_net ?s1 []"
    using net_accept[of demo_net 7] by (simp add: demo_net_def)
  moreover have "net_step (aesd_file K) ?s1 ?s2 []"
    using net_lock[of ?s1 7 demo_zeros "aesd_file K" ?st] by (simp add: demo_net_def demo_zeros_def)
  moreover have "net_step (aesd_file K) ?s2 demo_held []"
    using net_accept[of ?s2 8] by (simp add: demo_net_def demo_held_def)
  ultimately show ?thesis using net_run_trans net_run_one by (metis append_Nil)
qed

lemma demo_chunks: "data_chunks demo_zeros [[97, 10]]" "length demo_zeros = SOCK_BUFFER_SIZE"
  by (simp_all add: demo_zeros_def seekto_prefix_def bytes_of_def newline_def)

lemma demo_writes: "writes_succeed (aesd_file endless_kernel) [[97, 10]] demo_dev"
  by (rule endless_writes[OF demo_dev_facts(1)]) (simp_all add: demo_dev_facts dev_bytes_def)

lemma demo_log: "run_packet [[97, 10]] (dev_abs demo_dev) = ([[104, 105, 10], [120, 97, 10]], [])"
  by (simp add: run_packet_def log_write_def lastn_def dev_abs_def demo_dev_facts newline_def)

lemma demo_trace: "data_trace 8 [[97, 10]] = [(8, [97, 10], Wrote (Inr 2))]"
  by (simp add: data_trace_def)

theorem every_client_served_witness:
  "\<exists>s2. net_run (aesd_file endless_kernel) demo_held s2 [(8, [97, 10], Wrote (Inr 2))] \<and>
    conns s2 8 = Some (Closed [104, 105, 10, 120, 97, 10])"
  using every_client_served[OF demo_waits endless_kernel_ok demo_net_facts(1,3) _ demo_net_facts(5)
      demo_chunks(2,1)] demo_writes demo_log
  by (simp add: demo_net_facts demo_dev_facts dev_bytes_def no_errors_def demo_trace del: writes_succeed.simps(2))



text \<open>
  C13: While the circular buffer has not wrapped, a client whose \<open>AESDCHAR_IOCSEEKTO:c,k\<close>
  arrives in one piece, with a zero byte somewhere behind it in the receive buffer, gets the
  log from byte \<open>k\<close> of command \<open>c\<close> on, and the whole log when there is no such byte; the
  device does not change. The numbers printed by the client are the ones the driver gets.
  (A wrapped buffer counts in slots, a command in pieces is parsed more than once, and without
  a zero byte \<open>sscanf\<close> reads past the buffer.)
\<close>

theorem seek_command_answer:
  assumes "dev_inv d" and "out_offs (dbuffer d) = 0" and "length (concat (dev_log d)) < 2 ^ 31"
    and "c < 2 ^ 31" and "k < 2 ^ 31" and "0 \<in> set (drop (length (seek_chunk c k)) buffer)"
  shows "connection_handler (aesd_file K) True (seek_chunk c k # cs) buffer st d
    = Some (Inr (case seek_pos (dev_log d) c k of
        Some p \<Rightarrow> drop p (concat (dev_log d)) | None \<Rightarrow> concat (dev_log d), d))"
  using aesd_seek.serve_seek[OF aesd_file_ops(3,2) assms(1,2) _ _ assms(4,5,6)] assms(3)
  by (simp add: dev_abs_def split: option.splits)

theorem seek_command_answer_witness:
  "connection_handler (aesd_file endless_kernel) True [bytes_of ''AESDCHAR_IOCSEEKTO:0,1'' @ [10]] (replicate 1024 0)
     \<lparr>write_cmd = 5, write_cmd_offset = 5\<rparr> demo_dev = Some (Inr ([105, 10], demo_dev))"
proof -
  have "seek_chunk 0 1 = bytes_of ''AESDCHAR_IOCSEEKTO:0,1'' @ [10]"
    by (simp add: seek_chunk_def seek_text_def seekto_prefix_def bytes_of_def print_int_def print_nat.simps digit_def newline_def)
  moreover have "seek_pos (dev_log demo_dev) 0 1 = Some 1" by (simp add: seek_pos_def demo_dev_facts)
  ultimately show ?thesis
    using seek_command_answer[of demo_dev 0 1 "replicate 1024 0" endless_kernel "[]"] by (simp add: demo_dev_facts bytes_of_def)
qed

text \<open>
  C36: The buffer keeps what earlier chunks left in it. After a command that arrives without
  its newline, a chunk that repeats the beginning of the buffer (an \<open>A\<close>, for example) is
  taken for the command again: what the client sent does not reach the device.
\<close>

theorem stale_command_swallows_data:
  assumes "dev_inv d" and "out_offs (dbuffer d) = 0" and "length (concat (dev_log d)) < 2 ^ 31"
    and "c < 2 ^ 31" and "k < 2 ^ 31" and "0 < n" and "n \<le> length (seek_text c k)"
    and "length (seek_text c k) < SOCK_BUFFER_SIZE"
  shows "\<exists>pos'. recv_loop (aesd_file K) [seek_text c k, take n (seek_text c k)]
      (replicate SOCK_BUFFER_SIZE 0) st pos d = Some (pos', d)"
proof -
  define zeros :: "byte list" where "zeros = replicate (SOCK_BUFFER_SIZE - length (seek_text c k)) 0"
  let ?buf = "seek_text c k @ zeros" and ?st = "st\<lparr>write_cmd := c, write_cmd_offset := k\<rparr>"
  have z: "0 \<in> set zeros" "\<not> is_digit (hd zeros)" using assms(8) by (auto simp: zeros_def is_digit_def)
  have seek: "\<exists>p1. fioctl (aesd_file K) st1 p d = Some (p1, d)" for st1 p
    using aesd_seek.seek_to[OF assms(1,2), of st1 p] assms(3) unfolding aesd_file_ops dev_abs_def by auto
  have parse: "parse_seekto ?buf s0 = Some (s0\<lparr>write_cmd := c, write_cmd_offset := k\<rparr>)" for s0
    by (rule parse_seek_text[OF assms(4,5) z])
  have again: "take n (seek_text c k) @ drop n ?buf = ?buf" using assms(7) by simp
  have buf: "seek_text c k @ drop (length (seek_text c k)) (replicate SOCK_BUFFER_SIZE 0) = ?buf"
    by (simp add: zeros_def)
  obtain p1 p2 where p: "fioctl (aesd_file K) ?st pos d = Some (p1, d)" "fioctl (aesd_file K) ?st p1 d = Some (p2, d)"
    using seek by meson
  have prefix: "take 19 ?buf = seekto_prefix" "seek_text c k \<noteq> []" "take n (seek_text c k) \<noteq> []"
    using seek_text_facts(2,5) assms(6) by simp_all
  have cover: "take n (seek_text c k) @ drop (length (take n (seek_text c k))) ?buf = ?buf"
    using again assms(7) by (simp add: min_def)
  have parse2: "parse_seekto ?buf ?st = Some ?st" using parse[of ?st] by simp
  have "recv_loop (aesd_file K) [take n (seek_text c k)] ?buf ?st p1 d = Some (p2, d)"
    using recv_command[OF prefix(3) cover prefix(1) parse2 p(2), of "[]"]
    by (simp del: recv_loop.simps(2))
  then show ?thesis
    using recv_command[OF prefix(2) buf prefix(1) parse p(1)] by (simp del: recv_loop.simps(2))
qed

theorem stale_command_swallows_data_witness:
  "\<exists>pos'. recv_loop (aesd_file endless_kernel) [bytes_of ''AESDCHAR_IOCSEEKTO:0,1'', bytes_of ''A'']
      (replicate SOCK_BUFFER_SIZE 0) \<lparr>write_cmd = 0, write_cmd_offset = 0\<rparr> 0 demo_dev = Some (pos', demo_dev)"
proof -
  have "seek_text 0 1 = bytes_of ''AESDCHAR_IOCSEEKTO:0,1''"
    by (simp add: seek_text_def seekto_prefix_def bytes_of_def print_int_def print_nat.simps digit_def)
  then show ?thesis
    using stale_command_swallows_data[OF demo_dev_facts(1), of 0 1 1 endless_kernel "\<lparr>write_cmd = 0, write_cmd_offset = 0\<rparr>" 0]
    by (simp add: demo_dev_facts bytes_of_def)
qed

end
