(* ===== verification/Slist.thy ===== *)
theory Slist
  imports Prelude
begin

text \<open>
  Singly linked lists of \<open>server/queue.h\<close> (the \<open>SLIST\<close> macros). A list head holds the
  address of the first element, \<open>sle_next\<close> holds the link field of every allocated element
  by its address; address 0 is \<open>NULL\<close>. Reading or writing the field of an address that is
  not allocated is undefined (\<open>None\<close>). The locale \<open>linked_list\<close> states what the users of a
  list rely on; it is interpreted on the macros at the end.
\<close>

type_synonym ptr = nat

record slist =
  slh_first :: ptr
  sle_next :: "ptr \<Rightarrow> ptr option"

section \<open>The macros\<close>

definition SLIST_END :: ptr where
  "SLIST_END = 0"

definition SLIST_FIRST :: "slist \<Rightarrow> ptr" where
  "SLIST_FIRST s = slh_first s"

definition SLIST_NEXT :: "slist \<Rightarrow> ptr \<Rightarrow> ptr outcome" where
  "SLIST_NEXT s elm = sle_next s elm"

definition SLIST_EMPTY :: "slist \<Rightarrow> bool" where
  "SLIST_EMPTY s \<longleftrightarrow> slh_first s = SLIST_END"

definition set_next :: "ptr \<Rightarrow> ptr \<Rightarrow> slist \<Rightarrow> slist outcome" where
  "set_next elm p s =
     (if elm \<in> dom (sle_next s) then Some (s\<lparr>sle_next := (sle_next s)(elm \<mapsto> p)\<rparr>) else None)"

definition SLIST_INIT :: "slist \<Rightarrow> slist" where
  "SLIST_INIT s = s\<lparr>slh_first := SLIST_END\<rparr>"

definition SLIST_INSERT_HEAD :: "ptr \<Rightarrow> slist \<Rightarrow> slist outcome" where
  "SLIST_INSERT_HEAD elm s =
     map_option (\<lambda>s1. s1\<lparr>slh_first := elm\<rparr>) (set_next elm (slh_first s) s)"

definition SLIST_INSERT_AFTER :: "ptr \<Rightarrow> ptr \<Rightarrow> slist \<Rightarrow> slist outcome" where
  "SLIST_INSERT_AFTER slistelm elm s =
     Option.bind (SLIST_NEXT s slistelm) (\<lambda>n.
     Option.bind (set_next elm n s) (\<lambda>s1. set_next slistelm elm s1))"

definition SLIST_REMOVE_HEAD :: "slist \<Rightarrow> slist outcome" where
  "SLIST_REMOVE_HEAD s =
     map_option (\<lambda>n. s\<lparr>slh_first := n\<rparr>) (sle_next s (slh_first s))"

definition SLIST_REMOVE_AFTER :: "ptr \<Rightarrow> slist \<Rightarrow> slist outcome" where
  "SLIST_REMOVE_AFTER slistelm s =
     Option.bind (SLIST_NEXT s slistelm) (\<lambda>n.
     Option.bind (SLIST_NEXT s n) (\<lambda>nn. set_next slistelm nn s))"

text \<open>The loop of \<open>SLIST_REMOVE\<close>: the element whose link field is \<open>elm\<close>.\<close>

partial_function (option) remove_search :: "slist \<Rightarrow> ptr \<Rightarrow> ptr \<Rightarrow> ptr outcome" where
  "remove_search s elm curelm =
     Option.bind (sle_next s curelm) (\<lambda>n.
       if n \<noteq> elm then remove_search s elm n else Some curelm)"

definition SLIST_REMOVE :: "ptr \<Rightarrow> slist \<Rightarrow> slist outcome" where
  "SLIST_REMOVE elm s =
     (if slh_first s = elm then SLIST_REMOVE_HEAD s
      else Option.bind (remove_search s elm (slh_first s)) (\<lambda>curelm. SLIST_REMOVE_AFTER curelm s))"

definition SLIST_SWAP :: "ptr \<times> ptr \<Rightarrow> ptr \<times> ptr" where
  "SLIST_SWAP heads = (let swap_first = fst heads in (snd heads, swap_first))"

text \<open>
  \<open>SLIST_FOREACH\<close>: the elements visited from \<open>var\<close> on. \<open>SLIST_FOREACH_SAFE\<close> reads the link
  before the body runs, so that the body may release the element; the state \<open>'s\<close> is that
  of the surrounding program, \<open>nxt\<close> reads the link fields in it.
\<close>

partial_function (option) SLIST_FOREACH :: "slist \<Rightarrow> ptr \<Rightarrow> ptr list outcome" where
  "SLIST_FOREACH s var =
     (if var = 0 then Some []
      else Option.bind (sle_next s var) (\<lambda>n.
           Option.bind (SLIST_FOREACH s n) (\<lambda>vs. Some (var # vs))))"

partial_function (option) SLIST_FOREACH_SAFE ::
  "('s \<Rightarrow> ptr \<Rightarrow> ptr option) \<Rightarrow> (ptr \<Rightarrow> 's \<Rightarrow> 's option) \<Rightarrow> ptr \<Rightarrow> 's \<Rightarrow> 's outcome" where
  "SLIST_FOREACH_SAFE nxt body var s =
     (if var = 0 then Some s
      else Option.bind (nxt s var) (\<lambda>tvar.
           Option.bind (body var s) (\<lambda>s1. SLIST_FOREACH_SAFE nxt body tvar s1)))"

section \<open>The list a head denotes\<close>

fun chain :: "(ptr \<Rightarrow> ptr option) \<Rightarrow> ptr \<Rightarrow> ptr list \<Rightarrow> ptr \<Rightarrow> bool" where
  "chain h p [] q \<longleftrightarrow> p = q"
| "chain h p (x # xs) q \<longleftrightarrow> p = x \<and> x \<noteq> 0 \<and> (\<exists>n. h x = Some n \<and> chain h n xs q)"

definition slist_rep :: "slist \<Rightarrow> ptr list \<Rightarrow> bool" where
  "slist_rep s xs \<longleftrightarrow> chain (sle_next s) (slh_first s) xs 0 \<and> distinct xs"

lemma chain_append: "chain h p (xs @ ys) q \<longleftrightarrow> (\<exists>r. chain h p xs r \<and> chain h r ys q)"
  by (induction xs arbitrary: p) auto

lemma chain_upd [simp]: "x \<notin> set xs \<Longrightarrow> chain (h(x := v)) p xs q = chain h p xs q"
  by (induction xs arbitrary: p) auto

lemma chain_nonzero: "chain h p xs q \<Longrightarrow> 0 \<notin> set xs"
  by (induction xs arbitrary: p) auto

lemma chain_dom: "chain h p xs q \<Longrightarrow> set xs \<subseteq> dom h"
  by (induction xs arbitrary: p) auto

lemma chain_hd: "chain h p xs 0 \<Longrightarrow> p = (case xs of [] \<Rightarrow> 0 | x # _ \<Rightarrow> x)"
  by (cases xs) auto

lemma chain_unique: "chain h p xs 0 \<Longrightarrow> chain h p ys 0 \<Longrightarrow> xs = ys"
proof (induction xs arbitrary: p ys)
  case Nil
  then show ?case by (cases ys) auto
next
  case (Cons x xs)
  then show ?case by (cases ys) auto
qed

lemma slist_rep_first: "slist_rep s xs \<Longrightarrow> SLIST_FIRST s = (case xs of [] \<Rightarrow> 0 | x # _ \<Rightarrow> x)"
  by (auto simp: slist_rep_def SLIST_FIRST_def dest: chain_hd)

lemma slist_rep_unique: "slist_rep s xs \<Longrightarrow> slist_rep s ys \<Longrightarrow> xs = ys"
  by (auto simp: slist_rep_def intro: chain_unique)

lemma slist_rep_empty: "slist_rep s xs \<Longrightarrow> SLIST_EMPTY s \<longleftrightarrow> xs = []"
  by (cases xs) (auto simp: slist_rep_def SLIST_EMPTY_def SLIST_END_def)

lemma slist_rep_init: "slist_rep (SLIST_INIT s) []"
  by (simp add: slist_rep_def SLIST_INIT_def SLIST_END_def)

lemma slist_init_next [simp]: "sle_next (SLIST_INIT s) = sle_next s"
  by (simp add: SLIST_INIT_def)

lemma slist_insert_head:
  assumes "slist_rep s xs" and "e \<in> dom (sle_next s)" and "e \<noteq> 0" and "e \<notin> set xs"
  shows "\<exists>s'. SLIST_INSERT_HEAD e s = Some s' \<and> slist_rep s' (e # xs) \<and>
    dom (sle_next s') = dom (sle_next s)"
  using assms by (auto simp: SLIST_INSERT_HEAD_def set_next_def slist_rep_def)

lemma slist_remove_head:
  assumes "slist_rep s (x # xs)"
  shows "\<exists>s'. SLIST_REMOVE_HEAD s = Some s' \<and> slist_rep s' xs \<and> sle_next s' = sle_next s"
  using assms by (auto simp: SLIST_REMOVE_HEAD_def slist_rep_def)

text \<open>Splitting the list at an element.\<close>

lemma chain_split:
  "chain h p (xs @ x # ys) 0 \<longleftrightarrow>
     (\<exists>n. chain h p xs x \<and> x \<noteq> 0 \<and> h x = Some n \<and> chain h n ys 0)"
  by (auto simp: chain_append)

lemma slist_insert_after:
  assumes "slist_rep s (xs @ x # ys)" and "e \<in> dom (sle_next s)" and "e \<noteq> 0"
    and "e \<notin> set (xs @ x # ys)"
  shows "\<exists>s'. SLIST_INSERT_AFTER x e s = Some s' \<and> slist_rep s' (xs @ x # e # ys) \<and>
    dom (sle_next s') = dom (sle_next s)"
proof -
  obtain n where n: "chain (sle_next s) (slh_first s) xs x" "x \<noteq> 0" "sle_next s x = Some n"
    "chain (sle_next s) n ys 0" "distinct (xs @ x # ys)"
    using assms(1) by (auto simp: slist_rep_def chain_split)
  let ?h = "((sle_next s)(e \<mapsto> n))(x \<mapsto> e)"
  have "SLIST_INSERT_AFTER x e s = Some (s\<lparr>sle_next := ?h\<rparr>)"
    using n(3) assms(2) by (auto simp: SLIST_INSERT_AFTER_def SLIST_NEXT_def set_next_def)
  moreover have "slist_rep (s\<lparr>sle_next := ?h\<rparr>) (xs @ x # e # ys)"
    using n assms(3,4) by (auto simp: slist_rep_def chain_split)
  moreover have "dom ?h = dom (sle_next s)" using n(3) assms(2) by auto
  ultimately show ?thesis by auto
qed

lemma slist_remove_after:
  assumes "slist_rep s (xs @ x # y # ys)"
  shows "\<exists>s'. SLIST_REMOVE_AFTER x s = Some s' \<and> slist_rep s' (xs @ x # ys) \<and>
    dom (sle_next s') = dom (sle_next s)"
proof -
  obtain n where n: "chain (sle_next s) (slh_first s) xs x" "x \<noteq> 0" "sle_next s x = Some y"
    "sle_next s y = Some n" "chain (sle_next s) n ys 0" "distinct (xs @ x # y # ys)"
    using assms by (auto simp: slist_rep_def chain_split)
  let ?h = "(sle_next s)(x \<mapsto> n)"
  have "SLIST_REMOVE_AFTER x s = Some (s\<lparr>sle_next := ?h\<rparr>)"
    using n(3,4) by (auto simp: SLIST_REMOVE_AFTER_def SLIST_NEXT_def set_next_def)
  moreover have "slist_rep (s\<lparr>sle_next := ?h\<rparr>) (xs @ x # ys)"
    using n by (auto simp: slist_rep_def chain_split)
  moreover have "dom ?h = dom (sle_next s)" using n(3) by auto
  ultimately show ?thesis by auto
qed

lemma remove_search_found:
  assumes "chain (sle_next s) p (xs @ [x, e]) r" and "e \<notin> set (xs @ [x])"
  shows "remove_search s e p = Some x"
  using assms
proof (induction xs arbitrary: p)
  case Nil
  then show ?case by (auto simp: remove_search.simps[of s e x])
next
  case (Cons y xs)
  then obtain n where n: "sle_next s y = Some n" "chain (sle_next s) n (xs @ [x, e]) r" "p = y" by auto
  have "n \<noteq> e"
  proof (cases xs)
    case Nil
    with n Cons.prems show ?thesis by (auto split: if_splits)
  next
    case (Cons z zs)
    with n Cons.prems(2) \<open>xs = z # zs\<close> show ?thesis by auto
  qed
  with Cons n show ?case by (simp add: remove_search.simps[of s e y])
qed

lemma slist_remove:
  assumes "slist_rep s (xs @ e # ys)"
  shows "\<exists>s'. SLIST_REMOVE e s = Some s' \<and> slist_rep s' (xs @ ys) \<and>
    dom (sle_next s') = dom (sle_next s)"
proof (cases xs rule: rev_cases)
  case Nil
  then have "slh_first s = e" using assms by (simp add: slist_rep_def)
  then show ?thesis
    using slist_remove_head[of s e ys] assms Nil by (auto simp: SLIST_REMOVE_def)
next
  case (snoc zs x)
  have rep: "slist_rep s (zs @ x # e # ys)" using assms snoc by simp
  have "slh_first s \<noteq> e"
    using rep by (cases zs) (auto simp: slist_rep_def)
  moreover have "remove_search s e (slh_first s) = Some x"
    using rep by (intro remove_search_found[where r = "case ys of [] \<Rightarrow> 0 | y # _ \<Rightarrow> y" and xs = zs])
       (auto simp: slist_rep_def chain_append dest: chain_hd)
  ultimately show ?thesis
    using slist_remove_after[OF rep] snoc by (simp add: SLIST_REMOVE_def)
qed

lemma slist_foreach: "chain (sle_next s) p xs 0 \<Longrightarrow> SLIST_FOREACH s p = Some xs"
  by (induction xs arbitrary: p) (auto simp: SLIST_FOREACH.simps)

text \<open>A body that leaves the links of the later elements alone runs once per element, in order.\<close>

lemma slist_foreach_safe:
  assumes "\<And>x s s' y. body x s = Some s' \<Longrightarrow> y \<noteq> x \<Longrightarrow> nxt s' y = nxt s y"
    and "chain (nxt s) p xs 0" and "distinct xs"
  shows "SLIST_FOREACH_SAFE nxt body p s = run_adds (\<lambda>s x. body x s) s xs"
  using assms(2,3)
proof (induction xs arbitrary: p s)
  case Nil
  then show ?case by (simp add: SLIST_FOREACH_SAFE.simps)
next
  case (Cons x xs)
  then obtain n where n: "p = x" "x \<noteq> 0" "nxt s x = Some n" "chain (nxt s) n xs 0" by auto
  show ?case
  proof (cases "body x s")
    case None
    with n show ?thesis by (subst SLIST_FOREACH_SAFE.simps) simp
  next
    case (Some s')
    have "chain (nxt s') n xs 0"
      using n(4) Cons.prems(2)
    proof (induction xs arbitrary: n)
      case (Cons y ys)
      then show ?case using assms(1)[OF Some, of y] by auto
    qed simp
    with Some n Cons show ?thesis by (subst SLIST_FOREACH_SAFE.simps) simp
  qed
qed

section \<open>The interface of a list\<close>

text \<open>
  \<open>rep s xs\<close>: the list denotes the elements \<open>xs\<close>; \<open>nodes s\<close> are the allocated elements,
  \<open>release\<close> gives one back to the allocator.
\<close>

locale linked_list =
  fixes rep :: "'s \<Rightarrow> ptr list \<Rightarrow> bool"
    and nodes :: "'s \<Rightarrow> ptr set"
    and init :: "'s \<Rightarrow> 's"
    and first :: "'s \<Rightarrow> ptr"
    and empty :: "'s \<Rightarrow> bool"
    and insert_head :: "ptr \<Rightarrow> 's \<Rightarrow> 's option"
    and remove :: "ptr \<Rightarrow> 's \<Rightarrow> 's option"
  assumes rep_unique: "rep s xs \<Longrightarrow> rep s ys \<Longrightarrow> xs = ys"
    and rep_distinct: "rep s xs \<Longrightarrow> distinct xs"
    and rep_nodes: "rep s xs \<Longrightarrow> set xs \<subseteq> nodes s"
    and init_rep: "rep (init s) []"
    and init_nodes: "nodes (init s) = nodes s"
    and first_rep: "rep s xs \<Longrightarrow> first s = (case xs of [] \<Rightarrow> 0 | x # _ \<Rightarrow> x)"
    and empty_rep: "rep s xs \<Longrightarrow> empty s \<longleftrightarrow> xs = []"
    and insert_head_rep: "rep s xs \<Longrightarrow> e \<in> nodes s \<Longrightarrow> e \<noteq> 0 \<Longrightarrow> e \<notin> set xs \<Longrightarrow>
      \<exists>s'. insert_head e s = Some s' \<and> rep s' (e # xs) \<and> nodes s' = nodes s"
    and remove_rep: "rep s (xs @ e # ys) \<Longrightarrow>
      \<exists>s'. remove e s = Some s' \<and> rep s' (xs @ ys) \<and> nodes s' = nodes s"
begin

text \<open>Inserting at the head one by one builds the reversed list.\<close>

lemma insert_all:
  assumes "rep s xs" and "set es \<subseteq> nodes s - {0}" and "distinct es" and "set es \<inter> set xs = {}"
  shows "\<exists>s'. run_adds (\<lambda>s e. insert_head e s) s es = Some s' \<and> rep s' (rev es @ xs) \<and>
    nodes s' = nodes s"
  using assms
proof (induction es arbitrary: s xs)
  case Nil
  then show ?case by simp
next
  case (Cons e es)
  then obtain s1 where s1: "insert_head e s = Some s1" "rep s1 (e # xs)" "nodes s1 = nodes s"
    using insert_head_rep[of s xs e] by auto
  with Cons.IH[of s1 "e # xs"] Cons.prems show ?case by auto
qed

text \<open>Removing what was inserted restores the list.\<close>

lemma remove_inserted:
  assumes "rep s xs" and "e \<in> nodes s" and "e \<noteq> 0" and "e \<notin> set xs"
  shows "\<exists>s1 s2. insert_head e s = Some s1 \<and> remove e s1 = Some s2 \<and> rep s2 xs"
  using insert_head_rep[OF assms] remove_rep[of _ "[]" e xs] by fastforce

end

text \<open>A list whose first element can be removed without naming it.\<close>

locale linked_stack = linked_list rep nodes init first empty insert_head remove
  for rep :: "'s \<Rightarrow> ptr list \<Rightarrow> bool"
    and nodes :: "'s \<Rightarrow> ptr set"
    and init :: "'s \<Rightarrow> 's"
    and first :: "'s \<Rightarrow> ptr"
    and empty :: "'s \<Rightarrow> bool"
    and insert_head :: "ptr \<Rightarrow> 's \<Rightarrow> 's option"
    and remove :: "ptr \<Rightarrow> 's \<Rightarrow> 's option" +
  fixes remove_head :: "'s \<Rightarrow> 's option"
    and release :: "ptr \<Rightarrow> 's \<Rightarrow> 's option"
  assumes remove_head_rep: "rep s (x # xs) \<Longrightarrow>
      \<exists>s'. remove_head s = Some s' \<and> rep s' xs \<and> nodes s' = nodes s"
    and release_rep: "rep s xs \<Longrightarrow> e \<in> nodes s \<Longrightarrow> e \<notin> set xs \<Longrightarrow>
      \<exists>s'. release e s = Some s' \<and> rep s' xs \<and> nodes s' = nodes s - {e}"

text \<open>The loop that empties a list: take the first element off and release it.\<close>

partial_function (option) drain ::
  "('s \<Rightarrow> bool) \<Rightarrow> ('s \<Rightarrow> ptr) \<Rightarrow> ('s \<Rightarrow> 's option) \<Rightarrow> (ptr \<Rightarrow> 's \<Rightarrow> 's option) \<Rightarrow> 's \<Rightarrow> 's outcome"
  where
  "drain is_nil first remove_head release s =
     (if is_nil s then Some s
      else Option.bind (remove_head s) (\<lambda>s1.
           Option.bind (release (first s) s1) (\<lambda>s2. drain is_nil first remove_head release s2)))"

context linked_stack
begin

lemma drain_all:
  assumes "rep s xs"
  shows "\<exists>s'. drain empty first remove_head release s = Some s' \<and> rep s' [] \<and>
    nodes s' = nodes s - set xs"
  using assms
proof (induction xs arbitrary: s)
  case Nil
  then show ?case using empty_rep[OF Nil] by (subst drain.simps) simp
next
  case (Cons x xs)
  have "\<not> empty s" "first s = x" "x \<notin> set xs" "x \<in> nodes s"
    using empty_rep[OF Cons.prems] first_rep[OF Cons.prems] rep_distinct[OF Cons.prems]
      rep_nodes[OF Cons.prems] by auto
  moreover obtain s1 where s1: "remove_head s = Some s1" "rep s1 xs" "nodes s1 = nodes s"
    using remove_head_rep[OF Cons.prems] by blast
  ultimately obtain s2 where s2: "release x s1 = Some s2" "rep s2 xs" "nodes s2 = nodes s - {x}"
    using release_rep[OF s1(2), of x] by auto
  obtain s' where "drain empty first remove_head release s2 = Some s'" "rep s' []"
    "nodes s' = nodes s2 - set xs"
    using Cons.IH[OF s2(2)] by blast
  then show ?case
    using \<open>\<not> empty s\<close> \<open>first s = x\<close> s1(1) s2 by (subst drain.simps) auto
qed

end

definition slist_free :: "ptr \<Rightarrow> slist \<Rightarrow> slist outcome" where
  "slist_free p s =
     (if p \<in> dom (sle_next s) then Some (s\<lparr>sle_next := (sle_next s)(p := None)\<rparr>) else None)"

interpretation sl: linked_stack slist_rep "\<lambda>s. dom (sle_next s)" SLIST_INIT SLIST_FIRST SLIST_EMPTY
  SLIST_INSERT_HEAD SLIST_REMOVE SLIST_REMOVE_HEAD slist_free
proof unfold_locales
  show "\<exists>s'. slist_free e s = Some s' \<and> slist_rep s' xs \<and> dom (sle_next s') = dom (sle_next s) - {e}"
    if "slist_rep s xs" "e \<in> dom (sle_next s)" "e \<notin> set xs" for s xs e
    using that by (simp add: slist_free_def slist_rep_def)
  show "\<exists>s'. SLIST_REMOVE_HEAD s = Some s' \<and> slist_rep s' xs \<and> dom (sle_next s') = dom (sle_next s)"
    if "slist_rep s (x # xs)" for s x xs
    using slist_remove_head[OF that] by auto
  show "set xs \<subseteq> dom (sle_next s)" if "slist_rep s xs" for s xs
    using that chain_dom unfolding slist_rep_def by blast
  show "distinct xs" if "slist_rep s xs" for s xs
    using that by (simp add: slist_rep_def)
qed (simp_all add: slist_rep_unique slist_rep_init slist_rep_first slist_rep_empty slist_insert_head
    slist_remove)

end
