(* ===== verification/Server_Main.thy ===== *)
theory Server_Main
  imports Slist
begin

text \<open>
  The main thread of \<open>server/aesdsocket.c\<close> (with \<open>USE_AESD_CHAR_DEVICE\<close>): start, one round of
  the accept loop, and the signal handler that ends the server. The list of threads is that of
  \<open>Slist\<close>. What the operating system returns is a parameter of the operation that uses it.
  \<open>None\<close> is undefined behaviour; that the signal handler waits for a thread for ever is a result
  of its own (\<open>Waits\<close>).
\<close>

section \<open>State\<close>

text \<open>
  A connection thread that waits for the mutex, that waits for its client inside the protected
  part (\<open>recv\<close>), that answers behind it (\<open>read\<close>, \<open>send\<close>, \<open>close\<close>), or that has ended.
  \<open>phase t = None\<close>: no thread was ever created with the id \<open>t\<close>. \<open>cancelled\<close> are the threads
  with a cancellation request they have not acted on.
\<close>

datatype thread_phase = Locking | Holding | Unlocked | Ended

record server =
  node_list :: slist
  node_socket :: "ptr \<Rightarrow> int"
  node_thread :: "ptr \<Rightarrow> nat"
  phase :: "nat \<Rightarrow> thread_phase option"
  cancelled :: "nat set"
  mutex_owner :: "nat option"
  mutex_live :: bool
  server_socket :: int
  socket_open :: bool
  daemonized :: bool
  exit_status :: "int option"

definition exits :: "int \<Rightarrow> server \<Rightarrow> server" where
  "exits status s = s\<lparr>exit_status := Some status\<rparr>"

definition SIGINT :: int where
  "SIGINT = 2"

definition SIGTERM :: int where
  "SIGTERM = 15"

section \<open>Start\<close>

text \<open>
  \<open>main\<close> up to the accept loop. The results of \<open>socket\<close>, \<open>bind\<close> and \<open>listen\<close> are parameters; those
  of \<open>setsockopt\<close> and \<open>daemon\<close> are ignored by the code. \<open>argv\<close> is the list of the arguments.
\<close>

definition server_init :: "int \<Rightarrow> int \<Rightarrow> int \<Rightarrow> string list \<Rightarrow> server \<Rightarrow> server" where
  "server_init socket_result bind_result listen_result argv s =
     (let s1 = s\<lparr>node_list := SLIST_INIT (node_list s), server_socket := socket_result\<rparr> in
      if socket_result < 0 then exits 1 s1
      else
        let s2 = s1\<lparr>socket_open := True\<rparr> in
        if bind_result < 0 then exits 1 s2
        else if listen_result < 0 then exits 1 s2
        else if length argv = 2 \<and> ''-d'' = argv ! 1 then s2\<lparr>daemonized := True\<rparr>
        else s2)"

section \<open>Accepting a connection\<close>

text \<open>
  Sizes on a 64-bit machine: a node has a socket (4 bytes and 4 of padding), a thread id and
  a link. The request is for the size of the pointer \<open>node\<close>, not of the node.
\<close>

definition node_request :: nat where
  "node_request = 8"

definition socket_fd_end :: nat where
  "socket_fd_end = 4"

definition thread_id_end :: nat where
  "thread_id_end = 16"

definition entries_end :: nat where
  "entries_end = 24"

text \<open>
  One round of the accept loop. \<open>block\<close> is the result of \<open>malloc\<close>: an address and the size of
  the memory that belongs to it; a store behind that size, or through \<open>NULL\<close>, is undefined. \<open>created\<close> is
  the result of \<open>pthread_create\<close>, \<open>tid\<close> the value of \<open>handler_thread\<close> behind the call: the new
  thread when \<open>created\<close> is 0, whatever was on the stack otherwise.
\<close>

definition accept_connection ::
  "int \<Rightarrow> (ptr \<times> nat) option \<Rightarrow> int \<Rightarrow> nat \<Rightarrow> server \<Rightarrow> server outcome" where
  "accept_connection client_socket block created tid s =
     (if client_socket < 0 then Some (exits 1 s)
      else case block of
        None \<Rightarrow> None
      | Some (node, room) \<Rightarrow>
          if room < socket_fd_end then None
          else
            let s1 = s\<lparr>node_socket := (node_socket s)(node := client_socket),
                   phase := (if created = 0 then (phase s)(tid \<mapsto> Locking) else phase s)\<rparr>
            in if created < 0 then Some (exits 1 s1)
               else if room < thread_id_end then None
               else
                 let s2 = s1\<lparr>node_thread := (node_thread s1)(node := tid)\<rparr> in
                 if room < entries_end then None
                 else map_option (\<lambda>l. s2\<lparr>node_list := l\<rparr>)
                        (SLIST_INSERT_HEAD node ((node_list s2)
                          \<lparr>sle_next := (sle_next (node_list s2))(node \<mapsto> 0)\<rparr>)))"

section \<open>The signal handler\<close>

text \<open>
  A thread acts on a cancellation request at its next cancellation point. A thread inside
  \<open>recv\<close>, \<open>read\<close>, \<open>send\<close> or \<open>close\<close> is at one and ends; there is no cleanup handler, so one that
  ends in \<open>recv\<close> leaves the mutex locked. \<open>pthread_mutex_lock\<close> is none: a thread that waits for
  the mutex keeps the request until the \<open>open\<close> behind it.
\<close>

definition pthread_cancel :: "nat \<Rightarrow> server \<Rightarrow> server outcome" where
  "pthread_cancel t s =
     (case phase s t of
        None \<Rightarrow> None
      | Some Locking \<Rightarrow> Some (s\<lparr>cancelled := insert t (cancelled s)\<rparr>)
      | Some Ended \<Rightarrow> Some s
      | Some _ \<Rightarrow> Some (s\<lparr>phase := (phase s)(t \<mapsto> Ended)\<rparr>))"

text \<open>
  A call goes on in a state, or waits for a thread for ever. A thread that has ended is joined at once. A
  thread that waits for a free mutex gets it, and ends at the \<open>open\<close> when it has been cancelled. A
  thread that waits for a taken mutex, and one that has not been cancelled and waits for its
  client, do not end by themselves.
\<close>

datatype progress = Goes_on server | Waits nat server

definition pthread_join :: "nat \<Rightarrow> server \<Rightarrow> progress outcome" where
  "pthread_join t s =
     (case phase s t of
        None \<Rightarrow> None
      | Some Ended \<Rightarrow> Some (Goes_on s)
      | Some Locking \<Rightarrow>
          if mutex_owner s = None \<and> t \<in> cancelled s
          then Some (Goes_on (s\<lparr>mutex_owner := Some t, phase := (phase s)(t \<mapsto> Ended)\<rparr>))
          else Some (Waits t s)
      | Some _ \<Rightarrow> Some (Waits t s))"

text \<open>Destroying a locked mutex is undefined.\<close>

definition pthread_mutex_destroy :: "server \<Rightarrow> server outcome" where
  "pthread_mutex_destroy s = (if mutex_owner s = None then Some (s\<lparr>mutex_live := False\<rparr>) else None)"

fun state_of :: "progress \<Rightarrow> server" where
  "state_of (Goes_on s) = s"
| "state_of (Waits t s) = s"

fun and_then :: "(server \<Rightarrow> progress outcome) \<Rightarrow> progress \<Rightarrow> progress outcome" where
  "and_then f (Goes_on s) = f s"
| "and_then f (Waits t s) = Some (Waits t s)"

definition handle_signal :: "int \<Rightarrow> server \<Rightarrow> progress outcome" where
  "handle_signal signal s =
     (if signal = SIGINT \<or> signal = SIGTERM then
        Option.bind (SLIST_FOREACH_SAFE (\<lambda>s. sle_next (node_list s))
            (\<lambda>node s. pthread_cancel (node_thread s node) s) (SLIST_FIRST (node_list s)) s) (\<lambda>s1.
        Option.bind (SLIST_FOREACH_SAFE (\<lambda>r. sle_next (node_list (state_of r)))
            (\<lambda>node. and_then (\<lambda>s. pthread_join (node_thread s node) s))
            (SLIST_FIRST (node_list s1)) (Goes_on s1))
        (and_then (\<lambda>s2.
        Option.bind (drain SLIST_EMPTY SLIST_FIRST SLIST_REMOVE_HEAD slist_free (node_list s2)) (\<lambda>l.
        map_option (\<lambda>s3. Goes_on (exits 0 (s3\<lparr>socket_open := False\<rparr>)))
          (pthread_mutex_destroy (s2\<lparr>node_list := l\<rparr>))))))
      else Some (Goes_on s))"

section \<open>Invariant\<close>

text \<open>
  The list holds the nodes \<open>ns\<close> and they are all the memory there is; every node belongs to
  a thread of its own; the thread inside the protected part, and no other, owns the mutex.
\<close>

definition server_inv :: "server \<Rightarrow> ptr list \<Rightarrow> bool" where
  "server_inv s ns \<longleftrightarrow> slist_rep (node_list s) ns \<and> dom (sle_next (node_list s)) = set ns \<and>
     inj_on (node_thread s) (set ns) \<and> node_thread s ` set ns = dom (phase s) \<and>
     (\<forall>t. phase s t = Some Holding \<longleftrightarrow> mutex_owner s = Some t)"

lemma accept_keeps_inv:
  assumes "server_inv s ns" and "0 \<le> fd" and "p \<noteq> 0" and "p \<notin> set ns" and "entries_end \<le> room"
    and "phase s tid = None"
  shows "\<exists>s'. accept_connection fd (Some (p, room)) 0 tid s = Some s' \<and> server_inv s' (p # ns) \<and>
    node_socket s' p = fd \<and> phase s' tid = Some Locking"
proof -
  let ?l = "(node_list s)\<lparr>sle_next := (sle_next (node_list s))(p \<mapsto> 0)\<rparr>"
  have inv: "slist_rep (node_list s) ns" "dom (sle_next (node_list s)) = set ns" "inj_on (node_thread s) (set ns)"
    "node_thread s ` set ns = dom (phase s)" "\<forall>t. phase s t = Some Holding \<longleftrightarrow> mutex_owner s = Some t"
    using assms(1) by (simp_all add: server_inv_def)
  have "slist_rep ?l ns" using inv(1) assms(4) by (simp add: slist_rep_def)
  then obtain l' where l': "SLIST_INSERT_HEAD p ?l = Some l'" "slist_rep l' (p # ns)"
    "dom (sle_next l') = dom (sle_next ?l)"
    using slist_insert_head[of ?l ns p] assms(3,4) by auto
  have room: "\<not> room < socket_fd_end" "\<not> room < thread_id_end" "\<not> room < entries_end"
    using assms(5) by (simp_all add: socket_fd_end_def thread_id_end_def entries_end_def)
  let ?s' = "s\<lparr>node_socket := (node_socket s)(p := fd), phase := (phase s)(tid \<mapsto> Locking),
    node_thread := (node_thread s)(p := tid), node_list := l'\<rparr>"
  have "accept_connection fd (Some (p, room)) 0 tid s = Some ?s'"
    using assms(2) room l'(1) by (simp add: accept_connection_def Let_def)
  moreover have "server_inv ?s' (p # ns)"
  proof -
    have tid: "tid \<notin> node_thread s ` set ns" using inv(4) assms(6) by auto
    have "node_thread ?s' ` set (p # ns) = insert tid (dom (phase s))"
      using inv(4) assms(4) by (auto simp: image_iff)
    moreover have "inj_on (node_thread ?s') (set (p # ns))"
      using inv(3) assms(4) tid by (auto simp: inj_on_def)
    ultimately show ?thesis
      using l'(2,3) inv(2,5) inv(5)[rule_format, of tid] assms(6) by (auto simp: server_inv_def)
  qed
  ultimately show ?thesis by simp
qed

section \<open>Cancelling and joining\<close>

text \<open>The state after all threads of the nodes \<open>ns\<close> have been sent a cancellation request.\<close>

definition all_cancelled :: "server \<Rightarrow> ptr list \<Rightarrow> server" where
  "all_cancelled s ns = s\<lparr>
     phase := (\<lambda>t. if t \<in> node_thread s ` set ns \<and> phase s t \<noteq> Some Locking then Some Ended else phase s t),
     cancelled := cancelled s \<union> {t \<in> node_thread s ` set ns. phase s t = Some Locking}\<rparr>"

lemma cancel_all:
  assumes "\<forall>x\<in>set ns. phase s (node_thread s x) \<noteq> None"
  shows "run_adds (\<lambda>s x. pthread_cancel (node_thread s x) s) s ns = Some (all_cancelled s ns)"
  using assms
proof (induction ns arbitrary: s)
  case (Cons x ns)
  let ?t = "node_thread s x"
  obtain ph where ph: "phase s ?t = Some ph" using Cons.prems by auto
  define s1 where "s1 = (if ph = Locking then s\<lparr>cancelled := insert ?t (cancelled s)\<rparr>
    else s\<lparr>phase := (phase s)(?t \<mapsto> Ended)\<rparr>)"
  have step: "pthread_cancel ?t s = Some s1"
    using ph by (cases ph) (simp_all add: pthread_cancel_def s1_def fun_upd_idem)
  have "\<forall>x\<in>set ns. phase s1 (node_thread s1 x) \<noteq> None" using Cons.prems by (auto simp: s1_def)
  moreover have "all_cancelled s1 ns = all_cancelled s (x # ns)"
    using ph by (auto simp: all_cancelled_def s1_def intro!: server.equality ext)
  ultimately show ?case using Cons.IH[of s1] step by simp
qed (simp add: all_cancelled_def)

lemma join_ended:
  assumes "\<forall>x\<in>set ns. phase s (node_thread s x) = Some Ended"
  shows "run_adds (\<lambda>r x. and_then (\<lambda>s. pthread_join (node_thread s x) s) r) (Goes_on s) ns = Some (Goes_on s)"
  using assms by (induction ns) (simp_all add: pthread_join_def)

lemma join_waits: "run_adds (\<lambda>r x. and_then (f x) r) (Waits t s) ns = Some (Waits t s)"
  by (induction ns) simp_all

text \<open>While the mutex is taken, joining ends at the first thread that waits for it.\<close>

lemma join_blocks:
  assumes "mutex_owner s \<noteq> None" and "\<forall>x\<in>set ns. phase s (node_thread s x) \<in> {Some Locking, Some Ended}"
    and "\<exists>x\<in>set ns. phase s (node_thread s x) = Some Locking"
  shows "\<exists>x\<in>set ns. phase s (node_thread s x) = Some Locking \<and>
    run_adds (\<lambda>r x. and_then (\<lambda>s. pthread_join (node_thread s x) s) r) (Goes_on s) ns
      = Some (Waits (node_thread s x) s)"
  using assms(2,3)
proof (induction ns)
  case (Cons y ns)
  show ?case
  proof (cases "phase s (node_thread s y) = Some Locking")
    case True
    then show ?thesis using assms(1) by (auto simp: pthread_join_def join_waits)
  next
    case False
    then have "phase s (node_thread s y) = Some Ended" using Cons.prems(1) by auto
    then show ?thesis using Cons by (auto simp: pthread_join_def)
  qed
qed simp

text \<open>The two loops of the handler, up to the release of the nodes.\<close>

lemma cancel_loop:
  assumes "slist_rep (node_list s) ns" and "\<forall>x\<in>set ns. phase s (node_thread s x) \<noteq> None"
  shows "SLIST_FOREACH_SAFE (\<lambda>s. sle_next (node_list s)) (\<lambda>node s. pthread_cancel (node_thread s node) s)
    (SLIST_FIRST (node_list s)) s = Some (all_cancelled s ns)"
proof -
  have "node_list s' = node_list s" if "pthread_cancel t s = Some s'" for t s s'
    using that by (auto simp: pthread_cancel_def split: option.splits thread_phase.splits)
  then have "SLIST_FOREACH_SAFE (\<lambda>s. sle_next (node_list s)) (\<lambda>node s. pthread_cancel (node_thread s node) s)
    (SLIST_FIRST (node_list s)) s = run_adds (\<lambda>s x. pthread_cancel (node_thread s x) s) s ns"
    using assms(1) by (intro slist_foreach_safe) (auto simp: slist_rep_def SLIST_FIRST_def)
  then show ?thesis using cancel_all[OF assms(2)] by simp
qed

lemma join_loop:
  assumes "slist_rep (node_list s) ns"
  shows "SLIST_FOREACH_SAFE (\<lambda>r. sle_next (node_list (state_of r)))
      (\<lambda>node. and_then (\<lambda>s. pthread_join (node_thread s node) s)) (SLIST_FIRST (node_list s)) (Goes_on s)
    = run_adds (\<lambda>r x. and_then (\<lambda>s. pthread_join (node_thread s x) s) r) (Goes_on s) ns"
proof -
  have "node_list (state_of r') = node_list (state_of r)"
    if "and_then (\<lambda>s. pthread_join (node_thread s x) s) r = Some r'" for x r r'
    using that by (cases r) (auto simp: pthread_join_def split: option.splits thread_phase.splits if_splits)
  then show ?thesis
    using assms by (intro slist_foreach_safe) (auto simp: slist_rep_def SLIST_FIRST_def)
qed

section \<open>Properties\<close>

text \<open>
  C31: A connection is recorded correctly only because the allocator gives more than was asked
  for: with a block of exactly the requested size the store to \<open>thread_id\<close> is out of
  bounds. With 24 bytes or more the invariant of the list of threads is kept, and the new node is its
  first, with the socket and the thread of the connection.
\<close>

theorem accept_needs_larger_block:
  assumes "server_inv s ns" and "0 \<le> fd" and "p \<noteq> 0" and "p \<notin> set ns" and "phase s tid = None"
  shows "accept_connection fd (Some (p, node_request)) 0 tid s = None \<and>
    (entries_end \<le> n \<longrightarrow>
      (\<exists>s'. accept_connection fd (Some (p, n)) 0 tid s = Some s' \<and> server_inv s' (p # ns) \<and>
        node_socket s' p = fd \<and> phase s' tid = Some Locking))"
  using accept_keeps_inv[OF assms(1-4) _ assms(5)] assms(2)
  by (auto simp: accept_connection_def Let_def node_request_def socket_fd_end_def thread_id_end_def)

definition no_server :: server where
  "no_server = \<lparr>node_list = \<lparr>slh_first = 0, sle_next = Map.empty\<rparr>, node_socket = (\<lambda>_. 0), node_thread = (\<lambda>_. 0),
     phase = Map.empty, cancelled = {}, mutex_owner = None, mutex_live = True, server_socket = 0, socket_open = False,
     daemonized = False, exit_status = None\<rparr>"

lemma no_server_inv: "server_inv no_server []"
  by (simp add: server_inv_def no_server_def slist_rep_def)

theorem accept_needs_larger_block_witness:
  "accept_connection 4 (Some (64, 8)) 0 7 no_server = None \<and>
    (\<exists>s'. accept_connection 4 (Some (64, 24)) 0 7 no_server = Some s' \<and> server_inv s' [64])"
  using accept_needs_larger_block[OF no_server_inv, of 4 64 7 24]
  by (simp add: no_server_def node_request_def entries_end_def) blast

text \<open>
  The release of the nodes, and what the handler does once all threads have ended: the mutex
  must be free to be destroyed.
\<close>

lemma handler_end:
  assumes "server_inv s ns" and "signal \<in> {SIGINT, SIGTERM}" and "\<forall>t. phase s t \<noteq> Some Locking"
  shows "\<exists>l. slist_rep l [] \<and> dom (sle_next l) = {} \<and>
    handle_signal signal s = map_option (\<lambda>s3. Goes_on (exits 0 (s3\<lparr>socket_open := False\<rparr>)))
      (pthread_mutex_destroy ((all_cancelled s ns)\<lparr>node_list := l\<rparr>))"
proof -
  have inv: "slist_rep (node_list s) ns" "dom (sle_next (node_list s)) = set ns" "node_thread s ` set ns = dom (phase s)"
    using assms(1) by (simp_all add: server_inv_def)
  let ?s1 = "all_cancelled s ns"
  have known: "\<forall>x\<in>set ns. phase s (node_thread s x) \<noteq> None" using inv(3) by auto
  have s1: "node_list ?s1 = node_list s" "node_thread ?s1 = node_thread s"
    "\<forall>x\<in>set ns. phase ?s1 (node_thread ?s1 x) = Some Ended"
    using assms(3) by (auto simp: all_cancelled_def)
  obtain l where "drain SLIST_EMPTY SLIST_FIRST SLIST_REMOVE_HEAD slist_free (node_list s) = Some l"
    "slist_rep l []" "dom (sle_next l) = {}"
    using sl.drain_all[OF inv(1)] inv(2) by auto
  then show ?thesis
    using assms(2) cancel_loop[OF inv(1) known] join_loop[of ?s1 ns] join_ended[OF s1(3)] inv(1) s1(1)
    by (intro exI[of _ l]) (auto simp: handle_signal_def)
qed


text \<open>
  When a client is connected but has not sent its newline, and no other waits for the mutex, the
  same signal destroys the mutex while it is locked by a thread that has ended.
\<close>

lemma signal_destroys_locked_mutex:
  assumes "server_inv s ns" and "signal \<in> {SIGINT, SIGTERM}"
    and "\<forall>t. phase s t \<noteq> Some Locking" and "phase s t = Some Holding"
  shows "handle_signal signal s = None \<and> phase (all_cancelled s ns) t = Some Ended \<and>
    mutex_owner (all_cancelled s ns) = Some t"
proof -
  have "mutex_owner s = Some t" "t \<in> node_thread s ` set ns"
    using assms(1,4) by (auto simp: server_inv_def)
  then show ?thesis
    using handler_end[OF assms(1-3)] assms(4) by (auto simp: pthread_mutex_destroy_def all_cancelled_def)
qed

text \<open>
  A thread that answers a client, and one that has ended; the same with a thread that waits
  for data inside the protected part and one that waits for the mutex.
\<close>

definition busy_server :: server where
  "busy_server = no_server\<lparr>node_list := \<lparr>slh_first = 32, sle_next = [32 \<mapsto> 64, 64 \<mapsto> 0]\<rparr>,
     node_thread := (\<lambda>p. if p = 32 then 2 else 1), phase := [1 \<mapsto> Ended, 2 \<mapsto> Unlocked]\<rparr>"

definition stalled_server :: server where
  "stalled_server = busy_server\<lparr>phase := [1 \<mapsto> Holding, 2 \<mapsto> Locking], mutex_owner := Some 1\<rparr>"

lemma busy_inv: "server_inv busy_server [32, 64]" "server_inv stalled_server [32, 64]"
  by (auto simp: stalled_server_def busy_server_def no_server_def server_inv_def slist_rep_def inj_on_def split: if_splits)


text \<open>
  C30: When a client is connected but has not sent its newline, and another connection is
  waiting for the mutex, the same signal never ends the server: the cancellation ends the
  first thread while it owns the mutex, so nobody releases it, and the handler waits for ever for
  a thread that waits for the mutex, with its cancellation still pending.
\<close>

theorem signal_deadlock:
  assumes "server_inv s ns" and "signal \<in> {SIGINT, SIGTERM}" and "phase s t = Some Holding" and "phase s u = Some Locking"
  shows "\<exists>v s'. handle_signal signal s = Some (Waits v s') \<and>
    phase s' v = Some Locking \<and> v \<in> cancelled s' \<and>
    phase s' t = Some Ended \<and> mutex_owner s' = Some t \<and> exit_status s' = exit_status s"
proof -
  have inv: "slist_rep (node_list s) ns" "node_thread s ` set ns = dom (phase s)" "mutex_owner s = Some t"
    using assms(1,3) by (simp_all add: server_inv_def)
  let ?s1 = "all_cancelled s ns"
  have known: "\<forall>x\<in>set ns. phase s (node_thread s x) \<noteq> None" using inv(2) by auto
  have s1: "node_list ?s1 = node_list s" "node_thread ?s1 = node_thread s" "mutex_owner ?s1 = Some t"
    "exit_status ?s1 = exit_status s"
    "\<forall>x\<in>set ns. phase ?s1 (node_thread ?s1 x) \<in> {Some Locking, Some Ended}"
    "\<forall>x\<in>set ns. phase ?s1 (node_thread ?s1 x) = Some Locking \<longrightarrow> node_thread ?s1 x \<in> cancelled ?s1"
    using inv(3) by (auto simp: all_cancelled_def)
  have "u \<in> node_thread s ` set ns" "t \<in> node_thread s ` set ns" using inv(2) assms(3,4) by auto
  then have "\<exists>x\<in>set ns. phase ?s1 (node_thread ?s1 x) = Some Locking" "phase ?s1 t = Some Ended"
    using assms(3,4) by (auto simp: all_cancelled_def)
  moreover obtain x where "x \<in> set ns" "phase ?s1 (node_thread ?s1 x) = Some Locking"
    "run_adds (\<lambda>r x. and_then (\<lambda>s. pthread_join (node_thread s x) s) r) (Goes_on ?s1) ns
      = Some (Waits (node_thread ?s1 x) ?s1)"
    using join_blocks[of ?s1 ns] s1(3,5) calculation(1) by auto
  ultimately show ?thesis
    using assms(2) cancel_loop[OF inv(1) known] join_loop[of ?s1 ns] inv(1) s1
    by (intro exI[of _ "node_thread ?s1 x"] exI[of _ ?s1]) (auto simp: handle_signal_def)
qed

theorem signal_deadlock_witness:
  "\<exists>v s'. handle_signal SIGINT stalled_server = Some (Waits v s') \<and> phase s' v = Some Locking \<and>
    phase s' 1 = Some Ended \<and> mutex_owner s' = Some 1"
  using signal_deadlock[OF busy_inv(2), of SIGINT 1 2] by (auto simp: stalled_server_def)

end
