(* ===== verification/Links.thy ===== *)
theory Links
  imports Slist
begin

text \<open>
  Memory of the lists of \<open>server/queue.h\<close> whose heads and elements are reached through the
  address of a link: the \<open>LIST\<close>, \<open>STAILQ\<close> and \<open>TAILQ\<close> macros. A location is the first field of a
  head or the next field of an element; \<open>path\<close> follows links from a location to a location.
  Every insertion is \<open>splice_in\<close> and every removal \<open>splice_out\<close>, at the location the macro uses.
  The locale \<open>tail_queue\<close> extends \<open>linked_list\<close> by insertion at the end.
\<close>

section \<open>Locations\<close>

datatype loc = First nat | Next ptr

text \<open>
  Heads are numbered; \<open>qfirst\<close> stands for \<open>lh_first\<close>, \<open>stqh_first\<close>, \<open>tqh_first\<close>, \<open>qnext\<close> for
  \<open>le_next\<close>, \<open>stqe_next\<close>, \<open>tqe_next\<close>.
\<close>

record links =
  qfirst :: "nat \<Rightarrow> ptr"
  qnext :: "ptr \<Rightarrow> ptr option"

fun load :: "loc \<Rightarrow> 'a links_scheme \<Rightarrow> ptr outcome" where
  "load (First h) s = Some (qfirst s h)"
| "load (Next p) s = qnext s p"

fun store :: "loc \<Rightarrow> ptr \<Rightarrow> 'a links_scheme \<Rightarrow> 'a links_scheme outcome" where
  "store (First h) v s = Some (s\<lparr>qfirst := (qfirst s)(h := v)\<rparr>)"
| "store (Next p) v s =
     (if p \<in> dom (qnext s) then Some (s\<lparr>qnext := (qnext s)(p \<mapsto> v)\<rparr>) else None)"

text \<open>Stores as a total operation, for locations that exist.\<close>

fun put :: "loc \<Rightarrow> ptr \<Rightarrow> 'a links_scheme \<Rightarrow> 'a links_scheme" where
  "put (First h) v s = s\<lparr>qfirst := (qfirst s)(h := v)\<rparr>"
| "put (Next p) v s = s\<lparr>qnext := (qnext s)(p \<mapsto> v)\<rparr>"

lemma store_put: "load l s \<noteq> None \<Longrightarrow> store l v s = Some (put l v s)"
  by (cases l) auto

lemma load_put [simp]: "load l (put l' v s) = (if l = l' then Some v else load l s)"
  by (cases l; cases l') auto

lemma load_put_next [simp]: "qnext (put l' v s) p = (if l' = Next p then Some v else qnext s p)"
  by (cases l') auto

lemma qfirst_put: "qfirst (put l' v s) h = (if l' = First h then v else qfirst s h)"
  by (cases l') auto

lemma dom_put [simp]: "load l s \<noteq> None \<Longrightarrow> dom (qnext (put l v s)) = dom (qnext s)"
  by (cases l) auto

declare put.simps [simp del]

section \<open>Paths\<close>

fun path :: "'a links_scheme \<Rightarrow> loc \<Rightarrow> ptr list \<Rightarrow> loc \<Rightarrow> bool" where
  "path s l [] l' \<longleftrightarrow> l = l'"
| "path s l (x # xs) l' \<longleftrightarrow> load l s = Some x \<and> x \<noteq> 0 \<and> path s (Next x) xs l'"

text \<open>The location behind the last element.\<close>

definition end_loc :: "loc \<Rightarrow> ptr list \<Rightarrow> loc" where
  "end_loc l xs = (if xs = [] then l else Next (last xs))"

lemma end_loc_simps [simp]: "end_loc l [] = l" "end_loc l (x # xs) = end_loc (Next x) xs"
  "end_loc l (xs @ [x]) = Next x"
  by (auto simp: end_loc_def)

lemma end_loc_append [simp]: "end_loc l (xs @ ys) = end_loc (end_loc l xs) ys"
  by (auto simp: end_loc_def)

lemma path_end: "path s l xs l' \<Longrightarrow> l' = end_loc l xs"
  by (induction xs arbitrary: l) auto

lemma path_append: "path s l (xs @ ys) l' \<longleftrightarrow> path s l xs (end_loc l xs) \<and> path s (end_loc l xs) ys l'"
  by (induction xs arbitrary: l) auto

text \<open>A store at a location that the path does not read.\<close>

lemma path_put:
  assumes "l0 \<noteq> l" and "\<forall>x\<in>set (butlast xs). l0 \<noteq> Next x"
  shows "path (put l0 v s) l xs l' = path s l xs l'"
  using assms
proof (induction xs arbitrary: l)
  case (Cons x xs)
  have "path (put l0 v s) (Next x) xs l' = path s (Next x) xs l'"
    using Cons.prems by (cases "xs = []") (auto intro!: Cons.IH)
  then show ?case using Cons.prems(1) by simp
qed simp

lemma path_put_nil [simp]: "path (put l0 v s) l [] l' = path s l [] l'"
  by simp

text \<open>\<open>seg s l xs\<close>: from location \<open>l\<close> the elements \<open>xs\<close>, then \<open>NULL\<close>.\<close>

definition seg :: "'a links_scheme \<Rightarrow> loc \<Rightarrow> ptr list \<Rightarrow> bool" where
  "seg s l xs \<longleftrightarrow> path s l xs (end_loc l xs) \<and> load (end_loc l xs) s = Some 0"

lemma seg_simps [simp]:
  "seg s l [] \<longleftrightarrow> load l s = Some 0"
  "seg s l (x # xs) \<longleftrightarrow> load l s = Some x \<and> x \<noteq> 0 \<and> seg s (Next x) xs"
  by (auto simp: seg_def)

lemma seg_append: "seg s l (xs @ ys) \<longleftrightarrow> path s l xs (end_loc l xs) \<and> seg s (end_loc l xs) ys"
  by (induction xs arbitrary: l) auto

lemma seg_put:
  assumes "l0 \<noteq> l" and "\<forall>x\<in>set xs. l0 \<noteq> Next x"
  shows "seg (put l0 v s) l xs = seg s l xs"
  using assms by (induction xs arbitrary: l) auto

lemma seg_put_next [simp]:
  "l \<noteq> Next e \<Longrightarrow> e \<notin> set xs \<Longrightarrow> seg (put (Next e) v s) l xs = seg s l xs"
  by (rule seg_put) auto

lemma seg_chain: "seg s l xs \<Longrightarrow> load l s = Some p \<Longrightarrow> chain (qnext s) p xs 0"
proof (induction xs arbitrary: l p)
  case (Cons x xs)
  obtain n where "load (Next x) s = Some n" using Cons.prems(1) by (cases xs) auto
  then show ?case using Cons by auto
qed simp

lemma seg_unique: "seg s l xs \<Longrightarrow> seg s l ys \<Longrightarrow> xs = ys"
proof (induction xs arbitrary: l ys)
  case Nil
  then show ?case by (cases ys) auto
next
  case (Cons x xs)
  then show ?case by (cases ys) auto
qed

lemma seg_nonzero: "seg s l xs \<Longrightarrow> 0 \<notin> set xs"
  by (induction xs arbitrary: l) auto

lemma seg_nodes: "seg s l xs \<Longrightarrow> set xs \<subseteq> dom (qnext s)"
proof (induction xs arbitrary: l)
  case (Cons x xs)
  then have "load (Next x) s \<noteq> None" by (cases xs) auto
  with Cons show ?case by auto
qed simp

lemma seg_load: "seg s l xs \<Longrightarrow> load l s = Some (case xs of [] \<Rightarrow> 0 | x # _ \<Rightarrow> x)"
  by (cases xs) auto

section \<open>Insertion and removal at a location\<close>

text \<open>The next field of \<open>e\<close> gets the contents of \<open>l\<close>, then \<open>l\<close> the address of \<open>e\<close>.\<close>

definition splice :: "loc \<Rightarrow> ptr \<Rightarrow> 'a links_scheme \<Rightarrow> 'a links_scheme" where
  "splice l e s = put l e (put (Next e) (the (load l s)) s)"

definition unsplice :: "loc \<Rightarrow> ptr \<Rightarrow> 'a links_scheme \<Rightarrow> 'a links_scheme" where
  "unsplice l e s = put l (the (load (Next e) s)) s"

lemma not_on_path:
  assumes "distinct (xs @ ys)" and "l = end_loc (First h) xs"
  shows "y \<in> set ys \<Longrightarrow> l \<noteq> Next y" and "\<forall>x\<in>set (butlast xs). l \<noteq> Next x"
    and "xs \<noteq> [] \<Longrightarrow> l \<noteq> First h"
  using assms by (cases xs rule: rev_cases; auto)+

lemma splice_in:
  assumes "seg s (First h) (xs @ ys)" and "distinct (xs @ ys)" and "e \<noteq> 0" and "e \<notin> set (xs @ ys)"
    and "l = end_loc (First h) xs"
  shows "seg (splice l e s) (First h) (xs @ e # ys)"
proof -
  have s: "path s (First h) xs l" "seg s l ys" using assms(1,5) by (simp_all add: seg_append)
  let ?s1 = "put (Next e) (the (load l s)) s"
  have le: "l \<noteq> Next e" using assms(4,5) by (auto simp: end_loc_def)
  have "path ?s1 (First h) xs l" using s(1) assms(4) by (subst path_put) (auto dest: in_set_butlastD)
  then have "path (put l e ?s1) (First h) xs l"
  proof (cases xs)
    case (Cons x xs')
    with \<open>path ?s1 (First h) xs l\<close> show ?thesis
      using not_on_path(2,3)[OF assms(2,5)] by (subst path_put) auto
  qed (use assms(5) in simp)
  moreover have "seg (put l e ?s1) (Next e) ys"
  proof (cases ys)
    case Nil
    then show ?thesis using s(2) le by simp
  next
    case (Cons y ys')
    have "seg s (Next y) ys'" using s(2) Cons by simp
    moreover have "seg (put l e ?s1) (Next y) ys' = seg s (Next y) ys'"
      using assms(4) not_on_path(1)[OF assms(2,5)] Cons by (simp add: seg_put)
    ultimately show ?thesis using s(2) le Cons assms(2) by auto
  qed
  ultimately show ?thesis using assms(3,5) by (simp add: seg_append splice_def)
qed

lemma splice_out:
  assumes "seg s (First h) (xs @ e # ys)" and "distinct (xs @ e # ys)" and "l = end_loc (First h) xs"
  shows "seg (unsplice l e s) (First h) (xs @ ys)"
proof -
  have s: "path s (First h) xs l" "load l s = Some e" "seg s (Next e) ys"
    using assms(1,3) by (simp_all add: seg_append)
  obtain n where n: "load (Next e) s = Some n" using seg_load[OF s(3)] by blast
  have "path (put l n s) (First h) xs l"
  proof (cases xs)
    case (Cons x xs')
    then show ?thesis using s(1) not_on_path(2,3)[OF assms(2,3)] by (subst path_put) auto
  qed (use assms(3) in simp)
  moreover have "seg (put l n s) l ys"
  proof (cases ys)
    case Nil
    then show ?thesis using s(3) n by simp
  next
    case (Cons y ys')
    have "seg (put l n s) (Next y) ys' = seg s (Next y) ys'"
      using not_on_path(1)[OF assms(2,3)] Cons by (intro seg_put) auto
    then show ?thesis using s(3) n Cons by simp
  qed
  ultimately show ?thesis using assms(3) n by (simp add: seg_append unsplice_def)
qed

text \<open>Neither touches another list.\<close>

lemma splice_other:
  assumes "seg s (First h') zs" and "l \<noteq> First h'" and "e \<notin> set zs" and "\<forall>z\<in>set zs. l \<noteq> Next z"
  shows "seg (splice l e s) (First h') zs"
  using assms by (simp add: splice_def seg_put)

section \<open>Previous locations\<close>

fun prevs :: "(ptr \<Rightarrow> loc option) \<Rightarrow> loc \<Rightarrow> ptr list \<Rightarrow> bool" where
  "prevs pv l [] \<longleftrightarrow> True"
| "prevs pv l (x # xs) \<longleftrightarrow> pv x = Some l \<and> prevs pv (Next x) xs"

lemma prevs_append: "prevs pv l (xs @ ys) \<longleftrightarrow> prevs pv l xs \<and> prevs pv (end_loc l xs) ys"
  by (induction xs arbitrary: l) auto

lemma prevs_upd [simp]: "x \<notin> set xs \<Longrightarrow> prevs (pv(x := v)) l xs = prevs pv l xs"
  by (induction xs arbitrary: l) auto

lemma prevs_nodes: "prevs pv l xs \<Longrightarrow> set xs \<subseteq> dom pv"
  by (induction xs arbitrary: l) auto

section \<open>Doubly linked lists\<close>

text \<open>The list of head \<open>h\<close> with the previous locations \<open>pv\<close>.\<close>

definition dlist :: "'a links_scheme \<Rightarrow> (ptr \<Rightarrow> loc option) \<Rightarrow> nat \<Rightarrow> ptr list \<Rightarrow> bool" where
  "dlist s pv h xs \<longleftrightarrow> seg s (First h) xs \<and> prevs pv (First h) xs \<and> distinct xs"

text \<open>Two states with the same links.\<close>

definition same_links :: "'a links_scheme \<Rightarrow> 'b links_scheme \<Rightarrow> bool" where
  "same_links s t \<longleftrightarrow> (\<forall>l. load l s = load l t)"

lemma path_same: "same_links s t \<Longrightarrow> path s l xs l' = path t l xs l'"
  by (induction xs arbitrary: l) (auto simp: same_links_def)

lemma seg_same: "same_links s t \<Longrightarrow> seg s l xs = seg t l xs"
  by (induction xs arbitrary: l) (auto simp: same_links_def)

lemma same_links_dom: "same_links s t \<Longrightarrow> dom (qnext s) = dom (qnext t)"
  unfolding same_links_def by (metis domIff load.simps(2) subsetI subset_antisym)

text \<open>The previous locations after \<open>e\<close> has been put at \<open>l\<close>, in front of \<open>ys\<close>, or taken off.\<close>

definition prev_in :: "loc \<Rightarrow> ptr \<Rightarrow> ptr list \<Rightarrow> (ptr \<Rightarrow> loc option) \<Rightarrow> ptr \<Rightarrow> loc option" where
  "prev_in l e ys pv = (case ys of [] \<Rightarrow> pv | y # _ \<Rightarrow> pv(y \<mapsto> Next e))(e \<mapsto> l)"

definition prev_out :: "loc \<Rightarrow> ptr list \<Rightarrow> (ptr \<Rightarrow> loc option) \<Rightarrow> ptr \<Rightarrow> loc option" where
  "prev_out l ys pv = (case ys of [] \<Rightarrow> pv | y # _ \<Rightarrow> pv(y \<mapsto> l))"

lemma dlist_insert:
  assumes "dlist s pv h (xs @ ys)" and "e \<noteq> 0" and "e \<notin> set (xs @ ys)" and "l = end_loc (First h) xs"
    and "same_links s' (splice l e s)" and "pv' = prev_in l e ys pv"
  shows "dlist s' pv' h (xs @ e # ys)"
proof -
  have "prevs pv' (First h) (xs @ e # ys)"
    using assms(1,3,4,6) by (cases ys) (auto simp: dlist_def prevs_append prev_in_def)
  then show ?thesis
    using splice_in[OF _ _ assms(2,3,4)] assms(1,3) seg_same[OF assms(5)] by (auto simp: dlist_def)
qed

lemma dlist_delete:
  assumes "dlist s pv h (xs @ e # ys)" and "l = end_loc (First h) xs"
    and "same_links s' (unsplice l e s)" and "pv' = prev_out l ys pv"
  shows "dlist s' pv' h (xs @ ys)"
proof -
  have "prevs pv' (First h) (xs @ ys)"
    using assms(1,2,4) by (cases ys) (auto simp: dlist_def prevs_append prev_out_def)
  then show ?thesis
    using splice_out[OF _ _ assms(2)] assms(1) seg_same[OF assms(3)] by (auto simp: dlist_def)
qed

text \<open>What the fields of the elements around a position are.\<close>

lemma dlist_at:
  assumes "dlist s pv h (xs @ x # ys)"
  shows "pv x = Some (end_loc (First h) xs)" and "load (end_loc (First h) xs) s = Some x" and "x \<noteq> 0"
    and "qnext s x = Some (case ys of [] \<Rightarrow> 0 | y # _ \<Rightarrow> y)" and "x \<notin> set xs" and "x \<notin> set ys"
    and "y \<in> set ys \<Longrightarrow> y \<noteq> 0 \<and> pv y \<noteq> None \<and> qnext s y \<noteq> None"
proof -
  have s: "seg s (Next x) ys" "prevs pv (Next x) ys"
    using assms by (auto simp: dlist_def seg_append prevs_append)
  show "qnext s x = Some (case ys of [] \<Rightarrow> 0 | y # _ \<Rightarrow> y)" using seg_load[OF s(1)] by simp
  show "y \<in> set ys \<Longrightarrow> y \<noteq> 0 \<and> pv y \<noteq> None \<and> qnext s y \<noteq> None"
    using seg_nonzero[OF s(1)] seg_nodes[OF s(1)] prevs_nodes[OF s(2)] by (cases "y = 0") auto
qed (use assms in \<open>auto simp: dlist_def seg_append prevs_append\<close>)

lemma dom_splice:
  assumes "load l s \<noteq> None" and "e \<in> dom (qnext s)"
  shows "dom (qnext (splice l e s)) = dom (qnext s)"
proof -
  let ?s1 = "put (Next e) (the (load l s)) s"
  have "load l ?s1 \<noteq> None" using assms(1) by simp
  then have "dom (qnext (put l e ?s1)) = dom (qnext ?s1)" by (rule dom_put)
  also have "\<dots> = dom (qnext s)" by (rule dom_put) (use assms(2) in auto)
  finally show ?thesis by (simp add: splice_def)
qed

lemma dom_unsplice: "load l s \<noteq> None \<Longrightarrow> dom (qnext (unsplice l e s)) = dom (qnext s)"
  unfolding unsplice_def by (rule dom_put)

text \<open>The allocated elements stay the same.\<close>

lemma dlist_insert_nodes:
  assumes "dlist s pv h (xs @ ys)" and "e \<in> dom (qnext s) \<inter> dom pv" and "l = end_loc (First h) xs"
    and "same_links s' (splice l e s)" and "pv' = prev_in l e ys pv"
  shows "dom (qnext s') \<inter> dom pv' = dom (qnext s) \<inter> dom pv"
proof -
  have "load l s \<noteq> None" using assms(1,3) seg_load[of s l ys] by (auto simp: dlist_def seg_append)
  then have "dom (qnext s') = dom (qnext s)"
    using same_links_dom[OF assms(4)] dom_splice[of l s e] assms(2) by simp
  moreover have "dom pv' = dom pv"
    using assms(1,2,5) by (cases ys) (auto simp: prev_in_def dlist_def prevs_append)
  ultimately show ?thesis by simp
qed

lemma dlist_delete_nodes:
  assumes "dlist s pv h (xs @ e # ys)" and "l = end_loc (First h) xs"
    and "same_links s' (unsplice l e s)" and "pv' = prev_out l ys pv"
  shows "dom (qnext s') \<inter> dom pv' = dom (qnext s) \<inter> dom pv"
proof -
  have "load l s \<noteq> None" using dlist_at(2)[OF assms(1)] assms(2) by simp
  then have "dom (qnext s') = dom (qnext s)" using same_links_dom[OF assms(3)] dom_unsplice[of l s e] by simp
  moreover have "dom pv' = dom pv"
    using assms(1,4) by (cases ys) (auto simp: prev_out_def dlist_def prevs_append)
  ultimately show ?thesis by simp
qed

lemma dlist_end: "dlist s pv h xs \<Longrightarrow> load (end_loc (First h) xs) s = Some 0"
  by (simp add: dlist_def seg_def)

lemma dlist_first: "dlist s pv h xs \<Longrightarrow> qfirst s h = (case xs of [] \<Rightarrow> 0 | x # _ \<Rightarrow> x)"
  using seg_load[of s "First h" xs] by (simp add: dlist_def)

lemma dlist_nodes: "dlist s pv h xs \<Longrightarrow> set xs \<subseteq> dom (qnext s) \<inter> dom pv"
  using seg_nodes prevs_nodes unfolding dlist_def by blast

lemma dlist_unique: "dlist s pv h xs \<Longrightarrow> dlist s pv h ys \<Longrightarrow> xs = ys"
  using seg_unique unfolding dlist_def by blast

text \<open>Putting \<open>e2\<close> in the place of \<open>e\<close>.\<close>

lemma dlist_replace:
  assumes "dlist s pv h (xs @ e # ys)" and "e2 \<noteq> 0" and "e2 \<notin> set (xs @ e # ys)" and "l = end_loc (First h) xs"
    and "same_links s' (put l e2 (put (Next e2) (the (qnext s e)) s))" and "pv' = prev_in l e2 ys pv"
  shows "dlist s' pv' h (xs @ e2 # ys)"
proof -
  let ?t = "unsplice l e s"
  have "dlist ?t (prev_out l ys pv) h (xs @ ys)"
    by (rule dlist_delete[OF assms(1,4)]) (simp_all add: same_links_def)
  moreover have "same_links s' (splice l e2 ?t)"
    using assms(3,4,5) by (auto simp: same_links_def splice_def unsplice_def end_loc_def)
  moreover have "pv' = prev_in l e2 ys (prev_out l ys pv)"
    using assms(6) by (cases ys) (simp_all add: prev_in_def prev_out_def)
  ultimately show ?thesis using dlist_insert[of ?t _ h xs ys e2 l s' pv'] assms(2,3,4) by simp
qed

text \<open>The elements of one list moved to another head.\<close>

lemma dlist_move:
  assumes "dlist s pv h xs" and "qfirst s' h' = (case xs of [] \<Rightarrow> 0 | x # _ \<Rightarrow> x)"
    and "\<And>x. x \<in> set xs \<Longrightarrow> qnext s' x = qnext s x"
    and "\<And>x. x \<in> set (tl xs) \<Longrightarrow> pv' x = pv x" and "xs \<noteq> [] \<Longrightarrow> pv' (hd xs) = Some (First h')"
  shows "dlist s' pv' h' xs"
proof (cases xs)
  case (Cons x ys)
  have segs: "seg s' l zs = seg s l zs" if "set zs \<subseteq> set xs" and "load l s' = load l s" for l zs
    using that assms(3) by (induction zs arbitrary: l) auto
  have "seg s' (Next x) ys = seg s (Next x) ys" by (rule segs) (use assms(3) Cons in auto)
  then have "seg s' (Next x) ys" using assms(1) Cons by (simp add: dlist_def)
  moreover have "prevs pv' l zs = prevs pv l zs" if "set zs \<subseteq> set ys" for l zs
    using that assms(4) Cons by (induction zs arbitrary: l) auto
  then have "prevs pv' (Next x) ys = prevs pv (Next x) ys" by blast
  ultimately show ?thesis using assms(1,2,5) Cons by (simp add: dlist_def)
qed (use assms in \<open>simp add: dlist_def\<close>)

text \<open>Appending the list of one head to that of another.\<close>

lemma seg_concat:
  assumes "seg s (First h1) xs" and "seg s (First h2) ys" and "distinct (xs @ ys)" and "ys \<noteq> []" and "h1 \<noteq> h2"
    and "same_links s' (put (First h2) 0 (put (end_loc (First h1) xs) (hd ys) s))"
  shows "seg s' (First h1) (xs @ ys)" and "seg s' (First h2) []"
proof -
  let ?l = "end_loc (First h1) xs"
  obtain y ys' where ys: "ys = y # ys'" using assms(4) by (cases ys) auto
  let ?s1 = "put ?l y s" and ?t = "put (First h2) 0 (put ?l y s)"
  have p: "path s (First h1) xs ?l" using assms(1) by (simp add: seg_def)
  have "path ?t (First h1) xs ?l"
  proof (cases xs)
    case (Cons x xs')
    have "path ?s1 (First h1) xs ?l"
      using p not_on_path(2,3)[OF assms(3) refl, of h1] Cons by (subst path_put) auto
    then show ?thesis using assms(5) by (subst path_put) auto
  qed simp
  moreover have "seg ?t (Next y) ys'"
    using assms(2) ys not_on_path(1)[OF assms(3) refl, of _ h1] by (subst seg_put, simp, simp)+ auto
  moreover have "load ?l ?t = Some y" using assms(5) by (auto simp: end_loc_def)
  ultimately show "seg s' (First h1) (xs @ ys)"
    using assms(2) ys by (subst seg_same[OF assms(6)]) (simp add: seg_append)
  show "seg s' (First h2) []" using assms(6) by (simp add: same_links_def)
qed

section \<open>Following the links\<close>

text \<open>The elements a \<open>FOREACH\<close> loop visits from \<open>var\<close> on.\<close>

partial_function (option) follow :: "(ptr \<Rightarrow> ptr option) \<Rightarrow> ptr \<Rightarrow> ptr list outcome" where
  "follow nxt var =
     (if var = 0 then Some []
      else Option.bind (nxt var) (\<lambda>n. Option.bind (follow nxt n) (\<lambda>vs. Some (var # vs))))"

lemma follow_chain: "chain nxt p xs 0 \<Longrightarrow> follow nxt p = Some xs"
  by (induction xs arbitrary: p) (auto simp: follow.simps)

text \<open>The element in front of \<open>elm\<close>, searched from \<open>cur\<close> on.\<close>

partial_function (option) search_before :: "(ptr \<Rightarrow> ptr option) \<Rightarrow> ptr \<Rightarrow> ptr \<Rightarrow> ptr outcome" where
  "search_before nxt elm cur =
     Option.bind (nxt cur) (\<lambda>n. if n \<noteq> elm then search_before nxt elm n else Some cur)"

lemma search_before_found:
  assumes "seg s (Next x) (xs @ e # ys)" and "e \<notin> set xs"
  shows "search_before (qnext s) e x = Some (last (x # xs))"
  using assms
proof (induction xs arbitrary: x)
  case Nil
  then show ?case by (auto simp: search_before.simps[of _ _ x])
next
  case (Cons y xs)
  then show ?case by (auto simp: search_before.simps[of _ _ x])
qed

lemma follow_seg: "seg s (First h) xs \<Longrightarrow> follow (qnext s) (qfirst s h) = Some xs"
  by (rule follow_chain) (rule seg_chain, assumption, simp)

section \<open>The interface of a tail queue\<close>

locale tail_queue = linked_list rep nodes init first empty insert_head remove
  for rep :: "'s \<Rightarrow> ptr list \<Rightarrow> bool"
    and nodes :: "'s \<Rightarrow> ptr set"
    and init :: "'s \<Rightarrow> 's"
    and first :: "'s \<Rightarrow> ptr"
    and empty :: "'s \<Rightarrow> bool"
    and insert_head :: "ptr \<Rightarrow> 's \<Rightarrow> 's option"
    and remove :: "ptr \<Rightarrow> 's \<Rightarrow> 's option" +
  fixes insert_tail :: "ptr \<Rightarrow> 's \<Rightarrow> 's option"
  assumes insert_tail_rep: "rep s xs \<Longrightarrow> e \<in> nodes s \<Longrightarrow> e \<noteq> 0 \<Longrightarrow> e \<notin> set xs \<Longrightarrow>
      \<exists>s'. insert_tail e s = Some s' \<and> rep s' (xs @ [e]) \<and> nodes s' = nodes s"

text \<open>Take the first element off \<open>n\<close> times; the elements taken, in order.\<close>

fun take_off :: "('s \<Rightarrow> ptr) \<Rightarrow> (ptr \<Rightarrow> 's \<Rightarrow> 's option) \<Rightarrow> nat \<Rightarrow> 's \<Rightarrow> (ptr list \<times> 's) outcome" where
  "take_off first remove 0 s = Some ([], s)"
| "take_off first remove (Suc n) s =
     Option.bind (remove (first s) s) (\<lambda>s1.
     map_option (\<lambda>(xs, s2). (first s # xs, s2)) (take_off first remove n s1))"

context tail_queue
begin

lemma insert_tail_all:
  assumes "rep s xs" and "set es \<subseteq> nodes s - {0}" and "distinct es" and "set es \<inter> set xs = {}"
  shows "\<exists>s'. run_adds (\<lambda>s e. insert_tail e s) s es = Some s' \<and> rep s' (xs @ es) \<and> nodes s' = nodes s"
  using assms
proof (induction es arbitrary: s xs)
  case (Cons e es)
  then obtain s1 where "insert_tail e s = Some s1" "rep s1 (xs @ [e])" "nodes s1 = nodes s"
    using insert_tail_rep[of s xs e] by auto
  with Cons.IH[of s1 "xs @ [e]"] Cons.prems show ?case by auto
qed simp

lemma take_off_all:
  assumes "rep s xs" and "n \<le> length xs"
  shows "\<exists>s'. take_off first remove n s = Some (take n xs, s') \<and> rep s' (drop n xs)"
  using assms
proof (induction n arbitrary: s xs)
  case (Suc n)
  then obtain x ys where xs: "xs = x # ys" by (cases xs) auto
  then obtain s1 where "remove x s = Some s1" "rep s1 ys"
    using remove_rep[of s "[]" x ys] Suc.prems(1) by auto
  moreover have "first s = x" using first_rep[OF Suc.prems(1)] xs by simp
  ultimately show ?case using Suc.IH[of s1 ys] Suc.prems(2) xs by auto
qed simp

text \<open>First in, first out.\<close>

lemma fifo:
  assumes "rep s []" and "set es \<subseteq> nodes s - {0}" and "distinct es"
  shows "\<exists>s1 s2. run_adds (\<lambda>s e. insert_tail e s) s es = Some s1 \<and>
    take_off first remove (length es) s1 = Some (es, s2) \<and> rep s2 []"
proof -
  obtain s1 where s1: "run_adds (\<lambda>s e. insert_tail e s) s es = Some s1" "rep s1 es"
    using insert_tail_all[OF assms(1-3)] by auto
  from take_off_all[OF s1(2) le_refl] s1(1) show ?thesis by auto
qed

end

end
