(* ===== verification/List_Macros.thy ===== *)
theory List_Macros
  imports Links
begin

text \<open>
  The \<open>LIST\<close> macros of \<open>server/queue.h\<close>: doubly linked lists whose elements hold the address of
  the link that points to them. Accessing a field of an element that is not allocated is
  undefined. Interpreted as a \<open>linked_list\<close> at the end.
\<close>

record list_mem = links +
  le_prev :: "ptr \<Rightarrow> loc option"

section \<open>The macros\<close>

definition set_le_prev :: "ptr \<Rightarrow> loc \<Rightarrow> list_mem \<Rightarrow> list_mem outcome" where
  "set_le_prev e l s =
     (if e \<in> dom (le_prev s) then Some (s\<lparr>le_prev := (le_prev s)(e \<mapsto> l)\<rparr>) else None)"

definition LIST_END :: ptr where
  "LIST_END = 0"

definition LIST_FIRST :: "nat \<Rightarrow> list_mem \<Rightarrow> ptr" where
  "LIST_FIRST head s = qfirst s head"

definition LIST_NEXT :: "ptr \<Rightarrow> list_mem \<Rightarrow> ptr outcome" where
  "LIST_NEXT elm s = qnext s elm"

definition LIST_EMPTY :: "nat \<Rightarrow> list_mem \<Rightarrow> bool" where
  "LIST_EMPTY head s \<longleftrightarrow> qfirst s head = LIST_END"

text \<open>The element whose next field \<open>le_prev\<close> points to; an address inside another head is no element.\<close>

definition LIST_PREV :: "ptr \<Rightarrow> nat \<Rightarrow> list_mem \<Rightarrow> ptr outcome" where
  "LIST_PREV elm head s =
     Option.bind (le_prev s elm) (\<lambda>l.
       if l = First head then Some LIST_END
       else case l of Next p \<Rightarrow> Some p | First _ \<Rightarrow> None)"

definition LIST_INIT :: "nat \<Rightarrow> list_mem \<Rightarrow> list_mem" where
  "LIST_INIT head s = s\<lparr>qfirst := (qfirst s)(head := LIST_END)\<rparr>"

definition LIST_INSERT_HEAD :: "nat \<Rightarrow> ptr \<Rightarrow> list_mem \<Rightarrow> list_mem outcome" where
  "LIST_INSERT_HEAD head elm s =
     Option.bind (store (Next elm) (qfirst s head) s) (\<lambda>s1.
     Option.bind (if qfirst s head \<noteq> LIST_END then set_le_prev (qfirst s1 head) (Next elm) s1 else Some s1) (\<lambda>s2.
     Option.bind (store (First head) elm s2) (\<lambda>s3.
     set_le_prev elm (First head) s3)))"

definition LIST_INSERT_BEFORE :: "ptr \<Rightarrow> ptr \<Rightarrow> list_mem \<Rightarrow> list_mem outcome" where
  "LIST_INSERT_BEFORE listelm elm s =
     Option.bind (le_prev s listelm) (\<lambda>l.
     Option.bind (set_le_prev elm l s) (\<lambda>s1.
     Option.bind (store (Next elm) listelm s1) (\<lambda>s2.
     Option.bind (le_prev s2 listelm) (\<lambda>l2.
     Option.bind (store l2 elm s2) (\<lambda>s3.
     set_le_prev listelm (Next elm) s3)))))"

definition LIST_INSERT_AFTER :: "ptr \<Rightarrow> ptr \<Rightarrow> list_mem \<Rightarrow> list_mem outcome" where
  "LIST_INSERT_AFTER listelm elm s =
     Option.bind (qnext s listelm) (\<lambda>n.
     Option.bind (store (Next elm) n s) (\<lambda>s1.
     Option.bind (if n \<noteq> 0 then Option.bind (qnext s1 listelm) (\<lambda>m. set_le_prev m (Next elm) s1)
       else Some s1) (\<lambda>s2.
     Option.bind (store (Next listelm) elm s2) (\<lambda>s3.
     set_le_prev elm (Next listelm) s3))))"

definition LIST_REMOVE :: "ptr \<Rightarrow> list_mem \<Rightarrow> list_mem outcome" where
  "LIST_REMOVE elm s =
     Option.bind (qnext s elm) (\<lambda>n.
     Option.bind (if n \<noteq> 0 then Option.bind (le_prev s elm) (\<lambda>l. set_le_prev n l s) else Some s) (\<lambda>s1.
     Option.bind (le_prev s1 elm) (\<lambda>l.
     Option.bind (qnext s1 elm) (\<lambda>m. store l m s1))))"

definition LIST_REPLACE :: "ptr \<Rightarrow> ptr \<Rightarrow> list_mem \<Rightarrow> list_mem outcome" where
  "LIST_REPLACE elm elm2 s =
     Option.bind (qnext s elm) (\<lambda>n.
     Option.bind (store (Next elm2) n s) (\<lambda>s1.
     Option.bind (if n \<noteq> 0 then Option.bind (qnext s1 elm2) (\<lambda>m. set_le_prev m (Next elm2) s1)
       else Some s1) (\<lambda>s2.
     Option.bind (le_prev s2 elm) (\<lambda>l.
     Option.bind (set_le_prev elm2 l s2) (\<lambda>s3.
     Option.bind (le_prev s3 elm2) (\<lambda>l2. store l2 elm2 s3))))))"

definition LIST_SWAP :: "nat \<Rightarrow> nat \<Rightarrow> list_mem \<Rightarrow> list_mem outcome" where
  "LIST_SWAP head1 head2 s =
     (let swap_tmp = qfirst s head1 in
      Option.bind (store (First head1) (qfirst s head2) s) (\<lambda>s1.
      Option.bind (store (First head2) swap_tmp s1) (\<lambda>s2.
      Option.bind (if qfirst s2 head1 \<noteq> LIST_END then set_le_prev (qfirst s2 head1) (First head1) s2
        else Some s2) (\<lambda>s3.
      if qfirst s3 head2 \<noteq> LIST_END then set_le_prev (qfirst s3 head2) (First head2) s3
      else Some s3))))"

text \<open>The loops: the elements visited, and the loop whose body may release the element.\<close>

definition LIST_FOREACH :: "nat \<Rightarrow> list_mem \<Rightarrow> ptr list outcome" where
  "LIST_FOREACH head s = follow (qnext s) (qfirst s head)"

definition LIST_FOREACH_SAFE :: "(ptr \<Rightarrow> list_mem \<Rightarrow> list_mem option) \<Rightarrow> nat \<Rightarrow> list_mem \<Rightarrow> list_mem outcome" where
  "LIST_FOREACH_SAFE body head s = SLIST_FOREACH_SAFE qnext body (LIST_FIRST head s) s"

section \<open>What they do to a list\<close>

definition list_rep :: "nat \<Rightarrow> list_mem \<Rightarrow> ptr list \<Rightarrow> bool" where
  "list_rep h s xs \<longleftrightarrow> dlist s (le_prev s) h xs"

definition list_nodes :: "list_mem \<Rightarrow> ptr set" where
  "list_nodes s = dom (qnext s) \<inter> dom (le_prev s)"

lemma load_le_prev [simp]: "load l (s\<lparr>le_prev := f\<rparr>) = load l s"
  by (cases l) auto

lemma put_le_prev [simp]: "le_prev (put l v s) = le_prev s"
  by (cases l) (auto simp: put.simps)

lemmas list_macro_defs = LIST_INSERT_HEAD_def LIST_INSERT_BEFORE_def LIST_INSERT_AFTER_def
  LIST_REMOVE_def LIST_REPLACE_def LIST_SWAP_def set_le_prev_def LIST_END_def

lemma list_inserted:
  assumes "list_rep h s (xs @ ys)" and "e \<in> list_nodes s" and "e \<noteq> 0" and "e \<notin> set (xs @ ys)"
    and "same_links s' (splice (end_loc (First h) xs) e s)"
    and "le_prev s' = prev_in (end_loc (First h) xs) e ys (le_prev s)"
  shows "list_rep h s' (xs @ e # ys) \<and> list_nodes s' = list_nodes s"
  using assms dlist_insert dlist_insert_nodes unfolding list_rep_def list_nodes_def by metis

lemma list_deleted:
  assumes "list_rep h s (xs @ e # ys)"
    and "same_links s' (unsplice (end_loc (First h) xs) e s)"
    and "le_prev s' = prev_out (end_loc (First h) xs) ys (le_prev s)"
  shows "list_rep h s' (xs @ ys) \<and> list_nodes s' = list_nodes s"
  using assms dlist_delete dlist_delete_nodes unfolding list_rep_def list_nodes_def by metis

lemma insert_before_effect:
  assumes "list_rep h s (xs @ x # ys)" and "e \<in> list_nodes s" and "e \<notin> set (xs @ x # ys)"
  shows "\<exists>s'. LIST_INSERT_BEFORE x e s = Some s' \<and> same_links s' (splice (end_loc (First h) xs) e s) \<and>
    le_prev s' = prev_in (end_loc (First h) xs) e (x # ys) (le_prev s)"
proof -
  let ?l = "end_loc (First h) xs"
  note at = dlist_at[OF assms(1)[unfolded list_rep_def]]
  define s' where "s' = (put ?l e (put (Next e) x (s\<lparr>le_prev := (le_prev s)(e \<mapsto> ?l)\<rparr>)))
    \<lparr>le_prev := (le_prev s)(e \<mapsto> ?l, x \<mapsto> Next e)\<rparr>"
  have e: "qnext s e \<noteq> None" "le_prev s e \<noteq> None" "e \<noteq> x" using assms(2,3) by (auto simp: list_nodes_def)
  have "LIST_INSERT_BEFORE x e s = Some s'"
    using at e by (simp add: list_macro_defs store_put s'_def dom_def del: store.simps)
  moreover have "same_links s' (splice ?l e s)" "le_prev s' = prev_in ?l e (x # ys) (le_prev s)"
    using at(2) e(3) by (auto simp: same_links_def splice_def s'_def prev_in_def)
  ultimately show ?thesis by blast
qed

lemma insert_after_effect:
  assumes "list_rep h s (xs @ x # ys)" and "e \<in> list_nodes s" and "e \<notin> set (xs @ x # ys)"
  shows "\<exists>s'. LIST_INSERT_AFTER x e s = Some s' \<and> same_links s' (splice (Next x) e s) \<and>
    le_prev s' = prev_in (Next x) e ys (le_prev s)"
proof -
  note at = dlist_at[OF assms(1)[unfolded list_rep_def]]
  have e: "qnext s e \<noteq> None" "le_prev s e \<noteq> None" "e \<noteq> x" using assms(2,3) by (auto simp: list_nodes_def)
  define s' where "s' = (put (Next x) e (case ys of [] \<Rightarrow> put (Next e) 0 s
      | y # _ \<Rightarrow> (put (Next e) y s)\<lparr>le_prev := (le_prev s)(y \<mapsto> Next e)\<rparr>))
    \<lparr>le_prev := prev_in (Next x) e ys (le_prev s)\<rparr>"
  have "LIST_INSERT_AFTER x e s = Some s'"
    using at e by (cases ys) (auto simp: list_macro_defs store_put s'_def dom_def prev_in_def simp del: store.simps)
  moreover have "same_links s' (splice (Next x) e s)" "le_prev s' = prev_in (Next x) e ys (le_prev s)"
    using at(4) by (auto simp: same_links_def splice_def s'_def split: list.split)
  ultimately show ?thesis by blast
qed

lemma list_insert_before:
  assumes "list_rep h s (xs @ x # ys)" and "e \<in> list_nodes s" and "e \<noteq> 0" and "e \<notin> set (xs @ x # ys)"
  shows "\<exists>s'. LIST_INSERT_BEFORE x e s = Some s' \<and> list_rep h s' (xs @ e # x # ys) \<and>
    list_nodes s' = list_nodes s"
  using insert_before_effect[OF assms(1,2,4)] list_inserted[OF assms] by blast

lemma list_insert_after:
  assumes "list_rep h s (xs @ x # ys)" and "e \<in> list_nodes s" and "e \<noteq> 0" and "e \<notin> set (xs @ x # ys)"
  shows "\<exists>s'. LIST_INSERT_AFTER x e s = Some s' \<and> list_rep h s' (xs @ x # e # ys) \<and>
    list_nodes s' = list_nodes s"
  using insert_after_effect[OF assms(1,2,4)] list_inserted[of h s "xs @ [x]" ys e] assms by fastforce

lemma list_insert_head:
  assumes "list_rep h s xs" and "e \<in> list_nodes s" and "e \<noteq> 0" and "e \<notin> set xs"
  shows "\<exists>s'. LIST_INSERT_HEAD h e s = Some s' \<and> list_rep h s' (e # xs) \<and> list_nodes s' = list_nodes s"
proof -
  have e: "qnext s e \<noteq> None" "le_prev s e \<noteq> None" using assms(2) by (auto simp: list_nodes_def)
  have first: "qfirst s h = (case xs of [] \<Rightarrow> 0 | x # _ \<Rightarrow> x)"
    and hd: "xs = y # ys \<Longrightarrow> le_prev s y \<noteq> None \<and> y \<noteq> 0" for y ys
    using dlist_first dlist_at(1,3)[of s "le_prev s" h "[]"] assms(1) by (auto simp: list_rep_def)
  define s' where "s' = (put (First h) e (case xs of [] \<Rightarrow> put (Next e) (qfirst s h) s
      | y # _ \<Rightarrow> (put (Next e) (qfirst s h) s)\<lparr>le_prev := (le_prev s)(y \<mapsto> Next e)\<rparr>))
    \<lparr>le_prev := prev_in (First h) e xs (le_prev s)\<rparr>"
  have qf: "qfirst (put (Next e) v s) h = qfirst s h" for v by (simp add: put.simps)
  have "LIST_INSERT_HEAD h e s = Some s'"
    using first hd e assms(4) qf
    by (cases xs) (auto simp: list_macro_defs store_put s'_def dom_def prev_in_def simp del: store.simps)
  moreover have "same_links s' (splice (First h) e s)" "le_prev s' = prev_in (First h) e xs (le_prev s)"
    by (auto simp: same_links_def splice_def s'_def split: list.split)
  ultimately show ?thesis using list_inserted[of h s "[]" xs e s'] assms by simp
qed

lemma remove_effect:
  assumes "list_rep h s (xs @ e # ys)"
  shows "\<exists>s'. LIST_REMOVE e s = Some s' \<and> same_links s' (unsplice (end_loc (First h) xs) e s) \<and>
    le_prev s' = prev_out (end_loc (First h) xs) ys (le_prev s)"
proof -
  let ?l = "end_loc (First h) xs" and ?n = "case ys of [] \<Rightarrow> 0 | y # _ \<Rightarrow> y"
  note at = dlist_at[OF assms[unfolded list_rep_def]]
  define s' where "s' = put ?l ?n (s\<lparr>le_prev := prev_out ?l ys (le_prev s)\<rparr>)"
  have "LIST_REMOVE e s = Some s'"
    using at by (cases ys) (auto simp: list_macro_defs store_put s'_def dom_def prev_out_def simp del: store.simps)
  moreover have "same_links s' (unsplice ?l e s)" "le_prev s' = prev_out ?l ys (le_prev s)"
    using at(4) by (auto simp: same_links_def unsplice_def s'_def)
  ultimately show ?thesis by blast
qed

lemma list_remove:
  assumes "list_rep h s (xs @ e # ys)"
  shows "\<exists>s'. LIST_REMOVE e s = Some s' \<and> list_rep h s' (xs @ ys) \<and> list_nodes s' = list_nodes s"
  using remove_effect[OF assms] list_deleted[OF assms] by blast

text \<open>Removing what was inserted gives every link but those of the element its old value.\<close>

lemma splice_restored:
  assumes "list_rep h s (xs @ ys)" and "l = end_loc (First h) xs" and "e \<notin> set (xs @ ys)"
    and "same_links s1 (splice l e s)" and "le_prev s1 = prev_in l e ys (le_prev s)"
    and "same_links s2 (unsplice l e s1)" and "le_prev s2 = prev_out l ys (le_prev s1)"
  shows "(\<forall>m. m \<noteq> Next e \<longrightarrow> load m s2 = load m s) \<and> (\<forall>p. p \<noteq> e \<longrightarrow> le_prev s2 p = le_prev s p)"
proof -
  have d: "dlist s (le_prev s) h (xs @ ys)" using assms(1) by (simp add: list_rep_def)
  then have at: "load l s = Some (case ys of [] \<Rightarrow> 0 | y # _ \<Rightarrow> y)" "l \<noteq> Next e"
    using assms(2,3) by (auto simp: dlist_def seg_append end_loc_def split: list.split)
  have "ys = y # zs \<Longrightarrow> le_prev s y = Some l" for y zs
    using dlist_at(1)[of s "le_prev s" h xs y zs] d assms(2) by simp
  then show ?thesis
    using assms(4-7) at
    by (cases ys) (auto simp: same_links_def splice_def unsplice_def prev_in_def prev_out_def)
qed

lemma list_replace:
  assumes "list_rep h s (xs @ e # ys)" and "e2 \<in> list_nodes s" and "e2 \<noteq> 0" and "e2 \<notin> set (xs @ e # ys)"
  shows "\<exists>s'. LIST_REPLACE e e2 s = Some s' \<and> list_rep h s' (xs @ e2 # ys)"
proof -
  let ?l = "end_loc (First h) xs"
  note at = dlist_at[OF assms(1)[unfolded list_rep_def]]
  have e: "qnext s e2 \<noteq> None" "le_prev s e2 \<noteq> None" "e2 \<noteq> e" using assms(2,4) by (auto simp: list_nodes_def)
  define s' where "s' = put ?l e2 ((put (Next e2) (the (qnext s e)) s)\<lparr>le_prev := prev_in ?l e2 ys (le_prev s)\<rparr>)"
  have "LIST_REPLACE e e2 s = Some s'"
    using at e by (cases ys) (auto simp: list_macro_defs store_put s'_def dom_def prev_in_def simp del: store.simps)
  moreover have "same_links s' (put ?l e2 (put (Next e2) (the (qnext s e)) s))"
    "le_prev s' = prev_in ?l e2 ys (le_prev s)"
    by (auto simp: same_links_def s'_def)
  ultimately show ?thesis
    using dlist_replace[OF assms(1)[unfolded list_rep_def] assms(3,4) refl] by (auto simp: list_rep_def)
qed

lemma list_swap:
  assumes "list_rep h1 s xs" and "list_rep h2 s ys" and "set xs \<inter> set ys = {}" and "h1 \<noteq> h2"
  shows "\<exists>s'. LIST_SWAP h1 h2 s = Some s' \<and> list_rep h1 s' ys \<and> list_rep h2 s' xs"
proof -
  have first: "qfirst s h1 = (case xs of [] \<Rightarrow> 0 | x # _ \<Rightarrow> x)" "qfirst s h2 = (case ys of [] \<Rightarrow> 0 | y # _ \<Rightarrow> y)"
    using assms(1,2) dlist_first by (auto simp: list_rep_def)
  have hd: "xs = x # xs' \<Longrightarrow> le_prev s x \<noteq> None \<and> x \<noteq> 0" "ys = y # ys' \<Longrightarrow> le_prev s y \<noteq> None \<and> y \<noteq> 0" for x y xs' ys'
    using assms(1,2) dlist_at(1,3)[of s "le_prev s" _ "[]"] by (auto simp: list_rep_def)
  define pv where "pv = (case ys of [] \<Rightarrow> le_prev s | y # _ \<Rightarrow> (le_prev s)(y \<mapsto> First h1))"
  define s' where "s' = s\<lparr>qfirst := (qfirst s)(h1 := qfirst s h2, h2 := qfirst s h1),
    le_prev := (case xs of [] \<Rightarrow> pv | x # _ \<Rightarrow> pv(x \<mapsto> First h2))\<rparr>"
  have "LIST_SWAP h1 h2 s = Some s'"
    using first hd assms(3,4) by (cases xs; cases ys) (auto simp: list_macro_defs s'_def pv_def dom_def)
  moreover have "list_rep h1 s' ys"
    using assms(2)[unfolded list_rep_def] first assms(3,4) unfolding list_rep_def
    by (rule_tac dlist_move; cases xs; cases ys)
       (auto simp: s'_def pv_def dlist_def)
  moreover have "list_rep h2 s' xs"
    using assms(1)[unfolded list_rep_def] first assms(3,4) unfolding list_rep_def
    by (rule_tac dlist_move; cases xs; cases ys)
       (auto simp: s'_def pv_def dlist_def)
  ultimately show ?thesis by blast
qed

lemma list_prev:
  assumes "list_rep h s (xs @ x # ys)"
  shows "LIST_PREV x h s = Some (if xs = [] then 0 else last xs)"
  using dlist_at(1)[OF assms[unfolded list_rep_def]] by (simp add: LIST_PREV_def LIST_END_def end_loc_def)

lemma list_foreach: "list_rep h s xs \<Longrightarrow> LIST_FOREACH h s = Some xs"
  by (simp add: LIST_FOREACH_def list_rep_def dlist_def follow_seg)

text \<open>A loop that removes every element it visits empties the list.\<close>

lemma list_remove_all:
  assumes "list_rep h s xs"
  shows "\<exists>s'. LIST_FOREACH_SAFE LIST_REMOVE h s = Some s' \<and> list_rep h s' []"
  using assms
proof (induction xs arbitrary: s)
  case Nil
  then have "qfirst s h = 0" using dlist_first[of s "le_prev s" h "[]"] by (simp add: list_rep_def)
  then show ?case
    using Nil by (subst SLIST_FOREACH_SAFE.simps | simp add: LIST_FOREACH_SAFE_def LIST_FIRST_def)+
next
  case (Cons x xs)
  have at: "qfirst s h = x" "x \<noteq> 0" "qnext s x = Some (case xs of [] \<Rightarrow> 0 | y # _ \<Rightarrow> y)"
    using Cons.prems dlist_first[of s "le_prev s" h "x # xs"] dlist_at(3,4)[of s "le_prev s" h "[]" x xs] by (auto simp: list_rep_def)
  obtain s1 where s1: "LIST_REMOVE x s = Some s1" "list_rep h s1 xs"
    using list_remove[of h s "[]" x xs] Cons.prems by auto
  have "qfirst s1 h = (case xs of [] \<Rightarrow> 0 | y # _ \<Rightarrow> y)"
    using s1(2) dlist_first by (auto simp: list_rep_def)
  with Cons.IH[OF s1(2)] at s1(1) show ?case
    by (simp add: LIST_FOREACH_SAFE_def LIST_FIRST_def SLIST_FOREACH_SAFE.simps[of _ _ x])
qed

interpretation li: linked_list "list_rep h" list_nodes "LIST_INIT h" "LIST_FIRST h" "LIST_EMPTY h"
  "LIST_INSERT_HEAD h" LIST_REMOVE for h
proof unfold_locales
  fix s xs assume rep: "list_rep h s xs"
  show "xs = ys" if "list_rep h s ys" for ys using rep that dlist_unique by (simp add: list_rep_def) blast
  show "distinct xs" using rep by (simp add: list_rep_def dlist_def)
  show "set xs \<subseteq> list_nodes s" using rep dlist_nodes by (simp add: list_rep_def list_nodes_def)
  show "LIST_FIRST h s = (case xs of [] \<Rightarrow> 0 | x # _ \<Rightarrow> x)"
    using rep dlist_first by (simp add: list_rep_def LIST_FIRST_def)
  have "xs = y # ys \<Longrightarrow> y \<noteq> 0" for y ys
    using rep dlist_at(3)[of s "le_prev s" h "[]"] by (auto simp: list_rep_def)
  then show "LIST_EMPTY h s \<longleftrightarrow> xs = []"
    using rep dlist_first[of s "le_prev s" h xs]
    by (auto simp: list_rep_def LIST_EMPTY_def LIST_END_def split: list.splits)
next
  show "list_rep h (LIST_INIT h s) []" and "list_nodes (LIST_INIT h s) = list_nodes s" for s
    by (simp_all add: list_rep_def dlist_def LIST_INIT_def LIST_END_def list_nodes_def)
qed (simp_all add: list_insert_head list_remove)

section \<open>Properties\<close>

text \<open>
  What the macros see of a list from both sides, and a memory in which every link but those
  of \<open>e\<close> is as in \<open>s\<close>.
\<close>

definition linked :: "nat \<Rightarrow> list_mem \<Rightarrow> ptr list \<Rightarrow> bool" where
  "linked h t zs \<longleftrightarrow> LIST_FOREACH h t = Some zs \<and>
     (\<forall>as z bs. zs = as @ z # bs \<longrightarrow> LIST_PREV z h t = Some (if as = [] then LIST_END else last as))"

definition restored :: "ptr \<Rightarrow> list_mem \<Rightarrow> list_mem \<Rightarrow> bool" where
  "restored e s t \<longleftrightarrow>
     (\<forall>m. m \<noteq> Next e \<longrightarrow> load m t = load m s) \<and> (\<forall>p. p \<noteq> e \<longrightarrow> le_prev t p = le_prev s p)"

lemma list_linked: "list_rep h t zs \<Longrightarrow> linked h t zs"
  using list_foreach[of h t zs] list_prev[of h t] unfolding linked_def LIST_END_def by blast

text \<open>
  C24: Inserting an element into a doubly linked list, before or after any member, puts it
  there for the loop and for \<open>LIST_PREV\<close> of every member; removing it again restores every
  link of the memory, forward and backward, except those of the element itself. A
  \<open>LIST_FOREACH_SAFE\<close> loop that removes what it visits empties the list.
\<close>

theorem list_remove_undoes_insert:
  assumes "list_rep h s (xs @ x # ys)" and "e \<in> list_nodes s" and "e \<noteq> 0" and "e \<notin> set (xs @ x # ys)"
  shows "linked h s (xs @ x # ys) \<and>
    (\<exists>s1 s2. LIST_INSERT_AFTER x e s = Some s1 \<and> linked h s1 (xs @ x # e # ys) \<and>
      LIST_REMOVE e s1 = Some s2 \<and> restored e s s2 \<and> linked h s2 (xs @ x # ys)) \<and>
    (\<exists>s1 s2. LIST_INSERT_BEFORE x e s = Some s1 \<and> linked h s1 (xs @ e # x # ys) \<and>
      LIST_REMOVE e s1 = Some s2 \<and> restored e s s2 \<and> linked h s2 (xs @ x # ys)) \<and>
    (\<exists>s1. LIST_FOREACH_SAFE LIST_REMOVE h s = Some s1 \<and> LIST_FOREACH h s1 = Some [])"
proof (intro conjI)
  show "linked h s (xs @ x # ys)" by (rule list_linked[OF assms(1)])
  have undo: "\<exists>s2. LIST_REMOVE e s1 = Some s2 \<and> restored e s s2 \<and> linked h s2 (us @ vs)"
    if split: "xs @ x # ys = us @ vs" and rep: "list_rep h s1 (us @ e # vs)"
      and eff: "same_links s1 (splice (end_loc (First h) us) e s)"
        "le_prev s1 = prev_in (end_loc (First h) us) e vs (le_prev s)" for s1 us vs
  proof -
    obtain s2 where s2: "LIST_REMOVE e s1 = Some s2" "same_links s2 (unsplice (end_loc (First h) us) e s1)"
      "le_prev s2 = prev_out (end_loc (First h) us) vs (le_prev s1)"
      using remove_effect[OF rep] by blast
    then have "restored e s s2"
      using splice_restored[of h s us vs, OF _ refl _ eff s2(2,3)] assms(1,4) split by (simp add: restored_def)
    moreover have "linked h s2 (us @ vs)" using list_deleted[OF rep s2(2,3)] list_linked by blast
    ultimately show ?thesis using s2(1) by blast
  qed
  obtain s1 where "LIST_INSERT_AFTER x e s = Some s1" and
    s1: "same_links s1 (splice (end_loc (First h) (xs @ [x])) e s)"
    "le_prev s1 = prev_in (end_loc (First h) (xs @ [x])) e ys (le_prev s)"
    using insert_after_effect[OF assms(1,2,4)] by auto
  moreover have "list_rep h s1 ((xs @ [x]) @ e # ys)"
    using list_inserted[OF _ _ _ _ s1] assms(1-4) by simp
  ultimately show "\<exists>s1 s2. LIST_INSERT_AFTER x e s = Some s1 \<and> linked h s1 (xs @ x # e # ys) \<and>
      LIST_REMOVE e s1 = Some s2 \<and> restored e s s2 \<and> linked h s2 (xs @ x # ys)"
    using undo[of "xs @ [x]" ys s1] list_linked[of h s1] by auto
  obtain t1 where "LIST_INSERT_BEFORE x e s = Some t1" and
    t1: "same_links t1 (splice (end_loc (First h) xs) e s)"
    "le_prev t1 = prev_in (end_loc (First h) xs) e (x # ys) (le_prev s)"
    using insert_before_effect[OF assms(1,2,4)] by auto
  moreover have "list_rep h t1 (xs @ e # x # ys)" using list_inserted[OF assms(1-4) t1] by simp
  ultimately show "\<exists>s1 s2. LIST_INSERT_BEFORE x e s = Some s1 \<and> linked h s1 (xs @ e # x # ys) \<and>
      LIST_REMOVE e s1 = Some s2 \<and> restored e s s2 \<and> linked h s2 (xs @ x # ys)"
    using undo[of xs "x # ys" t1] list_linked[of h t1] by auto
  show "\<exists>s1. LIST_FOREACH_SAFE LIST_REMOVE h s = Some s1 \<and> LIST_FOREACH h s1 = Some []"
    using list_remove_all[OF assms(1)] list_foreach by blast
qed

text \<open>The head 0 with the elements 1 and 2, and an unused element 3.\<close>

definition demo_list :: list_mem where
  "demo_list = \<lparr>qfirst = (\<lambda>_. 1), qnext = [1 \<mapsto> 2, 2 \<mapsto> 0, 3 \<mapsto> 7],
     le_prev = [1 \<mapsto> First 0, 2 \<mapsto> Next 1, 3 \<mapsto> Next 3]\<rparr>"

theorem list_remove_undoes_insert_witness:
  "\<exists>s1 s2. LIST_INSERT_BEFORE 2 3 demo_list = Some s1 \<and> LIST_FOREACH 0 s1 = Some [1, 3, 2] \<and>
      LIST_REMOVE 3 s1 = Some s2 \<and> LIST_FOREACH 0 s2 = Some [1, 2] \<and> (\<forall>p. p \<noteq> 3 \<longrightarrow> le_prev s2 p = le_prev demo_list p)"
proof -
  have "list_rep 0 demo_list ([1] @ 2 # [])" "3 \<in> list_nodes demo_list"
    by (simp_all add: list_rep_def dlist_def demo_list_def list_nodes_def)
  from list_remove_undoes_insert[OF this] obtain s1 s2 where
    "LIST_INSERT_BEFORE 2 3 demo_list = Some s1" "linked 0 s1 [1, 3, 2]"
    "LIST_REMOVE 3 s1 = Some s2" "restored 3 demo_list s2" "linked 0 s2 [1, 2]" by auto
  then show ?thesis by (auto simp: linked_def restored_def)
qed

end
