(* ===== verification/Stailq.thy ===== *)
theory Stailq
  imports Links
begin

text \<open>
  The \<open>STAILQ\<close> macros of \<open>server/queue.h\<close>: singly linked lists whose head also holds the address
  of the last link. Interpreted as a \<open>tail_queue\<close> and as a \<open>linked_stack\<close> at the end.
\<close>

record stailq_mem = links +
  stqh_last :: "nat \<Rightarrow> loc"

section \<open>The macros\<close>

definition set_stqh_last :: "nat \<Rightarrow> loc \<Rightarrow> stailq_mem \<Rightarrow> stailq_mem" where
  "set_stqh_last head l s = s\<lparr>stqh_last := (stqh_last s)(head := l)\<rparr>"

definition STAILQ_END :: ptr where
  "STAILQ_END = 0"

definition STAILQ_FIRST :: "nat \<Rightarrow> stailq_mem \<Rightarrow> ptr" where
  "STAILQ_FIRST head s = qfirst s head"

definition STAILQ_NEXT :: "ptr \<Rightarrow> stailq_mem \<Rightarrow> ptr outcome" where
  "STAILQ_NEXT elm s = qnext s elm"

definition STAILQ_EMPTY :: "nat \<Rightarrow> stailq_mem \<Rightarrow> bool" where
  "STAILQ_EMPTY head s \<longleftrightarrow> qfirst s head = STAILQ_END"

text \<open>The element that contains the link \<open>stqh_last\<close> points to.\<close>

definition STAILQ_LAST :: "nat \<Rightarrow> stailq_mem \<Rightarrow> ptr outcome" where
  "STAILQ_LAST head s =
     (if STAILQ_EMPTY head s then Some STAILQ_END
      else case stqh_last s head of Next p \<Rightarrow> Some p | First _ \<Rightarrow> None)"

definition STAILQ_INIT :: "nat \<Rightarrow> stailq_mem \<Rightarrow> stailq_mem" where
  "STAILQ_INIT head s = set_stqh_last head (First head) (s\<lparr>qfirst := (qfirst s)(head := STAILQ_END)\<rparr>)"

definition STAILQ_INSERT_HEAD :: "nat \<Rightarrow> ptr \<Rightarrow> stailq_mem \<Rightarrow> stailq_mem outcome" where
  "STAILQ_INSERT_HEAD head elm s =
     Option.bind (store (Next elm) (qfirst s head) s) (\<lambda>s1.
     store (First head) elm
       (if qfirst s head = STAILQ_END then set_stqh_last head (Next elm) s1 else s1))"

definition STAILQ_INSERT_AFTER :: "nat \<Rightarrow> ptr \<Rightarrow> ptr \<Rightarrow> stailq_mem \<Rightarrow> stailq_mem outcome" where
  "STAILQ_INSERT_AFTER head listelm elm s =
     Option.bind (qnext s listelm) (\<lambda>n.
     Option.bind (store (Next elm) n s) (\<lambda>s1.
     store (Next listelm) elm (if n = STAILQ_END then set_stqh_last head (Next elm) s1 else s1)))"

definition STAILQ_INSERT_TAIL :: "nat \<Rightarrow> ptr \<Rightarrow> stailq_mem \<Rightarrow> stailq_mem outcome" where
  "STAILQ_INSERT_TAIL head elm s =
     Option.bind (store (Next elm) STAILQ_END s) (\<lambda>s1.
     map_option (set_stqh_last head (Next elm)) (store (stqh_last s1 head) elm s1))"

definition STAILQ_CONCAT :: "nat \<Rightarrow> nat \<Rightarrow> stailq_mem \<Rightarrow> stailq_mem outcome" where
  "STAILQ_CONCAT head1 head2 s =
     (if \<not> STAILQ_EMPTY head2 s then
        map_option (\<lambda>s1. STAILQ_INIT head2 (set_stqh_last head1 (stqh_last s1 head2) s1))
          (store (stqh_last s head1) (qfirst s head2) s)
      else Some s)"

definition STAILQ_REMOVE_HEAD :: "nat \<Rightarrow> stailq_mem \<Rightarrow> stailq_mem outcome" where
  "STAILQ_REMOVE_HEAD head s =
     Option.bind (qnext s (qfirst s head)) (\<lambda>n.
     map_option (\<lambda>s1. if n = STAILQ_END then set_stqh_last head (First head) s1 else s1)
       (store (First head) n s))"

definition STAILQ_REMOVE_HEAD_UNTIL :: "nat \<Rightarrow> ptr \<Rightarrow> stailq_mem \<Rightarrow> stailq_mem outcome" where
  "STAILQ_REMOVE_HEAD_UNTIL head elm s =
     Option.bind (STAILQ_NEXT elm s) (\<lambda>n.
     map_option (\<lambda>s1. if n = STAILQ_END then set_stqh_last head (First head) s1 else s1)
       (store (First head) n s))"

definition STAILQ_REMOVE_AFTER :: "nat \<Rightarrow> ptr \<Rightarrow> stailq_mem \<Rightarrow> stailq_mem outcome" where
  "STAILQ_REMOVE_AFTER head elm s =
     Option.bind (STAILQ_NEXT elm s) (\<lambda>m.
     Option.bind (STAILQ_NEXT m s) (\<lambda>n.
     map_option (\<lambda>s1. if n = STAILQ_END then set_stqh_last head (Next elm) s1 else s1)
       (store (Next elm) n s)))"

definition STAILQ_REMOVE :: "nat \<Rightarrow> ptr \<Rightarrow> stailq_mem \<Rightarrow> stailq_mem outcome" where
  "STAILQ_REMOVE head elm s =
     (if qfirst s head = elm then STAILQ_REMOVE_HEAD head s
      else Option.bind (search_before (qnext s) elm (qfirst s head)) (\<lambda>curelm.
             STAILQ_REMOVE_AFTER head curelm s))"

definition STAILQ_SWAP :: "nat \<Rightarrow> nat \<Rightarrow> stailq_mem \<Rightarrow> stailq_mem" where
  "STAILQ_SWAP head1 head2 s =
     (let swap_first = qfirst s head1;
          swap_last = stqh_last s head1;
          s1 = s\<lparr>qfirst := (qfirst s)(head1 := qfirst s head2), stqh_last := (stqh_last s)(head1 := stqh_last s head2)\<rparr>;
          s2 = s1\<lparr>qfirst := (qfirst s1)(head2 := swap_first), stqh_last := (stqh_last s1)(head2 := swap_last)\<rparr>;
          s3 = (if STAILQ_EMPTY head1 s2 then set_stqh_last head1 (First head1) s2 else s2)
      in if STAILQ_EMPTY head2 s3 then set_stqh_last head2 (First head2) s3 else s3)"

definition STAILQ_FOREACH :: "nat \<Rightarrow> stailq_mem \<Rightarrow> ptr list outcome" where
  "STAILQ_FOREACH head s = follow (qnext s) (qfirst s head)"

definition STAILQ_FOREACH_SAFE ::
  "(ptr \<Rightarrow> stailq_mem \<Rightarrow> stailq_mem option) \<Rightarrow> nat \<Rightarrow> stailq_mem \<Rightarrow> stailq_mem outcome" where
  "STAILQ_FOREACH_SAFE body head s = SLIST_FOREACH_SAFE qnext body (STAILQ_FIRST head s) s"

section \<open>What they do to a list\<close>

definition stailq_rep :: "nat \<Rightarrow> stailq_mem \<Rightarrow> ptr list \<Rightarrow> bool" where
  "stailq_rep h s xs \<longleftrightarrow> seg s (First h) xs \<and> distinct xs \<and> stqh_last s h = end_loc (First h) xs"

lemma load_stqh_last [simp]: "load l (set_stqh_last h v s) = load l s"
  by (cases l) (auto simp: set_stqh_last_def)

lemma put_stqh_last [simp]: "stqh_last (put l v s) = stqh_last s"
  by (cases l) (auto simp: put.simps)

lemma set_stqh_last_facts [simp]:
  "stqh_last (set_stqh_last h v s) = (stqh_last s)(h := v)" "qnext (set_stqh_last h v s) = qnext s"
  "qfirst (set_stqh_last h v s) = qfirst s"
  by (simp_all add: set_stqh_last_def)

lemmas stailq_macro_defs = STAILQ_INSERT_HEAD_def STAILQ_INSERT_AFTER_def STAILQ_INSERT_TAIL_def
  STAILQ_REMOVE_HEAD_def STAILQ_REMOVE_AFTER_def STAILQ_NEXT_def STAILQ_END_def

lemma stailq_inserted:
  assumes "stailq_rep h s (xs @ ys)" and "e \<in> dom (qnext s)" and "e \<noteq> 0" and "e \<notin> set (xs @ ys)"
    and "same_links s' (splice (end_loc (First h) xs) e s)"
    and "stqh_last s' h = (if ys = [] then Next e else stqh_last s h)"
  shows "stailq_rep h s' (xs @ e # ys) \<and> dom (qnext s') = dom (qnext s)"
proof
  have rep: "seg s (First h) (xs @ ys)" "distinct (xs @ ys)" "stqh_last s h = end_loc (First h) (xs @ ys)"
    using assms(1) by (simp_all add: stailq_rep_def)
  show "stailq_rep h s' (xs @ e # ys)"
    using splice_in[OF rep(1,2) assms(3,4) refl] assms(4,6) rep(2,3)
    by (cases ys) (auto simp: stailq_rep_def seg_same[OF assms(5)])
  have "load (end_loc (First h) xs) s \<noteq> None" using rep(1) seg_load by (fastforce simp: seg_append)
  then show "dom (qnext s') = dom (qnext s)" using same_links_dom[OF assms(5)] dom_splice assms(2) by metis
qed

lemma stailq_deleted:
  assumes "stailq_rep h s (xs @ e # ys)" and "same_links s' (unsplice (end_loc (First h) xs) e s)"
    and "stqh_last s' h = (if ys = [] then end_loc (First h) xs else stqh_last s h)"
  shows "stailq_rep h s' (xs @ ys) \<and> dom (qnext s') = dom (qnext s)"
proof
  have rep: "seg s (First h) (xs @ e # ys)" "distinct (xs @ e # ys)" "stqh_last s h = end_loc (First h) (xs @ e # ys)"
    using assms(1) by (simp_all add: stailq_rep_def)
  show "stailq_rep h s' (xs @ ys)"
    using splice_out[OF rep(1,2) refl] assms(3) rep(2,3)
    by (auto simp: stailq_rep_def seg_same[OF assms(2)] end_loc_def)
  have "load (end_loc (First h) xs) s \<noteq> None" using rep(1) by (simp add: seg_append)
  then show "dom (qnext s') = dom (qnext s)" using same_links_dom[OF assms(2)] dom_unsplice by metis
qed

lemma stailq_at:
  assumes "stailq_rep h s (xs @ x # ys)"
  shows "load (end_loc (First h) xs) s = Some x" and "x \<noteq> 0"
    and "qnext s x = Some (case ys of [] \<Rightarrow> 0 | y # _ \<Rightarrow> y)" and "0 \<notin> set ys"
  using assms seg_load[of s "Next x" ys] seg_nonzero[of s "Next x" ys]
  by (auto simp: stailq_rep_def seg_append)

lemma stailq_first: "stailq_rep h s xs \<Longrightarrow> qfirst s h = (case xs of [] \<Rightarrow> 0 | x # _ \<Rightarrow> x)"
  using seg_load[of s "First h" xs] by (simp add: stailq_rep_def)

lemma stailq_insert_head:
  assumes "stailq_rep h s xs" and "e \<in> dom (qnext s)" and "e \<noteq> 0" and "e \<notin> set xs"
  shows "\<exists>s'. STAILQ_INSERT_HEAD h e s = Some s' \<and> stailq_rep h s' (e # xs) \<and> dom (qnext s') = dom (qnext s)"
proof -
  have first: "qfirst s h = 0 \<longleftrightarrow> xs = []"
    using stailq_first[OF assms(1)] stailq_at(2)[of h s "[]"] assms(1) by (cases xs) auto
  let ?s1 = "put (Next e) (qfirst s h) s"
  define s' where "s' = put (First h) e (if xs = [] then set_stqh_last h (Next e) ?s1 else ?s1)"
  have "STAILQ_INSERT_HEAD h e s = Some s'"
    using first assms(2) by (auto simp: stailq_macro_defs store_put s'_def simp del: store.simps)
  moreover have "same_links s' (splice (First h) e s)" by (auto simp: same_links_def splice_def s'_def)
  ultimately show ?thesis using stailq_inserted[of h s "[]" xs e s'] assms by (simp add: s'_def)
qed

lemma stailq_insert_after:
  assumes "stailq_rep h s (xs @ x # ys)" and "e \<in> dom (qnext s)" and "e \<noteq> 0" and "e \<notin> set (xs @ x # ys)"
  shows "\<exists>s'. STAILQ_INSERT_AFTER h x e s = Some s' \<and> stailq_rep h s' (xs @ x # e # ys) \<and>
    dom (qnext s') = dom (qnext s)"
proof -
  note at = stailq_at[OF assms(1)]
  let ?n = "case ys of [] \<Rightarrow> 0 | y # _ \<Rightarrow> y" and ?s1 = "put (Next e) (case ys of [] \<Rightarrow> 0 | y # _ \<Rightarrow> y) s"
  have n: "?n = 0 \<longleftrightarrow> ys = []" using at(4) by (cases ys) auto
  define s' where "s' = put (Next x) e (if ys = [] then set_stqh_last h (Next e) ?s1 else ?s1)"
  have "STAILQ_INSERT_AFTER h x e s = Some s'"
    using at(3) n assms(2) by (auto simp: stailq_macro_defs store_put s'_def simp del: store.simps)
  moreover have "same_links s' (splice (Next x) e s)"
    using at(3) by (auto simp: same_links_def splice_def s'_def)
  ultimately show ?thesis using stailq_inserted[of h s "xs @ [x]" ys e s'] assms by (simp add: s'_def)
qed

lemma stailq_insert_tail:
  assumes "stailq_rep h s xs" and "e \<in> dom (qnext s)" and "e \<noteq> 0" and "e \<notin> set xs"
  shows "\<exists>s'. STAILQ_INSERT_TAIL h e s = Some s' \<and> stailq_rep h s' (xs @ [e]) \<and> dom (qnext s') = dom (qnext s)"
proof -
  let ?l = "end_loc (First h) xs"
  have l: "stqh_last s h = ?l" "load ?l s = Some 0" using assms(1) by (auto simp: stailq_rep_def seg_def)
  define s' where "s' = set_stqh_last h (Next e) (put ?l e (put (Next e) 0 s))"
  have "STAILQ_INSERT_TAIL h e s = Some s'"
    using l assms(2) by (auto simp: stailq_macro_defs store_put s'_def simp del: store.simps)
  moreover have "same_links s' (splice ?l e s)" using l(2) by (auto simp: same_links_def splice_def s'_def)
  ultimately show ?thesis using stailq_inserted[of h s xs "[]" e s'] assms by (simp add: s'_def)
qed

lemma stailq_zero: "0 \<notin> set ys \<Longrightarrow> (case ys of [] \<Rightarrow> 0 | y # _ \<Rightarrow> y) = 0 \<longleftrightarrow> ys = []"
  by (cases ys) auto

lemma stailq_remove_head:
  assumes "stailq_rep h s (x # ys)"
  shows "\<exists>s'. STAILQ_REMOVE_HEAD h s = Some s' \<and> stailq_rep h s' ys \<and> dom (qnext s') = dom (qnext s)"
proof -
  note at = stailq_at[of h s "[]" x ys, simplified, OF assms]
  let ?s1 = "put (First h) (case ys of [] \<Rightarrow> 0 | y # _ \<Rightarrow> y) s"
  define s' where "s' = (if ys = [] then set_stqh_last h (First h) ?s1 else ?s1)"
  have "STAILQ_REMOVE_HEAD h s = Some s'"
    using at stailq_zero[OF at(4)] by (auto simp: stailq_macro_defs store_put s'_def simp del: store.simps)
  moreover have "same_links s' (unsplice (First h) x s)"
    using at(3) by (auto simp: same_links_def unsplice_def s'_def)
  ultimately show ?thesis using stailq_deleted[of h s "[]" x ys s'] assms by (simp add: s'_def)
qed

lemma stailq_remove_after:
  assumes "stailq_rep h s (xs @ x # y # ys)"
  shows "\<exists>s'. STAILQ_REMOVE_AFTER h x s = Some s' \<and> stailq_rep h s' (xs @ x # ys) \<and>
    dom (qnext s') = dom (qnext s)"
proof -
  note atx = stailq_at[OF assms] and at = stailq_at[of h s "xs @ [x]" y ys, simplified, OF assms]
  let ?s1 = "put (Next x) (case ys of [] \<Rightarrow> 0 | y # _ \<Rightarrow> y) s"
  define s' where "s' = (if ys = [] then set_stqh_last h (Next x) ?s1 else ?s1)"
  have "STAILQ_REMOVE_AFTER h x s = Some s'"
    using atx(3) at stailq_zero[OF at(4)]
    by (auto simp: stailq_macro_defs store_put s'_def simp del: store.simps)
  moreover have "same_links s' (unsplice (Next x) y s)"
    using at(3) by (auto simp: same_links_def unsplice_def s'_def)
  ultimately show ?thesis using stailq_deleted[of h s "xs @ [x]" y ys s'] assms by (simp add: s'_def)
qed

lemma stailq_remove:
  assumes "stailq_rep h s (xs @ e # ys)"
  shows "\<exists>s'. STAILQ_REMOVE h e s = Some s' \<and> stailq_rep h s' (xs @ ys) \<and> dom (qnext s') = dom (qnext s)"
proof (cases xs)
  case Nil
  then show ?thesis
    using stailq_remove_head[of h s e ys] stailq_first[OF assms] assms by (simp add: STAILQ_REMOVE_def)
next
  case (Cons x zs)
  have first: "qfirst s h = x" "x \<noteq> e" using stailq_first[OF assms] assms Cons by (auto simp: stailq_rep_def)
  have "search_before (qnext s) e x = Some (last xs)"
    using search_before_found[of s x zs e ys] assms Cons by (auto simp: stailq_rep_def)
  moreover obtain ws w where "xs = ws @ [w]" using Cons by (metis append_butlast_last_id list.distinct(1))
  ultimately show ?thesis
    using stailq_remove_after[of h s ws w e ys] assms first by (simp add: STAILQ_REMOVE_def)
qed

text \<open>Everything up to and including \<open>e\<close> is taken off.\<close>

lemma stailq_remove_head_until:
  assumes "stailq_rep h s (xs @ e # ys)"
  shows "\<exists>s'. STAILQ_REMOVE_HEAD_UNTIL h e s = Some s' \<and> stailq_rep h s' ys"
proof -
  note at = stailq_at[OF assms]
  let ?s1 = "put (First h) (case ys of [] \<Rightarrow> 0 | y # _ \<Rightarrow> y) s"
  define s' where "s' = (if ys = [] then set_stqh_last h (First h) ?s1 else ?s1)"
  have "STAILQ_REMOVE_HEAD_UNTIL h e s = Some s'"
    using at stailq_zero[OF at(4)]
    by (auto simp: STAILQ_REMOVE_HEAD_UNTIL_def stailq_macro_defs store_put s'_def simp del: store.simps)
  moreover have "seg s' (First h) ys"
  proof -
    have same: "same_links s' ?s1" by (simp add: same_links_def s'_def)
    have "seg s (Next e) ys" using assms by (simp add: stailq_rep_def seg_append)
    then have "seg ?s1 (First h) ys" by (cases ys) (simp_all add: seg_put)
    then show ?thesis by (simp add: seg_same[OF same])
  qed
  moreover have "stqh_last s' h = end_loc (First h) ys"
    using assms by (cases ys) (auto simp: s'_def stailq_rep_def)
  ultimately show ?thesis using assms by (auto simp: stailq_rep_def)
qed

lemma stailq_concat:
  assumes "stailq_rep h1 s xs" and "stailq_rep h2 s ys" and "distinct (xs @ ys)" and "h1 \<noteq> h2"
  shows "\<exists>s'. STAILQ_CONCAT h1 h2 s = Some s' \<and> stailq_rep h1 s' (xs @ ys) \<and> stailq_rep h2 s' []"
proof (cases ys)
  case Nil
  then have "STAILQ_EMPTY h2 s" using stailq_first[OF assms(2)] by (simp add: STAILQ_EMPTY_def STAILQ_END_def)
  then show ?thesis using assms(1,2) Nil by (simp add: STAILQ_CONCAT_def)
next
  case (Cons y ys')
  let ?l = "end_loc (First h1) xs" and ?s1 = "put (end_loc (First h1) xs) y s"
  have l: "stqh_last s h1 = ?l" "load ?l s = Some 0" using assms(1) by (auto simp: stailq_rep_def seg_def)
  have y: "qfirst s h2 = y" "y \<noteq> 0" using stailq_first[OF assms(2)] stailq_at(2)[of h2 s "[]"] assms(2) Cons by auto
  define s' where "s' = STAILQ_INIT h2 (set_stqh_last h1 (stqh_last ?s1 h2) ?s1)"
  have "STAILQ_CONCAT h1 h2 s = Some s'"
    using l y by (simp add: STAILQ_CONCAT_def STAILQ_EMPTY_def STAILQ_END_def store_put s'_def del: store.simps)
  moreover have "same_links s' (put (First h2) 0 (put ?l (hd ys) s))"
    unfolding same_links_def
  proof
    fix k
    show "load k s' = load k (put (First h2) 0 (put ?l (hd ys) s))"
      using Cons load_put[of k "First h2" 0 ?s1]
      by (cases k) (auto simp: s'_def STAILQ_INIT_def STAILQ_END_def qfirst_put)
  qed
  then have "seg s' (First h1) (xs @ ys)" "seg s' (First h2) []"
    using seg_concat[of s h1 xs h2 ys s'] assms Cons by (simp_all add: stailq_rep_def del: seg_simps)
  moreover have "stqh_last s' h1 = end_loc (First h1) (xs @ ys)" "stqh_last s' h2 = First h2"
    using assms(2,4) Cons by (simp_all add: s'_def STAILQ_INIT_def stailq_rep_def)
  ultimately show ?thesis using assms(3) by (auto simp: stailq_rep_def)
qed

lemma stailq_swap:
  assumes "stailq_rep h1 s xs" and "stailq_rep h2 s ys" and "h1 \<noteq> h2"
  shows "stailq_rep h1 (STAILQ_SWAP h1 h2 s) ys \<and> stailq_rep h2 (STAILQ_SWAP h1 h2 s) xs"
proof -
  let ?s' = "STAILQ_SWAP h1 h2 s"
  note first = stailq_first[OF assms(1)] stailq_first[OF assms(2)]
  have zero: "0 \<notin> set xs" "0 \<notin> set ys" using assms seg_nonzero unfolding stailq_rep_def by blast+
  have f: "qfirst ?s' h1 = qfirst s h2" "qfirst ?s' h2 = qfirst s h1" "qnext ?s' = qnext s"
    using assms(3) by (simp_all add: STAILQ_SWAP_def Let_def)
  have l: "stqh_last ?s' h1 = (if ys = [] then First h1 else stqh_last s h2)"
    "stqh_last ?s' h2 = (if xs = [] then First h2 else stqh_last s h1)"
    using assms(3) first stailq_zero[OF zero(1)] stailq_zero[OF zero(2)]
    by (auto simp: STAILQ_SWAP_def Let_def STAILQ_EMPTY_def STAILQ_END_def)
  have move: "seg ?s' (First h') zs" if "seg s (First h) zs" "qfirst ?s' h' = qfirst s h" for h h' zs
  proof -
    have "seg ?s' k us = seg s k us" if "load k ?s' = load k s" for k us
      using that f(3) by (induction us arbitrary: k) auto
    then show ?thesis using that f(3) by (cases zs) auto
  qed
  show ?thesis
    using assms f l move unfolding stailq_rep_def by (auto simp: end_loc_def)
qed

lemma stailq_last:
  assumes "stailq_rep h s xs"
  shows "STAILQ_LAST h s = Some (if xs = [] then 0 else last xs)"
proof -
  have "0 \<notin> set xs" using assms seg_nonzero unfolding stailq_rep_def by blast
  then show ?thesis
    using assms stailq_first[OF assms] stailq_zero[of xs]
    by (simp add: STAILQ_LAST_def STAILQ_EMPTY_def STAILQ_END_def stailq_rep_def end_loc_def)
qed

lemma stailq_foreach: "stailq_rep h s xs \<Longrightarrow> STAILQ_FOREACH h s = Some xs"
  by (simp add: STAILQ_FOREACH_def stailq_rep_def follow_seg)

section \<open>As a queue and as a stack\<close>

interpretation stq: tail_queue "stailq_rep h" "\<lambda>s. dom (qnext s)" "STAILQ_INIT h" "STAILQ_FIRST h"
  "STAILQ_EMPTY h" "STAILQ_INSERT_HEAD h" "STAILQ_REMOVE h" "STAILQ_INSERT_TAIL h" for h
proof unfold_locales
  fix s xs assume rep: "stailq_rep h s xs"
  show "xs = ys" if "stailq_rep h s ys" for ys using rep that seg_unique unfolding stailq_rep_def by blast
  show "distinct xs" using rep by (simp add: stailq_rep_def)
  show "set xs \<subseteq> dom (qnext s)" using rep seg_nodes unfolding stailq_rep_def by blast
  show "STAILQ_FIRST h s = (case xs of [] \<Rightarrow> 0 | x # _ \<Rightarrow> x)" using stailq_first[OF rep] by (simp add: STAILQ_FIRST_def)
  have "0 \<notin> set xs" using rep seg_nonzero unfolding stailq_rep_def by blast
  then show "STAILQ_EMPTY h s \<longleftrightarrow> xs = []"
    using stailq_first[OF rep] stailq_zero by (simp add: STAILQ_EMPTY_def STAILQ_END_def)
next
  show "stailq_rep h (STAILQ_INIT h s) []" and "dom (qnext (STAILQ_INIT h s)) = dom (qnext s)" for s
    by (simp_all add: stailq_rep_def STAILQ_INIT_def STAILQ_END_def)
qed (simp_all add: stailq_insert_head stailq_remove stailq_insert_tail)

definition stailq_free :: "ptr \<Rightarrow> stailq_mem \<Rightarrow> stailq_mem outcome" where
  "stailq_free p s = (if p \<in> dom (qnext s) then Some (s\<lparr>qnext := (qnext s)(p := None)\<rparr>) else None)"

interpretation stk: linked_stack "stailq_rep h" "\<lambda>s. dom (qnext s)" "STAILQ_INIT h" "STAILQ_FIRST h"
  "STAILQ_EMPTY h" "STAILQ_INSERT_HEAD h" "STAILQ_REMOVE h" "STAILQ_REMOVE_HEAD h" stailq_free for h
proof unfold_locales
  fix s xs e assume a: "stailq_rep h s xs" "e \<in> dom (qnext s)" "e \<notin> set xs"
  let ?s' = "s\<lparr>qnext := (qnext s)(e := None)\<rparr>"
  have "seg ?s' l ys = seg s l ys" if "e \<notin> set ys" "load l ?s' = load l s" for l ys
    using that by (induction ys arbitrary: l) auto
  then have "seg ?s' (First h) xs" using a by (simp add: stailq_rep_def)
  then show "\<exists>s'. stailq_free e s = Some s' \<and> stailq_rep h s' xs \<and> dom (qnext s') = dom (qnext s) - {e}"
    using a by (simp add: stailq_free_def stailq_rep_def)
qed (rule stailq_remove_head)

section \<open>Properties\<close>

text \<open>
  C26: A tail queue that is initialised and filled at the tail hands its elements out at the
  head in the order in which they came, and is empty then; \<open>STAILQ_LAST\<close> is the element
  inserted last.
\<close>

theorem tail_queue_fifo:
  assumes "set es \<subseteq> dom (qnext s) - {0}" and "distinct es"
  shows "\<exists>s1 s2. run_adds (\<lambda>s e. STAILQ_INSERT_TAIL h e s) (STAILQ_INIT h s) es = Some s1 \<and>
    STAILQ_FOREACH h s1 = Some es \<and> STAILQ_LAST h s1 = Some (if es = [] then 0 else last es) \<and>
    take_off (STAILQ_FIRST h) (STAILQ_REMOVE h) (length es) s1 = Some (es, s2) \<and> STAILQ_EMPTY h s2"
proof -
  have "set es \<subseteq> dom (qnext (STAILQ_INIT h s)) - {0}" using assms(1) stq.init_nodes by simp
  from stq.insert_tail_all[OF stq.init_rep this assms(2)] obtain s1
    where s1: "run_adds (\<lambda>s e. STAILQ_INSERT_TAIL h e s) (STAILQ_INIT h s) es = Some s1" "stailq_rep h s1 es"
    by auto
  obtain s2 where "take_off (STAILQ_FIRST h) (STAILQ_REMOVE h) (length es) s1 = Some (es, s2)" "stailq_rep h s2 []"
    using stq.take_off_all[OF s1(2) le_refl] by auto
  then show ?thesis using s1 stailq_foreach[OF s1(2)] stailq_last[OF s1(2)] stq.empty_rep by blast
qed

theorem tail_queue_fifo_witness:
  "\<exists>s1 s2. run_adds (\<lambda>s e. STAILQ_INSERT_TAIL 0 e s)
      (STAILQ_INIT 0 \<lparr>qfirst = (\<lambda>_. 5), qnext = [1 \<mapsto> 8, 2 \<mapsto> 8, 3 \<mapsto> 8], stqh_last = (\<lambda>_. Next 8)\<rparr>) [2, 3, 1] = Some s1 \<and>
    STAILQ_FOREACH 0 s1 = Some [2, 3, 1] \<and>
    take_off (STAILQ_FIRST 0) (STAILQ_REMOVE 0) 3 s1 = Some ([2, 3, 1], s2) \<and> STAILQ_EMPTY 0 s2"
  using tail_queue_fifo[of "[2, 3, 1]" "\<lparr>qfirst = (\<lambda>_. 5), qnext = [1 \<mapsto> 8, 2 \<mapsto> 8, 3 \<mapsto> 8], stqh_last = (\<lambda>_. Next 8)\<rparr>" 0]
  by (auto simp: numeral_3_eq_3)

text \<open>
  \<open>STAILQ_CONCAT\<close> and \<open>STAILQ_REMOVE_HEAD_UNTIL\<close> are inverse: appending a second queue and
  then taking everything up to the last element of the first one off leaves the second
  queue's elements, and an element inserted at the tail afterwards comes last.
\<close>

lemma concat_then_remove_until:
  assumes "stailq_rep h1 s (xs @ [x])" and "stailq_rep h2 s ys" and "distinct (xs @ [x] @ ys)" and "h1 \<noteq> h2"
  shows "\<exists>s1 s2. STAILQ_CONCAT h1 h2 s = Some s1 \<and> STAILQ_FOREACH h1 s1 = Some (xs @ x # ys) \<and> STAILQ_EMPTY h2 s1 \<and>
    STAILQ_REMOVE_HEAD_UNTIL h1 x s1 = Some s2 \<and> STAILQ_FOREACH h1 s2 = Some ys \<and>
    STAILQ_LAST h1 s2 = Some (if ys = [] then 0 else last ys)"
proof -
  obtain s1 where s1: "STAILQ_CONCAT h1 h2 s = Some s1" "stailq_rep h1 s1 (xs @ x # ys)" "stailq_rep h2 s1 []"
    using stailq_concat[OF assms(1,2) _ assms(4)] assms(3) by auto
  obtain s2 where s2: "STAILQ_REMOVE_HEAD_UNTIL h1 x s1 = Some s2" "stailq_rep h1 s2 ys"
    using stailq_remove_head_until[OF s1(2)] by blast
  then show ?thesis
    using s1 stailq_foreach[OF s1(2)] stailq_foreach[OF s2(2)] stailq_last[OF s2(2)] stq.empty_rep by blast
qed

end
