(* ===== verification/Tailq.thy ===== *)
theory Tailq
  imports Links
begin

text \<open>
  The \<open>TAILQ\<close> macros of \<open>server/queue.h\<close>: doubly linked lists with the address of the last link
  in the head. Walking backwards reads the field behind a link, \<open>tqe_prev\<close> of an element or
  \<open>tqh_last\<close> of a head, through the same pointer (\<open>second\<close>). Interpreted as a \<open>tail_queue\<close>.
\<close>

record tailq_mem = links +
  tqe_prev :: "ptr \<Rightarrow> loc option"
  tqh_last :: "nat \<Rightarrow> loc"

section \<open>The macros\<close>

definition set_tqe_prev :: "ptr \<Rightarrow> loc \<Rightarrow> tailq_mem \<Rightarrow> tailq_mem outcome" where
  "set_tqe_prev e l s =
     (if e \<in> dom (tqe_prev s) then Some (s\<lparr>tqe_prev := (tqe_prev s)(e \<mapsto> l)\<rparr>) else None)"

definition set_tqh_last :: "nat \<Rightarrow> loc \<Rightarrow> tailq_mem \<Rightarrow> tailq_mem" where
  "set_tqh_last head l s = s\<lparr>tqh_last := (tqh_last s)(head := l)\<rparr>"

definition TAILQ_END :: ptr where
  "TAILQ_END = 0"

definition TAILQ_FIRST :: "nat \<Rightarrow> tailq_mem \<Rightarrow> ptr" where
  "TAILQ_FIRST head s = qfirst s head"

definition TAILQ_NEXT :: "ptr \<Rightarrow> tailq_mem \<Rightarrow> ptr outcome" where
  "TAILQ_NEXT elm s = qnext s elm"

definition TAILQ_EMPTY :: "nat \<Rightarrow> tailq_mem \<Rightarrow> bool" where
  "TAILQ_EMPTY head s \<longleftrightarrow> qfirst s head = TAILQ_END"

text \<open>The pointer to a link, read as a pointer to a head, gives the field behind the link.\<close>

fun second :: "tailq_mem \<Rightarrow> loc \<Rightarrow> loc outcome" where
  "second s (First h) = Some (tqh_last s h)"
| "second s (Next p) = tqe_prev s p"

definition TAILQ_LAST :: "nat \<Rightarrow> tailq_mem \<Rightarrow> ptr outcome" where
  "TAILQ_LAST head s = Option.bind (second s (tqh_last s head)) (\<lambda>l. load l s)"

definition TAILQ_PREV :: "ptr \<Rightarrow> tailq_mem \<Rightarrow> ptr outcome" where
  "TAILQ_PREV elm s =
     Option.bind (tqe_prev s elm) (\<lambda>l. Option.bind (second s l) (\<lambda>l2. load l2 s))"

definition TAILQ_INIT :: "nat \<Rightarrow> tailq_mem \<Rightarrow> tailq_mem" where
  "TAILQ_INIT head s = set_tqh_last head (First head) (s\<lparr>qfirst := (qfirst s)(head := TAILQ_END)\<rparr>)"

definition TAILQ_INSERT_HEAD :: "nat \<Rightarrow> ptr \<Rightarrow> tailq_mem \<Rightarrow> tailq_mem outcome" where
  "TAILQ_INSERT_HEAD head elm s =
     Option.bind (store (Next elm) (qfirst s head) s) (\<lambda>s1.
     Option.bind (if qfirst s head \<noteq> TAILQ_END then set_tqe_prev (qfirst s1 head) (Next elm) s1
       else Some (set_tqh_last head (Next elm) s1)) (\<lambda>s2.
     Option.bind (store (First head) elm s2) (\<lambda>s3.
     set_tqe_prev elm (First head) s3)))"

definition TAILQ_INSERT_BEFORE :: "ptr \<Rightarrow> ptr \<Rightarrow> tailq_mem \<Rightarrow> tailq_mem outcome" where
  "TAILQ_INSERT_BEFORE listelm elm s =
     Option.bind (tqe_prev s listelm) (\<lambda>l.
     Option.bind (set_tqe_prev elm l s) (\<lambda>s1.
     Option.bind (store (Next elm) listelm s1) (\<lambda>s2.
     Option.bind (tqe_prev s2 listelm) (\<lambda>l2.
     Option.bind (store l2 elm s2) (\<lambda>s3.
     set_tqe_prev listelm (Next elm) s3)))))"

definition TAILQ_INSERT_AFTER :: "nat \<Rightarrow> ptr \<Rightarrow> ptr \<Rightarrow> tailq_mem \<Rightarrow> tailq_mem outcome" where
  "TAILQ_INSERT_AFTER head listelm elm s =
     Option.bind (qnext s listelm) (\<lambda>n.
     Option.bind (store (Next elm) n s) (\<lambda>s1.
     Option.bind (if n \<noteq> TAILQ_END then Option.bind (qnext s1 elm) (\<lambda>m. set_tqe_prev m (Next elm) s1)
       else Some (set_tqh_last head (Next elm) s1)) (\<lambda>s2.
     Option.bind (store (Next listelm) elm s2) (\<lambda>s3.
     set_tqe_prev elm (Next listelm) s3))))"

definition TAILQ_INSERT_TAIL :: "nat \<Rightarrow> ptr \<Rightarrow> tailq_mem \<Rightarrow> tailq_mem outcome" where
  "TAILQ_INSERT_TAIL head elm s =
     Option.bind (store (Next elm) TAILQ_END s) (\<lambda>s1.
     Option.bind (set_tqe_prev elm (tqh_last s1 head) s1) (\<lambda>s2.
     map_option (set_tqh_last head (Next elm)) (store (tqh_last s2 head) elm s2)))"

definition TAILQ_CONCAT :: "nat \<Rightarrow> nat \<Rightarrow> tailq_mem \<Rightarrow> tailq_mem outcome" where
  "TAILQ_CONCAT head1 head2 s =
     (if \<not> TAILQ_EMPTY head2 s then
        Option.bind (store (tqh_last s head1) (qfirst s head2) s) (\<lambda>s1.
        map_option (\<lambda>s2. TAILQ_INIT head2 (set_tqh_last head1 (tqh_last s2 head2) s2))
          (set_tqe_prev (qfirst s1 head2) (tqh_last s1 head1) s1))
      else Some s)"

definition TAILQ_REMOVE :: "nat \<Rightarrow> ptr \<Rightarrow> tailq_mem \<Rightarrow> tailq_mem outcome" where
  "TAILQ_REMOVE head elm s =
     Option.bind (qnext s elm) (\<lambda>n.
     Option.bind (tqe_prev s elm) (\<lambda>l.
     Option.bind (if n \<noteq> TAILQ_END then set_tqe_prev n l s else Some (set_tqh_last head l s)) (\<lambda>s1.
     Option.bind (tqe_prev s1 elm) (\<lambda>l1.
     Option.bind (qnext s1 elm) (\<lambda>m. store l1 m s1)))))"

definition TAILQ_REPLACE :: "nat \<Rightarrow> ptr \<Rightarrow> ptr \<Rightarrow> tailq_mem \<Rightarrow> tailq_mem outcome" where
  "TAILQ_REPLACE head elm elm2 s =
     Option.bind (qnext s elm) (\<lambda>n.
     Option.bind (store (Next elm2) n s) (\<lambda>s1.
     Option.bind (if n \<noteq> TAILQ_END then Option.bind (qnext s1 elm2) (\<lambda>m. set_tqe_prev m (Next elm2) s1)
       else Some (set_tqh_last head (Next elm2) s1)) (\<lambda>s2.
     Option.bind (tqe_prev s2 elm) (\<lambda>l.
     Option.bind (set_tqe_prev elm2 l s2) (\<lambda>s3.
     Option.bind (tqe_prev s3 elm2) (\<lambda>l2. store l2 elm2 s3))))))"

definition TAILQ_SWAP :: "nat \<Rightarrow> nat \<Rightarrow> tailq_mem \<Rightarrow> tailq_mem outcome" where
  "TAILQ_SWAP head1 head2 s =
     (let swap_first = qfirst s head1;
          swap_last = tqh_last s head1;
          s1 = s\<lparr>qfirst := (qfirst s)(head1 := qfirst s head2), tqh_last := (tqh_last s)(head1 := tqh_last s head2)\<rparr>;
          s2 = s1\<lparr>qfirst := (qfirst s1)(head2 := swap_first), tqh_last := (tqh_last s1)(head2 := swap_last)\<rparr>
      in Option.bind (if qfirst s2 head1 \<noteq> TAILQ_END then set_tqe_prev (qfirst s2 head1) (First head1) s2
           else Some (set_tqh_last head1 (First head1) s2)) (\<lambda>s3.
         if qfirst s3 head2 \<noteq> TAILQ_END then set_tqe_prev (qfirst s3 head2) (First head2) s3
         else Some (set_tqh_last head2 (First head2) s3)))"

definition TAILQ_FOREACH :: "nat \<Rightarrow> tailq_mem \<Rightarrow> ptr list outcome" where
  "TAILQ_FOREACH head s = follow (qnext s) (qfirst s head)"

definition TAILQ_FOREACH_SAFE ::
  "(ptr \<Rightarrow> tailq_mem \<Rightarrow> tailq_mem option) \<Rightarrow> nat \<Rightarrow> tailq_mem \<Rightarrow> tailq_mem outcome" where
  "TAILQ_FOREACH_SAFE body head s = SLIST_FOREACH_SAFE qnext body (TAILQ_FIRST head s) s"

definition TAILQ_FOREACH_REVERSE :: "nat \<Rightarrow> tailq_mem \<Rightarrow> ptr list outcome" where
  "TAILQ_FOREACH_REVERSE head s =
     Option.bind (TAILQ_LAST head s) (follow (\<lambda>var. TAILQ_PREV var s))"

definition TAILQ_FOREACH_REVERSE_SAFE ::
  "(ptr \<Rightarrow> tailq_mem \<Rightarrow> tailq_mem option) \<Rightarrow> nat \<Rightarrow> tailq_mem \<Rightarrow> tailq_mem outcome" where
  "TAILQ_FOREACH_REVERSE_SAFE body head s =
     Option.bind (TAILQ_LAST head s) (\<lambda>var. SLIST_FOREACH_SAFE (\<lambda>s v. TAILQ_PREV v s) body var s)"

section \<open>What they do to a list\<close>

definition tailq_rep :: "nat \<Rightarrow> tailq_mem \<Rightarrow> ptr list \<Rightarrow> bool" where
  "tailq_rep h s xs \<longleftrightarrow> dlist s (tqe_prev s) h xs \<and> tqh_last s h = end_loc (First h) xs"

definition tailq_nodes :: "tailq_mem \<Rightarrow> ptr set" where
  "tailq_nodes s = dom (qnext s) \<inter> dom (tqe_prev s)"

lemma load_tailq [simp]: "load l (s\<lparr>tqe_prev := f\<rparr>) = load l s" "load l (set_tqh_last h v s) = load l s"
  by (cases l; simp add: set_tqh_last_def)+

lemma put_tailq [simp]: "tqe_prev (put l v s) = tqe_prev s" "tqh_last (put l v s) = tqh_last s"
  by (cases l; simp add: put.simps)+

lemma set_tqh_last_facts [simp]:
  "tqh_last (set_tqh_last h v s) = (tqh_last s)(h := v)" "qnext (set_tqh_last h v s) = qnext s"
  "qfirst (set_tqh_last h v s) = qfirst s" "tqe_prev (set_tqh_last h v s) = tqe_prev s"
  by (simp_all add: set_tqh_last_def)

lemmas tailq_macro_defs = TAILQ_INSERT_HEAD_def TAILQ_INSERT_BEFORE_def TAILQ_INSERT_AFTER_def
  TAILQ_INSERT_TAIL_def TAILQ_REMOVE_def TAILQ_REPLACE_def set_tqe_prev_def TAILQ_END_def

lemma tailq_inserted:
  assumes "tailq_rep h s (xs @ ys)" and "e \<in> tailq_nodes s" and "e \<noteq> 0" and "e \<notin> set (xs @ ys)"
    and "same_links s' (splice (end_loc (First h) xs) e s)"
    and "tqe_prev s' = prev_in (end_loc (First h) xs) e ys (tqe_prev s)"
    and "tqh_last s' h = (if ys = [] then Next e else tqh_last s h)"
  shows "tailq_rep h s' (xs @ e # ys) \<and> tailq_nodes s' = tailq_nodes s"
proof -
  have "tqh_last s' h = end_loc (First h) (xs @ e # ys)"
    using assms(1,7) by (cases ys) (auto simp: tailq_rep_def)
  then show ?thesis
    using assms dlist_insert dlist_insert_nodes unfolding tailq_rep_def tailq_nodes_def by metis
qed

lemma tailq_deleted:
  assumes "tailq_rep h s (xs @ e # ys)"
    and "same_links s' (unsplice (end_loc (First h) xs) e s)"
    and "tqe_prev s' = prev_out (end_loc (First h) xs) ys (tqe_prev s)"
    and "tqh_last s' h = (if ys = [] then end_loc (First h) xs else tqh_last s h)"
  shows "tailq_rep h s' (xs @ ys) \<and> tailq_nodes s' = tailq_nodes s"
proof -
  have "tqh_last s' h = end_loc (First h) (xs @ ys)"
    using assms(1,4) by (cases ys) (auto simp: tailq_rep_def)
  then show ?thesis
    using assms dlist_delete dlist_delete_nodes unfolding tailq_rep_def tailq_nodes_def by metis
qed

lemma tailq_insert_before:
  assumes "tailq_rep h s (xs @ x # ys)" and "e \<in> tailq_nodes s" and "e \<noteq> 0" and "e \<notin> set (xs @ x # ys)"
  shows "\<exists>s'. TAILQ_INSERT_BEFORE x e s = Some s' \<and> tailq_rep h s' (xs @ e # x # ys) \<and>
    tailq_nodes s' = tailq_nodes s"
proof -
  let ?l = "end_loc (First h) xs"
  note at = dlist_at[OF conjunct1[OF assms(1)[unfolded tailq_rep_def]]]
  define s' where "s' = (put ?l e (put (Next e) x (s\<lparr>tqe_prev := (tqe_prev s)(e \<mapsto> ?l)\<rparr>)))
    \<lparr>tqe_prev := (tqe_prev s)(e \<mapsto> ?l, x \<mapsto> Next e)\<rparr>"
  have e: "qnext s e \<noteq> None" "tqe_prev s e \<noteq> None" "e \<noteq> x" using assms(2,4) by (auto simp: tailq_nodes_def)
  have "TAILQ_INSERT_BEFORE x e s = Some s'"
    using at e by (simp add: tailq_macro_defs store_put s'_def dom_def del: store.simps)
  moreover have "same_links s' (splice ?l e s)" "tqe_prev s' = prev_in ?l e (x # ys) (tqe_prev s)"
    using at(2) e(3) by (auto simp: same_links_def splice_def s'_def prev_in_def)
  moreover have "tqh_last s' h = tqh_last s h" by (simp add: s'_def)
  ultimately show ?thesis using tailq_inserted[OF assms] by auto
qed

lemma tailq_insert_after:
  assumes "tailq_rep h s (xs @ x # ys)" and "e \<in> tailq_nodes s" and "e \<noteq> 0" and "e \<notin> set (xs @ x # ys)"
  shows "\<exists>s'. TAILQ_INSERT_AFTER h x e s = Some s' \<and> tailq_rep h s' (xs @ x # e # ys) \<and>
    tailq_nodes s' = tailq_nodes s"
proof -
  note at = dlist_at[OF conjunct1[OF assms(1)[unfolded tailq_rep_def]]]
  have e: "qnext s e \<noteq> None" "tqe_prev s e \<noteq> None" "e \<noteq> x" using assms(2,4) by (auto simp: tailq_nodes_def)
  define s' where "s' = (put (Next x) e (case ys of [] \<Rightarrow> set_tqh_last h (Next e) (put (Next e) 0 s)
      | y # _ \<Rightarrow> (put (Next e) y s)\<lparr>tqe_prev := (tqe_prev s)(y \<mapsto> Next e)\<rparr>))
    \<lparr>tqe_prev := prev_in (Next x) e ys (tqe_prev s)\<rparr>"
  have "TAILQ_INSERT_AFTER h x e s = Some s'"
    using at e by (cases ys) (auto simp: tailq_macro_defs store_put s'_def dom_def prev_in_def simp del: store.simps)
  moreover have "same_links s' (splice (Next x) e s)" "tqe_prev s' = prev_in (Next x) e ys (tqe_prev s)"
    "tqh_last s' h = (if ys = [] then Next e else tqh_last s h)"
    using at(4) by (auto simp: same_links_def splice_def s'_def split: list.split)
  ultimately show ?thesis using tailq_inserted[of h s "xs @ [x]" ys e s'] assms by simp
qed

lemma tailq_first: "tailq_rep h s xs \<Longrightarrow> qfirst s h = (case xs of [] \<Rightarrow> 0 | x # _ \<Rightarrow> x)"
  using dlist_first by (auto simp: tailq_rep_def)

lemma tailq_hd: "tailq_rep h s (x # xs) \<Longrightarrow> tqe_prev s x \<noteq> None \<and> x \<noteq> 0"
  using dlist_at(1,3)[of s "tqe_prev s" h "[]"] by (auto simp: tailq_rep_def)

lemma tailq_end: "tailq_rep h s xs \<Longrightarrow> load (end_loc (First h) xs) s = Some 0"
  using dlist_end by (auto simp: tailq_rep_def)

lemma tailq_insert_head:
  assumes "tailq_rep h s xs" and "e \<in> tailq_nodes s" and "e \<noteq> 0" and "e \<notin> set xs"
  shows "\<exists>s'. TAILQ_INSERT_HEAD h e s = Some s' \<and> tailq_rep h s' (e # xs) \<and> tailq_nodes s' = tailq_nodes s"
proof -
  have e: "qnext s e \<noteq> None" "tqe_prev s e \<noteq> None" using assms(2) by (auto simp: tailq_nodes_def)
  define s' where "s' = (put (First h) e (case xs of [] \<Rightarrow> set_tqh_last h (Next e) (put (Next e) (qfirst s h) s)
      | y # _ \<Rightarrow> (put (Next e) (qfirst s h) s)\<lparr>tqe_prev := (tqe_prev s)(y \<mapsto> Next e)\<rparr>))
    \<lparr>tqe_prev := prev_in (First h) e xs (tqe_prev s)\<rparr>"
  have "TAILQ_INSERT_HEAD h e s = Some s'"
    using tailq_first[OF assms(1)] tailq_hd[of h s] assms(1,4) e
    by (cases xs) (auto simp: tailq_macro_defs store_put s'_def dom_def prev_in_def qfirst_put simp del: store.simps)
  moreover have "same_links s' (splice (First h) e s)" "tqe_prev s' = prev_in (First h) e xs (tqe_prev s)"
    "tqh_last s' h = (if xs = [] then Next e else tqh_last s h)"
    by (auto simp: same_links_def splice_def s'_def split: list.split)
  ultimately show ?thesis using tailq_inserted[of h s "[]" xs e s'] assms by simp
qed

lemma tailq_insert_tail:
  assumes "tailq_rep h s xs" and "e \<in> tailq_nodes s" and "e \<noteq> 0" and "e \<notin> set xs"
  shows "\<exists>s'. TAILQ_INSERT_TAIL h e s = Some s' \<and> tailq_rep h s' (xs @ [e]) \<and> tailq_nodes s' = tailq_nodes s"
proof -
  let ?l = "end_loc (First h) xs"
  have l: "tqh_last s h = ?l" "load ?l s = Some 0" using assms(1) tailq_end by (auto simp: tailq_rep_def)
  have e: "qnext s e \<noteq> None" "tqe_prev s e \<noteq> None" using assms(2) by (auto simp: tailq_nodes_def)
  define s' where "s' = set_tqh_last h (Next e) (put ?l e ((put (Next e) 0 s)\<lparr>tqe_prev := (tqe_prev s)(e \<mapsto> ?l)\<rparr>))"
  have "TAILQ_INSERT_TAIL h e s = Some s'"
    using l e by (auto simp: tailq_macro_defs store_put s'_def dom_def simp del: store.simps)
  moreover have "same_links s' (splice ?l e s)" "tqe_prev s' = prev_in ?l e [] (tqe_prev s)"
    "tqh_last s' h = (if [] = [] then Next e else tqh_last s h)"
    using l(2) by (auto simp: same_links_def splice_def s'_def prev_in_def)
  ultimately show ?thesis using tailq_inserted[of h s xs "[]" e s'] assms by simp
qed

lemma tailq_remove:
  assumes "tailq_rep h s (xs @ e # ys)"
  shows "\<exists>s'. TAILQ_REMOVE h e s = Some s' \<and> tailq_rep h s' (xs @ ys) \<and> tailq_nodes s' = tailq_nodes s"
proof -
  let ?l = "end_loc (First h) xs" and ?n = "case ys of [] \<Rightarrow> 0 | y # _ \<Rightarrow> y"
  note at = dlist_at[OF conjunct1[OF assms(1)[unfolded tailq_rep_def]]]
  define s' where "s' = put ?l ?n (case ys of [] \<Rightarrow> set_tqh_last h ?l s
    | y # _ \<Rightarrow> s\<lparr>tqe_prev := (tqe_prev s)(y \<mapsto> ?l)\<rparr>)"
  have "TAILQ_REMOVE h e s = Some s'"
    using at by (cases ys) (auto simp: tailq_macro_defs store_put s'_def dom_def simp del: store.simps)
  moreover have "same_links s' (unsplice ?l e s)" "tqe_prev s' = prev_out ?l ys (tqe_prev s)"
    "tqh_last s' h = (if ys = [] then ?l else tqh_last s h)"
    using at(4) by (auto simp: same_links_def unsplice_def s'_def prev_out_def split: list.split)
  ultimately show ?thesis using tailq_deleted[OF assms] by auto
qed

lemma tailq_replace:
  assumes "tailq_rep h s (xs @ e # ys)" and "e2 \<in> tailq_nodes s" and "e2 \<noteq> 0" and "e2 \<notin> set (xs @ e # ys)"
  shows "\<exists>s'. TAILQ_REPLACE h e e2 s = Some s' \<and> tailq_rep h s' (xs @ e2 # ys)"
proof -
  let ?l = "end_loc (First h) xs"
  have rep: "dlist s (tqe_prev s) h (xs @ e # ys)" using assms(1) by (simp add: tailq_rep_def)
  note at = dlist_at[OF rep]
  have e: "qnext s e2 \<noteq> None" "tqe_prev s e2 \<noteq> None" "e2 \<noteq> e" using assms(2,4) by (auto simp: tailq_nodes_def)
  let ?s1 = "put (Next e2) (the (qnext s e)) s"
  define s' where "s' = put ?l e2 ((if ys = [] then set_tqh_last h (Next e2) ?s1 else ?s1)
    \<lparr>tqe_prev := prev_in ?l e2 ys (tqe_prev s)\<rparr>)"
  have "TAILQ_REPLACE h e e2 s = Some s'"
    using at e by (cases ys) (auto simp: tailq_macro_defs store_put s'_def dom_def prev_in_def simp del: store.simps)
  moreover have "same_links s' (put ?l e2 (put (Next e2) (the (qnext s e)) s))"
    "tqe_prev s' = prev_in ?l e2 ys (tqe_prev s)"
    by (auto simp: same_links_def s'_def)
  then have "dlist s' (tqe_prev s') h (xs @ e2 # ys)" using dlist_replace[OF rep assms(3,4) refl] by simp
  moreover have "tqh_last s' h = end_loc (First h) (xs @ e2 # ys)"
    using assms(1) by (cases ys) (auto simp: s'_def tailq_rep_def)
  ultimately show ?thesis by (auto simp: tailq_rep_def)
qed

lemma tailq_concat:
  assumes "tailq_rep h1 s xs" and "tailq_rep h2 s ys" and "distinct (xs @ ys)" and "h1 \<noteq> h2"
  shows "\<exists>s'. TAILQ_CONCAT h1 h2 s = Some s' \<and> tailq_rep h1 s' (xs @ ys) \<and> tailq_rep h2 s' []"
proof (cases ys)
  case Nil
  then have "TAILQ_EMPTY h2 s" using tailq_first[OF assms(2)] by (simp add: TAILQ_EMPTY_def TAILQ_END_def)
  then show ?thesis using assms(1,2) Nil by (simp add: TAILQ_CONCAT_def)
next
  case (Cons y ys')
  let ?l = "end_loc (First h1) xs" and ?s1 = "put (end_loc (First h1) xs) y s"
  have l: "tqh_last s h1 = ?l" "load ?l s = Some 0" using assms(1) tailq_end by (auto simp: tailq_rep_def)
  have y: "qfirst s h2 = y" "y \<noteq> 0" "tqe_prev s y \<noteq> None"
    using tailq_first[OF assms(2)] tailq_hd[of h2 s y ys'] assms(2) Cons by auto
  have "?l \<noteq> First h2" using assms(4) by (auto simp: end_loc_def)
  then have y1: "qfirst ?s1 h2 = y" using y(1) by (simp add: qfirst_put)
  define s' where "s' = TAILQ_INIT h2 (set_tqh_last h1 (tqh_last s h2) (?s1\<lparr>tqe_prev := (tqe_prev s)(y \<mapsto> ?l)\<rparr>))"
  have "TAILQ_CONCAT h1 h2 s = Some s'"
    using l y y1 by (simp add: TAILQ_CONCAT_def TAILQ_EMPTY_def TAILQ_END_def set_tqe_prev_def store_put s'_def
        dom_def del: store.simps)
  moreover have "same_links s' (put (First h2) 0 (put ?l (hd ys) s))"
    unfolding same_links_def
  proof
    fix k
    show "load k s' = load k (put (First h2) 0 (put ?l (hd ys) s))"
      using Cons load_put[of k "First h2" 0 ?s1]
      by (cases k) (auto simp: s'_def TAILQ_INIT_def TAILQ_END_def qfirst_put)
  qed
  then have "seg s' (First h1) (xs @ ys)" "seg s' (First h2) []"
    using seg_concat[of s h1 xs h2 ys s'] assms Cons by (simp_all add: tailq_rep_def dlist_def del: seg_simps)
  moreover have "tqe_prev s' = (tqe_prev s)(y \<mapsto> ?l)" by (simp add: s'_def TAILQ_INIT_def)
  then have "prevs (tqe_prev s') (First h1) (xs @ ys)"
    using assms(1,2,3) Cons by (auto simp: tailq_rep_def dlist_def prevs_append)
  moreover have "tqh_last s' h1 = end_loc (First h1) (xs @ ys)" "tqh_last s' h2 = First h2"
    using assms(2,4) Cons by (simp_all add: s'_def TAILQ_INIT_def tailq_rep_def)
  ultimately show ?thesis using assms(3) by (auto simp: tailq_rep_def dlist_def)
qed

lemma tailq_swap:
  assumes "tailq_rep h1 s xs" and "tailq_rep h2 s ys" and "set xs \<inter> set ys = {}" and "h1 \<noteq> h2"
  shows "\<exists>s'. TAILQ_SWAP h1 h2 s = Some s' \<and> tailq_rep h1 s' ys \<and> tailq_rep h2 s' xs"
proof -
  note first = tailq_first[OF assms(1)] tailq_first[OF assms(2)]
  have hd: "xs = x # xs' \<Longrightarrow> tqe_prev s x \<noteq> None \<and> x \<noteq> 0" "ys = y # ys' \<Longrightarrow> tqe_prev s y \<noteq> None \<and> y \<noteq> 0"
    for x y xs' ys' using assms(1,2) tailq_hd by blast+
  define pv where "pv = (case ys of [] \<Rightarrow> tqe_prev s | y # _ \<Rightarrow> (tqe_prev s)(y \<mapsto> First h1))"
  define s' where "s' = s\<lparr>qfirst := (qfirst s)(h1 := qfirst s h2, h2 := qfirst s h1),
    tqe_prev := (case xs of [] \<Rightarrow> pv | x # _ \<Rightarrow> pv(x \<mapsto> First h2)),
    tqh_last := (tqh_last s)(h1 := end_loc (First h1) ys, h2 := end_loc (First h2) xs)\<rparr>"
  have last: "tqh_last s h1 = end_loc (First h1) xs" "tqh_last s h2 = end_loc (First h2) ys"
    using assms(1,2) by (simp_all add: tailq_rep_def)
  have "TAILQ_SWAP h1 h2 s = Some s'"
    using first hd last assms(3,4)
    by (cases xs; cases ys)
       (auto simp: TAILQ_SWAP_def Let_def TAILQ_END_def set_tqe_prev_def set_tqh_last_def s'_def pv_def dom_def fun_upd_twist)
  moreover have "dlist s' (tqe_prev s') h1 ys"
    using assms(2)[unfolded tailq_rep_def] first assms(3,4)
    by (rule_tac dlist_move; cases xs; cases ys) (auto simp: s'_def pv_def dlist_def)
  moreover have "dlist s' (tqe_prev s') h2 xs"
    using assms(1)[unfolded tailq_rep_def] first assms(3,4)
    by (rule_tac dlist_move; cases xs; cases ys) (auto simp: s'_def pv_def dlist_def)
  moreover have "tqh_last s' h1 = end_loc (First h1) ys" "tqh_last s' h2 = end_loc (First h2) xs"
    using assms(4) by (simp_all add: s'_def)
  ultimately show ?thesis by (auto simp: tailq_rep_def)
qed

section \<open>Walking in both directions\<close>

lemma tailq_prev:
  assumes "tailq_rep h s (xs @ x # ys)"
  shows "TAILQ_PREV x s = Some (if xs = [] then 0 else last xs)"
proof (cases xs rule: rev_cases)
  case Nil
  have "load (tqh_last s h) s = Some 0" using tailq_end[OF assms] assms by (simp add: tailq_rep_def)
  then show ?thesis
    using dlist_at(1)[OF conjunct1[OF assms(1)[unfolded tailq_rep_def]]] Nil by (simp add: TAILQ_PREV_def)
next
  case (snoc zs z)
  have d: "dlist s (tqe_prev s) h (zs @ z # x # ys)" using assms snoc by (simp add: tailq_rep_def)
  then show ?thesis
    using dlist_at(1)[OF conjunct1[OF assms(1)[unfolded tailq_rep_def]]] dlist_at(1,2)[OF d] snoc
    by (simp add: TAILQ_PREV_def)
qed

lemma tailq_last:
  assumes "tailq_rep h s xs"
  shows "TAILQ_LAST h s = Some (if xs = [] then 0 else last xs)"
proof (cases xs rule: rev_cases)
  case Nil
  then show ?thesis using assms tailq_end[OF assms] by (simp add: TAILQ_LAST_def tailq_rep_def)
next
  case (snoc zs z)
  have d: "dlist s (tqe_prev s) h (zs @ z # [])" using assms snoc by (simp add: tailq_rep_def)
  then show ?thesis using dlist_at(1,2)[OF d] snoc assms by (simp add: TAILQ_LAST_def tailq_rep_def)
qed

lemma tailq_backwards:
  "tailq_rep h s (xs @ zs) \<Longrightarrow> chain (\<lambda>v. TAILQ_PREV v s) (if xs = [] then 0 else last xs) (rev xs) 0"
proof (induction xs arbitrary: zs rule: rev_induct)
  case (snoc x xs)
  then have "tailq_rep h s (xs @ x # zs)" by simp
  with snoc.IH[OF this] tailq_prev[OF this] dlist_at(3)[of s "tqe_prev s" h xs x zs] show ?case
    by (auto simp: tailq_rep_def)
qed simp

lemma tailq_foreach: "tailq_rep h s xs \<Longrightarrow> TAILQ_FOREACH h s = Some xs"
  by (simp add: TAILQ_FOREACH_def tailq_rep_def dlist_def follow_seg)

lemma tailq_foreach_reverse: "tailq_rep h s xs \<Longrightarrow> TAILQ_FOREACH_REVERSE h s = Some (rev xs)"
  using tailq_backwards[of h s xs "[]"] follow_chain
  by (simp add: TAILQ_FOREACH_REVERSE_def tailq_last)

interpretation tq: tail_queue "tailq_rep h" tailq_nodes "TAILQ_INIT h" "TAILQ_FIRST h" "TAILQ_EMPTY h"
  "TAILQ_INSERT_HEAD h" "TAILQ_REMOVE h" "TAILQ_INSERT_TAIL h" for h
proof unfold_locales
  fix s xs assume rep: "tailq_rep h s xs"
  show "xs = ys" if "tailq_rep h s ys" for ys using rep that dlist_unique unfolding tailq_rep_def by blast
  show "distinct xs" using rep by (simp add: tailq_rep_def dlist_def)
  show "set xs \<subseteq> tailq_nodes s" using rep dlist_nodes unfolding tailq_rep_def tailq_nodes_def by blast
  show "TAILQ_FIRST h s = (case xs of [] \<Rightarrow> 0 | x # _ \<Rightarrow> x)" using tailq_first[OF rep] by (simp add: TAILQ_FIRST_def)
  show "TAILQ_EMPTY h s \<longleftrightarrow> xs = []"
    using tailq_first[OF rep] tailq_hd[of h s] rep by (cases xs) (auto simp: TAILQ_EMPTY_def TAILQ_END_def)
next
  show "tailq_rep h (TAILQ_INIT h s) []" and "tailq_nodes (TAILQ_INIT h s) = tailq_nodes s" for s
    by (simp_all add: tailq_rep_def dlist_def TAILQ_INIT_def TAILQ_END_def tailq_nodes_def)
qed (simp_all add: tailq_insert_head tailq_remove tailq_insert_tail)

section \<open>Properties\<close>

text \<open>
  C25: After two tail queues have been concatenated, the forward loop visits the elements of
  the first and then of the second, the backward loop visits them in the opposite order,
  and the second queue is empty; removing any element keeps both directions consistent.
\<close>

theorem both_directions_agree:
  assumes "tailq_rep h1 s xs" and "tailq_rep h2 s ys" and "distinct (xs @ ys)" and "h1 \<noteq> h2" and "xs @ ys = us @ e # vs"
  shows "\<exists>s1 s2. TAILQ_CONCAT h1 h2 s = Some s1 \<and> TAILQ_FOREACH h1 s1 = Some (xs @ ys) \<and>
    TAILQ_FOREACH_REVERSE h1 s1 = Some (rev (xs @ ys)) \<and> TAILQ_EMPTY h2 s1 \<and>
    TAILQ_REMOVE h1 e s1 = Some s2 \<and> TAILQ_FOREACH h1 s2 = Some (us @ vs) \<and>
    TAILQ_FOREACH_REVERSE h1 s2 = Some (rev (us @ vs))"
proof -
  obtain s1 where s1: "TAILQ_CONCAT h1 h2 s = Some s1" "tailq_rep h1 s1 (xs @ ys)" "tailq_rep h2 s1 []"
    using tailq_concat[OF assms(1-4)] by blast
  obtain s2 where s2: "TAILQ_REMOVE h1 e s1 = Some s2" "tailq_rep h1 s2 (us @ vs)"
    using tailq_remove s1(2) assms(5) by metis
  then show ?thesis
    using s1 tq.empty_rep[OF s1(3)] tailq_foreach[OF s1(2)] tailq_foreach_reverse[OF s1(2)]
      tailq_foreach[OF s2(2)] tailq_foreach_reverse[OF s2(2)] by blast
qed

definition demo_tailq :: tailq_mem where
  "demo_tailq = \<lparr>qfirst = (\<lambda>h. if h = 0 then 1 else 2), qnext = [1 \<mapsto> 0, 2 \<mapsto> 3, 3 \<mapsto> 0],
     tqe_prev = [1 \<mapsto> First 0, 2 \<mapsto> First 1, 3 \<mapsto> Next 2], tqh_last = (\<lambda>h. if h = 0 then Next 1 else Next 3)\<rparr>"

theorem both_directions_agree_witness:
  "\<exists>s1 s2. TAILQ_CONCAT 0 1 demo_tailq = Some s1 \<and> TAILQ_FOREACH_REVERSE 0 s1 = Some [3, 2, 1] \<and>
    TAILQ_REMOVE 0 2 s1 = Some s2 \<and> TAILQ_FOREACH_REVERSE 0 s2 = Some [3, 1]"
  using both_directions_agree[of 0 demo_tailq "[1]" 1 "[2, 3]" "[1]" 2 "[3]"]
  by (auto simp: tailq_rep_def dlist_def demo_tailq_def)

end
