(* ===== verification/Circleq.thy ===== *)
theory Circleq
  imports Links
begin

text \<open>
  The \<open>CIRCLEQ\<close> macros of \<open>server/queue.h\<close>: circular doubly linked lists in which the address of
  the head takes the place of \<open>NULL\<close>. A head is given by its address, which is not the address
  of an element. \<open>CIRCLEQ_REPLACE\<close> selects fields of the pointer \<open>head\<close> with a dot and
  \<open>CIRCLEQ_FOREACH_REVERSE_SAFE\<close> calls \<open>CIRCLEQ_LAST\<close> and \<open>CIRCLEQ_PREV\<close> with an argument too
  many: neither compiles when it is used, so they have no model.
\<close>

record circleq_mem =
  cqh_first :: "ptr \<Rightarrow> ptr"
  cqh_last :: "ptr \<Rightarrow> ptr"
  cqe_next :: "ptr \<Rightarrow> ptr option"
  cqe_prev :: "ptr \<Rightarrow> ptr option"

section \<open>The macros\<close>

definition set_cqe_next :: "ptr \<Rightarrow> ptr \<Rightarrow> circleq_mem \<Rightarrow> circleq_mem outcome" where
  "set_cqe_next e v s =
     (if e \<in> dom (cqe_next s) then Some (s\<lparr>cqe_next := (cqe_next s)(e \<mapsto> v)\<rparr>) else None)"

definition set_cqe_prev :: "ptr \<Rightarrow> ptr \<Rightarrow> circleq_mem \<Rightarrow> circleq_mem outcome" where
  "set_cqe_prev e v s =
     (if e \<in> dom (cqe_prev s) then Some (s\<lparr>cqe_prev := (cqe_prev s)(e \<mapsto> v)\<rparr>) else None)"

definition set_cqh_first :: "ptr \<Rightarrow> ptr \<Rightarrow> circleq_mem \<Rightarrow> circleq_mem" where
  "set_cqh_first head v s = s\<lparr>cqh_first := (cqh_first s)(head := v)\<rparr>"

definition set_cqh_last :: "ptr \<Rightarrow> ptr \<Rightarrow> circleq_mem \<Rightarrow> circleq_mem" where
  "set_cqh_last head v s = s\<lparr>cqh_last := (cqh_last s)(head := v)\<rparr>"

definition CIRCLEQ_END :: "ptr \<Rightarrow> ptr" where
  "CIRCLEQ_END head = head"

definition CIRCLEQ_FIRST :: "ptr \<Rightarrow> circleq_mem \<Rightarrow> ptr" where
  "CIRCLEQ_FIRST head s = cqh_first s head"

definition CIRCLEQ_LAST :: "ptr \<Rightarrow> circleq_mem \<Rightarrow> ptr" where
  "CIRCLEQ_LAST head s = cqh_last s head"

definition CIRCLEQ_NEXT :: "ptr \<Rightarrow> circleq_mem \<Rightarrow> ptr outcome" where
  "CIRCLEQ_NEXT elm s = cqe_next s elm"

definition CIRCLEQ_PREV :: "ptr \<Rightarrow> circleq_mem \<Rightarrow> ptr outcome" where
  "CIRCLEQ_PREV elm s = cqe_prev s elm"

definition CIRCLEQ_EMPTY :: "ptr \<Rightarrow> circleq_mem \<Rightarrow> bool" where
  "CIRCLEQ_EMPTY head s \<longleftrightarrow> CIRCLEQ_FIRST head s = CIRCLEQ_END head"

definition CIRCLEQ_INIT :: "ptr \<Rightarrow> circleq_mem \<Rightarrow> circleq_mem" where
  "CIRCLEQ_INIT head s = set_cqh_last head head (set_cqh_first head head s)"

definition CIRCLEQ_INSERT_HEAD :: "ptr \<Rightarrow> ptr \<Rightarrow> circleq_mem \<Rightarrow> circleq_mem outcome" where
  "CIRCLEQ_INSERT_HEAD head elm s =
     Option.bind (set_cqe_next elm (cqh_first s head) s) (\<lambda>s1.
     Option.bind (set_cqe_prev elm head s1) (\<lambda>s2.
     map_option (set_cqh_first head elm)
       (if cqh_last s2 head = head then Some (set_cqh_last head elm s2)
        else set_cqe_prev (cqh_first s2 head) elm s2)))"

definition CIRCLEQ_INSERT_BEFORE :: "ptr \<Rightarrow> ptr \<Rightarrow> ptr \<Rightarrow> circleq_mem \<Rightarrow> circleq_mem outcome" where
  "CIRCLEQ_INSERT_BEFORE head listelm elm s =
     Option.bind (set_cqe_next elm listelm s) (\<lambda>s1.
     Option.bind (cqe_prev s1 listelm) (\<lambda>p.
     Option.bind (set_cqe_prev elm p s1) (\<lambda>s2.
     Option.bind (if p = head then Some (set_cqh_first head elm s2) else set_cqe_next p elm s2)
       (set_cqe_prev listelm elm))))"

definition CIRCLEQ_INSERT_AFTER :: "ptr \<Rightarrow> ptr \<Rightarrow> ptr \<Rightarrow> circleq_mem \<Rightarrow> circleq_mem outcome" where
  "CIRCLEQ_INSERT_AFTER head listelm elm s =
     Option.bind (cqe_next s listelm) (\<lambda>n.
     Option.bind (set_cqe_next elm n s) (\<lambda>s1.
     Option.bind (set_cqe_prev elm listelm s1) (\<lambda>s2.
     Option.bind (if n = head then Some (set_cqh_last head elm s2) else set_cqe_prev n elm s2)
       (set_cqe_next listelm elm))))"

definition CIRCLEQ_INSERT_TAIL :: "ptr \<Rightarrow> ptr \<Rightarrow> circleq_mem \<Rightarrow> circleq_mem outcome" where
  "CIRCLEQ_INSERT_TAIL head elm s =
     Option.bind (set_cqe_next elm head s) (\<lambda>s1.
     Option.bind (set_cqe_prev elm (cqh_last s1 head) s1) (\<lambda>s2.
     map_option (set_cqh_last head elm)
       (if cqh_first s2 head = head then Some (set_cqh_first head elm s2)
        else set_cqe_next (cqh_last s2 head) elm s2)))"

definition CIRCLEQ_REMOVE :: "ptr \<Rightarrow> ptr \<Rightarrow> circleq_mem \<Rightarrow> circleq_mem outcome" where
  "CIRCLEQ_REMOVE head elm s =
     Option.bind (cqe_next s elm) (\<lambda>n.
     Option.bind (cqe_prev s elm) (\<lambda>p.
     Option.bind (if n = head then Some (set_cqh_last head p s) else set_cqe_prev n p s) (\<lambda>s1.
     Option.bind (cqe_prev s1 elm) (\<lambda>p1.
     Option.bind (cqe_next s1 elm) (\<lambda>n1.
     if p1 = head then Some (set_cqh_first head n1 s1) else set_cqe_next p1 n1 s1)))))"

definition CIRCLEQ_LOOP_NEXT :: "ptr \<Rightarrow> ptr \<Rightarrow> circleq_mem \<Rightarrow> ptr outcome" where
  "CIRCLEQ_LOOP_NEXT head elm s =
     map_option (\<lambda>n. if n = head then cqh_first s head else n) (cqe_next s elm)"

definition CIRCLEQ_LOOP_PREV :: "ptr \<Rightarrow> ptr \<Rightarrow> circleq_mem \<Rightarrow> ptr outcome" where
  "CIRCLEQ_LOOP_PREV head elm s =
     map_option (\<lambda>p. if p = head then cqh_last s head else p) (cqe_prev s elm)"

text \<open>The loops over the elements, forwards, backwards, and with the link read before the body.\<close>

partial_function (option) walk :: "(ptr \<Rightarrow> ptr option) \<Rightarrow> ptr \<Rightarrow> ptr \<Rightarrow> ptr list outcome" where
  "walk nxt stop var =
     (if var = stop then Some []
      else Option.bind (nxt var) (\<lambda>n. Option.bind (walk nxt stop n) (\<lambda>vs. Some (var # vs))))"

definition CIRCLEQ_FOREACH :: "ptr \<Rightarrow> circleq_mem \<Rightarrow> ptr list outcome" where
  "CIRCLEQ_FOREACH head s = walk (\<lambda>v. CIRCLEQ_NEXT v s) (CIRCLEQ_END head) (CIRCLEQ_FIRST head s)"

definition CIRCLEQ_FOREACH_REVERSE :: "ptr \<Rightarrow> circleq_mem \<Rightarrow> ptr list outcome" where
  "CIRCLEQ_FOREACH_REVERSE head s = walk (\<lambda>v. CIRCLEQ_PREV v s) (CIRCLEQ_END head) (CIRCLEQ_LAST head s)"

partial_function (option) walk_safe ::
  "('s \<Rightarrow> ptr \<Rightarrow> ptr option) \<Rightarrow> (ptr \<Rightarrow> 's \<Rightarrow> 's option) \<Rightarrow> ptr \<Rightarrow> ptr \<Rightarrow> 's \<Rightarrow> 's outcome" where
  "walk_safe nxt body stop var s =
     (if var = stop then Some s
      else Option.bind (nxt s var) (\<lambda>tvar.
           Option.bind (body var s) (\<lambda>s1. walk_safe nxt body stop tvar s1)))"

definition CIRCLEQ_FOREACH_SAFE ::
  "(ptr \<Rightarrow> circleq_mem \<Rightarrow> circleq_mem option) \<Rightarrow> ptr \<Rightarrow> circleq_mem \<Rightarrow> circleq_mem outcome" where
  "CIRCLEQ_FOREACH_SAFE body head s =
     walk_safe (\<lambda>s v. CIRCLEQ_NEXT v s) body (CIRCLEQ_END head) (CIRCLEQ_FIRST head s) s"

section \<open>Rings\<close>

text \<open>From \<open>a\<close> through \<open>xs\<close> to \<open>b\<close>, both links of every neighbouring pair.\<close>

fun ring :: "(ptr \<Rightarrow> ptr option) \<Rightarrow> (ptr \<Rightarrow> ptr option) \<Rightarrow> ptr \<Rightarrow> ptr list \<Rightarrow> ptr \<Rightarrow> bool" where
  "ring n p a [] b \<longleftrightarrow> n a = Some b \<and> p b = Some a"
| "ring n p a (x # xs) b \<longleftrightarrow> n a = Some x \<and> p x = Some a \<and> ring n p x xs b"

lemma ring_append: "ring n p a (xs @ x # ys) b \<longleftrightarrow> ring n p a xs x \<and> ring n p x ys b"
  by (induction xs arbitrary: a) auto

lemma ring_upd_next [simp]: "z \<noteq> a \<Longrightarrow> z \<notin> set xs \<Longrightarrow> ring (n(z := v)) p a xs b = ring n p a xs b"
  by (induction xs arbitrary: a) auto

lemma ring_upd_prev [simp]: "z \<noteq> b \<Longrightarrow> z \<notin> set xs \<Longrightarrow> ring n (p(z := v)) a xs b = ring n p a xs b"
  by (induction xs arbitrary: a) auto

lemma ring_rev: "ring n p a xs b \<Longrightarrow> ring p n b (rev xs) a"
proof (induction xs arbitrary: a)
  case (Cons x xs)
  then show ?case using ring_append[of p n b "rev xs" x "[]" a] by simp
qed simp

text \<open>The neighbours of the gap between \<open>us\<close> and \<open>vs\<close> in the ring of \<open>h\<close>.\<close>

abbreviation left_of :: "ptr \<Rightarrow> ptr list \<Rightarrow> ptr" where
  "left_of h us \<equiv> last (h # us)"

abbreviation right_of :: "ptr \<Rightarrow> ptr list \<Rightarrow> ptr" where
  "right_of h vs \<equiv> hd (vs @ [h])"

lemma ring_gap:
  assumes "ring n p h (us @ vs) h"
  shows "n (left_of h us) = Some (right_of h vs)" and "p (right_of h vs) = Some (left_of h us)"
  using assms by (cases us rule: rev_cases; cases vs; simp add: ring_append)+

lemma ring_insert:
  assumes "ring n p h (us @ vs) h" and "distinct (h # us @ vs)" and "e \<notin> set (h # us @ vs)"
  shows "ring (n(left_of h us \<mapsto> e, e \<mapsto> right_of h vs)) (p(right_of h vs \<mapsto> e, e \<mapsto> left_of h us)) h (us @ e # vs) h"
  using assms by (cases us rule: rev_cases; cases vs; auto simp: ring_append)

lemma ring_delete:
  assumes "ring n p h (us @ e # vs) h" and "distinct (h # us @ e # vs)"
  shows "ring (n(left_of h us \<mapsto> right_of h vs)) (p(right_of h vs \<mapsto> left_of h us)) h (us @ vs) h"
  using assms by (cases us rule: rev_cases; cases vs; auto simp: ring_append)

section \<open>What the macros do to a list\<close>

text \<open>The head counts as a member of the ring; its links are \<open>cqh_first\<close> and \<open>cqh_last\<close>.\<close>

definition cnext :: "ptr \<Rightarrow> circleq_mem \<Rightarrow> ptr \<Rightarrow> ptr option" where
  "cnext h s p = (if p = h then Some (cqh_first s h) else cqe_next s p)"

definition cprev :: "ptr \<Rightarrow> circleq_mem \<Rightarrow> ptr \<Rightarrow> ptr option" where
  "cprev h s p = (if p = h then Some (cqh_last s h) else cqe_prev s p)"

definition circleq_rep :: "ptr \<Rightarrow> circleq_mem \<Rightarrow> ptr list \<Rightarrow> bool" where
  "circleq_rep h s xs \<longleftrightarrow> ring (cnext h s) (cprev h s) h xs h \<and> distinct (h # xs) \<and> 0 \<notin> set xs"

text \<open>Allocated elements; the head is none of them.\<close>

definition circleq_nodes :: "ptr \<Rightarrow> circleq_mem \<Rightarrow> ptr set" where
  "circleq_nodes h s = dom (cqe_next s) \<inter> dom (cqe_prev s) - {h}"

lemmas circleq_defs = set_cqe_next_def set_cqe_prev_def set_cqh_first_def set_cqh_last_def

lemma circleq_inserted:
  assumes "circleq_rep h s (us @ vs)" and "e \<in> circleq_nodes h s" and "e \<noteq> 0" and "e \<notin> set (us @ vs)"
    and "cnext h s' = (cnext h s)(left_of h us \<mapsto> e, e \<mapsto> right_of h vs)"
    and "cprev h s' = (cprev h s)(right_of h vs \<mapsto> e, e \<mapsto> left_of h us)"
  shows "circleq_rep h s' (us @ e # vs)"
  using assms ring_insert[of "cnext h s" "cprev h s" h us vs e]
  by (auto simp: circleq_rep_def circleq_nodes_def)

lemma circleq_deleted:
  assumes "circleq_rep h s (us @ e # vs)"
    and "cnext h s' = (cnext h s)(left_of h us \<mapsto> right_of h vs)"
    and "cprev h s' = (cprev h s)(right_of h vs \<mapsto> left_of h us)"
  shows "circleq_rep h s' (us @ vs)"
  using assms ring_delete[of "cnext h s" "cprev h s" h us e vs]
  by (auto simp: circleq_rep_def)

text \<open>The links of an element and of the head, and that both neighbours are allocated.\<close>

lemma circleq_at:
  assumes "circleq_rep h s (us @ x # vs)"
  shows "cqe_next s x = Some (right_of h vs)" and "cqe_prev s x = Some (left_of h us)" and "x \<noteq> h"
proof -
  have r: "ring (cnext h s) (cprev h s) h us x" "ring (cnext h s) (cprev h s) x vs h"
    using assms by (simp_all add: circleq_rep_def ring_append)
  show "x \<noteq> h" using assms by (simp add: circleq_rep_def)
  then show "cqe_next s x = Some (right_of h vs)" "cqe_prev s x = Some (left_of h us)"
    using r by (cases vs; cases us rule: rev_cases; simp add: cnext_def cprev_def ring_append)+
qed

lemma circleq_head:
  assumes "circleq_rep h s xs"
  shows "cqh_first s h = right_of h xs" and "cqh_last s h = left_of h xs"
  using ring_gap[of "cnext h s" "cprev h s" h "[]" xs] ring_gap[of "cnext h s" "cprev h s" h xs "[]"] assms
  by (simp_all add: circleq_rep_def cnext_def cprev_def)

lemma circleq_element:
  assumes "circleq_rep h s xs" and "x \<in> set xs"
  shows "x \<in> circleq_nodes h s"
  using assms split_list[OF assms(2)] circleq_at[of h s _ x] by (auto simp: circleq_nodes_def)

lemma left_in: "left_of h us \<noteq> h \<Longrightarrow> left_of h us \<in> set us"
  by (cases us rule: rev_cases) auto

lemma right_in: "right_of h vs \<noteq> h \<Longrightarrow> right_of h vs \<in> set vs"
  by (cases vs) auto

lemma circleq_neighbour:
  assumes "circleq_rep h s (us @ vs)"
  shows "left_of h us \<noteq> h \<Longrightarrow> left_of h us \<in> circleq_nodes h s"
    and "right_of h vs \<noteq> h \<Longrightarrow> right_of h vs \<in> circleq_nodes h s"
  using circleq_element[OF assms] left_in right_in by (metis UnI1 UnI2 set_append)+

text \<open>One lemma per insertion: the new fields are the old ones with the four links set.\<close>

definition linked_in :: "ptr \<Rightarrow> ptr \<Rightarrow> ptr \<Rightarrow> ptr \<Rightarrow> circleq_mem \<Rightarrow> circleq_mem" where
  "linked_in h l e r s = s\<lparr>
     cqh_first := (if l = h then (cqh_first s)(h := e) else cqh_first s),
     cqh_last := (if r = h then (cqh_last s)(h := e) else cqh_last s),
     cqe_next := (if l = h then (cqe_next s)(e \<mapsto> r) else (cqe_next s)(e \<mapsto> r, l \<mapsto> e)),
     cqe_prev := (if r = h then (cqe_prev s)(e \<mapsto> l) else (cqe_prev s)(e \<mapsto> l, r \<mapsto> e))\<rparr>"

lemma linked_in_rep:
  assumes "circleq_rep h s (us @ vs)" and "e \<in> circleq_nodes h s" and "e \<noteq> 0" and "e \<notin> set (us @ vs)"
  shows "circleq_rep h (linked_in h (left_of h us) e (right_of h vs) s) (us @ e # vs) \<and>
    circleq_nodes h (linked_in h (left_of h us) e (right_of h vs) s) = circleq_nodes h s"
proof
  have e: "e \<noteq> h" "e \<noteq> left_of h us" "e \<noteq> right_of h vs"
    using assms(2,4) left_in[of h us] right_in[of vs h] by (auto simp: circleq_nodes_def)
  show "circleq_rep h (linked_in h (left_of h us) e (right_of h vs) s) (us @ e # vs)"
    using e by (intro circleq_inserted[OF assms]) (auto simp: linked_in_def cnext_def cprev_def fun_eq_iff)
  show "circleq_nodes h (linked_in h (left_of h us) e (right_of h vs) s) = circleq_nodes h s"
    using circleq_neighbour[OF assms(1)] assms(2) by (auto simp: circleq_nodes_def linked_in_def split: if_splits)
qed

lemma circleq_insert_after:
  assumes "circleq_rep h s (us @ x # vs)" and "e \<in> circleq_nodes h s" and "e \<noteq> 0" and "e \<notin> set (us @ x # vs)"
  shows "\<exists>s'. CIRCLEQ_INSERT_AFTER h x e s = Some s' \<and> circleq_rep h s' (us @ x # e # vs) \<and>
    circleq_nodes h s' = circleq_nodes h s"
proof -
  note at = circleq_at[OF assms(1)]
  have e: "e \<in> dom (cqe_next s)" "e \<in> dom (cqe_prev s)" using assms(2) by (auto simp: circleq_nodes_def)
  have r: "right_of h vs \<noteq> h \<Longrightarrow> right_of h vs \<in> dom (cqe_prev s)"
    using circleq_neighbour(2)[of h s "us @ [x]" vs] assms(1) by (auto simp: circleq_nodes_def)
  have "CIRCLEQ_INSERT_AFTER h x e s = Some (linked_in h x e (right_of h vs) s)"
    using at e r by (auto simp: CIRCLEQ_INSERT_AFTER_def circleq_defs linked_in_def)
  then show ?thesis using linked_in_rep[of h s "us @ [x]" vs e] assms by simp
qed

lemma circleq_insert_before:
  assumes "circleq_rep h s (us @ x # vs)" and "e \<in> circleq_nodes h s" and "e \<noteq> 0" and "e \<notin> set (us @ x # vs)"
  shows "\<exists>s'. CIRCLEQ_INSERT_BEFORE h x e s = Some s' \<and> circleq_rep h s' (us @ e # x # vs) \<and>
    circleq_nodes h s' = circleq_nodes h s"
proof -
  note at = circleq_at[OF assms(1)]
  have e: "e \<in> dom (cqe_next s)" "e \<in> dom (cqe_prev s)" using assms(2) by (auto simp: circleq_nodes_def)
  have l: "left_of h us \<noteq> h \<Longrightarrow> left_of h us \<in> dom (cqe_next s)"
    using circleq_neighbour(1)[of h s us "x # vs"] assms(1) by (auto simp: circleq_nodes_def)
  have "CIRCLEQ_INSERT_BEFORE h x e s = Some (linked_in h (left_of h us) e x s)"
    using at e l by (auto simp: CIRCLEQ_INSERT_BEFORE_def circleq_defs linked_in_def)
  then show ?thesis using linked_in_rep[of h s us "x # vs" e] assms by simp
qed

lemma circleq_insert_head:
  assumes "circleq_rep h s xs" and "e \<in> circleq_nodes h s" and "e \<noteq> 0" and "e \<notin> set xs"
  shows "\<exists>s'. CIRCLEQ_INSERT_HEAD h e s = Some s' \<and> circleq_rep h s' (e # xs) \<and>
    circleq_nodes h s' = circleq_nodes h s"
proof -
  have e: "e \<in> dom (cqe_next s)" "e \<in> dom (cqe_prev s)" using assms(2) by (auto simp: circleq_nodes_def)
  have r: "right_of h xs \<noteq> h \<Longrightarrow> right_of h xs \<in> dom (cqe_prev s)"
    using circleq_neighbour(2)[of h s "[]" xs] assms(1) by (auto simp: circleq_nodes_def)
  have "left_of h xs = h \<longleftrightarrow> right_of h xs = h"
    using assms(1) left_in[of h xs] right_in[of xs h] by (cases "xs = []") (auto simp: circleq_rep_def)
  then have "CIRCLEQ_INSERT_HEAD h e s = Some (linked_in h h e (right_of h xs) s)"
    using circleq_head[OF assms(1)] e r by (auto simp: CIRCLEQ_INSERT_HEAD_def circleq_defs linked_in_def)
  then show ?thesis using linked_in_rep[of h s "[]" xs e] assms by simp
qed

lemma circleq_insert_tail:
  assumes "circleq_rep h s xs" and "e \<in> circleq_nodes h s" and "e \<noteq> 0" and "e \<notin> set xs"
  shows "\<exists>s'. CIRCLEQ_INSERT_TAIL h e s = Some s' \<and> circleq_rep h s' (xs @ [e]) \<and>
    circleq_nodes h s' = circleq_nodes h s"
proof -
  have e: "e \<in> dom (cqe_next s)" "e \<in> dom (cqe_prev s)" using assms(2) by (auto simp: circleq_nodes_def)
  have l: "left_of h xs \<noteq> h \<Longrightarrow> left_of h xs \<in> dom (cqe_next s)"
    using circleq_neighbour(1)[of h s xs "[]"] assms(1) by (auto simp: circleq_nodes_def)
  have "left_of h xs = h \<longleftrightarrow> right_of h xs = h"
    using assms(1) left_in[of h xs] right_in[of xs h] by (cases "xs = []") (auto simp: circleq_rep_def)
  then have "CIRCLEQ_INSERT_TAIL h e s = Some (linked_in h (left_of h xs) e h s)"
    using circleq_head[OF assms(1)] e l by (auto simp: CIRCLEQ_INSERT_TAIL_def circleq_defs linked_in_def)
  then show ?thesis using linked_in_rep[of h s xs "[]" e] assms by simp
qed

lemma circleq_remove:
  assumes "circleq_rep h s (us @ x # vs)"
  shows "\<exists>s'. CIRCLEQ_REMOVE h x s = Some s' \<and> circleq_rep h s' (us @ vs) \<and> circleq_nodes h s' = circleq_nodes h s"
proof -
  let ?l = "left_of h us" and ?r = "right_of h vs"
  note at = circleq_at[OF assms]
  have r: "?r \<noteq> h \<Longrightarrow> ?r \<in> circleq_nodes h s" and l: "?l \<noteq> h \<Longrightarrow> ?l \<in> circleq_nodes h s"
    using circleq_neighbour(2)[of h s "us @ [x]" vs] circleq_neighbour(1)[of h s us "x # vs"] assms by auto
  have x: "x \<noteq> ?l" "x \<noteq> ?r" using assms left_in[of h us] right_in[of vs h] by (auto simp: circleq_rep_def)
  define s' where "s' = s\<lparr>
     cqh_first := (if ?l = h then (cqh_first s)(h := ?r) else cqh_first s),
     cqh_last := (if ?r = h then (cqh_last s)(h := ?l) else cqh_last s),
     cqe_next := (if ?l = h then cqe_next s else (cqe_next s)(?l \<mapsto> ?r)),
     cqe_prev := (if ?r = h then cqe_prev s else (cqe_prev s)(?r \<mapsto> ?l))\<rparr>"
  have "CIRCLEQ_REMOVE h x s = Some s'"
    using at x l r by (auto simp: CIRCLEQ_REMOVE_def circleq_defs s'_def circleq_nodes_def)
  moreover have "circleq_rep h s' (us @ vs)"
    by (rule circleq_deleted[OF assms]) (auto simp: s'_def cnext_def cprev_def fun_eq_iff)
  moreover have "circleq_nodes h s' = circleq_nodes h s"
    using l r by (auto simp: circleq_nodes_def s'_def split: if_splits)
  ultimately show ?thesis by blast
qed

section \<open>Walking around\<close>

lemma walk_ring:
  "ring n p a xs h \<Longrightarrow> h \<notin> set xs \<Longrightarrow> \<forall>x\<in>set xs. nxt x = n x \<Longrightarrow> walk nxt h (right_of h xs) = Some xs"
proof (induction xs arbitrary: a)
  case Nil
  then show ?case by (simp add: walk.simps)
next
  case (Cons x xs)
  have "n x = Some (right_of h xs)" using Cons.prems(1) by (cases xs) auto
  then show ?case using Cons by (subst walk.simps) auto
qed

lemma circleq_foreach:
  assumes "circleq_rep h s xs"
  shows "CIRCLEQ_FOREACH h s = Some xs" and "CIRCLEQ_FOREACH_REVERSE h s = Some (rev xs)"
proof -
  have r: "ring (cnext h s) (cprev h s) h xs h" "h \<notin> set xs" using assms by (simp_all add: circleq_rep_def)
  show "CIRCLEQ_FOREACH h s = Some xs"
    using walk_ring[OF r, of "\<lambda>v. CIRCLEQ_NEXT v s"] circleq_head[OF assms] r(2)
    by (auto simp: CIRCLEQ_FOREACH_def CIRCLEQ_FIRST_def CIRCLEQ_END_def CIRCLEQ_NEXT_def cnext_def)
  have "right_of h (rev xs) = left_of h xs" by (cases xs rule: rev_cases) auto
  then show "CIRCLEQ_FOREACH_REVERSE h s = Some (rev xs)"
    using walk_ring[OF ring_rev[OF r(1)], of "\<lambda>v. CIRCLEQ_PREV v s"] circleq_head[OF assms] r(2)
    by (auto simp: CIRCLEQ_FOREACH_REVERSE_def CIRCLEQ_LAST_def CIRCLEQ_END_def CIRCLEQ_PREV_def cprev_def)
qed

lemma circleq_loop:
  assumes "circleq_rep h s (us @ x # vs)"
  shows "CIRCLEQ_LOOP_NEXT h x s = Some (hd (vs @ us @ [x]))"
    and "CIRCLEQ_LOOP_PREV h x s = Some (last (x # vs @ us))"
proof -
  have h: "h \<notin> set us" "h \<notin> set vs" using assms by (auto simp: circleq_rep_def)
  then have "vs \<noteq> [] \<Longrightarrow> hd vs \<noteq> h" "us \<noteq> [] \<Longrightarrow> last us \<noteq> h"
    using hd_in_set last_in_set by metis+
  then show "CIRCLEQ_LOOP_NEXT h x s = Some (hd (vs @ us @ [x]))"
    "CIRCLEQ_LOOP_PREV h x s = Some (last (x # vs @ us))"
    using circleq_at[OF assms] circleq_head[OF assms]
    by (cases "vs = []"; cases "us = []"; simp add: CIRCLEQ_LOOP_NEXT_def CIRCLEQ_LOOP_PREV_def hd_append)+
qed

lemma circleq_empty: "circleq_rep h s xs \<Longrightarrow> CIRCLEQ_EMPTY h s \<longleftrightarrow> xs = []"
  using circleq_head(1)[of h s xs] right_in[of xs h]
  by (cases xs) (auto simp: CIRCLEQ_EMPTY_def CIRCLEQ_FIRST_def CIRCLEQ_END_def circleq_rep_def)

text \<open>The interface writes 0 for the end of a list, the macros write the head.\<close>

interpretation cq: tail_queue "circleq_rep h" "circleq_nodes h" "CIRCLEQ_INIT h"
  "\<lambda>s. if CIRCLEQ_EMPTY h s then 0 else CIRCLEQ_FIRST h s" "CIRCLEQ_EMPTY h"
  "CIRCLEQ_INSERT_HEAD h" "CIRCLEQ_REMOVE h" "CIRCLEQ_INSERT_TAIL h" for h
proof unfold_locales
  fix s xs assume rep: "circleq_rep h s xs"
  show "xs = ys" if "circleq_rep h s ys" for ys
    using circleq_foreach(1)[OF rep] circleq_foreach(1)[OF that] by simp
  show "distinct xs" using rep by (simp add: circleq_rep_def)
  show "set xs \<subseteq> circleq_nodes h s" using circleq_element[OF rep] by blast
  show "CIRCLEQ_EMPTY h s \<longleftrightarrow> xs = []" by (rule circleq_empty[OF rep])
  show "(if CIRCLEQ_EMPTY h s then 0 else CIRCLEQ_FIRST h s) = (case xs of [] \<Rightarrow> 0 | x # _ \<Rightarrow> x)"
    using circleq_empty[OF rep] circleq_head(1)[OF rep] by (cases xs) (auto simp: CIRCLEQ_FIRST_def)
next
  show "circleq_rep h (CIRCLEQ_INIT h s) []" and "circleq_nodes h (CIRCLEQ_INIT h s) = circleq_nodes h s" for s
    by (simp_all add: circleq_rep_def CIRCLEQ_INIT_def circleq_defs cnext_def cprev_def circleq_nodes_def)
next
  fix s xs e
  assume "circleq_rep h s xs" "e \<in> circleq_nodes h s" "e \<noteq> 0" "e \<notin> set xs"
  then show "\<exists>s'. CIRCLEQ_INSERT_HEAD h e s = Some s' \<and> circleq_rep h s' (e # xs) \<and> circleq_nodes h s' = circleq_nodes h s"
    and "\<exists>s'. CIRCLEQ_INSERT_TAIL h e s = Some s' \<and> circleq_rep h s' (xs @ [e]) \<and> circleq_nodes h s' = circleq_nodes h s"
    by (rule circleq_insert_head circleq_insert_tail; assumption)+
qed (rule circleq_remove)

section \<open>Properties\<close>

text \<open>What the two loops visit.\<close>

definition visits :: "ptr \<Rightarrow> circleq_mem \<Rightarrow> ptr list \<Rightarrow> bool" where
  "visits h t zs \<longleftrightarrow> CIRCLEQ_FOREACH h t = Some zs \<and> CIRCLEQ_FOREACH_REVERSE h t = Some (rev zs)"

lemma circleq_visits: "circleq_rep h t zs \<Longrightarrow> visits h t zs"
  by (simp add: visits_def circleq_foreach)

text \<open>
  C27: In a circular queue the forward loop visits the elements in order and the backward loop
  visits them in reverse order; the circular successor and predecessor of an element wrap
  around at the ends. After an insertion before or after any element both loops visit the
  new element at its place, and after its removal both visit the old elements again.
\<close>

theorem circular_queue_correct:
  assumes "circleq_rep h s (us @ x # vs)" and "e \<in> circleq_nodes h s" and "e \<noteq> 0" and "e \<notin> set (us @ x # vs)"
  shows "visits h s (us @ x # vs) \<and>
    CIRCLEQ_LOOP_NEXT h x s = Some (hd (vs @ us @ [x])) \<and> CIRCLEQ_LOOP_PREV h x s = Some (last (x # vs @ us)) \<and>
    (\<exists>s1 s2. CIRCLEQ_INSERT_BEFORE h x e s = Some s1 \<and> visits h s1 (us @ e # x # vs) \<and>
      CIRCLEQ_REMOVE h e s1 = Some s2 \<and> visits h s2 (us @ x # vs)) \<and>
    (\<exists>s1 s2. CIRCLEQ_INSERT_AFTER h x e s = Some s1 \<and> visits h s1 (us @ x # e # vs) \<and>
      CIRCLEQ_REMOVE h e s1 = Some s2 \<and> visits h s2 (us @ x # vs))"
proof (intro conjI)
  show "visits h s (us @ x # vs)" by (rule circleq_visits[OF assms(1)])
  obtain s1 where s1: "CIRCLEQ_INSERT_BEFORE h x e s = Some s1" "circleq_rep h s1 (us @ e # x # vs)"
    using circleq_insert_before[OF assms] by blast
  obtain s2 where s2: "CIRCLEQ_REMOVE h e s1 = Some s2" "circleq_rep h s2 (us @ x # vs)"
    using circleq_remove[OF s1(2)] by blast
  show "\<exists>s1 s2. CIRCLEQ_INSERT_BEFORE h x e s = Some s1 \<and> visits h s1 (us @ e # x # vs) \<and>
      CIRCLEQ_REMOVE h e s1 = Some s2 \<and> visits h s2 (us @ x # vs)"
    using s1 s2 circleq_visits by blast
  obtain t1 where t1: "CIRCLEQ_INSERT_AFTER h x e s = Some t1" "circleq_rep h t1 ((us @ [x]) @ e # vs)"
    using circleq_insert_after[OF assms] by auto
  obtain t2 where t2: "CIRCLEQ_REMOVE h e t1 = Some t2" "circleq_rep h t2 ((us @ [x]) @ vs)"
    using circleq_remove[OF t1(2)] by blast
  show "\<exists>s1 s2. CIRCLEQ_INSERT_AFTER h x e s = Some s1 \<and> visits h s1 (us @ x # e # vs) \<and>
      CIRCLEQ_REMOVE h e s1 = Some s2 \<and> visits h s2 (us @ x # vs)"
    using t1 t2 circleq_visits[OF t1(2)] circleq_visits[OF t2(2)] by simp
qed (use circleq_loop[OF assms(1)] in simp_all)

text \<open>A ring of the head 9 and the elements 1 and 2, with an unused element 3.\<close>

definition demo_ring :: circleq_mem where
  "demo_ring = \<lparr>cqh_first = (\<lambda>_. 1), cqh_last = (\<lambda>_. 2),
     cqe_next = [1 \<mapsto> 2, 2 \<mapsto> 9, 3 \<mapsto> 0], cqe_prev = [1 \<mapsto> 9, 2 \<mapsto> 1, 3 \<mapsto> 0]\<rparr>"

theorem circular_queue_correct_witness:
  "CIRCLEQ_FOREACH_REVERSE 9 demo_ring = Some [2, 1] \<and> CIRCLEQ_LOOP_NEXT 9 2 demo_ring = Some 1 \<and>
    (\<exists>s1. CIRCLEQ_INSERT_BEFORE 9 2 3 demo_ring = Some s1 \<and> CIRCLEQ_FOREACH_REVERSE 9 s1 = Some [2, 3, 1])"
  using circular_queue_correct[of 9 demo_ring "[1]" 2 "[]" 3]
  by (auto simp: visits_def circleq_rep_def demo_ring_def cnext_def cprev_def circleq_nodes_def)

end
