(* ===== verification/Systemcalls.thy ===== *)
theory Systemcalls
  imports Prelude
begin

text \<open>
  \<open>examples/systemcalls/systemcalls.c\<close>: running a command with \<open>system\<close>, with \<open>fork\<close> and
  \<open>execv\<close>, and with its output redirected to a file. The record \<open>os\<close> holds what the system
  calls do; the wait status a parent sees is the encoding of the way its child ended.
\<close>

unbundle bit_operations_syntax

section \<open>Ends of a process\<close>

datatype process_end = Exited byte | Killed nat bool

text \<open>The wait status: exit code in bits 8 to 15, signal in bits 0 to 6, core dump in bit 7.\<close>

definition status_of :: "process_end \<Rightarrow> 32 word" where
  "status_of e = (case e of
     Exited code \<Rightarrow> push_bit 8 (ucast code)
   | Killed sig core \<Rightarrow> word_of_nat (sig + (if core then 128 else 0)))"

definition signal_ok :: "process_end \<Rightarrow> bool" where
  "signal_ok e \<longleftrightarrow> (case e of Exited _ \<Rightarrow> True | Killed sig _ \<Rightarrow> 0 < sig \<and> sig < 127)"

definition WIFEXITED :: "32 word \<Rightarrow> bool" where
  "WIFEXITED status \<longleftrightarrow> status AND 0x7F = 0"

definition WEXITSTATUS :: "32 word \<Rightarrow> 32 word" where
  "WEXITSTATUS status = drop_bit 8 status AND 0xFF"

section \<open>The operating system\<close>

text \<open>Open files of a process, by descriptor; \<open>execv\<close> gets the path, the arguments and the open files.\<close>

type_synonym fd_table = "int \<Rightarrow> string option"

record os =
  fork_ok :: bool
  wait_ok :: bool
  execv :: "string \<Rightarrow> string list \<Rightarrow> fd_table \<Rightarrow> process_end option"
  open_result :: "string \<Rightarrow> int"
  dup2_ok :: bool
  close_ok :: bool

text \<open>The calling process gets a result or exits.\<close>

datatype 'a call_result = Returns 'a | Exits int

text \<open>Programs end with an exit code or by one of the signals, 1 to 126.\<close>

definition os_ok :: "os \<Rightarrow> bool" where
  "os_ok sys \<longleftrightarrow> (\<forall>path argv fds e. execv sys path argv fds = Some e \<longrightarrow> signal_ok e)"

section \<open>The functions\<close>

definition do_system :: "int \<Rightarrow> bool" where
  "do_system status = (if status = 0 then True else False)"

text \<open>The array \<open>command\<close>; fetching more arguments than were passed is undefined.\<close>

definition command_array :: "nat \<Rightarrow> string list \<Rightarrow> string option list outcome" where
  "command_array count args =
     (if count \<le> length args then Some (map Some (take count args) @ [None]) else None)"

text \<open>\<open>execv(command[0], command)\<close> and the \<open>exit\<close> behind it; a null path makes the call fail.\<close>

definition exec_or_exit :: "os \<Rightarrow> fd_table \<Rightarrow> string option list \<Rightarrow> process_end" where
  "exec_or_exit sys fds command =
     (case hd command of
        None \<Rightarrow> Exited 1
      | Some path \<Rightarrow>
          (case execv sys path (map the (takeWhile (\<lambda>a. a \<noteq> None) command)) fds of
             None \<Rightarrow> Exited 1
           | Some e \<Rightarrow> e))"

definition check_status :: "32 word \<Rightarrow> bool" where
  "check_status status =
     (if WIFEXITED status then (if WEXITSTATUS status \<noteq> 0 then False else True) else False)"

definition do_exec :: "os \<Rightarrow> nat \<Rightarrow> string list \<Rightarrow> fd_table \<Rightarrow> bool call_result outcome" where
  "do_exec sys count args fds =
     map_option (\<lambda>command.
       if \<not> fork_ok sys then Returns False
       else if \<not> wait_ok sys then Returns False
       else Returns (check_status (status_of (exec_or_exit sys fds command))))
     (command_array count args)"

definition redirect_child :: "os \<Rightarrow> int \<Rightarrow> fd_table \<Rightarrow> string option list \<Rightarrow> process_end" where
  "redirect_child sys fd fds command =
     (if \<not> dup2_ok sys then Exited 1
      else
        let fds1 = fds(1 := fds fd) in
        if \<not> close_ok sys then Exited 1
        else exec_or_exit sys (fds1(fd := None)) command)"

text \<open>The open files of the caller behind the call come with the result.\<close>

definition do_exec_redirect ::
  "os \<Rightarrow> string \<Rightarrow> nat \<Rightarrow> string list \<Rightarrow> fd_table \<Rightarrow> (bool call_result \<times> fd_table) outcome" where
  "do_exec_redirect sys outputfile count args fds =
     map_option (\<lambda>command.
       let fd = open_result sys outputfile in
       if fd = -1 then (Exits 1, fds)
       else
         let fds1 = fds(fd \<mapsto> outputfile) in
         if \<not> fork_ok sys then (Exits 1, fds1)
         else if \<not> wait_ok sys then (Returns False, fds1)
         else (Returns (check_status (status_of (redirect_child sys fd fds1 command))), fds1))
     (command_array count args)"

section \<open>The wait status\<close>

lemma status_killed:
  assumes "0 < sig" and "sig < 127"
  shows "\<not> WIFEXITED (status_of (Killed sig core))"
proof
  let ?m = "sig + (if core then 128 else 0)"
  assume "WIFEXITED (status_of (Killed sig core))"
  moreover have "(0x7F :: 32 word) = mask 7" by (simp add: mask_eq_exp_minus_1)
  ultimately have "take_bit 7 (word_of_nat ?m :: 32 word) = 0"
    by (simp only: WIFEXITED_def status_of_def process_end.case take_bit_eq_mask)
  then have "take_bit 7 (unat (word_of_nat ?m :: 32 word)) = 0"
    by (metis unsigned_0 unsigned_take_bit_eq)
  moreover have "unat (word_of_nat ?m :: 32 word) = ?m"
    using assms by (subst unat_of_nat) simp
  ultimately have "?m mod 128 = 0" by (simp only: take_bit_eq_mod) simp
  moreover have "?m mod 128 = sig" using assms by (simp add: mod_add_self2)
  ultimately show False using assms(1) by simp
qed

lemma status_exited:
  "WIFEXITED (status_of (Exited code))" "WEXITSTATUS (status_of (Exited code)) = ucast code"
proof -
  have len: "bit code n \<Longrightarrow> n < 8" for n using bit_imp_le_length[of code n] by simp
  have m: "(0x7F :: 32 word) = mask 7" "(0xFF :: 32 word) = mask 8" by (simp_all add: mask_eq_exp_minus_1)
  show "WIFEXITED (status_of (Exited code))"
    unfolding WIFEXITED_def status_of_def m by (auto intro!: bit_word_eqI simp: bit_simps)
  show "WEXITSTATUS (status_of (Exited code)) = ucast code"
    unfolding WEXITSTATUS_def status_of_def m by (auto intro!: bit_word_eqI simp: bit_simps dest!: len)
qed

lemma check_status_iff:
  assumes "signal_ok e"
  shows "check_status (status_of e) \<longleftrightarrow> e = Exited 0"
proof (cases e)
  case (Exited code)
  have "unat code < 2 ^ LENGTH(8)" by (rule unsigned_less)
  then have "unat (ucast code :: 32 word) = unat code"
    by (simp add: unsigned_ucast_eq take_bit_nat_eq_self)
  then have "(ucast code :: 32 word) = 0 \<longleftrightarrow> code = 0" by (metis unsigned_eq_0_iff)
  then show ?thesis using Exited by (simp add: check_status_def status_exited)
next
  case (Killed sig core)
  then show ?thesis using assms status_killed[of sig core] by (simp add: check_status_def signal_ok_def)
qed

section \<open>Properties\<close>

text \<open>
  C29: \<open>do_exec\<close> returns true exactly when the process was created and waited for, \<open>execv\<close>
  found the program, and the program ended with exit code 0; a program that fails or is
  killed by a signal, or that does not exist, makes it return false.
\<close>

theorem do_exec_true_iff:
  assumes "count \<le> length args" and "0 < count"
    and "os_ok sys"
  shows "\<exists>r. do_exec sys count args fds = Some (Returns r) \<and>
    (r \<longleftrightarrow> fork_ok sys \<and> wait_ok sys \<and> execv sys (hd args) (take count args) fds = Some (Exited 0))"
proof -
  obtain a as where args: "take count args = a # as" using assms(1,2) by (cases count; cases args) auto
  then have hd: "hd args = a" using assms(2) by (cases args; cases count) auto
  let ?cmd = "map Some (take count args) @ [None]"
  have "map the (takeWhile (\<lambda>a. a \<noteq> None) ?cmd) = take count args"
    by (subst takeWhile_append2) (auto simp: comp_def)
  then have exec: "exec_or_exit sys fds ?cmd
      = (case execv sys a (take count args) fds of None \<Rightarrow> Exited 1 | Some e \<Rightarrow> e)"
    using args by (simp add: exec_or_exit_def)
  have ok: "signal_ok (exec_or_exit sys fds ?cmd)"
    using assms(3) by (simp add: exec os_ok_def split: option.split) (simp add: signal_ok_def)
  show ?thesis
    using assms(1) check_status_iff[OF ok] exec hd
    by (auto simp: do_exec_def command_array_def split: option.splits)
qed

text \<open>An operating system on which \<open>/bin/true\<close> and \<open>/bin/false\<close> exist, and nothing else.\<close>

definition demo_os :: os where
  "demo_os = \<lparr>fork_ok = True, wait_ok = True,
     execv = (\<lambda>path argv fds. if path = ''/bin/true'' then Some (Exited 0)
       else if path = ''/bin/false'' then Some (Exited 1) else None),
     open_result = (\<lambda>_. 3), dup2_ok = True, close_ok = True\<rparr>"

lemma demo_os_ok: "os_ok (demo_os\<lparr>open_result := f\<rparr>)" "os_ok demo_os"
  by (auto simp: os_ok_def demo_os_def signal_ok_def split: if_splits)

theorem do_exec_true_iff_witness:
  "do_exec demo_os 1 [''/bin/true''] Map.empty = Some (Returns True) \<and>
   do_exec demo_os 2 [''/bin/false'', ''x''] Map.empty = Some (Returns False) \<and>
   do_exec demo_os 1 [''true''] Map.empty = Some (Returns False)"
  using do_exec_true_iff[OF _ _ demo_os_ok(2), of 1 "[''/bin/true'']" Map.empty]
    do_exec_true_iff[OF _ _ demo_os_ok(2), of 2 "[''/bin/false'', ''x'']" Map.empty]
    do_exec_true_iff[OF _ _ demo_os_ok(2), of 1 "[''true'']" Map.empty]
  by (auto simp: demo_os_def)

text \<open>
  C28: \<open>do_exec_redirect\<close> runs the program with the output file as its standard output and
  without the extra descriptor, and then judges it as \<open>do_exec\<close> does; but the caller keeps the
  file open, although its documentation says it is closed, and ends the whole program instead
  of returning false when the file cannot be opened or the process not be created.
\<close>

theorem do_exec_redirect_behaviour:
  assumes "0 < count" and "count \<le> length args" and "open_result sys file = fd" and "fd \<noteq> 1"
    and "os_ok sys"
  shows "if fd = -1 then do_exec_redirect sys file count args fds = Some (Exits 1, fds)
    else if \<not> fork_ok sys then do_exec_redirect sys file count args fds = Some (Exits 1, fds(fd \<mapsto> file))
    else \<exists>r. do_exec_redirect sys file count args fds = Some (Returns r, fds(fd \<mapsto> file)) \<and>
      (r \<longleftrightarrow> wait_ok sys \<and> dup2_ok sys \<and> close_ok sys \<and>
        execv sys (hd args) (take count args) (fds(1 \<mapsto> file, fd := None)) = Some (Exited 0))"
proof -
  obtain a as where args: "take count args = a # as" using assms(1,2) by (cases count; cases args) auto
  then have hd: "hd args = a" using assms(1) by (cases args; cases count) auto
  let ?cmd = "map Some (take count args) @ [None]" and ?t = "fds(1 \<mapsto> file, fd := None)"
  have "map the (takeWhile (\<lambda>a. a \<noteq> None) ?cmd) = take count args"
    by (subst takeWhile_append2) (auto simp: comp_def)
  then have exec: "exec_or_exit sys t ?cmd
      = (case execv sys a (take count args) t of None \<Rightarrow> Exited 1 | Some e \<Rightarrow> e)" for t
    using args by (simp add: exec_or_exit_def)
  have t: "fds(fd := None, 1 \<mapsto> file) = ?t" "(fds(fd \<mapsto> file, 1 \<mapsto> file))(fd := None) = ?t"
    using assms(4) by (auto simp: fun_upd_twist)
  have child: "redirect_child sys fd (fds(fd \<mapsto> file)) ?cmd
      = (if dup2_ok sys \<and> close_ok sys then exec_or_exit sys ?t ?cmd else Exited 1)"
    using t by (simp add: redirect_child_def Let_def)
  then have ok: "signal_ok (redirect_child sys fd (fds(fd \<mapsto> file)) ?cmd)"
    using assms(5) by (simp add: exec os_ok_def split: option.split) (simp add: signal_ok_def)
  show ?thesis
    using assms(2,3) check_status_iff[OF ok] child exec hd
    by (auto simp: do_exec_redirect_def command_array_def Let_def split: option.splits)
qed

theorem do_exec_redirect_behaviour_witness:
  "do_exec_redirect demo_os ''out'' 1 [''/bin/true''] [1 \<mapsto> ''tty''] = Some (Returns True, [1 \<mapsto> ''tty'', 3 \<mapsto> ''out'']) \<and>
   do_exec_redirect (demo_os\<lparr>open_result := (\<lambda>_. -1)\<rparr>) ''out'' 1 [''/bin/true''] [1 \<mapsto> ''tty'']
     = Some (Exits 1, [1 \<mapsto> ''tty''])"
  using do_exec_redirect_behaviour[OF _ _ refl _ demo_os_ok(2), of 1 "[''/bin/true'']" "''out''" "[1 \<mapsto> ''tty'']"]
    do_exec_redirect_behaviour[OF _ _ refl _ demo_os_ok(1)[of "\<lambda>_. -1"], of 1 "[''/bin/true'']" "''out''" "[1 \<mapsto> ''tty'']"]
  by (auto simp: demo_os_def)

end
