(* ===== verification/Threading.thy ===== *)
theory Threading
  imports Stdio
begin

text \<open>
  \<open>examples/threading/threading.c\<close>: a thread that waits, takes a mutex, waits and releases it.
  Its data is a heap block that the thread hands back to whoever joins it. Results of the
  allocator and of the thread functions are parameters.
\<close>

record thread_data =
  td_mutex :: nat
  wait_to_obtain_ms :: int
  wait_to_release_ms :: int
  thread_complete_success :: bool

type_synonym td_heap = "nat \<Rightarrow> thread_data option"

text \<open>What a thread does, in order; the argument of \<open>usleep\<close> is unsigned.\<close>

datatype action = Sleep nat | Lock nat | Unlock nat

definition usleep_arg :: "int \<Rightarrow> nat outcome" where
  "usleep_arg ms = (if in_int (ms * 1000) then Some (to_u32 (ms * 1000)) else None)"

text \<open>The actions, the returned pointer (0 is \<open>NULL\<close>) and the heap behind.\<close>

definition threadfunc :: "int \<Rightarrow> int \<Rightarrow> nat \<Rightarrow> td_heap \<Rightarrow> (action list \<times> nat \<times> td_heap) outcome" where
  "threadfunc lock_result unlock_result thread_param h =
     (case h thread_param of
        None \<Rightarrow> None
      | Some args \<Rightarrow>
          Option.bind (usleep_arg (wait_to_obtain_ms args)) (\<lambda>t1.
            if lock_result \<noteq> 0 then Some ([Sleep t1, Lock (td_mutex args)], 0, h)
            else
              Option.bind (usleep_arg (wait_to_release_ms args)) (\<lambda>t2.
                let actions = [Sleep t1, Lock (td_mutex args), Sleep t2, Unlock (td_mutex args)] in
                if unlock_result \<noteq> 0 then Some (actions, 0, h)
                else Some (actions, thread_param, h(thread_param \<mapsto> args\<lparr>thread_complete_success := True\<rparr>)))))"

text \<open>
  The result, the heap, and the thread that was started: its id and its argument. \<open>block\<close> is
  the result of \<open>malloc\<close>, \<open>result\<close> that of \<open>pthread_create\<close>.
\<close>

definition start_thread_obtaining_mutex ::
  "nat option \<Rightarrow> int \<Rightarrow> nat \<Rightarrow> nat \<Rightarrow> int \<Rightarrow> int \<Rightarrow> td_heap \<Rightarrow> bool \<times> td_heap \<times> (nat \<times> nat) option" where
  "start_thread_obtaining_mutex block result tid mutex obtain_ms release_ms h =
     (case block of
        None \<Rightarrow> (False, h, None)
      | Some p \<Rightarrow>
          let h1 = h(p \<mapsto> \<lparr>td_mutex = mutex, wait_to_obtain_ms = obtain_ms, wait_to_release_ms = release_ms,
                           thread_complete_success = False\<rparr>) in
          if result \<noteq> 0 then (False, h1(p := None), None)
          else (True, h1, Some (tid, p)))"

section \<open>Properties\<close>

text \<open>
  C40: The function either fails and leaves no memory behind, or starts a thread whose data is
  a block of its own. With waits of 0 to 2147483 ms the thread sleeps, locks, sleeps and
  unlocks for the requested times and returns its data marked as successful. When the lock
  fails it stops there, and when the unlock fails behind it; both times it returns \<open>NULL\<close>
  and leaves its data as it was, so that nobody can free it. Either wait above 2147483 ms
  overflows the computation of microseconds: the first one always, the second one when the
  lock succeeds.
\<close>

theorem thread_data_ownership:
  assumes "h p = None" and "h1 = h(p \<mapsto> \<lparr>td_mutex = m, wait_to_obtain_ms = a, wait_to_release_ms = b,
      thread_complete_success = False\<rparr>)"
    and "first = [Sleep (nat a * 1000), Lock m]" and "second = [Sleep (nat b * 1000), Unlock m]"
  shows "start_thread_obtaining_mutex None result tid m a b h = (False, h, None) \<and>
    start_thread_obtaining_mutex (Some p) result tid m a b h
      = (if result \<noteq> 0 then (False, h, None) else (True, h1, Some (tid, p))) \<and>
    (0 \<le> a \<longrightarrow> a \<le> 2147483 \<longrightarrow> 0 \<le> b \<longrightarrow> b \<le> 2147483 \<longrightarrow> threadfunc lr ur p h1 = Some (
       if lr \<noteq> 0 then (first, 0, h1)
       else if ur \<noteq> 0 then (first @ second, 0, h1)
       else (first @ second, p, h(p \<mapsto> \<lparr>td_mutex = m, wait_to_obtain_ms = a, wait_to_release_ms = b,
               thread_complete_success = True\<rparr>)))) \<and>
    (2147483 < a \<longrightarrow> threadfunc lr ur p h1 = None) \<and>
    (0 \<le> a \<longrightarrow> a \<le> 2147483 \<longrightarrow> 2147483 < b \<longrightarrow>
       threadfunc lr ur p h1 = (if lr \<noteq> 0 then Some (first, 0, h1) else None))"
proof -
  have arg: "usleep_arg ms = Some (nat ms * 1000)" if "0 \<le> ms" "ms \<le> 2147483" for ms
    using that by (simp add: usleep_arg_def in_int_def to_u32_id nat_mult_distrib)
  have over: "usleep_arg ms = None" if "2147483 < ms" for ms
    using that by (simp add: usleep_arg_def in_int_def)
  show ?thesis
    using assms arg[of a] arg[of b] over[of a] over[of b]
    by (auto simp: start_thread_obtaining_mutex_def threadfunc_def Let_def)
qed

theorem thread_data_ownership_witness:
  "start_thread_obtaining_mutex (Some 4) 0 7 3 10 20 Map.empty = (True, [4 \<mapsto> \<lparr>td_mutex = 3, wait_to_obtain_ms = 10,
      wait_to_release_ms = 20, thread_complete_success = False\<rparr>], Some (7, 4)) \<and>
   threadfunc 0 0 4 [4 \<mapsto> \<lparr>td_mutex = 3, wait_to_obtain_ms = 10, wait_to_release_ms = 20,
      thread_complete_success = False\<rparr>] = Some ([Sleep 10000, Lock 3, Sleep 20000, Unlock 3], 4,
     [4 \<mapsto> \<lparr>td_mutex = 3, wait_to_obtain_ms = 10, wait_to_release_ms = 20, thread_complete_success = True\<rparr>])"
  using thread_data_ownership[of Map.empty 4 _ 3 10 20 _ _ 0 7 0 0, OF _ refl refl refl] by simp

end
