(* ===== verification/Small_Programs.thy ===== *)
theory Small_Programs
  imports Prelude
begin

text \<open>
  The file writer \<open>finder-app/writer.c\<close> and the functions of \<open>examples/autotest-validate\<close>.
\<close>

section \<open>writer\<close>

text \<open>
  The exit code and the files behind. \<open>open_result\<close> and \<open>write_result\<close> are what the calls
  return; a successful \<open>open\<close> empties the file, a \<open>write\<close> stores as many bytes as it returns.
\<close>

definition writer_main ::
  "string list \<Rightarrow> int \<Rightarrow> int \<Rightarrow> (string \<Rightarrow> string option) \<Rightarrow> int \<times> (string \<Rightarrow> string option)" where
  "writer_main argv open_result write_result files =
     (if length argv \<noteq> 3 then (1, files)
      else
        let writefile = argv ! 1; writestr = argv ! 2 in
        if open_result = -1 then (1, files)
        else
          let files1 = files(writefile \<mapsto> []) in
          if write_result = -1 then (1, files1)
          else (0, files1(writefile \<mapsto> take (nat write_result) writestr)))"

text \<open>A complete write leaves the string; a short one leaves a part of it and exits with 0 as well.\<close>

lemma writer_stores:
  assumes "fd \<noteq> -1" and "n \<le> length str"
  shows "writer_main [prog, path, str] fd (int n) files = (0, files(path \<mapsto> take n str))"
  using assms by (simp add: writer_main_def)

lemma writer_fails:
  "length argv \<noteq> 3 \<Longrightarrow> writer_main argv fd n files = (1, files)"
  "writer_main [prog, path, str] (-1) n files = (1, files)"
  by (simp_all add: writer_main_def)

section \<open>autotest-validate\<close>

definition this_function_returns_true :: bool where
  "this_function_returns_true = True"

definition this_function_returns_false :: bool where
  "this_function_returns_false = False"

definition my_username :: string where
  "my_username = ''hogimn''"

text \<open>The output of \<open>autotest-validate-main.c\<close>.\<close>

definition validate_main :: "string list" where
  "validate_main =
     [''this_function_returns_true returned '' @ (if this_function_returns_true then ''true'' else ''false''),
      ''this_function_returns_false returned '' @ (if this_function_returns_false then ''true'' else ''false'')]"

lemma validate_output:
  "validate_main = [''this_function_returns_true returned true'', ''this_function_returns_false returned false'']"
  by (simp add: validate_main_def this_function_returns_true_def this_function_returns_false_def)

end
