(* ===== verification/Spec2Isabelle.thy ===== *)
theory Spec2Isabelle
  imports Char_Driver Tetris Rpikey Socket_Server Server_Main List_Macros Stailq Tailq Circleq
    Systemcalls Threading Small_Programs
begin

text \<open>
  A model of the C programs of this repository, with the theorems that make them correct.

  \<^bold>\<open>The programs and how they interact.\<close> A client of the socket server (\<open>server/aesdsocket.c\<close>)
  sends lines; a thread per connection writes them to the character device, whose driver
  (\<open>aesd-char-driver/main.c\<close>) keeps the last ten lines in a circular buffer
  (\<open>aesd-circular-buffer.c\<close>), and sends the contents of the device back. The server keeps its
  threads in a list of \<open>server/queue.h\<close>. The game (\<open>tetris-app/main.c\<close>) reads keys from the
  device of the key driver (\<open>tetris-app/driver/main.c\<close>), applies the rules to a field of bytes
  and draws with the display driver (\<open>tetris-app/display/ssd1306.c\<close>) from the tables of
  \<open>tetris-app/bitmap\<close>. The programs under \<open>examples\<close> and \<open>finder-app/writer.c\<close> stand alone.

  \<^bold>\<open>The theories.\<close> Operations have the names of the C functions and macros.

  \<^item> \<open>Prelude\<close>: bytes, \<open>outcome\<close> (\<open>None\<close> is undefined behaviour or a run that does not end),
    conversions to the C integer types, and lemmas on lists and functions used throughout.
  \<^item> \<open>Circular_Buffer\<close>: \<open>circular_buffer\<close> is \<open>struct aesd_circular_buffer\<close>; \<open>cb_contents\<close> is the
    list of entries it stands for. The locale \<open>write_log\<close> states what a log of the last
    entries promises, \<open>seekable_log\<close> adds the search by position; \<open>cb\<close> interprets both.
  \<^item> \<open>Char_Driver\<close>: \<open>aesd_dev\<close> is \<open>struct aesd_dev\<close> with the kernel heap; open, release, read,
    write, llseek, ioctl, module init and exit. \<open>dev_inv\<close> is the invariant, \<open>dev_abs\<close> maps a
    device to the abstract log. The locale \<open>log_device\<close> is what clients of the device use.
  \<^item> \<open>Socket_Server\<close>: \<open>recv_round\<close>, \<open>recv_loop\<close>, \<open>parse_seekto\<close>, \<open>send_loop\<close> and
    \<open>connection_handler\<close> for one connection, over a record of device operations. For several,
    \<open>net_step\<close> has one step per blocking call: taking the mutex, one \<open>recv\<close> with the write or
    ioctl behind it, unlocking, one \<open>read\<close>; a thread can wait in \<open>recv\<close> with the mutex, and
    others read between its writes. \<open>seek_device\<close> extends \<open>log_device\<close>, and \<open>aesd_seek\<close>
    interprets it on the driver of \<open>Char_Driver\<close>, so the properties of the server are about
    the two programs together.
  \<^item> \<open>Server_Main\<close>: \<open>main\<close>, one round of its accept loop and the signal handler, with
    cancellation requests that act at cancellation points. That the handler waits for ever
    is the result \<open>Waits\<close>; destroying a locked mutex is undefined.
  \<^item> \<open>Slist\<close>, \<open>List_Macros\<close>, \<open>Stailq\<close>, \<open>Tailq\<close>, \<open>Circleq\<close>: the five kinds of lists of \<open>queue.h\<close> over
    explicit links, \<open>Links\<close> holding what those with link addresses share. The locales
    \<open>linked_list\<close>, \<open>linked_stack\<close> and \<open>tail_queue\<close> state the contracts, interpreted on each.
  \<^item> \<open>Bitmap\<close>, \<open>Screens\<close>, \<open>Title_Frames_1\<close> to \<open>Title_Frames_4\<close>: the tables and pictures.
  \<^item> \<open>Field\<close>: the memory around the field, \<open>is_hit\<close>, placing, and removing lines, each with its
    reading on cells. \<open>Game\<close>: moves, keys, tick, score and speed. The memory has a byte at
    every offset: the program does read and store outside \<open>field\<close> and \<open>display_buffer\<close>, with
    blank bytes of the tetromino, and such accesses are no undefined outcome here.
    \<open>mino_stores\<close> lists the stores, and statements say what those outside are. An index
    outside \<open>mino_shape\<close> is undefined (\<open>shape_index_ok\<close> in \<open>Tetris\<close>).
  \<^item> \<open>Display\<close>: the messages sent to the SSD1306 controller, and a specification of its window
    addressing that says what they show. \<open>Stdio\<close>: the decimal conversions of \<open>fprintf\<close> and
    \<open>fscanf\<close> that the programs use.
  \<^item> \<open>Tetris\<close>: \<open>app\<close> holds the static variables; every waiting loop of \<open>main\<close> is a phase, and an
    iteration of it a \<open>main_step\<close>; \<open>title_handler\<close> is the signal handler of the animation.
  \<^item> \<open>Rpikey\<close>: the buffer of keys, callbacks in two halves, interrupts, reads, the registers,
    init and exit. \<open>key_step\<close> interleaves their single memory accesses: \<open>count++\<close> is a load
    and a store, and a read is the reset of \<open>count\<close> and one test and one delivery per byte.
    The locale \<open>key_source\<close> (\<open>Key_Source\<close>) is the game's view of the device.
  \<^item> \<open>Systemcalls\<close>, \<open>Threading\<close>, \<open>Small_Programs\<close>: the stand-alone programs.

  \<^bold>\<open>What the lemmas show.\<close> For each component: its invariant and that every operation keeps it;
  the result of every operation on every branch; that no access leaves its block, as
  definedness of an \<open>outcome\<close>. Beyond that: the search by position is the search in the
  concatenated entries, the driver implements the abstract log, the server answers with
  the log under every interleaving of its connections, the list macros implement
  lists, a tick implements the removal of the filled lines on cells, the display shows the
  game, keys come out in the order they went in. Where the code does not do what it
  should, the property says exactly what it does: the lock kept by a seek with an unknown
  whence, the loss of data after \<open>ENOMEM\<close>, the key buffer without a limit, the signal handler
  that waits for ever.

  \<^bold>\<open>Bounds.\<close> Integers are taken modulo their width where the code can leave it (\<open>to_s32\<close>,
  \<open>to_u64\<close>, words); elsewhere a hypothesis gives the bound, such as a log below \<open>2 ^ 63\<close> bytes, a score
  below \<open>10 ^ 6\<close> for its six digits, \<open>2 ^ 31 - 1\<close> alarms. The buffer has ten entries (\<open>MAX_OPS\<close>),
  keys 256 bytes, the server's buffer 1024. No loop has fuel: loops whose bound is not
  apparent are \<open>partial_function (option)\<close>, and lemmas show when they return; loops over
  arrays recurse on the remaining count.

  \<^bold>\<open>Parameters.\<close> What the kernel, the C library and other processes decide is an argument: the
  allocator, copies between kernel and user, interrupted waits, results of system calls,
  what clients send, the clock, random numbers. Hypotheses on them state what their manuals
  promise (\<open>kernel_ok\<close>, \<open>os\<close> records and the like); no allocator is assumed to succeed. Where a
  statement needs memory for the writes of a run, it says so of that run (\<open>no_errors\<close>,
  \<open>writes_succeed\<close>).

  \<^bold>\<open>Not modelled.\<close> \<open>open\<close> of the device fails in the single connection only (the process
  exits); in \<open>net_step\<close> it succeeds, and rounds with an undefined \<open>sscanf\<close> have no step. One
  process reads the keys at a time. Real time: delays are no steps of their own, a debounced callback only
  follows its interrupt. Memory that runs out in user programs, except where a result is
  checked by the code. The configuration of the server without the device, except for its
  time stamps. \<open>CIRCLEQ_REPLACE\<close> and \<open>CIRCLEQ_FOREACH_REVERSE_SAFE\<close>, which do not compile where
  they are used; static initialisers have the value of the \<open>INIT\<close> operations. Unit tests,
  shell scripts, Makefiles, and the empty submodules.
\<close>

section \<open>Properties across components\<close>

text \<open>
  C23: Whatever interrupts, callbacks and reads have happened on the key device, the loops with
  which the game throws old keys away before a screen (\<open>while (read(rpi_fd, &buf, 1) != 0);\<close>)
  come to an end, and directly afterwards there is no key to read.
\<close>

theorem flush_terminates:
  assumes "key_reach s"
  shows "\<exists>k. flush_keys (rpikey_read 1) (keys s) = Some k \<and> rpikey_read 1 k = Some ([], k)"
  using keydev.flush_ends[OF key_reach_ok[OF assms]] by blast

theorem flush_terminates_witness:
  "\<exists>s k. key_reach s \<and> 12 \<in> queued s \<and> flush_keys (rpikey_read 1) (keys s) = Some k \<and> rpikey_read 1 k = Some ([], k)"
proof -
  define s where "s = snd (gpio12_irq key_start)"
  have "key_reach s" using one_interrupt(1)[OF s_def] by (auto simp: key_reach_def)
  then show ?thesis using flush_terminates[of s] one_interrupt(2)[OF s_def] by blast
qed

end
